(* ===== verification/Prelude.thy ===== *)
theory Prelude
  imports Main "HOL-Library.Word"
begin

text \<open>
  What every component of the development shares: the result type of code that
  can throw or leave its arrays, C's conversions and division on mathematical
  integers, bounds-checked array access, and the generic facts about them.
\<close>

named_theorems res_simps \<open>evaluation of the result type's sequencing\<close>
named_theorems arr_simps \<open>bounds-checked array access\<close>

section \<open>Results\<close>

text \<open>
  A computation that can throw is a value of a sum type, \<open>Inl\<close> holding the
  error. \<open>ebind\<close> is C++'s sequencing: the rest runs only if no error was raised.
  \<open>obind\<close> does the same for code that may also fail to return (\<open>None\<close>).
\<close>

definition ebind :: "'e + 'a \<Rightarrow> ('a \<Rightarrow> 'e + 'b) \<Rightarrow> 'e + 'b" where
  "ebind m f = (case m of Inl e \<Rightarrow> Inl e | Inr x \<Rightarrow> f x)"

lemma ebind_simps [simp, res_simps]:
  "ebind (Inl e) f = Inl e"
  "ebind (Inr x) f = f x"
  by (simp_all add: ebind_def)

lemma ebind_eq_Inr [simp]: "ebind m f = Inr y \<longleftrightarrow> (\<exists>x. m = Inr x \<and> f x = Inr y)"
  by (cases m) auto

text \<open>A call that does not end in an error.\<close>

definition returns :: "'e + 'a \<Rightarrow> bool" where
  "returns x \<longleftrightarrow> (\<exists>r. x = Inr r)"

lemma returns_Inr [simp, intro]: "returns (Inr r)"
  by (simp add: returns_def)

lemma returns_ebind [intro!]: "returns a \<Longrightarrow> (\<And>x. returns (f x)) \<Longrightarrow> returns (ebind a f)"
  by (cases a) (auto simp: returns_def)

lemma map_sum_Inr: "map_sum id f x = Inr y \<Longrightarrow> \<exists>z. x = Inr z \<and> f z = y"
  by (cases x) auto

lemma map_sum_pair_Inr: "map_sum id (\<lambda>(b, s). (b, g s)) x = Inr (b', y) \<Longrightarrow> \<exists>s. x = Inr (b', s) \<and> g s = y"
  by (cases x) auto

lemma ebind_InrE:
  assumes "ebind m f = Inr y"
  obtains x where "m = Inr x" "f x = Inr y"
  using assms by (cases m) auto

lemma ebind_assoc: "ebind (ebind m f) g = ebind m (\<lambda>x. ebind (f x) g)"
  by (cases m) auto

lemma ebind_cong [fundef_cong]:
  "m = m' \<Longrightarrow> (\<And>x. m' = Inr x \<Longrightarrow> f x = g x) \<Longrightarrow> ebind m f = ebind m' g"
  by (cases m') auto

definition obind :: "('e + 'a) option \<Rightarrow> ('a \<Rightarrow> ('e + 'b) option) \<Rightarrow> ('e + 'b) option" where
  "obind m f = (case m of None \<Rightarrow> None | Some (Inl e) \<Rightarrow> Some (Inl e) | Some (Inr x) \<Rightarrow> f x)"

lemma obind_simps [simp, res_simps]:
  "obind None f = None"
  "obind (Some (Inl e)) f = Some (Inl e)"
  "obind (Some (Inr x)) f = f x"
  by (simp_all add: obind_def)

lemma obind_eq_None: "obind m f = None \<longleftrightarrow> m = None \<or> (\<exists>x. m = Some (Inr x) \<and> f x = None)"
  by (auto simp: obind_def split: option.splits sum.splits)

lemma obind_eq_Inr:
  "obind m f = Some (Inr y) \<longleftrightarrow> (\<exists>x. m = Some (Inr x) \<and> f x = Some (Inr y))"
  by (auto simp: obind_def split: option.splits sum.splits)

lemma obind_cong [fundef_cong]:
  "m = m' \<Longrightarrow> (\<And>x. m' = Some (Inr x) \<Longrightarrow> f x = g x) \<Longrightarrow> obind m f = obind m' g"
  by (auto simp: obind_def split: option.splits sum.splits)

section \<open>C integers\<close>

text \<open>
  Conversion to a signed type of \<open>w\<close> bits keeps the low \<open>w\<close> bits; \<open>to_char\<close> is
  x86's signed \<open>char\<close>, \<open>to_short\<close> a \<open>short int\<close>. \<open>c_div\<close> and \<open>c_mod\<close> are \<open>/\<close>
  and \<open>%\<close>, which truncate towards zero.
\<close>

definition to_signed :: "nat \<Rightarrow> int \<Rightarrow> int" where
  "to_signed w x = (x + 2 ^ (w - 1)) mod 2 ^ w - 2 ^ (w - 1)"

definition to_char :: "int \<Rightarrow> int" where
  "to_char x = to_signed 8 x"

definition to_short :: "int \<Rightarrow> int" where
  "to_short x = to_signed 16 x"

definition in_int :: "int \<Rightarrow> bool" where
  "in_int x \<longleftrightarrow> - (2 ^ 31) \<le> x \<and> x < 2 ^ 31"

definition c_div :: "int \<Rightarrow> int \<Rightarrow> int" where
  "c_div a b = sgn a * sgn b * (\<bar>a\<bar> div \<bar>b\<bar>)"

definition c_mod :: "int \<Rightarrow> int \<Rightarrow> int" where
  "c_mod a b = a - b * c_div a b"

lemma to_char_id [simp]: "-128 \<le> x \<Longrightarrow> x < 128 \<Longrightarrow> to_char x = x"
  by (simp add: to_char_def to_signed_def)

lemma to_short_id [simp]: "-32768 \<le> x \<Longrightarrow> x < 32768 \<Longrightarrow> to_short x = x"
  by (simp add: to_short_def to_signed_def)

lemma c_div_nonneg [simp]: "0 \<le> a \<Longrightarrow> 0 < b \<Longrightarrow> c_div a b = a div b"
  by (cases "a = 0") (simp_all add: c_div_def)

lemma c_mod_nonneg [simp]: "0 \<le> a \<Longrightarrow> 0 < b \<Longrightarrow> c_mod a b = a mod b"
  by (simp add: c_mod_def minus_mult_div_eq_mod)

section \<open>Arrays\<close>

text \<open>
  An array is a list of its size; reading or writing outside it is the error
  \<open>e\<close> given by the caller, where C++ says nothing about what happens.
\<close>

definition aget :: "'e \<Rightarrow> 'a list \<Rightarrow> int \<Rightarrow> 'e + 'a" where
  "aget e a i = (if 0 \<le> i \<and> i < int (length a) then Inr (a ! nat i) else Inl e)"

definition aput :: "'e \<Rightarrow> 'a list \<Rightarrow> int \<Rightarrow> 'a \<Rightarrow> 'e + 'a list" where
  "aput e a i v = (if 0 \<le> i \<and> i < int (length a) then Inr (a[nat i := v]) else Inl e)"

lemma aget_in [simp, arr_simps]: "0 \<le> i \<Longrightarrow> i < int (length a) \<Longrightarrow> aget e a i = Inr (a ! nat i)"
  by (simp add: aget_def)

lemma aget_out [simp, arr_simps]: "i < 0 \<or> int (length a) \<le> i \<Longrightarrow> aget e a i = Inl e"
  by (auto simp: aget_def)

lemma aput_in [simp, arr_simps]: "0 \<le> i \<Longrightarrow> i < int (length a) \<Longrightarrow> aput e a i v = Inr (a[nat i := v])"
  by (simp add: aput_def)

lemma aput_out [simp, arr_simps]: "i < 0 \<or> int (length a) \<le> i \<Longrightarrow> aput e a i v = Inl e"
  by (auto simp: aput_def)

lemma aput_length: "aput e a i v = Inr a' \<Longrightarrow> length a' = length a"
  by (auto simp: aput_def split: if_splits)

lemma drop_update_same: "n < length a \<Longrightarrow> drop n (a[n := v]) = v # drop (Suc n) a"
  by (metis Cons_nth_drop_Suc drop_update_cancel length_list_update lessI nth_list_update_eq)

lemma replicate_update_beyond: "(replicate n x)[i := x] = replicate n x"
  by (metis list_update_beyond list_update_id length_replicate not_less nth_replicate)

end
