(* ===== verification/Big_Integer.thy ===== *)
theory Big_Integer
  imports Prelude
begin

text \<open>
  The class \<open>BigInteger\<close> of \<open>BigInteger/main.cc\<close>, and the earlier copy of it in
  \<open>c++/BigInteger/main.cc\<close>. A number is an array of \<open>NR_DIGITS\<close> decimal digits, the
  least significant at the highest index, the count \<open>len\<close> of digits in use, and a
  sign. The two files differ in \<open>NR_DIGITS\<close> (500 and 100) and in the checks of the
  constructors; the operations they share take \<open>NR_DIGITS\<close> as the argument \<open>nr\<close>.

  An index outside the array is \<open>OutOfBounds\<close>, a signed overflow \<open>SignedOverflow\<close>
  and a negative array size \<open>BadArrayLength\<close>; \<open>BigIntegerEx\<close> is the class's own
  exception. \<open>operator+\<close> and \<open>operator-\<close> call each other and may not return, so they
  take fuel and \<open>None\<close> is "out of fuel".
\<close>

section \<open>State\<close>

record bigint =
  arr :: "int list"
  len :: int
  isPositive :: bool

datatype bi_error = BigIntegerEx string | OutOfBounds | SignedOverflow | BadArrayLength

definition NR_DIGITS :: nat where
  "NR_DIGITS = 500"

definition bi_default :: "nat \<Rightarrow> bigint" where
  "bi_default nr = \<lparr>arr = replicate nr 0, len = 0, isPositive = True\<rparr>"

definition bi_copy :: "bigint \<Rightarrow> bigint" where
  "bi_copy b = \<lparr>arr = arr b, len = len b, isPositive = isPositive b\<rparr>"

definition getlen :: "bigint \<Rightarrow> int" where
  "getlen b = len b"

section \<open>Constructors\<close>

text \<open>A \<open>char\<close> of the string as the signed value C++ compares and subtracts.\<close>

definition char_val :: "char \<Rightarrow> int" where
  "char_val c = to_char (int (of_char c))"

fun bi_digits_loop :: "string \<Rightarrow> nat \<Rightarrow> int \<Rightarrow> int list \<Rightarrow> bi_error + int list" where
  "bi_digits_loop digits 0 j a = Inr a"
| "bi_digits_loop digits (Suc i) j a =
     (if 48 \<le> char_val (digits ! i) \<and> char_val (digits ! i) \<le> 57
      then ebind (aput OutOfBounds a j (char_val (digits ! i) - 48))
             (bi_digits_loop digits i (j - 1))
      else Inl (BigIntegerEx ''Invalid digit encountered in number''))"

definition bi_of_string :: "nat \<Rightarrow> string \<Rightarrow> int \<Rightarrow> bi_error + bigint" where
  "bi_of_string nr digits base =
     (if nr < length digits then Inl (BigIntegerEx ''Number too large'')
      else
        let l = to_short (int (length digits));
            pos = \<not> (digits \<noteq> [] \<and> hd digits = CHR ''-'')
        in if base = 10
           then ebind (bi_digits_loop digits (nat l) (int nr - 1) (replicate nr 0))
                  (\<lambda>a. Inr \<lparr>arr = a, len = l, isPositive = pos\<rparr>)
           else Inl (BigIntegerEx ''Base not supported''))"

fun bi_int_loop :: "nat \<Rightarrow> nat \<Rightarrow> int \<Rightarrow> int \<Rightarrow> int list \<Rightarrow> bi_error + (int list \<times> int)" where
  "bi_int_loop nr value i l a =
     ebind (aput OutOfBounds a i (to_char (int (value mod 10))))
       (\<lambda>a'. let value' = value div 10 in
         if l > int nr then Inl (BigIntegerEx ''Number too large'')
         else
           let l' = to_short (l + 1) in
           if l' \<noteq> 0 \<and> value' \<noteq> 0 then bi_int_loop nr value' (i - 1) l' a'
           else Inr (a', l'))"

declare bi_int_loop.simps [simp del]

definition bi_of_int :: "nat \<Rightarrow> int \<Rightarrow> bi_error + bigint" where
  "bi_of_int nr value =
     (if value < 0 \<and> \<not> in_int (- value) then Inl SignedOverflow
      else
        ebind (bi_int_loop nr (nat \<bar>value\<bar>) (int nr - 1) 0 (replicate nr 0))
          (\<lambda>(a, l). Inr \<lparr>arr = a, len = l, isPositive = value \<ge> 0\<rparr>))"

section \<open>Digit moves\<close>

definition prependDigits :: "nat \<Rightarrow> bigint \<Rightarrow> int \<Rightarrow> bi_error + bigint" where
  "prependDigits nr b digit =
     ebind (aput OutOfBounds (arr b) (int nr - 1 - len b) (to_char digit))
       (\<lambda>a. Inr (b\<lparr>arr := a, len := to_short (len b + 1)\<rparr>))"

text \<open>
  \<open>memcpy\<close> byte by byte from the lowest address: \<open>n\<close> bytes from index \<open>src\<close> to index
  \<open>dst\<close>. (Where the two regions overlap the C standard leaves the result open; the
  copy goes downwards, \<open>dst < src\<close>, so this order is also \<open>memmove\<close>'s.) A size that
  is negative becomes a huge unsigned number, and the copy leaves the array.
\<close>

fun arr_copy :: "int list \<Rightarrow> int \<Rightarrow> int \<Rightarrow> nat \<Rightarrow> bi_error + int list" where
  "arr_copy a dst src 0 = Inr a"
| "arr_copy a dst src (Suc n) =
     ebind (aget OutOfBounds a src)
       (\<lambda>x. ebind (aput OutOfBounds a dst x) (\<lambda>a'. arr_copy a' (dst + 1) (src + 1) n))"

fun arr_clear :: "int list \<Rightarrow> int \<Rightarrow> nat \<Rightarrow> bi_error + int list" where
  "arr_clear a dst 0 = Inr a"
| "arr_clear a dst (Suc n) =
     ebind (aput OutOfBounds a dst 0) (\<lambda>a'. arr_clear a' (dst + 1) n)"

definition appendZeros :: "nat \<Rightarrow> bigint \<Rightarrow> int \<Rightarrow> bi_error + bigint" where
  "appendZeros nr b count =
     (if len b < 0 \<or> count < 0 then Inl OutOfBounds
      else
        ebind (arr_copy (arr b) (int nr - len b - count) (int nr - len b) (nat (len b)))
          (\<lambda>a. ebind (arr_clear a (int nr - count) (nat count))
            (\<lambda>a'. Inr (b\<lparr>arr := a', len := to_short (len b + count)\<rparr>))))"

definition shrink :: "nat \<Rightarrow> bigint \<Rightarrow> bigint" where
  "shrink nr b =
     (let lenToShrink = int (length (takeWhile (\<lambda>d. d = 0) (arr b))) in
      if len b > lenToShrink \<or> lenToShrink = int nr
      then
        let l = to_short (len b - lenToShrink)
        in b\<lparr>len := (if l = 0 then 1 else l)\<rparr>
      else b)"

section \<open>Output\<close>

definition used_indices :: "nat \<Rightarrow> bigint \<Rightarrow> int list" where
  "used_indices nr b = [int nr - len b..int nr - 1]"

fun show_nat :: "nat \<Rightarrow> string" where
  "show_nat n = (if n < 10 then [char_of (48 + n)] else show_nat (n div 10) @ [char_of (48 + n mod 10)])"

declare show_nat.simps [simp del]

fun out_loop :: "(int \<Rightarrow> string) \<Rightarrow> int list \<Rightarrow> int list \<Rightarrow> bi_error + string" where
  "out_loop f a [] = Inr []"
| "out_loop f a (i # is) =
     ebind (aget OutOfBounds a i)
       (\<lambda>d. ebind (out_loop f a is) (\<lambda>s. Inr ((if d \<ge> 0 then f d else []) @ s)))"

definition bi_show :: "nat \<Rightarrow> bigint \<Rightarrow> bi_error + string" where
  "bi_show nr b =
     ebind (out_loop (\<lambda>d. [char_of (nat d)]) (arr b) (used_indices nr b))
       (\<lambda>s. Inr ((if isPositive b then [] else ''-'') @ s @ [CHR 0x0A]))"

definition bi_out :: "nat \<Rightarrow> bigint \<Rightarrow> bi_error + string" where
  "bi_out nr b =
     ebind (out_loop (\<lambda>d. show_nat (nat d)) (arr b) (used_indices nr b))
       (\<lambda>s. Inr ((if isPositive b then [] else ''-'') @ s))"

section \<open>Comparison\<close>

definition bi_gt :: "nat \<Rightarrow> bigint \<Rightarrow> bigint \<Rightarrow> bi_error + bool" where
  "bi_gt nr a b =
     (if \<not> isPositive a \<and> isPositive b then Inr False
      else if len a > len b then Inr True
      else if len a = len b then
        ebind (aget OutOfBounds (arr a) (int nr - len a))
          (\<lambda>x. ebind (aget OutOfBounds (arr b) (int nr - len b)) (\<lambda>y. Inr (x > y)))
      else Inr False)"

definition bi_gt_int :: "nat \<Rightarrow> bigint \<Rightarrow> int \<Rightarrow> bi_error + bool" where
  "bi_gt_int nr a v = ebind (bi_of_int nr v) (bi_gt nr a)"

definition bi_eq :: "bigint \<Rightarrow> bigint \<Rightarrow> bool" where
  "bi_eq a b \<longleftrightarrow> isPositive a = isPositive b \<and> arr a = arr b"

definition bi_lt :: "nat \<Rightarrow> bigint \<Rightarrow> bigint \<Rightarrow> bi_error + bool" where
  "bi_lt nr a b = ebind (bi_gt nr a b) (\<lambda>g. Inr (\<not> g \<and> \<not> bi_eq a b))"

definition bi_lt_int :: "nat \<Rightarrow> bigint \<Rightarrow> int \<Rightarrow> bi_error + bool" where
  "bi_lt_int nr a v = ebind (bi_of_int nr v) (bi_lt nr a)"

section \<open>Addition and subtraction\<close>

text \<open>The do-while loop of \<open>operator+\<close>; its index is \<open>n - 1\<close>, so \<open>n = 0\<close> is index -1.\<close>

fun add_loop :: "int list \<Rightarrow> int list \<Rightarrow> int \<Rightarrow> int \<Rightarrow> nat \<Rightarrow> int \<Rightarrow> int list \<Rightarrow> int
    \<Rightarrow> bi_error + (int list \<times> int)" where
  "add_loop a b la lb 0 carry res rl = Inl OutOfBounds"
| "add_loop a b la lb (Suc i) carry res rl =
     ebind (aget OutOfBounds a (int i)) (\<lambda>x.
     ebind (aget OutOfBounds b (int i)) (\<lambda>y.
       let dig = x + y + carry in
       ebind (aput OutOfBounds res (int i) (to_char (c_mod dig 10))) (\<lambda>res'.
         let carry' = c_div dig 10; rl' = to_short (rl + 1) in
         if carry' \<noteq> 0 \<or> rl' < la \<or> rl' < lb
         then add_loop a b la lb i carry' res' rl'
         else Inr (res', rl'))))"

definition add_digits :: "nat \<Rightarrow> bigint \<Rightarrow> bigint \<Rightarrow> bi_error + bigint" where
  "add_digits nr a b =
     ebind (add_loop (arr a) (arr b) (len a) (len b) nr 0 (arr (bi_default nr)) (len (bi_default nr)))
       (\<lambda>(res, rl). Inr ((bi_default nr)\<lparr>arr := res, len := rl\<rparr>))"

fun sub_loop :: "nat \<Rightarrow> int list \<Rightarrow> int list \<Rightarrow> nat \<Rightarrow> int \<Rightarrow> bigint \<Rightarrow> bi_error + bigint" where
  "sub_loop nr a b 0 carry result = Inr result"
| "sub_loop nr a b (Suc i) carry result =
     ebind (aget OutOfBounds a (int i)) (\<lambda>x.
     ebind (aget OutOfBounds b (int i)) (\<lambda>y.
       if x + carry < y
       then ebind (prependDigits nr result (x + carry + 10 - y)) (sub_loop nr a b i (-1))
       else ebind (prependDigits nr result (x + carry - y)) (sub_loop nr a b i 0)))"

definition sub_digits :: "nat \<Rightarrow> bigint \<Rightarrow> bigint \<Rightarrow> bi_error + bigint" where
  "sub_digits nr a b = sub_loop nr (arr a) (arr b) nr 0 (bi_default nr)"

fun bi_add :: "nat \<Rightarrow> nat \<Rightarrow> bigint \<Rightarrow> bigint \<Rightarrow> (bi_error + bigint) option"
and bi_sub :: "nat \<Rightarrow> nat \<Rightarrow> bigint \<Rightarrow> bigint \<Rightarrow> (bi_error + bigint) option" where
  "bi_add nr 0 a b = None"
| "bi_add nr (Suc fuel) a b =
     obind (Some (bi_lt_int nr b 0)) (\<lambda>b_neg.
       if b_neg then bi_sub nr fuel a (b\<lparr>isPositive := True\<rparr>)
       else obind (Some (bi_lt_int nr a 0)) (\<lambda>a_neg.
         if a_neg then bi_sub nr fuel b (a\<lparr>isPositive := True\<rparr>)
         else Some (add_digits nr a b)))"
| "bi_sub nr 0 a b = None"
| "bi_sub nr (Suc fuel) a b =
     obind
       (obind (Some (bi_lt_int nr b 0)) (\<lambda>b_neg.
         if b_neg then bi_add nr fuel a (b\<lparr>isPositive := True\<rparr>)
         else obind (Some (bi_lt nr a b)) (\<lambda>less.
           if less
           then obind (bi_sub nr fuel b a) (\<lambda>r. Some (Inr (r\<lparr>isPositive := False\<rparr>)))
           else Some (sub_digits nr a b))))
       (\<lambda>r. Some (Inr (shrink nr r)))"

section \<open>Multiplication\<close>

text \<open>
  One row of the schoolbook product: the index \<open>j\<close> (and \<open>k\<close>, always equal to it) is
  \<open>n - 1\<close>; the loop goes on past the used digits while a carry is left.
\<close>

fun mul_row :: "nat \<Rightarrow> int list \<Rightarrow> int \<Rightarrow> int \<Rightarrow> nat \<Rightarrow> int \<Rightarrow> bigint \<Rightarrow> bi_error + bigint" where
  "mul_row nr a la d 0 carry r =
     (if - 1 \<ge> int nr - la \<or> carry \<noteq> 0 then Inl OutOfBounds else Inr r)"
| "mul_row nr a la d (Suc j) carry r =
     (if int j \<ge> int nr - la \<or> carry \<noteq> 0
      then
        ebind (aget OutOfBounds a (int j)) (\<lambda>x.
          let dig = d * x + carry in
          ebind (aput OutOfBounds (arr r) (int j) (to_char (c_mod dig 10))) (\<lambda>ra.
            mul_row nr a la d j (c_div dig 10) (r\<lparr>arr := ra, len := to_short (len r + 1)\<rparr>)))
      else Inr r)"

fun mul_rows :: "nat \<Rightarrow> bigint \<Rightarrow> bigint \<Rightarrow> int list \<Rightarrow> int \<Rightarrow> bi_error + bigint list" where
  "mul_rows nr a b [] trailingZeros = Inr []"
| "mul_rows nr a b (i # is) trailingZeros =
     ebind (aget OutOfBounds (arr b) i) (\<lambda>d.
     ebind (mul_row nr (arr a) (len a) d nr 0 (bi_default nr)) (\<lambda>r.
     ebind (appendZeros nr r trailingZeros) (\<lambda>r'.
     ebind (mul_rows nr a b is (trailingZeros - 1)) (\<lambda>rs. Inr (r' # rs)))))"

fun sum_rows :: "nat \<Rightarrow> nat \<Rightarrow> bigint \<Rightarrow> bigint list \<Rightarrow> (bi_error + bigint) option" where
  "sum_rows nr fuel result [] = Some (Inr result)"
| "sum_rows nr fuel result (r # rs) =
     obind (bi_add nr fuel result r) (\<lambda>result'. sum_rows nr fuel result' rs)"

definition bi_mul :: "nat \<Rightarrow> nat \<Rightarrow> bigint \<Rightarrow> bigint \<Rightarrow> (bi_error + bigint) option" where
  "bi_mul nr fuel a b =
     (if len b < 0 then Some (Inl BadArrayLength)
      else
        obind (Some (mul_rows nr a b (used_indices nr b) (len b - 1))) (\<lambda>intermediate.
        obind (sum_rows nr fuel (bi_default nr) intermediate) (\<lambda>result.
          Some (Inr (result\<lparr>isPositive := isPositive a \<and> isPositive b\<rparr>)))))"

section \<open>Factorial\<close>

fun fact_bi :: "nat \<Rightarrow> nat \<Rightarrow> bigint \<Rightarrow> (bi_error + bigint) option" where
  "fact_bi nr 0 b = None"
| "fact_bi nr (Suc fuel) b =
     obind (Some (bi_of_int nr 1)) (\<lambda>one.
       if bi_eq b one then Some (Inr one)
       else
         obind (bi_sub nr fuel b one) (\<lambda>p.
         obind (fact_bi nr fuel p) (\<lambda>q.
           bi_mul nr fuel b q)))"

end
