(* ===== verification/Big_Integer_Value.thy ===== *)
theory Big_Integer_Value
  imports Big_Integer
begin

text \<open>
  What the operations of \<open>BigInteger\<close> compute. \<open>mag\<close> and \<open>bi_val\<close> are the abstract
  value of a number, \<open>bi_wf\<close> says that its array holds decimal digits and nothing
  above \<open>len\<close>, \<open>bi_canon\<close> that \<open>len\<close> is exactly the number of its digits. The loops
  are proved against these; the properties at the end are about the class's
  operators.
\<close>

section \<open>Values and well-formed numbers, and the addition loop\<close>

fun val_be :: "int list \<Rightarrow> int" where
  "val_be [] = 0"
| "val_be (d # ds) = d * 10 ^ length ds + val_be ds"

definition digits_ok :: "int list \<Rightarrow> bool" where
  "digits_ok ds \<longleftrightarrow> (\<forall>d \<in> set ds. 0 \<le> d \<and> d < 10)"

definition mag :: "bigint \<Rightarrow> int" where
  "mag b = val_be (arr b)"

definition bi_val :: "bigint \<Rightarrow> int" where
  "bi_val b = (if isPositive b then mag b else - mag b)"

definition nr_ok :: "nat \<Rightarrow> bool" where
  "nr_ok nr \<longleftrightarrow> 0 < nr \<and> nr < 32767"

definition zeros_above :: "nat \<Rightarrow> int list \<Rightarrow> int \<Rightarrow> bool" where
  "zeros_above nr a l \<longleftrightarrow> (\<forall>i < nr. int i < int nr - l \<longrightarrow> a ! i = 0)"

definition bi_wf :: "nat \<Rightarrow> bigint \<Rightarrow> bool" where
  "bi_wf nr b \<longleftrightarrow> length (arr b) = nr \<and> digits_ok (arr b) \<and> 0 \<le> len b \<and> len b \<le> int nr
     \<and> zeros_above nr (arr b) (len b)"

definition bi_canon :: "nat \<Rightarrow> bigint \<Rightarrow> bool" where
  "bi_canon nr b \<longleftrightarrow> bi_wf nr b \<and> 1 \<le> len b \<and> (len b = 1 \<or> arr b ! nat (int nr - len b) \<noteq> 0)"

lemma val_be_append: "val_be (xs @ ys) = val_be xs * 10 ^ length ys + val_be ys"
  by (induction xs) (simp_all add: algebra_simps power_add)

lemma val_be_zeros [simp]: "val_be (replicate n 0) = 0"
  by (induction n) simp_all

lemma val_be_all_zero: "(\<forall>d \<in> set ds. d = 0) \<Longrightarrow> val_be ds = 0"
  by (induction ds) simp_all

lemma digits_ok_simps [simp]:
  "digits_ok []" "digits_ok (d # ds) \<longleftrightarrow> 0 \<le> d \<and> d < 10 \<and> digits_ok ds"
  "digits_ok (xs @ ys) \<longleftrightarrow> digits_ok xs \<and> digits_ok ys"
  "digits_ok (replicate n 0)"
  by (auto simp: digits_ok_def)

lemma digits_ok_drop [simp]: "digits_ok ds \<Longrightarrow> digits_ok (drop n ds)"
  by (auto simp: digits_ok_def dest: in_set_dropD)

lemma digits_ok_nth: "digits_ok ds \<Longrightarrow> i < length ds \<Longrightarrow> 0 \<le> ds ! i \<and> ds ! i < 10"
  by (auto simp: digits_ok_def)

lemma digits_ok_update [simp]: "digits_ok ds \<Longrightarrow> 0 \<le> v \<Longrightarrow> v < 10 \<Longrightarrow> digits_ok (ds[i := v])"
  using set_update_subset_insert [of ds i v] by (auto simp: digits_ok_def)

lemma val_be_bounds: "digits_ok ds \<Longrightarrow> 0 \<le> val_be ds \<and> val_be ds < 10 ^ length ds"
proof (induction ds)
  case (Cons d ds)
  then have "0 \<le> d" "d \<le> 9" and IH: "0 \<le> val_be ds" "val_be ds < 10 ^ length ds" by auto
  have "d * 10 ^ length ds \<le> 9 * 10 ^ length ds" using \<open>d \<le> 9\<close> by (rule mult_right_mono) simp
  with IH have "d * 10 ^ length ds + val_be ds < 10 * 10 ^ length ds" by linarith
  with IH \<open>0 \<le> d\<close> show ?case by simp
qed simp

lemma val_be_inj:
  "digits_ok xs \<Longrightarrow> digits_ok ys \<Longrightarrow> length xs = length ys \<Longrightarrow> val_be xs = val_be ys \<Longrightarrow> xs = ys"
proof (induction xs ys rule: list_induct2')
  case (4 x xs y ys)
  let ?p = "10 ^ length xs :: int"
  have b: "0 \<le> val_be xs" "val_be xs < ?p" "0 \<le> val_be ys" "val_be ys < ?p"
    using val_be_bounds [of xs] val_be_bounds [of ys] "4.prems" by auto
  have eq: "x * ?p + val_be xs = y * ?p + val_be ys" using "4.prems" by simp
  have "x = (x * ?p + val_be xs) div ?p" using b by simp
  also have "\<dots> = y" using b by (simp add: eq)
  finally have "x = y" .
  with eq have "val_be xs = val_be ys" by simp
  with \<open>x = y\<close> "4.IH" "4.prems" show ?case by simp
qed auto

lemma val_be_drop_Suc: "n < length ds \<Longrightarrow>
    val_be (drop n ds) = ds ! n * 10 ^ (length ds - Suc n) + val_be (drop (Suc n) ds)"
  by (simp add: Cons_nth_drop_Suc [symmetric])

lemma val_be_split: "val_be ds = val_be (take n ds) * 10 ^ (length ds - n) + val_be (drop n ds)"
  using val_be_append [of "take n ds" "drop n ds"] by simp

lemma val_be_zeros_above:
  assumes "zeros_above (length ds) ds l" "int n \<le> int (length ds) - l" "n \<le> length ds"
  shows "val_be ds = val_be (drop n ds)"
proof -
  have "\<forall>d \<in> set (take n ds). d = 0"
    using assms by (auto simp: zeros_above_def in_set_conv_nth)
  then show ?thesis using val_be_split [of ds n] by (simp add: val_be_all_zero)
qed

lemma mag_bounds: "bi_wf nr b \<Longrightarrow> 0 \<le> mag b \<and> mag b < 10 ^ nr"
  using val_be_bounds [of "arr b"] by (auto simp: mag_def bi_wf_def)

lemma bi_wf_default [simp]: "bi_wf nr (bi_default nr)"
  by (simp add: bi_wf_def bi_default_def zeros_above_def)

lemma zeros_above_replicate [simp]: "zeros_above nr (replicate nr 0) l"
  by (simp add: zeros_above_def)

lemma zeros_above_mono: "zeros_above nr a l \<Longrightarrow> l \<le> l' \<Longrightarrow> zeros_above nr a l'"
  by (auto simp: zeros_above_def)

text \<open>A number is below the next power of ten over its length.\<close>

lemma mag_lt_len: 
  assumes "bi_wf nr b" shows "mag b < 10 ^ nat (len b)"
proof -
  let ?n = "nat (int nr - len b)"
  have l: "length (arr b) = nr" and le: "0 \<le> len b" "len b \<le> int nr"
    and z: "zeros_above nr (arr b) (len b)" and d: "digits_ok (arr b)"
    using assms by (auto simp: bi_wf_def)
  have "mag b = val_be (drop ?n (arr b))"
    unfolding mag_def using l le z by (intro val_be_zeros_above [of _ "len b"]) auto
  also have "\<dots> < 10 ^ length (drop ?n (arr b))" using val_be_bounds d digits_ok_drop by blast
  also have "length (drop ?n (arr b)) = nat (len b)" using l le by auto
  finally show ?thesis .
qed

lemma mag_ge_top:
  assumes "bi_wf nr b" "1 \<le> len b"
  shows "arr b ! nat (int nr - len b) * 10 ^ nat (len b - 1) \<le> mag b"
    and "mag b < (arr b ! nat (int nr - len b) + 1) * 10 ^ nat (len b - 1)"
proof -
  let ?n = "nat (int nr - len b)"
  have l: "length (arr b) = nr" and le: "len b \<le> int nr"
    and z: "zeros_above nr (arr b) (len b)" and d: "digits_ok (arr b)"
    using assms by (auto simp: bi_wf_def)
  have n: "?n < nr" and e: "nr - Suc ?n = nat (len b - 1)" using assms(2) le by auto
  have "mag b = val_be (drop ?n (arr b))"
    unfolding mag_def using l le z assms(2) by (intro val_be_zeros_above [of _ "len b"]) auto
  also have "\<dots> = arr b ! ?n * 10 ^ nat (len b - 1) + val_be (drop (Suc ?n) (arr b))"
    using val_be_drop_Suc [of ?n "arr b"] n e l by simp
  finally have m: "mag b = arr b ! ?n * 10 ^ nat (len b - 1) + val_be (drop (Suc ?n) (arr b))" .
  have "length (drop (Suc ?n) (arr b)) = nat (len b - 1)" using l e by simp
  then have "0 \<le> val_be (drop (Suc ?n) (arr b))" "val_be (drop (Suc ?n) (arr b)) < 10 ^ nat (len b - 1)"
    using val_be_bounds [of "drop (Suc ?n) (arr b)"] d by auto
  with m show "arr b ! ?n * 10 ^ nat (len b - 1) \<le> mag b"
    and "mag b < (arr b ! ?n + 1) * 10 ^ nat (len b - 1)" by (auto simp: algebra_simps)
qed

lemma digit_step:
  assumes "(q :: int) + 10 * c = x + y + k" "R + k * P = A + B"
  shows "(q * P + R) + c * (10 * P) = (x * P + A) + (y * P + B)"
proof -
  have "(q * P + R) + c * (10 * P) = (q + 10 * c) * P + R" by (simp add: algebra_simps)
  also have "\<dots> = x * P + y * P + (R + k * P)" unfolding assms(1) by (simp add: algebra_simps)
  finally show ?thesis by (simp add: assms(2))
qed

lemma add_loop_spec:
  assumes "length a = nr" "length b = nr" "length res = nr" "n \<le> nr" "0 < n" "nr < 32767"
    and "digits_ok a" "digits_ok b" "digits_ok res" "carry = 0 \<or> carry = 1"
    and "rl = int nr - int n" "la \<le> int nr" "lb \<le> int nr"
    and "zeros_above nr a la" "zeros_above nr b lb" "zeros_above nr res rl"
    and "val_be (drop n res) + carry * 10 ^ (nr - n) = val_be (drop n a) + val_be (drop n b)"
    and "rl < 1 \<or> rl < la \<or> rl < lb \<or> carry = 1"
  shows "case add_loop a b la lb n carry res rl of
      Inl e \<Rightarrow> e = OutOfBounds \<and> 10 ^ nr \<le> val_be a + val_be b
    | Inr (res', rl') \<Rightarrow> val_be res' = val_be a + val_be b \<and> length res' = nr \<and> digits_ok res'
        \<and> zeros_above nr res' rl' \<and> 1 \<le> rl' \<and> la \<le> rl' \<and> lb \<le> rl' \<and> rl' \<le> int nr
        \<and> ((la < rl' \<and> lb < rl' \<and> 1 < rl') \<longrightarrow> res' ! nat (int nr - rl') \<noteq> 0)
        \<and> a ! nat (int nr - rl') + b ! nat (int nr - rl') \<le> res' ! nat (int nr - rl')"
  using assms
proof (induction n arbitrary: carry res rl)
  case 0
  then show ?case by simp
next
  case (Suc i)
  let ?x = "a ! i" and ?y = "b ! i"
  let ?dig = "?x + ?y + carry"
  let ?res = "res[i := ?dig mod 10]" and ?c = "?dig div 10" and ?rl = "int nr - int i"
  note len_ab = Suc.prems(1-3) and ok = Suc.prems(7-9) and zs = Suc.prems(14-16)
  have i: "i < nr" using Suc.prems(4) by simp
  have x: "0 \<le> ?x" "?x < 10" and y: "0 \<le> ?y" "?y < 10"
    using digits_ok_nth [OF ok(1), of i] digits_ok_nth [OF ok(2), of i] len_ab i by simp_all
  have dig: "0 \<le> ?dig" "?dig \<le> 19" using x y Suc.prems(10) by auto
  have c01: "?c = 0 \<or> ?c = 1" using dig by auto
  have to: "to_char (c_mod ?dig 10) = ?dig mod 10" "c_div ?dig 10 = ?c"
    using dig by simp_all
  have rl: "to_short (rl + 1) = ?rl" using Suc.prems(6,11) i by simp
  have step: "add_loop a b la lb (Suc i) carry res rl =
     (if ?c \<noteq> 0 \<or> ?rl < la \<or> ?rl < lb then add_loop a b la lb i ?c ?res ?rl else Inr (?res, ?rl))"
    unfolding add_loop.simps Let_def using Suc.prems(1-3) i by (simp only: aget_in aput_in ebind_simps to rl nat_int of_nat_0_le_iff of_nat_less_iff)
  have pw: "10 ^ (nr - i) = 10 * (10 :: int) ^ (nr - Suc i)"
    using i by (metis Suc_diff_Suc power_Suc)
  have dres: "drop i ?res = (?dig mod 10) # drop (Suc i) res"
    using drop_update_same [of i res] i len_ab by simp
  have len_res: "length (drop (Suc i) res) = nr - Suc i" using len_ab by simp
  have val: "val_be (drop i ?res) + ?c * 10 ^ (nr - i) = val_be (drop i a) + val_be (drop i b)"
    using digit_step [of "?dig mod 10" ?c ?x ?y carry "val_be (drop (Suc i) res)" "10 ^ (nr - Suc i)"]
      dres len_res pw Suc.prems(17) len_ab i val_be_drop_Suc [of i a] val_be_drop_Suc [of i b]
    by (simp only: mod_mult_div_eq val_be.simps)
  have za: "zeros_above nr ?res ?rl"
    using zs(3) Suc.prems(11) by (auto simp: zeros_above_def nth_list_update)
  have dres_ok: "digits_ok ?res" using ok dig by simp
  show ?case
  proof (cases "?c \<noteq> 0 \<or> ?rl < la \<or> ?rl < lb")
    case True
    show ?thesis
    proof (cases "i = 0")
      case True
      then have "?c = 1" using \<open>?c \<noteq> 0 \<or> _\<close> c01 Suc.prems by auto
      then have "10 ^ nr \<le> val_be a + val_be b"
        using val True Suc.prems val_be_bounds [OF dres_ok] by simp
      with step \<open>?c \<noteq> 0 \<or> _\<close> True show ?thesis by simp
    next
      case False
      have "case add_loop a b la lb i ?c ?res ?rl of
        Inl e \<Rightarrow> e = OutOfBounds \<and> 10 ^ nr \<le> val_be a + val_be b
      | Inr (res', rl') \<Rightarrow> val_be res' = val_be a + val_be b \<and> length res' = nr \<and> digits_ok res'
          \<and> zeros_above nr res' rl' \<and> 1 \<le> rl' \<and> la \<le> rl' \<and> lb \<le> rl' \<and> rl' \<le> int nr
          \<and> ((la < rl' \<and> lb < rl' \<and> 1 < rl') \<longrightarrow> res' ! nat (int nr - rl') \<noteq> 0)
          \<and> a ! nat (int nr - rl') + b ! nat (int nr - rl') \<le> res' ! nat (int nr - rl')"
        by (rule Suc.IH [OF Suc.prems(1,2) _ _ _ Suc.prems(6-8) dres_ok c01 refl Suc.prems(12-15) za val])
          (use Suc.prems(3) i False True c01 in auto)
      with step True show ?thesis by simp
    qed
  next
    case False
    then have c0: "?c = 0" and la: "la \<le> ?rl" "lb \<le> ?rl" by auto
    have "val_be a = val_be (drop i a)" "val_be b = val_be (drop i b)" "val_be ?res = val_be (drop i ?res)"
      using val_be_zeros_above [of a la i] val_be_zeros_above [of b lb i]
        val_be_zeros_above [of ?res ?rl i] Suc.prems la za i by auto
    then have sum: "val_be ?res = val_be a + val_be b" using val c0 by simp
    have d10: "?dig < 10" using c0 dig by presburger
    have top: "?res ! i = ?dig" using d10 dig i Suc.prems by simp
    have "la < ?rl \<and> lb < ?rl \<and> 1 < ?rl \<Longrightarrow> carry = 1" using Suc.prems i by auto
    then have "(la < ?rl \<and> lb < ?rl \<and> 1 < ?rl) \<longrightarrow> ?res ! i \<noteq> 0" using top x y by auto
    with step False sum top za dres_ok la Suc.prems i show ?thesis by auto
  qed
qed

section \<open>Addition and subtraction of digit arrays\<close>

lemma add_digits_spec:
  assumes "bi_wf nr a" "bi_wf nr b" "nr_ok nr"
  shows "case add_digits nr a b of
      Inl e \<Rightarrow> e = OutOfBounds \<and> 10 ^ nr \<le> mag a + mag b
    | Inr r \<Rightarrow> mag r = mag a + mag b \<and> bi_wf nr r \<and> isPositive r
        \<and> len a \<le> len r \<and> len b \<le> len r
        \<and> (bi_canon nr a \<and> len b \<le> len a \<or> bi_canon nr b \<and> len a \<le> len b \<longrightarrow> bi_canon nr r)"
proof -
  let ?L = "add_loop (arr a) (arr b) (len a) (len b) nr 0 (replicate nr 0) 0"
  have spec: "case ?L of
      Inl e \<Rightarrow> e = OutOfBounds \<and> 10 ^ nr \<le> val_be (arr a) + val_be (arr b)
    | Inr (res', rl') \<Rightarrow> val_be res' = val_be (arr a) + val_be (arr b) \<and> length res' = nr \<and> digits_ok res'
        \<and> zeros_above nr res' rl' \<and> 1 \<le> rl' \<and> len a \<le> rl' \<and> len b \<le> rl' \<and> rl' \<le> int nr
        \<and> ((len a < rl' \<and> len b < rl' \<and> 1 < rl') \<longrightarrow> res' ! nat (int nr - rl') \<noteq> 0)
        \<and> arr a ! nat (int nr - rl') + arr b ! nat (int nr - rl') \<le> res' ! nat (int nr - rl')"
    by (rule add_loop_spec) (use assms in \<open>auto simp: bi_wf_def nr_ok_def\<close>)
  show ?thesis
  proof (cases ?L)
    case (Inl e)
    with spec show ?thesis by (simp add: add_digits_def bi_default_def mag_def)
  next
    case (Inr p)
    obtain res rl where p: "p = (res, rl)" by (cases p)
    let ?n = "nat (int nr - rl)"
    have f: "val_be res = val_be (arr a) + val_be (arr b)" "length res = nr" "digits_ok res"
      "zeros_above nr res rl" "1 \<le> rl" "len a \<le> rl" "len b \<le> rl" "rl \<le> int nr"
      "len a < rl \<and> len b < rl \<and> 1 < rl \<Longrightarrow> res ! ?n \<noteq> 0" "arr a ! ?n + arr b ! ?n \<le> res ! ?n"
      using spec Inr p by auto
    have top: "rl = 1 \<or> res ! ?n \<noteq> 0"
      if can: "bi_canon nr a \<and> len b \<le> len a \<or> bi_canon nr b \<and> len a \<le> len b"
    proof -
      have n: "?n < nr" using f by auto
      have d: "0 \<le> arr a ! ?n" "0 \<le> arr b ! ?n"
        using digits_ok_nth n assms by (auto simp: bi_wf_def)
      consider "len a = rl" "bi_canon nr a" | "len b = rl" "bi_canon nr b" | "len a < rl" "len b < rl"
        using f(6,7) can by (cases "len a = rl"; cases "len b = rl"; auto)
      then show ?thesis
        using f(9,10) d f(5) by cases (auto simp: bi_canon_def)
    qed
    have "add_digits nr a b = Inr \<lparr>arr = res, len = rl, isPositive = True\<rparr>"
      using Inr p by (simp add: add_digits_def bi_default_def)
    with f top show ?thesis by (simp add: mag_def bi_wf_def bi_canon_def)
  qed
qed

lemma sub_loop_spec:
  assumes "length a = nr" "length b = nr" "n \<le> nr" "nr < 32767"
    and "digits_ok a" "digits_ok b" "carry = 0 \<or> carry = -1"
    and "length (arr r) = nr" "digits_ok (arr r)" "len r = int nr - int n" "isPositive r"
    and "zeros_above nr (arr r) (len r)"
    and "val_be (drop n (arr r)) + carry * 10 ^ (nr - n) = val_be (drop n a) - val_be (drop n b)"
  shows "\<exists>r' c. sub_loop nr a b n carry r = Inr r' \<and> length (arr r') = nr \<and> digits_ok (arr r')
    \<and> len r' = int nr \<and> isPositive r' \<and> (c = 0 \<or> c = -1) \<and> mag r' + c * 10 ^ nr = val_be a - val_be b"
  using assms
proof (induction n arbitrary: carry r)
  case 0
  then show ?case by (auto simp: mag_def)
next
  case (Suc i)
  note ok = Suc.prems(5,6,9) and lens = Suc.prems(1,2,8)
  let ?x = "a ! i" and ?y = "b ! i"
  let ?c = "if ?x + carry < ?y then -1 else 0 :: int"
  let ?q = "?x + carry - 10 * ?c - ?y"
  let ?r = "r\<lparr>arr := (arr r)[i := ?q], len := int nr - int i\<rparr>"
  have i: "i < nr" using Suc.prems(3) by simp
  have x: "0 \<le> ?x" "?x < 10" and y: "0 \<le> ?y" "?y < 10"
    using digits_ok_nth [OF ok(1), of i] digits_ok_nth [OF ok(2), of i] lens i by simp_all
  have q: "0 \<le> ?q" "?q < 10" using x y Suc.prems(7) by auto
  have idx: "int nr - 1 - len r = int i" using Suc.prems(10) by simp
  have ln: "to_short (len r + 1) = int nr - int i" using Suc.prems(10,4) i by simp
  have pre: "prependDigits nr r ?q = Inr ?r"
    using q idx ln i lens by (simp add: prependDigits_def)
  have step: "sub_loop nr a b (Suc i) carry r = sub_loop nr a b i ?c ?r"
    using pre lens i by (cases "?x + carry < ?y") (simp_all add: algebra_simps)
  have dres: "drop i (arr ?r) = ?q # drop (Suc i) (arr r)"
    using drop_update_same [of i "arr r"] i lens by simp
  have pw: "10 ^ (nr - i) = 10 * (10 :: int) ^ (nr - Suc i)"
    using i by (metis Suc_diff_Suc power_Suc)
  have dlen: "length (drop (Suc i) (arr r)) = nr - Suc i" using lens by simp
  have val: "val_be (drop i (arr ?r)) + ?c * 10 ^ (nr - i) = val_be (drop i a) - val_be (drop i b)"
    using digit_step [of ?q ?c ?x "- ?y" carry "val_be (drop (Suc i) (arr r))" "10 ^ (nr - Suc i)"
        "val_be (drop (Suc i) a)" "- val_be (drop (Suc i) b)"]
      dres dlen pw Suc.prems(13) lens i val_be_drop_Suc [of i a] val_be_drop_Suc [of i b] by simp
  have "zeros_above nr (arr ?r) (len ?r)"
    using Suc.prems(12,10) by (auto simp: zeros_above_def nth_list_update)
  then show ?case
    unfolding step
    by (intro Suc.IH) (use Suc.prems i val q in auto)
qed

lemma shrink_full:
  assumes "length (arr r) = nr" "digits_ok (arr r)" "len r = int nr" "nr_ok nr"
  shows "bi_canon nr (shrink nr r)" "mag (shrink nr r) = mag r" "isPositive (shrink nr r) = isPositive r"
proof -
  let ?z = "length (takeWhile (\<lambda>d. d = 0) (arr r))"
  have z: "?z \<le> nr" using length_takeWhile_le [of _ "arr r"] assms by metis
  have zero: "arr r ! i = 0" if "i < ?z" for i
    using that nth_mem [of i "takeWhile (\<lambda>d. d = 0) (arr r)"] set_takeWhileD
    by (metis takeWhile_nth)
  have nz: "?z < nr \<Longrightarrow> arr r ! ?z \<noteq> 0" using nth_length_takeWhile [of _ "arr r"] assms by auto
  have sh: "shrink nr r = r\<lparr>len := if ?z = nr then 1 else int nr - int ?z\<rparr>"
    using assms z by (auto simp: shrink_def Let_def nr_ok_def)
  show "bi_canon nr (shrink nr r)"
    using zero nz z assms by (auto simp: sh bi_canon_def bi_wf_def zeros_above_def nr_ok_def)
  show "mag (shrink nr r) = mag r" "isPositive (shrink nr r) = isPositive r"
    by (simp_all add: sh mag_def)
qed

lemma sub_digits_spec:
  assumes "bi_wf nr a" "bi_wf nr b" "nr_ok nr" "mag b \<le> mag a"
  shows "\<exists>r. sub_digits nr a b = Inr r \<and> bi_canon nr (shrink nr r) \<and> mag (shrink nr r) = mag a - mag b
    \<and> isPositive (shrink nr r)"
proof -
  have "\<exists>r' c. sub_loop nr (arr a) (arr b) nr 0 (bi_default nr) = Inr r' \<and> length (arr r') = nr
    \<and> digits_ok (arr r') \<and> len r' = int nr \<and> isPositive r' \<and> (c = 0 \<or> c = -1)
    \<and> mag r' + c * 10 ^ nr = val_be (arr a) - val_be (arr b)"
    by (rule sub_loop_spec) (use assms in \<open>auto simp: bi_wf_def nr_ok_def bi_default_def\<close>)
  then obtain r c where r: "sub_digits nr a b = Inr r" "length (arr r) = nr" "digits_ok (arr r)"
      "len r = int nr" "isPositive r" "c = 0 \<or> c = -1" "mag r + c * 10 ^ nr = mag a - mag b"
    by (auto simp: sub_digits_def mag_def)
  have "mag r < 10 ^ nr" using val_be_bounds r(2,3) by (metis mag_def)
  then have "c = 0" using r(6,7) assms(4) by auto
  with r shrink_full [of r nr] assms(3) show ?thesis by auto
qed

section \<open>Comparison\<close>

definition bi_unit :: "nat \<Rightarrow> int \<Rightarrow> bool \<Rightarrow> bigint" where
  "bi_unit nr d p = \<lparr>arr = (replicate nr 0)[nr - 1 := d], len = 1, isPositive = p\<rparr>"

lemma bi_of_int_digit: "0 \<le> d \<Longrightarrow> d < 10 \<Longrightarrow> nr_ok nr \<Longrightarrow> bi_of_int nr d = Inr (bi_unit nr d True)"
  by (simp add: bi_of_int_def bi_unit_def bi_int_loop.simps [of nr _ _ 0] nr_ok_def Let_def nat_diff_distrib)

lemma bi_of_int_0: "nr_ok nr \<Longrightarrow> bi_of_int nr 0 = Inr \<lparr>arr = replicate nr 0, len = 1, isPositive = True\<rparr>"
  by (simp add: bi_of_int_digit bi_unit_def replicate_update_beyond)

lemma val_be_update_last: "0 < nr \<Longrightarrow> val_be ((replicate nr 0)[nr - Suc 0 := d]) = d"
proof -
  assume "0 < nr"
  then obtain m where m: "nr = Suc m" by (cases nr) auto
  have "(replicate nr 0)[nr - Suc 0 := d] = replicate m 0 @ [d]"
    unfolding m by (simp add: replicate_append_same [symmetric] list_update_append)
  then show ?thesis by (simp add: val_be_append)
qed

lemma bi_unit_canon: "0 \<le> d \<Longrightarrow> d < 10 \<Longrightarrow> nr_ok nr \<Longrightarrow> bi_canon nr (bi_unit nr d p)"
  by (auto simp: bi_canon_def bi_wf_def bi_unit_def nr_ok_def zeros_above_def nth_list_update)

lemma bi_unit_mag [simp]: "nr_ok nr \<Longrightarrow> mag (bi_unit nr d p) = d"
  by (simp add: mag_def bi_unit_def val_be_update_last nr_ok_def)

lemma bi_wf_len_gt_0:
  assumes "bi_wf nr b" "len b = 0" shows "arr b = replicate nr 0"
  using assms by (auto simp: bi_wf_def zeros_above_def intro!: nth_equalityI)

lemma bi_lt_int_0 [simp]:
  assumes "bi_wf nr b" "nr_ok nr"
  shows "bi_lt_int nr b 0 = Inr (\<not> isPositive b)"
proof -
  let ?z = "\<lparr>arr = replicate nr 0, len = 1, isPositive = True\<rparr>"
  have 1: "bi_lt_int nr b 0 = bi_lt nr b ?z" using assms by (simp add: bi_lt_int_def bi_of_int_0)
  show ?thesis
  proof (cases "isPositive b")
    case False
    then show ?thesis by (simp add: 1 bi_lt_def bi_gt_def bi_eq_def)
  next
    case True
    have l: "length (arr b) = nr" and d: "digits_ok (arr b)" and z: "zeros_above nr (arr b) (len b)"
      using assms by (auto simp: bi_wf_def)
    consider "len b = 0" | "len b = 1" | "1 < len b" using assms by (force simp: bi_wf_def)
    then show ?thesis
    proof cases
      case 1
      with True bi_wf_len_gt_0 [OF assms(1)] \<open>bi_lt_int nr b 0 = _\<close> show ?thesis
        by (simp add: bi_lt_def bi_gt_def bi_eq_def)
    next
      case 2
      have n: "nat (int nr - 1) < nr" using assms(2) unfolding nr_ok_def by linarith
      have "0 \<le> arr b ! nat (int nr - 1)" using digits_ok_nth d n l by simp
      moreover have "arr b = replicate nr 0" if "arr b ! nat (int nr - 1) = 0"
        using z that l 2 by (auto simp: zeros_above_def intro!: nth_equalityI) (metis diff_less_eq zless_add1_eq nat_int of_nat_less_iff add.commute diff_add_cancel)
      ultimately show ?thesis using True \<open>bi_lt_int nr b 0 = _\<close> 2 l n assms(2)
        by (auto simp: bi_lt_def bi_gt_def bi_eq_def nr_ok_def)
    next
      case 3
      with True \<open>bi_lt_int nr b 0 = _\<close> show ?thesis by (simp add: bi_lt_def bi_gt_def)
    qed
  qed
qed

text \<open>\<open>operator>\<close> compares lengths and leading digits only.\<close>

abbreviation top_digit :: "nat \<Rightarrow> bigint \<Rightarrow> int" where
  "top_digit nr b \<equiv> arr b ! nat (int nr - len b)"

lemma bi_gt_canon:
  assumes "bi_canon nr a" "bi_canon nr b" "nr_ok nr"
  shows "bi_gt nr a b = Inr ((isPositive a \<or> \<not> isPositive b) \<and>
    (len a > len b \<or> len a = len b \<and> top_digit nr a > top_digit nr b))"
  using assms by (auto simp: bi_gt_def bi_canon_def bi_wf_def)

lemma bi_gt_sound:
  assumes "bi_canon nr a" "bi_canon nr b" 
    and "len a > len b \<or> len a = len b \<and> top_digit nr a > top_digit nr b"
  shows "mag a > mag b"
proof -
  have wa: "bi_wf nr a" "1 \<le> len a" and wb: "bi_wf nr b" "1 \<le> len b" using assms by (auto simp: bi_canon_def)
  note ga = mag_ge_top [OF wa] and gb = mag_ge_top [OF wb]
  from assms(3) show ?thesis
  proof
    assume l: "len a > len b"
    have "nat (int nr - len a) < length (arr a)" using wa by (auto simp: bi_wf_def)
    then have "0 \<le> top_digit nr a" using digits_ok_nth wa by (auto simp: bi_wf_def)
    moreover have "top_digit nr a \<noteq> 0" using assms(1) l wb by (auto simp: bi_canon_def)
    ultimately have "1 \<le> top_digit nr a" by linarith
    then have "1 * 10 ^ nat (len a - 1) \<le> top_digit nr a * 10 ^ nat (len a - 1)"
      by (intro mult_right_mono) simp_all
    then have "10 ^ nat (len a - 1) \<le> mag a" using ga(1) by linarith
    moreover have "10 ^ nat (len b) \<le> (10 :: int) ^ nat (len a - 1)"
      using l wb by (intro power_increasing) auto
    ultimately show ?thesis using mag_lt_len [OF wb(1)] by linarith
  next
    assume e: "len a = len b \<and> top_digit nr a > top_digit nr b"
    then have "(top_digit nr b + 1) * 10 ^ nat (len b - 1) \<le> top_digit nr a * 10 ^ nat (len a - 1)"
      by (auto intro!: mult_right_mono)
    with ga(1) gb(2) show ?thesis by linarith
  qed
qed

lemma arr_eq_iff_mag: "bi_wf nr a \<Longrightarrow> bi_wf nr b \<Longrightarrow> arr a = arr b \<longleftrightarrow> mag a = mag b"
  unfolding mag_def bi_wf_def by (metis val_be_inj)

lemma bi_eq_iff: "bi_wf nr a \<Longrightarrow> bi_wf nr b \<Longrightarrow> bi_eq a b \<longleftrightarrow> isPositive a = isPositive b \<and> mag a = mag b"
  by (simp add: bi_eq_def arr_eq_iff_mag)

text \<open>
  The pairs the comparison gets wrong: different numbers of one length with one
  leading digit.
\<close>

definition blind :: "nat \<Rightarrow> bigint \<Rightarrow> bigint \<Rightarrow> bool" where
  "blind nr a b \<longleftrightarrow> len a = len b \<and> top_digit nr a = top_digit nr b \<and> mag a \<noteq> mag b"

lemma bi_lt_canon:
  assumes "bi_canon nr a" "bi_canon nr b" "nr_ok nr" "isPositive a" "isPositive b"
  shows "bi_lt nr a b = Inr (mag a < mag b \<or> blind nr a b)"
proof -
  let ?g = "\<lambda>a b. len a > len b \<or> len a = len b \<and> top_digit nr a > top_digit nr b"
  have wf: "bi_wf nr a" "bi_wf nr b" using assms by (auto simp: bi_canon_def)
  have eq: "bi_eq a b \<longleftrightarrow> mag a = mag b" using bi_eq_iff [OF wf] assms by simp
  have "(\<not> ?g a b \<and> mag a \<noteq> mag b) \<longleftrightarrow> (mag a < mag b \<or> blind nr a b)"
    using bi_gt_sound [OF assms(1,2)] bi_gt_sound [OF assms(2,1)]
    unfolding blind_def by (metis less_asym linorder_neqE_linordered_idom)
  then show ?thesis using assms by (simp add: bi_lt_def bi_gt_canon eq)
qed

lemma bi_add_pos:
  assumes "bi_wf nr a" "bi_wf nr b" "nr_ok nr" "isPositive a" "isPositive b"
  shows "bi_add nr (Suc fuel) a b = Some (add_digits nr a b)"
  using assms by simp

lemma bi_sub_pos:
  assumes "bi_canon nr a" "bi_canon nr b" "nr_ok nr" "isPositive a" "isPositive b"
  shows "bi_sub nr (Suc fuel) a b =
     (if mag a < mag b \<or> blind nr a b
      then obind (bi_sub nr fuel b a) (\<lambda>r. Some (Inr (shrink nr (r\<lparr>isPositive := False\<rparr>))))
      else obind (Some (sub_digits nr a b)) (\<lambda>r. Some (Inr (shrink nr r))))"
  using assms bi_lt_canon [OF assms]
  by (auto simp: bi_canon_def obind_def split: option.splits sum.splits)

lemma blind_sym: "blind nr a b \<longleftrightarrow> blind nr b a"
  by (auto simp: blind_def)

lemma bi_sub_blind_None:
  assumes "bi_canon nr a" "bi_canon nr b" "nr_ok nr" "isPositive a" "isPositive b" "blind nr a b"
  shows "bi_sub nr fuel a b = None"
  using assms
proof (induction fuel arbitrary: a b)
  case (Suc fuel)
  have "bi_sub nr fuel b a = None" using Suc by (intro Suc.IH) (auto simp: blind_def)
  then show ?case using bi_sub_pos [OF Suc.prems(1-5), of fuel] Suc.prems(6) by simp
qed simp

lemma bi_sub_ge:
  assumes "bi_canon nr a" "bi_canon nr b" "nr_ok nr" "isPositive a" "isPositive b"
    and "\<not> blind nr a b" "mag b \<le> mag a"
  shows "\<exists>r. bi_sub nr (Suc fuel) a b = Some (Inr r) \<and> bi_canon nr r \<and> isPositive r \<and> mag r = mag a - mag b"
  using bi_sub_pos [OF assms(1-5), of fuel] sub_digits_spec [of nr a b] assms
  by (auto simp: bi_canon_def)

section \<open>Signed addition and subtraction\<close>

lemma shrink_val [simp]: "mag (shrink nr r) = mag r" "isPositive (shrink nr r) = isPositive r"
  "arr (shrink nr r) = arr r" "bi_val (shrink nr r) = bi_val r"
  by (auto simp: shrink_def Let_def mag_def bi_val_def)

lemma set_sign_simps [simp]:
  "mag (a\<lparr>isPositive := p\<rparr>) = mag a" "bi_wf nr (a\<lparr>isPositive := p\<rparr>) = bi_wf nr a"
  "bi_canon nr (a\<lparr>isPositive := p\<rparr>) = bi_canon nr a"
  "blind nr (a\<lparr>isPositive := p\<rparr>) b = blind nr a b" "blind nr a (b\<lparr>isPositive := p\<rparr>) = blind nr a b"
  by (simp_all add: mag_def bi_wf_def bi_canon_def blind_def)

lemma set_sign_same: "isPositive a = p \<Longrightarrow> a\<lparr>isPositive := p\<rparr> = a"
  by simp

lemma canon_wf [intro]: "bi_canon nr a \<Longrightarrow> bi_wf nr a"
  by (simp add: bi_canon_def)

lemma add_pp:
  assumes "bi_wf nr a" "bi_wf nr b" "nr_ok nr" "isPositive a" "isPositive b" "mag a + mag b < 10 ^ nr"
  shows "\<exists>r. bi_add nr (Suc fuel) a b = Some (Inr r) \<and> isPositive r \<and> mag r = mag a + mag b"
  using add_digits_spec [OF assms(1-3)] bi_add_pos [OF assms(1-5), of fuel] assms(6)
  by (auto split: sum.splits)

lemma sub_pp:
  assumes "bi_canon nr a" "bi_canon nr b" "nr_ok nr" "isPositive a" "isPositive b" "\<not> blind nr a b"
  shows "\<exists>r. bi_sub nr (Suc (Suc fuel)) a b = Some (Inr r) \<and> bi_val r = mag a - mag b"
proof (cases "mag b \<le> mag a")
  case True
  with bi_sub_ge [OF assms(1-6)] show ?thesis by (metis bi_val_def)
next
  case False
  then obtain r where "bi_sub nr (Suc fuel) b a = Some (Inr r)" "isPositive r" "mag r = mag b - mag a"
    using bi_sub_ge [OF assms(2,1,3,5,4), of fuel] assms(6) by (auto simp: blind_sym)
  with False bi_sub_pos [OF assms(1-5), of "Suc fuel"] show ?thesis
    by (auto simp: bi_val_def simp del: bi_sub.simps)
qed

text \<open>A negative left operand and a non-negative right one: the negated sum.\<close>

lemma sub_np:
  assumes "bi_canon nr a" "bi_canon nr b" "nr_ok nr" "\<not> isPositive a" "isPositive b" "mag a + mag b < 10 ^ nr"
  shows "\<exists>r. bi_sub nr (Suc (Suc (Suc fuel))) a b = Some (Inr r) \<and> bi_val r = - (mag a + mag b)"
proof -
  let ?a = "a\<lparr>isPositive := True\<rparr>"
  have lt: "bi_lt nr a b = Inr True"
    using assms bi_eq_iff [of nr a b] by (auto simp: bi_lt_def bi_gt_canon canon_wf)
  obtain r where r: "bi_add nr (Suc fuel) b ?a = Some (Inr r)" "mag r = mag b + mag a"
    using add_pp [of nr b ?a fuel] assms by (auto simp: canon_wf add.commute)
  have "bi_sub nr (Suc (Suc fuel)) b a = Some (Inr (shrink nr r))"
    using r assms by (simp add: canon_wf)
  then have "bi_sub nr (Suc (Suc (Suc fuel))) a b = Some (Inr (shrink nr ((shrink nr r)\<lparr>isPositive := False\<rparr>)))"
    using lt assms by (simp add: canon_wf del: bi_add.simps)
  with r(2) show ?thesis by (auto simp: bi_val_def)
qed

lemma bi_sub_signed:
  assumes "bi_canon nr a" "bi_canon nr b" "nr_ok nr" "isPositive b"
    and "isPositive a \<Longrightarrow> \<not> blind nr a b" "\<not> isPositive a \<Longrightarrow> mag a + mag b < 10 ^ nr"
  shows "\<exists>r. bi_sub nr (Suc (Suc (Suc fuel))) a b = Some (Inr r) \<and> bi_val r = bi_val a - mag b"
proof (cases "isPositive a")
  case True
  then have "\<not> blind nr a b" by (rule assms(5))
  with sub_pp [OF assms(1-3) True assms(4), of "Suc fuel"] True show ?thesis by (auto simp: bi_val_def)
next
  case False
  with sub_np [OF assms(1-3) False assms(4), of fuel] assms(6) show ?thesis by (auto simp: bi_val_def)
qed

definition same_sign :: "bigint \<Rightarrow> bigint \<Rightarrow> bool" where
  "same_sign a b \<longleftrightarrow> isPositive a = isPositive b"

lemma bi_add_signed:
  assumes "bi_canon nr a" "bi_canon nr b" "nr_ok nr"
    and "same_sign a b \<Longrightarrow> mag a + mag b < 10 ^ nr" "\<not> same_sign a b \<Longrightarrow> \<not> blind nr a b"
  shows "\<exists>r. bi_add nr (Suc (Suc (Suc (Suc fuel)))) a b = Some (Inr r) \<and> bi_val r = bi_val a + bi_val b"
proof (cases "isPositive b")
  case False
  let ?b = "b\<lparr>isPositive := True\<rparr>"
  have "bi_add nr (Suc (Suc (Suc (Suc fuel)))) a b = bi_sub nr (Suc (Suc (Suc fuel))) a ?b"
    using assms False by (simp add: canon_wf del: bi_sub.simps)
  moreover obtain r where "bi_sub nr (Suc (Suc (Suc fuel))) a ?b = Some (Inr r)" "bi_val r = bi_val a - mag ?b"
    using bi_sub_signed [of nr a ?b fuel] assms False by (auto simp: same_sign_def)
  ultimately show ?thesis using False by (simp add: bi_val_def)
next
  case True
  show ?thesis
  proof (cases "isPositive a")
    case pa: True
    with True add_pp [of nr a b] assms show ?thesis by (auto simp: canon_wf bi_val_def same_sign_def simp del: bi_add.simps)
  next
    case False
    let ?a = "a\<lparr>isPositive := True\<rparr>"
    have "bi_add nr (Suc (Suc (Suc (Suc fuel)))) a b = bi_sub nr (Suc (Suc (Suc fuel))) b ?a"
      using assms False True by (simp add: canon_wf del: bi_sub.simps)
    moreover obtain r where "bi_sub nr (Suc (Suc (Suc fuel))) b ?a = Some (Inr r)" "bi_val r = mag b - mag ?a"
      using sub_pp [of nr b ?a "Suc fuel"] assms False True by (auto simp: blind_sym same_sign_def simp del: bi_sub.simps)
    ultimately show ?thesis using False True by (simp add: bi_val_def)
  qed
qed

text \<open>A second \<open>shrink\<close> damages the length of a number that fills more than half the array.\<close>

lemma shrink_canon_len:
  assumes "bi_canon nr r" "0 < mag r" "nr_ok nr"
  shows "len (shrink nr r) = (if int nr < 2 * len r then (if 2 * len r - int nr = 0 then 1 else 2 * len r - int nr) else len r)"
proof -
  let ?z = "length (takeWhile (\<lambda>d. d = 0) (arr r))" and ?n = "nat (int nr - len r)"
  have l: "length (arr r) = nr" and b: "1 \<le> len r" "len r \<le> int nr" using assms by (auto simp: bi_canon_def bi_wf_def)
  have nz: "arr r ! ?n \<noteq> 0"
  proof (cases "len r = 1")
    case True
    with mag_ge_top(2) [of nr r] digits_ok_nth [of "arr r" ?n] assms b show ?thesis
      by (auto simp: bi_canon_def)
  qed (use assms in \<open>auto simp: bi_canon_def\<close>)
  have "?n < nr" using b by auto
  have zs: "\<forall>i < ?n. arr r ! i = 0" using assms b by (auto simp: bi_canon_def bi_wf_def zeros_above_def)
  have "?z = ?n"
  proof (rule antisym)
    show "?z \<le> ?n"
      using nz l \<open>?n < nr\<close> by (metis (mono_tags, lifting) not_le nth_mem set_takeWhileD takeWhile_nth)
    show "?n \<le> ?z"
    proof (rule ccontr)
      assume "\<not> ?n \<le> ?z"
      then have "?z < ?n" by simp
      then have "arr r ! ?z = 0" using zs by simp
      moreover have "?z < length (arr r)" using \<open>?z < ?n\<close> \<open>?n < nr\<close> l by simp
      ultimately show False using nth_length_takeWhile [of "\<lambda>d. d = 0" "arr r"] by simp
    qed
  qed
  moreover have "?n \<noteq> nr" using \<open>?n < nr\<close> by simp
  ultimately show ?thesis using b assms(3) by (auto simp: shrink_def Let_def nr_ok_def)
qed

section \<open>Rows of the product\<close>

lemma mul_row_spec:
  assumes "length a = nr" "n \<le> nr" "nr < 32767" "digits_ok a" "0 \<le> d" "d < 10" "0 \<le> carry" "carry < 10"
    and "1 \<le> la" "la < int nr" "zeros_above nr a la"
    and "length (arr r) = nr" "digits_ok (arr r)" "len r = int nr - int n" "isPositive r"
    and "zeros_above nr (arr r) (len r)" "len r \<le> la \<or> len r = la + 1 \<and> carry = 0"
    and "val_be (drop n (arr r)) + carry * 10 ^ (nr - n) = d * val_be (drop n a)"
    and "len r = la + 1 \<longrightarrow> arr r ! n \<noteq> 0"
    and "len r = la \<longrightarrow> carry = 0 \<longrightarrow> d \<noteq> 0 \<longrightarrow> a ! n \<noteq> 0 \<longrightarrow> arr r ! n \<noteq> 0"
  shows "\<exists>r'. mul_row nr a la d n carry r = Inr r' \<and> bi_wf nr r' \<and> isPositive r' \<and> mag r' = d * val_be a
    \<and> la \<le> len r' \<and> len r' \<le> la + 1
    \<and> (d \<noteq> 0 \<longrightarrow> a ! nat (int nr - la) \<noteq> 0 \<longrightarrow> top_digit nr r' \<noteq> 0)"
  using assms
proof (induction n arbitrary: carry r)
  case 0
  then show ?case by (auto simp: bi_wf_def mag_def)
next
  case (Suc i)
  note ok = Suc.prems(4,13) and lens = Suc.prems(1,12)
  have i: "i < nr" using Suc.prems(2) by simp
  have x: "0 \<le> a ! i" "a ! i < 10" using digits_ok_nth [OF ok(1), of i] lens i by simp_all
  show ?case
  proof (cases "int i \<ge> int nr - la \<or> carry \<noteq> 0")
    case False
    have "val_be a = val_be (drop (Suc i) a)" "mag r = val_be (drop (Suc i) (arr r))"
      using val_be_zeros_above [of a la "Suc i"] val_be_zeros_above [of "arr r" "len r" "Suc i"]
        Suc.prems False i unfolding mag_def by auto
    then have m: "mag r = d * val_be a" using Suc.prems(18) False by simp
    have lr: "len r = la \<or> len r = la + 1" using Suc.prems(14,17) False by auto
    have wf: "bi_wf nr r" using Suc.prems by (auto simp: bi_wf_def)
    have n: "nat (int nr - len r) = Suc i" using Suc.prems(14) i by simp
    have "top_digit nr r \<noteq> 0" if "d \<noteq> 0" "a ! nat (int nr - la) \<noteq> 0"
      using lr n Suc.prems(19,20) False that by auto
    with False m lr wf Suc.prems(15) show ?thesis by auto
  next
    case True
    define dig where "dig = d * a ! i + carry"
    define q c where "q = dig mod 10" and "c = dig div 10"
    let ?r = "r\<lparr>arr := (arr r)[i := q], len := int nr - int i\<rparr>"
    have "d * a ! i \<le> 9 * 9" using x Suc.prems(5,6) by (intro mult_mono) auto
    then have dig: "0 \<le> dig" "dig \<le> 90" using x Suc.prems(5,7,8) by (auto simp: dig_def)
    then have q: "0 \<le> q" "q < 10" and c: "0 \<le> c" "c < 10" and qc: "q + 10 * c = dig"
      by (auto simp: q_def c_def)
    have to: "to_char (c_mod dig 10) = q" "c_div dig 10 = c"
      using dig q by (simp_all add: q_def c_def)
    have ln: "to_short (len r + 1) = int nr - int i" using Suc.prems(3,14) i by simp
    have step: "mul_row nr a la d (Suc i) carry r = mul_row nr a la d i c ?r"
      using True lens i by (simp add: dig_def [symmetric] to ln Let_def del: c_div_nonneg c_mod_nonneg)
    have dres: "drop i (arr ?r) = q # drop (Suc i) (arr r)"
      using drop_update_same [of i "arr r"] i lens by simp
    have pw: "10 ^ (nr - i) = 10 * (10 :: int) ^ (nr - Suc i)"
      using i by (metis Suc_diff_Suc power_Suc)
    have dlen: "length (drop (Suc i) (arr r)) = nr - Suc i" using lens by simp
    have val: "val_be (drop i (arr ?r)) + c * 10 ^ (nr - i) = d * val_be (drop i a)"
      using digit_step [of q c "d * a ! i" 0 carry "val_be (drop (Suc i) (arr r))"
          "10 ^ (nr - Suc i)" "d * val_be (drop (Suc i) a)" 0]
        dres dlen pw Suc.prems(18) lens i val_be_drop_Suc [of i a] qc
      by (simp add: distrib_left mult.assoc dig_def)
    have beyond: "int i < int nr - la \<Longrightarrow> a ! i = 0" using Suc.prems(11) i by (auto simp: zeros_above_def)
    have lr: "len r \<le> la" using Suc.prems(14,17) True i by auto
    have small: "c = 0" "q = carry" if "int i < int nr - la"
      using beyond [OF that] Suc.prems(7,8) by (simp_all add: q_def c_def dig_def)
    have lr': "len ?r \<le> la \<or> len ?r = la + 1 \<and> c = 0"
      using lr Suc.prems(14) small by auto
    have za: "zeros_above nr (arr ?r) (len ?r)"
      using Suc.prems(14,16) by (auto simp: zeros_above_def nth_list_update)
    have t1: "len ?r = la + 1 \<longrightarrow> arr ?r ! i \<noteq> 0"
      using small True lens i by auto
    have t2: "len ?r = la \<longrightarrow> c = 0 \<longrightarrow> d \<noteq> 0 \<longrightarrow> a ! i \<noteq> 0 \<longrightarrow> arr ?r ! i \<noteq> 0"
    proof (intro impI)
      assume "c = 0" "d \<noteq> 0" "a ! i \<noteq> 0"
      moreover have "0 < d * a ! i" using \<open>d \<noteq> 0\<close> \<open>a ! i \<noteq> 0\<close> x Suc.prems(5) by (intro mult_pos_pos) auto
      ultimately show "arr ?r ! i \<noteq> 0" using Suc.prems(7) lens i qc by (simp add: dig_def)
    qed
    have arr_r: "length (arr ?r) = nr" "digits_ok (arr ?r)" "len ?r = int nr - int i" "isPositive ?r"
      using lens q ok Suc.prems(15) by simp_all
    show ?thesis
      unfolding step
      by (rule Suc.IH [OF Suc.prems(1) less_imp_le [OF i] Suc.prems(3-6) c Suc.prems(9-11) arr_r za lr' val t1 t2])
  qed
qed

lemma arr_copy_spec:
  "0 \<le> dst \<Longrightarrow> dst \<le> src \<Longrightarrow> src + int n \<le> int (length a) \<Longrightarrow>
   \<exists>a'. arr_copy a dst src n = Inr a' \<and> length a' = length a
     \<and> (\<forall>j < length a. a' ! j = (if dst \<le> int j \<and> int j < dst + int n then a ! nat (int j + src - dst) else a ! j))"
proof (induction n arbitrary: a dst src)
  case (Suc n)
  let ?a = "a[nat dst := a ! nat src]"
  from Suc.IH [of "dst + 1" "src + 1" ?a] Suc.prems
  obtain a' where a': "arr_copy ?a (dst + 1) (src + 1) n = Inr a'" "length a' = length a"
    "\<forall>j < length a. a' ! j = (if dst + 1 \<le> int j \<and> int j < dst + 1 + int n
        then ?a ! nat (int j + (src + 1) - (dst + 1)) else ?a ! j)" by auto
  obtain k m where km: "dst = int k" "src = int m" using Suc.prems by (metis nonneg_int_cases order_trans)
  have "a' ! j = (if dst \<le> int j \<and> int j < dst + int (Suc n) then a ! nat (int j + src - dst) else a ! j)"
    if "j < length a" for j
    using a'(3) that Suc.prems unfolding km by (auto simp: nth_list_update algebra_simps)
  with a' Suc.prems show ?case by auto
qed auto

lemma arr_clear_spec:
  "0 \<le> dst \<Longrightarrow> dst + int n \<le> int (length a) \<Longrightarrow>
   \<exists>a'. arr_clear a dst n = Inr a' \<and> length a' = length a
     \<and> (\<forall>j < length a. a' ! j = (if dst \<le> int j \<and> int j < dst + int n then 0 else a ! j))"
proof (induction n arbitrary: a dst)
  case (Suc n)
  let ?a = "a[nat dst := 0]"
  from Suc.IH [of "dst + 1" ?a] Suc.prems
  obtain a' where a': "arr_clear ?a (dst + 1) n = Inr a'" "length a' = length a"
    "\<forall>j < length a. a' ! j = (if dst + 1 \<le> int j \<and> int j < dst + 1 + int n then 0 else ?a ! j)" by auto
  obtain k where k: "dst = int k" using Suc.prems by (metis nonneg_int_cases)
  have "a' ! j = (if dst \<le> int j \<and> int j < dst + int (Suc n) then 0 else a ! j)" if "j < length a" for j
    using a'(3) that Suc.prems unfolding k by (auto simp: nth_list_update)
  with a' Suc.prems show ?case by auto
qed auto

lemma appendZeros_spec:
  assumes "bi_wf nr b" "nr_ok nr" "0 \<le> count" "len b + count \<le> int nr"
  shows "\<exists>r. appendZeros nr b count = Inr r \<and> bi_wf nr r \<and> isPositive r = isPositive b
    \<and> mag r = mag b * 10 ^ nat count \<and> len r = len b + count \<and> (1 \<le> len b \<longrightarrow> top_digit nr b \<noteq> 0 \<longrightarrow> top_digit nr r \<noteq> 0)"
proof -
  let ?c = "nat count"
  have l: "length (arr b) = nr" and d: "digits_ok (arr b)" and le: "0 \<le> len b"
    and z: "zeros_above nr (arr b) (len b)" using assms by (auto simp: bi_wf_def)
  obtain a where a: "arr_copy (arr b) (int nr - len b - count) (int nr - len b) (nat (len b)) = Inr a"
    "length a = nr" "\<forall>j < nr. a ! j = (if int nr - len b - count \<le> int j \<and> int j < int nr - count
        then arr b ! nat (int j + count) else arr b ! j)"
    using arr_copy_spec [of "int nr - len b - count" "int nr - len b" "nat (len b)" "arr b"] assms l le
    by (auto simp: algebra_simps)
  obtain a' where a': "arr_clear a (int nr - count) ?c = Inr a'" "length a' = nr"
    "\<forall>j < nr. a' ! j = (if int nr - count \<le> int j \<and> int j < int nr - count + int ?c then 0 else a ! j)"
    using arr_clear_spec [of "int nr - count" ?c a] a(2) assms le by auto
  have cn: "?c \<le> nr" using assms le by auto
  have shape: "a' = drop ?c (arr b) @ replicate ?c 0"
  proof (rule nth_equalityI)
    show "length a' = length (drop ?c (arr b) @ replicate ?c 0)" using a'(2) l cn by simp
    fix j assume "j < length a'"
    then have j: "j < nr" using a' by simp
    have "arr b ! j = 0" "arr b ! (?c + j) = 0" if lt: "int j < int nr - len b - count"
    proof -
      have "int (?c + j) < int nr - len b" "?c + j < nr" using lt assms(3) le by auto
      then show "arr b ! j = 0" "arr b ! (?c + j) = 0"
        using z lt assms(3) j unfolding zeros_above_def by simp_all
    qed
    then show "a' ! j = (drop ?c (arr b) @ replicate ?c 0) ! j"
      using a(3) a'(3) j l cn assms(3) by (auto simp: nth_append nat_add_distrib algebra_simps)
  qed
  have "val_be (arr b) = val_be (drop ?c (arr b))"
    using val_be_zeros_above [of "arr b" "len b" ?c] z l cn assms by auto
  then have v: "val_be a' = mag b * 10 ^ ?c" unfolding shape by (simp add: val_be_append mag_def)
  have "digits_ok a'" unfolding shape using d by simp
  moreover have za: "zeros_above nr a' (len b + count)"
    unfolding shape using z l cn assms(3) by (auto simp: zeros_above_def nth_append)
  moreover have "to_short (len b + count) = len b + count" using assms le by (simp add: nr_ok_def)
  moreover have "1 \<le> len b \<longrightarrow> top_digit nr b \<noteq> 0 \<longrightarrow> a' ! nat (int nr - (len b + count)) \<noteq> 0"
  proof (intro impI)
    assume "1 \<le> len b" "top_digit nr b \<noteq> 0"
    moreover have "?c + nat (int nr - (len b + count)) = nat (int nr - len b)" using assms by auto
    ultimately show "a' ! nat (int nr - (len b + count)) \<noteq> 0"
      using assms l cn unfolding shape by (auto simp: nth_append)
  qed
  ultimately show ?thesis
    using a(1) a'(1,2) v assms le
    by (auto simp: appendZeros_def bi_wf_def bi_canon_def mag_def)
qed

section \<open>Multiplication\<close>

lemma mul_row_start:
  assumes "bi_wf nr a" "1 \<le> len a" "len a < int nr" "nr_ok nr" "0 \<le> d" "d < 10"
  shows "\<exists>r. mul_row nr (arr a) (len a) d nr 0 (bi_default nr) = Inr r \<and> bi_wf nr r \<and> isPositive r
    \<and> mag r = d * mag a \<and> len a \<le> len r \<and> len r \<le> len a + 1
    \<and> (d \<noteq> 0 \<longrightarrow> top_digit nr a \<noteq> 0 \<longrightarrow> top_digit nr r \<noteq> 0)"
  unfolding mag_def [of a]
  by (rule mul_row_spec) (use assms in \<open>auto simp: bi_wf_def nr_ok_def bi_default_def\<close>)

lemma mul_rows_spec:
  assumes "bi_wf nr a" "1 \<le> len a" "nr_ok nr" "length (arr b) = nr" "digits_ok (arr b)"
  shows "m \<le> nr \<Longrightarrow> len a + int m \<le> int nr \<Longrightarrow>
    \<exists>rs. mul_rows nr a b [int nr - int m..int nr - 1] (int m - 1) = Inr rs
      \<and> (\<forall>r \<in> set rs. bi_wf nr r \<and> isPositive r \<and> len r \<le> len a + int m)
      \<and> sum_list (map mag rs) = mag a * val_be (drop (nr - m) (arr b))
      \<and> (0 < m \<longrightarrow> rs \<noteq> [] \<and> len a + int m - 1 \<le> len (hd rs) \<and> (\<forall>r \<in> set (tl rs). len r \<le> len a + int m - 1)
          \<and> (arr b ! (nr - m) \<noteq> 0 \<longrightarrow> top_digit nr a \<noteq> 0 \<longrightarrow> top_digit nr (hd rs) \<noteq> 0))"
proof (induction m)
  case 0
  then show ?case using assms by simp
next
  case (Suc m)
  let ?i = "nr - Suc m"
  have im: "?i < nr" "Suc ?i = nr - m" "int nr - int (Suc m) = int ?i" using Suc.prems by auto
  let ?d = "arr b ! ?i"
  have d: "0 \<le> ?d" "?d < 10" using digits_ok_nth [of "arr b" ?i] assms im by auto
  obtain r where r: "mul_row nr (arr a) (len a) ?d nr 0 (bi_default nr) = Inr r" "bi_wf nr r" "isPositive r"
    "mag r = ?d * mag a" "len a \<le> len r" "len r \<le> len a + 1"
    "?d \<noteq> 0 \<longrightarrow> top_digit nr a \<noteq> 0 \<longrightarrow> top_digit nr r \<noteq> 0"
    using mul_row_start [of nr a ?d] assms d Suc.prems by auto
  obtain r' where r': "appendZeros nr r (int m) = Inr r'" "bi_wf nr r'" "isPositive r'"
    "mag r' = mag r * 10 ^ m" "len r' = len r + int m"
    "1 \<le> len r \<longrightarrow> top_digit nr r \<noteq> 0 \<longrightarrow> top_digit nr r' \<noteq> 0"
    using appendZeros_spec [of nr r "int m"] r assms Suc.prems by auto
  obtain rs where rs: "mul_rows nr a b [int nr - int m..int nr - 1] (int m - 1) = Inr rs"
    "\<forall>r \<in> set rs. bi_wf nr r \<and> isPositive r \<and> len r \<le> len a + int m"
    "sum_list (map mag rs) = mag a * val_be (drop (nr - m) (arr b))"
    using Suc by auto
  have upto: "[int nr - int (Suc m)..int nr - 1] = int ?i # [int nr - int m..int nr - 1]"
    using im Suc.prems by (subst upto.simps) auto
  have get: "aget OutOfBounds (arr b) (int ?i) = Inr ?d" using im assms by (simp del: of_nat_diff)
  have tz: "int (Suc m) - 1 = int m" by simp
  have run: "mul_rows nr a b [int nr - int (Suc m)..int nr - 1] (int (Suc m) - 1) = Inr (r' # rs)"
    unfolding upto mul_rows.simps get ebind_simps tz r(1) r'(1) rs(1) by (rule refl)
  have "val_be (drop ?i (arr b)) = ?d * 10 ^ m + val_be (drop (nr - m) (arr b))"
    using val_be_drop_Suc [of ?i "arr b"] assms im Suc.prems by simp
  then have sum: "sum_list (map mag (r' # rs)) = mag a * val_be (drop ?i (arr b))"
    using rs r' r by (simp add: algebra_simps)
  show ?case
    using run sum rs r r' assms by (intro exI [of _ "r' # rs"]) auto
qed

lemma sum_list_mag_nonneg: "\<forall>r \<in> set rs. bi_wf nr r \<Longrightarrow> 0 \<le> sum_list (map mag rs)"
  using mag_bounds by (induction rs) (auto intro!: add_nonneg_nonneg)

lemma sum_rows_spec:
  assumes "nr_ok nr"
  shows "bi_wf nr s \<Longrightarrow> isPositive s \<Longrightarrow> \<forall>r \<in> set rs. bi_wf nr r \<and> isPositive r \<Longrightarrow>
    mag s + sum_list (map mag rs) < 10 ^ nr \<Longrightarrow>
    \<exists>t. sum_rows nr (Suc fuel) s rs = Some (Inr t) \<and> bi_wf nr t \<and> isPositive t
      \<and> mag t = mag s + sum_list (map mag rs) \<and> len s \<le> len t
      \<and> (bi_canon nr s \<longrightarrow> (\<forall>r \<in> set rs. len r \<le> len s) \<longrightarrow> bi_canon nr t)"
proof (induction rs arbitrary: s)
  case (Cons r rs)
  have r: "bi_wf nr r" "isPositive r" using Cons.prems by auto
  have "0 \<le> sum_list (map mag rs)" using Cons.prems by (intro sum_list_mag_nonneg) auto
  then have lt: "mag s + mag r < 10 ^ nr" using Cons.prems by simp
  obtain u where u: "add_digits nr s r = Inr u" "mag u = mag s + mag r" "bi_wf nr u" "isPositive u"
    "len s \<le> len u" "bi_canon nr s \<and> len r \<le> len s \<longrightarrow> bi_canon nr u"
    using add_digits_spec [OF Cons.prems(1) r(1) assms] lt by (auto split: sum.splits)
  have add: "bi_add nr (Suc fuel) s r = Some (Inr u)"
    using bi_add_pos [OF Cons.prems(1) r(1) assms Cons.prems(2) r(2)] u by simp
  obtain t where t: "sum_rows nr (Suc fuel) u rs = Some (Inr t)" "bi_wf nr t" "isPositive t"
    "mag t = mag u + sum_list (map mag rs)" "len u \<le> len t"
    "bi_canon nr u \<longrightarrow> (\<forall>r \<in> set rs. len r \<le> len u) \<longrightarrow> bi_canon nr t"
    using Cons.IH [of u] u Cons.prems by auto
  have "\<forall>r \<in> set rs. len r \<le> len u" if "\<forall>r \<in> set rs. len r \<le> len s" using that u(5) by fastforce
  with add t u show ?case by (simp del: bi_add.simps)
qed simp

lemma canon_top: "bi_canon nr a \<Longrightarrow> mag a \<noteq> 0 \<Longrightarrow> top_digit nr a \<noteq> 0"
proof
  assume c: "bi_canon nr a" and m: "mag a \<noteq> 0" and t: "top_digit nr a = 0"
  then have "len a = 1" by (auto simp: bi_canon_def)
  with mag_ge_top(2) [of nr a] mag_bounds [of nr a] c m t show False by (auto simp: bi_canon_def)
qed

lemma bi_mul_spec:
  assumes "bi_wf nr a" "bi_wf nr b" "nr_ok nr" "1 \<le> len a" "1 \<le> len b" "len a + len b \<le> int nr"
  shows "\<exists>r. bi_mul nr (Suc fuel) a b = Some (Inr r) \<and> bi_wf nr r \<and> mag r = mag a * mag b
    \<and> (isPositive r \<longleftrightarrow> isPositive a \<and> isPositive b)
    \<and> (bi_canon nr a \<longrightarrow> bi_canon nr b \<longrightarrow> 0 < mag a \<longrightarrow> 0 < mag b \<longrightarrow> bi_canon nr r)"
proof -
  let ?m = "nat (len b)"
  have l: "length (arr b) = nr" "digits_ok (arr b)" "zeros_above nr (arr b) (len b)" "int ?m = len b"
    using assms by (auto simp: bi_wf_def)
  have m: "?m \<le> nr" "0 < ?m" using assms by auto
  obtain rs where rs: "mul_rows nr a b [int nr - int ?m..int nr - 1] (int ?m - 1) = Inr rs"
    "\<forall>r \<in> set rs. bi_wf nr r \<and> isPositive r"
    "sum_list (map mag rs) = mag a * val_be (drop (nr - ?m) (arr b))"
    "rs \<noteq> []" "len a + int ?m - 1 \<le> len (hd rs)" "\<forall>r \<in> set (tl rs). len r \<le> len a + int ?m - 1"
    "arr b ! (nr - ?m) \<noteq> 0 \<longrightarrow> top_digit nr a \<noteq> 0 \<longrightarrow> top_digit nr (hd rs) \<noteq> 0"
    using mul_rows_spec [OF assms(1,4,3) l(1,2), of ?m] assms m l(4) by auto
  have "val_be (drop (nr - ?m) (arr b)) = mag b"
    using val_be_zeros_above [of "arr b" "len b" "nr - ?m"] l m by (auto simp: mag_def of_nat_diff)
  then have sum: "sum_list (map mag rs) = mag a * mag b" using rs by simp
  have nn: "0 \<le> mag a" "0 \<le> mag b" using mag_bounds assms by auto
  have "mag a * mag b < 10 ^ nat (len a) * 10 ^ nat (len b)"
    using mag_lt_len assms nn by (intro mult_strict_mono) auto
  also have "\<dots> = 10 ^ (nat (len a) + nat (len b))" by (simp add: power_add)
  also have "\<dots> \<le> (10 :: int) ^ nr" using assms by (intro power_increasing) auto
  finally have bound: "sum_list (map mag rs) < 10 ^ nr" using sum by simp
  obtain r rs' where rr: "rs = r # rs'" using rs(4) by (cases rs) auto
  have r: "bi_wf nr r" "isPositive r" and rs'0: "\<forall>r \<in> set rs'. bi_wf nr r \<and> isPositive r" using rs(2) rr by auto
  have "0 \<le> sum_list (map mag rs')" using rs'0 by (intro sum_list_mag_nonneg) auto
  then have mr: "mag r < 10 ^ nr" using bound rr by simp
  have d0: "mag (bi_default nr) = 0" "isPositive (bi_default nr)" "len (bi_default nr) = 0"
    by (simp_all add: mag_def bi_default_def)
  obtain u where u: "add_digits nr (bi_default nr) r = Inr u" "mag u = mag r" "bi_wf nr u" "isPositive u"
    "len r \<le> len u" "bi_canon nr r \<longrightarrow> bi_canon nr u"
    using add_digits_spec [OF bi_wf_default r(1) assms(3)] mr d0 r(1)
    by (auto split: sum.splits simp: bi_canon_def)
  have add: "bi_add nr (Suc fuel) (bi_default nr) r = Some (Inr u)"
    using bi_add_pos [OF bi_wf_default r(1) assms(3) d0(2) r(2)] u by simp
  obtain t where t: "sum_rows nr (Suc fuel) u rs' = Some (Inr t)" "bi_wf nr t"
    "mag t = mag u + sum_list (map mag rs')"
    "bi_canon nr u \<longrightarrow> (\<forall>r \<in> set rs'. len r \<le> len u) \<longrightarrow> bi_canon nr t"
    using sum_rows_spec [OF assms(3) u(3,4) rs'0, of fuel] u bound rr by auto
  have canon: "bi_canon nr t" if "bi_canon nr a" "bi_canon nr b" "0 < mag a" "0 < mag b"
  proof -
    have "nr - ?m = nat (int nr - len b)" using m by auto
    then have "top_digit nr r \<noteq> 0"
      using rs(7) rr canon_top [of nr a] canon_top [of nr b] that by simp
    moreover have "1 \<le> len r" using rs(5) rr assms by simp
    ultimately have "bi_canon nr r" using r by (simp add: bi_canon_def)
    moreover have "\<forall>r' \<in> set rs'. len r' \<le> len u" using rs(5,6) rr u(5) by fastforce
    ultimately show ?thesis using u(6) t(4) by blast
  qed
  have "bi_mul nr (Suc fuel) a b = Some (Inr (t\<lparr>isPositive := isPositive a \<and> isPositive b\<rparr>))"
    using rs(1) rr add t assms l by (simp add: bi_mul_def used_indices_def del: bi_add.simps)
  moreover have "mag t = mag a * mag b" using t(3) u(2) sum rr by simp
  ultimately show ?thesis using t(2) canon by (auto simp: bi_wf_def mag_def bi_canon_def)
qed

section \<open>Factorial and decimal strings\<close>

lemma bi_of_int_1: "nr_ok nr \<Longrightarrow> bi_of_int nr 1 = Inr (bi_unit nr 1 True)"
  by (rule bi_of_int_digit) simp_all

lemma not_blind_unit:
  assumes "bi_canon nr b" "nr_ok nr"
  shows "\<not> blind nr b (bi_unit nr 1 p)"
proof
  assume bl: "blind nr b (bi_unit nr 1 p)"
  then have "len b = 1" "arr b ! nat (int nr - 1) = arr (bi_unit nr 1 p) ! nat (int nr - 1)"
    by (auto simp: blind_def bi_unit_def)
  moreover have "nat (int nr - 1) = nr - 1" using assms(2) by (simp add: nr_ok_def)
  ultimately have l1: "len b = 1" and t1: "arr b ! nat (int nr - 1) = 1"
    using assms(2) by (auto simp: bi_unit_def nr_ok_def)
  have "bi_wf nr b" using assms(1) by (simp add: bi_canon_def)
  with mag_ge_top [of nr b] l1 t1 have "mag b = 1" by simp
  with bl assms(2) show False by (simp add: blind_def)
qed

lemma canon_len_le:
  assumes "bi_canon nr b" "0 < mag b" "nr_ok nr"
  shows "10 ^ nat (len b - 1) \<le> mag b"
proof -
  have wf: "bi_wf nr b" "1 \<le> len b" using assms by (auto simp: bi_canon_def)
  have "top_digit nr b \<noteq> 0" using canon_top assms by simp
  moreover have "0 \<le> top_digit nr b"
    using digits_ok_nth [of "arr b" "nat (int nr - len b)"] wf by (auto simp: bi_wf_def)
  ultimately have "1 * 10 ^ nat (len b - 1) \<le> top_digit nr b * 10 ^ nat (len b - 1)"
    by (intro mult_right_mono) auto
  with mag_ge_top(1) [OF wf] show ?thesis by linarith
qed

lemma product_fits:
  assumes "bi_canon nr a" "bi_canon nr b" "0 < mag a" "0 < mag b" "nr_ok nr" "mag a * mag b < 10 ^ (nr - 1)"
  shows "len a + len b \<le> int nr"
proof -
  have b: "1 \<le> len a" "1 \<le> len b" using assms by (auto simp: bi_canon_def)
  have "(10 :: int) ^ (nat (len a - 1) + nat (len b - 1)) = 10 ^ nat (len a - 1) * 10 ^ nat (len b - 1)"
    by (simp add: power_add)
  also have "\<dots> \<le> mag a * mag b"
    using canon_len_le assms by (intro mult_mono) auto
  also have "\<dots> < 10 ^ (nr - 1)" by (rule assms)
  finally have "nat (len a - 1) + nat (len b - 1) < nr - 1"
    by (rule power_less_imp_less_exp [rotated]) simp
  with b show ?thesis by linarith
qed

lemma fact_bi_spec:
  assumes "nr_ok nr"
  shows "bi_canon nr b \<Longrightarrow> isPositive b \<Longrightarrow> mag b = int n \<Longrightarrow> 0 < n \<Longrightarrow> fact n < (10 :: int) ^ (nr - 1) \<Longrightarrow>
    \<exists>r. fact_bi nr (n + Suc fuel) b = Some (Inr r) \<and> bi_canon nr r \<and> isPositive r \<and> mag r = fact n"
proof (induction n arbitrary: b)
  case (Suc n)
  let ?one = "bi_unit nr 1 True"
  have one: "bi_canon nr ?one" "mag ?one = 1" "isPositive ?one"
    using assms bi_unit_canon [of 1 nr True] by (simp_all add: bi_unit_def [of nr 1 True, THEN arg_cong [of _ _ isPositive]])
  have eq: "bi_eq b ?one \<longleftrightarrow> n = 0" using bi_eq_iff [of nr b ?one] Suc.prems one by (auto simp: canon_wf)
  show ?case
  proof (cases "n = 0")
    case True
    with eq one assms show ?thesis by (simp add: bi_of_int_1)
  next
    case False
    obtain p where p: "bi_sub nr (Suc (n + fuel)) b ?one = Some (Inr p)" "bi_canon nr p" "isPositive p" "mag p = int n"
      using bi_sub_ge [OF Suc.prems(1) one(1) assms Suc.prems(2) one(3) not_blind_unit [OF Suc.prems(1) assms],
          where fuel = "n + fuel"] Suc.prems(3) one(2) by auto
    have "fact n \<le> (fact (Suc n) :: int)" by (rule fact_mono) simp
    then have "fact n < (10 :: int) ^ (nr - 1)" using Suc.prems(5) by linarith
    then obtain q where q: "fact_bi nr (n + Suc fuel) p = Some (Inr q)" "bi_canon nr q" "isPositive q" "mag q = fact n"
      using Suc.IH [OF p(2,3,4)] False by auto
    have fits: "len b + len q \<le> int nr"
      using product_fits [of nr b q] Suc.prems q assms by (simp add: algebra_simps)
    obtain r where "bi_mul nr (Suc (n + fuel)) b q = Some (Inr r)" "bi_wf nr r" "mag r = mag b * mag q"
      "isPositive r \<longleftrightarrow> isPositive b \<and> isPositive q" "bi_canon nr r"
      using bi_mul_spec [of nr b q "n + fuel"] Suc.prems q assms fits by (auto simp: bi_canon_def)
    with p q eq False Suc.prems assms show ?thesis
      by (simp add: bi_of_int_1 algebra_simps del: bi_sub.simps)
  qed
qed simp

definition is_digit :: "char \<Rightarrow> bool" where
  "is_digit c \<longleftrightarrow> 48 \<le> (of_char c :: nat) \<and> (of_char c :: nat) \<le> 57"

definition digit_of :: "char \<Rightarrow> int" where
  "digit_of c = int (of_char c) - 48"

lemma char_val_digit: "48 \<le> char_val c \<and> char_val c \<le> 57 \<longleftrightarrow> is_digit c"
proof -
  define n :: nat where "n = of_char c"
  have "n < 256" by (simp add: n_def)
  then have "48 \<le> (int n + 128) mod 256 - 128 \<and> (int n + 128) mod 256 - 128 \<le> 57 \<longleftrightarrow> 48 \<le> n \<and> n \<le> 57"
  proof (cases "n < 128")
    case False
    then have "(int n + 128) mod 256 = int n - 128"
      using mod_add_self2 [of "int n - 128" 256] \<open>n < 256\<close> by (simp add: add.commute)
    with False \<open>n < 256\<close> show ?thesis by simp
  qed simp
  then show ?thesis by (simp add: is_digit_def char_val_def to_char_def to_signed_def n_def)
qed

lemma char_val_digit_of: "is_digit c \<Longrightarrow> char_val c - 48 = digit_of c"
  by (simp add: is_digit_def char_val_def digit_of_def)

lemma digit_of_range: "is_digit c \<Longrightarrow> 0 \<le> digit_of c \<and> digit_of c < 10"
  by (auto simp: is_digit_def digit_of_def)

lemma bi_digits_loop_spec:
  "i \<le> length s \<Longrightarrow> int i \<le> j + 1 \<Longrightarrow> j < int (length a) \<Longrightarrow>
   bi_digits_loop s i j a =
     (if \<forall>c \<in> set (take i s). is_digit c
      then Inr (take (nat (j + 1) - i) a @ map digit_of (take i s) @ drop (nat (j + 1)) a)
      else Inl (BigIntegerEx ''Invalid digit encountered in number''))"
proof (induction i arbitrary: j a)
  case (Suc i)
  have j: "0 \<le> j" and i: "i < length s" using Suc.prems by auto
  have tk: "take (Suc i) s = take i s @ [s ! i]" using i by (simp add: take_Suc_conv_app_nth)
  show ?case
  proof (cases "is_digit (s ! i)")
    case True
    let ?a = "a[nat j := digit_of (s ! i)]"
    have step: "bi_digits_loop s (Suc i) j a = bi_digits_loop s i (j - 1) ?a"
      using True j Suc.prems by (simp add: char_val_digit char_val_digit_of)
    have d: "drop (nat j) ?a = digit_of (s ! i) # drop (nat (j + 1)) a"
      using drop_update_same [of "nat j" a] j Suc.prems by (simp add: nat_add_distrib)
    have t: "take (nat j - i) ?a = take (nat (j + 1) - Suc i) a"
      using j by (simp add: nat_add_distrib)
    have "bi_digits_loop s i (j - 1) ?a =
      (if \<forall>c \<in> set (take i s). is_digit c
       then Inr (take (nat j - i) ?a @ map digit_of (take i s) @ drop (nat j) ?a)
       else Inl (BigIntegerEx ''Invalid digit encountered in number''))"
      using Suc.IH [of "j - 1" ?a] Suc.prems by simp
    then show ?thesis unfolding step tk using True d t by auto
  next
    case False
    then show ?thesis by (simp add: char_val_digit tk)
  qed
qed simp

definition decimal :: "string \<Rightarrow> int" where
  "decimal s = val_be (map digit_of s)"

lemma bi_of_string_spec:
  assumes "nr_ok nr"
  shows "bi_of_string nr s base =
     (if nr < length s then Inl (BigIntegerEx ''Number too large'')
      else if base \<noteq> 10 then Inl (BigIntegerEx ''Base not supported'')
      else if \<forall>c \<in> set s. is_digit c
      then Inr \<lparr>arr = replicate (nr - length s) 0 @ map digit_of s, len = int (length s), isPositive = True\<rparr>
      else Inl (BigIntegerEx ''Invalid digit encountered in number''))"
proof -
  have pos: "\<forall>c \<in> set s. is_digit c \<Longrightarrow> \<not> (s \<noteq> [] \<and> hd s = CHR ''-'')"
    by (cases s) (auto simp: is_digit_def)
  show ?thesis
    using assms bi_digits_loop_spec [of "length s" s "int nr - 1" "replicate nr 0"] pos
    by (auto simp: bi_of_string_def nr_ok_def Let_def)
qed

lemma show_nat_digit: "n < 10 \<Longrightarrow> show_nat n = [char_of (48 + n)]"
  by (simp add: show_nat.simps)

lemma show_digit_of:
  assumes "is_digit c"
  shows "show_nat (nat (digit_of c)) = [c]"
proof -
  have "(of_char c :: nat) - 48 < 10" "48 + ((of_char c :: nat) - 48) = of_char c"
    using assms by (auto simp: is_digit_def)
  moreover have "nat (digit_of c) = of_char c - 48"
    using assms by (simp add: digit_of_def is_digit_def nat_diff_distrib)
  ultimately show ?thesis using show_nat_digit [of "of_char c - 48"] by (simp only: char_of_char)
qed

lemma out_loop_digits:
  "\<forall>d \<in> set ds. 0 \<le> d \<Longrightarrow>
   out_loop f (pre @ ds) [int (length pre)..int (length pre + length ds) - 1] = Inr (concat (map f ds))"
proof (induction ds arbitrary: pre)
  case (Cons d ds)
  have "[int (length pre)..int (length pre + length (d # ds)) - 1]
      = int (length pre) # [int (length (pre @ [d]))..int (length (pre @ [d]) + length ds) - 1]"
    by (subst upto.simps) (auto simp: add.commute)
  then show ?case using Cons.IH [of "pre @ [d]"] Cons.prems by (simp add: ac_simps)
qed simp

lemma concat_map_show: "\<forall>c \<in> set s. is_digit c \<Longrightarrow> concat (map (\<lambda>d. show_nat (nat d)) (map digit_of s)) = s"
  by (induction s) (simp_all add: show_digit_of)

lemma bi_out_of_string:
  assumes "nr_ok nr" "length s \<le> nr" "\<forall>c \<in> set s. is_digit c"
  shows "bi_of_string nr s 10 = Inr b \<Longrightarrow> bi_out nr b = Inr s"
  using assms bi_of_string_spec [OF assms(1), of s 10]
    out_loop_digits [of "map digit_of s" "\<lambda>d. show_nat (nat d)" "replicate (nr - length s) 0"]
    digit_of_range concat_map_show [OF assms(3)]
  by (auto simp: bi_out_def used_indices_def)

section \<open>Construction from an int, and the remaining cases of subtraction\<close>

lemma val_be_update:
  "n < length a \<Longrightarrow> val_be (a[n := d]) = val_be a + (d - a ! n) * 10 ^ (length a - Suc n)"
proof (induction a arbitrary: n)
  case (Cons x xs)
  then show ?case by (cases n) (simp_all add: algebra_simps)
qed simp

lemma bi_int_loop_spec:
  assumes "nr < 32767"
  shows "v < 10 ^ k \<Longrightarrow> 0 < k \<Longrightarrow> l + k \<le> nr \<Longrightarrow> length a = nr \<Longrightarrow> digits_ok a \<Longrightarrow> zeros_above nr a (int l) \<Longrightarrow>
    \<exists>a' l'. bi_int_loop nr v (int nr - 1 - int l) (int l) a = Inr (a', int l') \<and> length a' = nr \<and> digits_ok a'
      \<and> zeros_above nr a' (int l') \<and> l < l' \<and> l' \<le> l + k \<and> val_be a' = val_be a + int v * 10 ^ l
      \<and> (v = 0 \<and> l' = Suc l \<or> a' ! (nr - l') \<noteq> 0)"
proof (induction k arbitrary: v l a)
  case (Suc k)
  let ?n = "nr - Suc l"
  let ?a = "a[?n := int (v mod 10)]"
  have n: "?n < nr" "nat (int nr - 1 - int l) = ?n" using Suc.prems by auto
  have a0: "a ! ?n = 0" using Suc.prems n by (auto simp: zeros_above_def)
  have e: "nr - Suc ?n = l" using Suc.prems by simp
  have va: "val_be ?a = val_be a + int (v mod 10) * 10 ^ l"
    using val_be_update [of ?n a "int (v mod 10)"] n a0 Suc.prems e by simp
  have ok: "length ?a = nr" "digits_ok ?a" "zeros_above nr ?a (int (Suc l))"
    using Suc.prems n by (auto simp: zeros_above_def nth_list_update)
  have put: "aput OutOfBounds a (int nr - 1 - int l) (to_char (int (v mod 10))) = Inr ?a"
  proof -
    have "to_char (int (v mod 10)) = int (v mod 10)" by simp
    then show ?thesis using n Suc.prems by (simp del: of_nat_mod)
  qed
  have sh: "to_short (int l + 1) = int (Suc l)" using Suc.prems assms by simp
  have step: "bi_int_loop nr v (int nr - 1 - int l) (int l) a =
    (if v div 10 \<noteq> 0 then bi_int_loop nr (v div 10) (int nr - 1 - int (Suc l)) (int (Suc l)) ?a
     else Inr (?a, int (Suc l)))"
  proof -
    have "int nr - 1 - int l - 1 = int nr - 1 - int (Suc l)" "\<not> int nr < int l" "int (Suc l) \<noteq> 0"
      using Suc.prems by auto
    then show ?thesis by (subst bi_int_loop.simps) (simp only: put sh ebind_simps Let_def if_False simp_thms)
  qed
  have dm: "int v = int (v mod 10) + 10 * int (v div 10)"
    by (metis mod_mult_div_eq of_nat_add of_nat_mult of_nat_numeral)
  show ?case
  proof (cases "v div 10 = 0")
    case True
    then have vm: "v mod 10 = v" by (metis div_eq_0_iff mod_less mod_by_0)
    have top: "?a ! ?n = int v" using n Suc.prems vm by simp
    show ?thesis
      using step ok va top True Suc.prems(3) unfolding vm by (intro exI [of _ ?a] exI [of _ "Suc l"]) auto
  next
    case False
    have "v div 10 < 10 ^ k" using Suc.prems(1) by (simp add: less_mult_imp_div_less mult.commute)
    moreover have "0 < k" using False \<open>v div 10 < 10 ^ k\<close> by (cases k) auto
    ultimately obtain a' l' where "bi_int_loop nr (v div 10) (int nr - 1 - int (Suc l)) (int (Suc l)) ?a = Inr (a', int l')"
      "length a' = nr" "digits_ok a'" "zeros_above nr a' (int l')" "Suc l < l'" "l' \<le> Suc l + k"
      "val_be a' = val_be ?a + int (v div 10) * 10 ^ Suc l" "a' ! (nr - l') \<noteq> 0"
      using Suc.IH [of "v div 10" "Suc l" ?a] Suc.prems ok False by auto
    moreover have "val_be ?a + int (v div 10) * 10 ^ Suc l = val_be a + int v * 10 ^ l"
      unfolding va by (subst dm) (simp add: algebra_simps)
    ultimately show ?thesis using step False by auto
  qed
qed simp

lemma bi_of_int_spec:
  assumes "nr_ok nr" "10 \<le> nr" "in_int v" "in_int (- v)"
  shows "\<exists>b. bi_of_int nr v = Inr b \<and> bi_canon nr b \<and> bi_val b = v"
proof -
  have "nat \<bar>v\<bar> < 10 ^ 10" using assms by (auto simp: in_int_def)
  then obtain a l where "bi_int_loop nr (nat \<bar>v\<bar>) (int nr - 1) 0 (replicate nr 0) = Inr (a, int l)"
    "length a = nr" "digits_ok a" "zeros_above nr a (int l)" "0 < l" "l \<le> 10"
    "val_be a = int (nat \<bar>v\<bar>)" "nat \<bar>v\<bar> = 0 \<and> l = 1 \<or> a ! (nr - l) \<noteq> 0"
    using bi_int_loop_spec [of nr "nat \<bar>v\<bar>" 10 0 "replicate nr 0"] assms by (auto simp: nr_ok_def)
  then show ?thesis
    using assms by (auto simp: bi_of_int_def bi_canon_def bi_wf_def bi_val_def mag_def nat_diff_distrib)
qed

lemma bi_sub_value_lemma:
  assumes "bi_canon nr a" "bi_canon nr b" "nr_ok nr"
    and "same_sign a b \<Longrightarrow> \<not> blind nr a b" "\<not> same_sign a b \<Longrightarrow> mag a + mag b < 10 ^ nr"
  shows "\<exists>r. bi_sub nr (Suc (Suc (Suc (Suc (Suc fuel))))) a b = Some (Inr r) \<and> bi_val r = bi_val a - bi_val b"
proof (cases "isPositive b")
  case True
  have "\<exists>r. bi_sub nr (Suc (Suc (Suc (Suc (Suc fuel))))) a b = Some (Inr r) \<and> bi_val r = bi_val a - mag b"
    by (rule bi_sub_signed) (use assms True in \<open>auto simp: same_sign_def\<close>)
  with True show ?thesis by (simp add: bi_val_def)
next
  case False
  let ?b = "b\<lparr>isPositive := True\<rparr>"
  obtain r where r: "bi_add nr (Suc (Suc (Suc (Suc fuel)))) a ?b = Some (Inr r)" "bi_val r = bi_val a + bi_val ?b"
    using bi_add_signed [of nr a ?b fuel] assms False by (auto simp: same_sign_def)
  have "bi_sub nr (Suc (Suc (Suc (Suc (Suc fuel))))) a b = Some (Inr (shrink nr r))"
    using r(1) False assms by (simp add: canon_wf del: bi_add.simps)
  moreover have "bi_val ?b = mag b" "bi_val b = - mag b" using False by (simp_all add: bi_val_def)
  ultimately show ?thesis using r(2) by (intro exI [of _ "shrink nr r"]) simp
qed

lemma bi_sub_negative_spec:
  assumes "bi_canon nr a" "bi_canon nr b" "nr_ok nr" "isPositive a" "isPositive b" "\<not> blind nr a b" "mag a < mag b"
  shows "\<exists>q. bi_canon nr q \<and> mag q = mag b - mag a \<and>
    bi_sub nr (Suc (Suc fuel)) a b = Some (Inr (shrink nr (q\<lparr>isPositive := False\<rparr>)))"
proof -
  obtain q where "bi_sub nr (Suc fuel) b a = Some (Inr q)" "bi_canon nr q" "mag q = mag b - mag a"
    using bi_sub_ge [OF assms(2,1,3,5,4), of fuel] assms(6,7) by (auto simp: blind_sym)
  with bi_sub_pos [OF assms(1-5), of "Suc fuel"] assms(7) show ?thesis by auto
qed

lemma canon_len_unique:
  assumes "bi_canon nr q" "nr_ok nr" "10 ^ (L - 1) \<le> mag q" "mag q < 10 ^ L" "0 < L"
  shows "len q = int L"
proof -
  have q: "bi_wf nr q" "1 \<le> len q" using assms by (auto simp: bi_canon_def)
  have pos: "0 < mag q" using assms(3) by (meson less_le_trans zero_less_numeral zero_less_power)
  have "(10 :: int) ^ nat (len q - 1) < 10 ^ L" using canon_len_le [OF assms(1) pos assms(2)] assms(4) by linarith
  then have 1: "nat (len q - 1) < L" by (rule power_less_imp_less_exp [rotated]) simp
  have "(10 :: int) ^ (L - 1) < 10 ^ nat (len q)" using mag_lt_len [OF q(1)] assms(3) by linarith
  then have 2: "L - 1 < nat (len q)" by (rule power_less_imp_less_exp [rotated]) simp
  from 1 2 q(2) assms(5) show ?thesis by linarith
qed

section \<open>Numbers written as digit lists\<close>

definition bi_mk :: "nat \<Rightarrow> int list \<Rightarrow> bool \<Rightarrow> bigint" where
  "bi_mk nr ds p = \<lparr>arr = replicate (nr - length ds) 0 @ ds, len = int (length ds), isPositive = p\<rparr>"

lemma bi_mk_top: "ds \<noteq> [] \<Longrightarrow> length ds \<le> nr \<Longrightarrow> top_digit nr (bi_mk nr ds p) = hd ds"
  by (simp add: bi_mk_def nth_append hd_conv_nth nat_diff_distrib)

lemma bi_mk_mag [simp]: "mag (bi_mk nr ds p) = val_be ds"
  by (simp add: bi_mk_def mag_def val_be_append)

lemma bi_mk_simps [simp]:
  "isPositive (bi_mk nr ds p) = p" "len (bi_mk nr ds p) = int (length ds)"
  "bi_val (bi_mk nr ds p) = (if p then val_be ds else - val_be ds)"
  by (simp_all add: bi_mk_def bi_val_def mag_def val_be_append)

lemma bi_mk_canon:
  "ds \<noteq> [] \<Longrightarrow> length ds \<le> nr \<Longrightarrow> digits_ok ds \<Longrightarrow> length ds = 1 \<or> hd ds \<noteq> 0 \<Longrightarrow> bi_canon nr (bi_mk nr ds p)"
  using bi_mk_top [of ds nr p]
  by (auto simp: bi_canon_def bi_wf_def zeros_above_def bi_mk_def nth_append Suc_le_eq)

lemma bi_mk_blind:
  "ds \<noteq> [] \<Longrightarrow> es \<noteq> [] \<Longrightarrow> length ds \<le> nr \<Longrightarrow> length es \<le> nr \<Longrightarrow>
   blind nr (bi_mk nr ds p) (bi_mk nr es q) \<longleftrightarrow> length ds = length es \<and> hd ds = hd es \<and> val_be ds \<noteq> val_be es"
  using bi_mk_top [of ds nr p] bi_mk_top [of es nr q] by (simp add: blind_def)

lemma nr_ok_numeral [simp]: "nr_ok (numeral k) \<longleftrightarrow> (numeral k :: nat) < 32767"
  by (simp add: nr_ok_def)

section \<open>Properties\<close>

text \<open>
  C36: \<open>operator+\<close> on two well-formed signed numbers returns their sum, whatever their
  signs, when the sum fits the array and, for numbers of different signs, when the
  comparison inside the subtraction can tell their magnitudes apart. The calls nest
  four deep at most, so fuel 4 is enough.
\<close>

theorem bi_add_value:
  assumes "nr_ok nr" "bi_canon nr a" "bi_canon nr b" "4 \<le> fuel"
    and "same_sign a b \<Longrightarrow> mag a + mag b < 10 ^ nr" "\<not> same_sign a b \<Longrightarrow> \<not> blind nr a b"
  shows "\<exists>r. bi_add nr fuel a b = Some (Inr r) \<and> bi_val r = bi_val a + bi_val b"
proof -
  obtain f where "fuel = 4 + f" using assms(4) by (metis le_Suc_ex)
  then have "fuel = Suc (Suc (Suc (Suc f)))" by simp
  with bi_add_signed [OF assms(2,3,1,5,6), of f] show ?thesis by (simp del: bi_add.simps)
qed

theorem bi_add_value_witness:
  "\<exists>r. bi_add 6 4 (bi_mk 6 [1, 2] True) (bi_mk 6 [3, 4] False) = Some (Inr r) \<and> bi_val r = -22"
proof -
  have "\<exists>r. bi_add 6 4 (bi_mk 6 [1, 2] True) (bi_mk 6 [3, 4] False) = Some (Inr r)
    \<and> bi_val r = bi_val (bi_mk 6 [1, 2] True) + bi_val (bi_mk 6 [3, 4] False)"
    by (rule bi_add_value) (simp_all add: bi_mk_canon bi_mk_blind same_sign_def)
  then show ?thesis by simp
qed

text \<open>
  the sum of two non-negative numbers runs off the front of the digit array
  (an access at index -1) exactly when it has more than \<open>NR_DIGITS\<close> digits; nothing in
  \<open>operator+\<close> checks for it, unlike the constructors.
\<close>

theorem bi_add_overflow:
  assumes "nr_ok nr" "bi_canon nr a" "bi_canon nr b" "isPositive a" "isPositive b" "1 \<le> fuel"
  shows "bi_add nr fuel a b = Some (Inl OutOfBounds) \<longleftrightarrow> 10 ^ nr \<le> mag a + mag b"
proof -
  obtain f where f: "fuel = Suc f" using assms(6) by (cases fuel) auto
  have add: "bi_add nr fuel a b = Some (add_digits nr a b)"
    using bi_add_pos [of nr a b f] assms f by (auto simp: canon_wf)
  show ?thesis
    using add_digits_spec [of nr a b] mag_bounds assms unfolding add
    by (fastforce simp: canon_wf split: sum.splits)
qed

theorem bi_add_overflow_witness:
  "bi_add 3 1 (bi_mk 3 [9, 9, 9] True) (bi_mk 3 [1] True) = Some (Inl OutOfBounds)"
  by (subst bi_add_overflow) (simp_all add: bi_mk_canon)

text \<open>
  \<open>operator-\<close> returns the difference of two well-formed signed numbers when, for
  numbers of one sign, their lengths or leading digits differ (or they are equal), and,
  for numbers of different signs, the sum of the magnitudes fits.
\<close>

theorem bi_sub_value:
  assumes "nr_ok nr" "bi_canon nr a" "bi_canon nr b" "5 \<le> fuel"
    and "same_sign a b \<Longrightarrow> \<not> blind nr a b" "\<not> same_sign a b \<Longrightarrow> mag a + mag b < 10 ^ nr"
  shows "\<exists>r. bi_sub nr fuel a b = Some (Inr r) \<and> bi_val r = bi_val a - bi_val b"
proof -
  obtain f where "fuel = 5 + f" using assms(4) by (metis le_Suc_ex)
  then have "fuel = Suc (Suc (Suc (Suc (Suc f))))" by simp
  with bi_sub_value_lemma [OF assms(2,3,1,5,6), of f] show ?thesis by (simp del: bi_sub.simps)
qed

theorem bi_sub_value_witness:
  "\<exists>r. bi_sub 6 5 (bi_mk 6 [1, 0] True) (bi_mk 6 [4] True) = Some (Inr r) \<and> bi_val r = 6"
proof -
  have "\<exists>r. bi_sub 6 5 (bi_mk 6 [1, 0] True) (bi_mk 6 [4] True) = Some (Inr r)
    \<and> bi_val r = bi_val (bi_mk 6 [1, 0] True) - bi_val (bi_mk 6 [4] True)"
    by (rule bi_sub_value) (simp_all add: bi_mk_canon bi_mk_blind same_sign_def)
  then show ?thesis by simp
qed

text \<open>
  C40: on two different non-negative numbers of the same length with the same leading
  digit (15 and 12, say) \<open>operator-\<close> never returns: each operand is "less" than the
  other, so the call swaps them for ever. No amount of fuel gives a result.
\<close>

theorem bi_sub_never_returns:
  assumes "nr_ok nr" "bi_canon nr a" "bi_canon nr b" "isPositive a" "isPositive b"
    and "len a = len b" "top_digit nr a = top_digit nr b" "mag a \<noteq> mag b"
  shows "bi_sub nr fuel a b = None"
  by (rule bi_sub_blind_None) (use assms in \<open>simp_all add: blind_def\<close>)

theorem bi_sub_never_returns_witness:
  "\<forall>fuel. bi_sub 500 fuel (bi_mk 500 [1, 5] True) (bi_mk 500 [1, 2] True) = None"
  using bi_sub_never_returns [of 500 "bi_mk 500 [1, 5] True" "bi_mk 500 [1, 2] True"]
    bi_mk_top [of "[1, 5]" 500 True] bi_mk_top [of "[1, 2]" 500 True]
  by (simp add: bi_mk_canon)

text \<open>
  a difference that comes out negative is computed by swapping the operands and is
  then shrunk a second time. If it has \<open>L\<close> digits and fills more than half of the
  array, that second \<open>shrink\<close> cuts its length to \<open>2 * L - NR_DIGITS\<close>: the digits are in
  the array, but the number prints and compares without its leading ones.
\<close>

theorem bi_sub_negative_length:
  assumes "nr_ok nr" "bi_canon nr a" "bi_canon nr b" "isPositive a" "isPositive b" "\<not> blind nr a b"
    and "10 ^ (L - 1) \<le> mag b - mag a" "mag b - mag a < 10 ^ L" "0 < L" "nr < 2 * L" "2 \<le> fuel"
  shows "\<exists>r. bi_sub nr fuel a b = Some (Inr r) \<and> bi_val r = mag a - mag b \<and> len r = 2 * int L - int nr"
proof -
  obtain f where "fuel = 2 + f" using assms(11) by (metis le_Suc_ex)
  then have f: "fuel = Suc (Suc f)" by simp
  have "0 < mag b - mag a" using assms(7) by (meson less_le_trans zero_less_numeral zero_less_power)
  then have lt: "mag a < mag b" by simp
  obtain q where q: "bi_canon nr q" "mag q = mag b - mag a"
    "bi_sub nr fuel a b = Some (Inr (shrink nr (q\<lparr>isPositive := False\<rparr>)))"
    using bi_sub_negative_spec [OF assms(2,3,1,4-6) lt, of f] f by auto
  have "len q = int L" using canon_len_unique [OF q(1) assms(1), of L] q(2) assms by simp
  then have "len (shrink nr (q\<lparr>isPositive := False\<rparr>)) = 2 * int L - int nr"
    using shrink_canon_len [of nr "q\<lparr>isPositive := False\<rparr>"] q lt assms by auto
  with q show ?thesis by (auto simp: bi_val_def)
qed

theorem bi_sub_negative_length_witness:
  "\<exists>r. bi_sub 6 2 (bi_mk 6 [5] True) (bi_mk 6 [3, 0, 0, 5] True) = Some (Inr r)
    \<and> bi_val r = -3000 \<and> len r = 2"
proof -
  have "\<exists>r. bi_sub 6 2 (bi_mk 6 [5] True) (bi_mk 6 [3, 0, 0, 5] True) = Some (Inr r)
    \<and> bi_val r = mag (bi_mk 6 [5] True) - mag (bi_mk 6 [3, 0, 0, 5] True) \<and> len r = 2 * int 4 - int 6"
    by (rule bi_sub_negative_length) (simp_all add: bi_mk_canon bi_mk_blind)
  then show ?thesis by simp
qed

text \<open>
  C32: \<open>operator*\<close> returns the product of the magnitudes when the two lengths together
  fit the array; the sign it sets is positive only when both operands are positive, so
  the product of two negative numbers is marked negative.
\<close>

theorem bi_mul_value:
  assumes "nr_ok nr" "bi_canon nr a" "bi_canon nr b" "len a + len b \<le> int nr" "1 \<le> fuel"
  shows "\<exists>r. bi_mul nr fuel a b = Some (Inr r) \<and> mag r = mag a * mag b
    \<and> (isPositive r \<longleftrightarrow> isPositive a \<and> isPositive b)"
proof -
  obtain f where f: "fuel = Suc f" using assms(5) by (cases fuel) auto
  have "1 \<le> len a" "1 \<le> len b" using assms(2,3) by (auto simp: bi_canon_def)
  from bi_mul_spec [OF canon_wf [OF assms(2)] canon_wf [OF assms(3)] assms(1) this assms(4), of f]
  show ?thesis unfolding f by blast
qed

theorem bi_mul_value_witness:
  "\<exists>r. bi_mul 6 1 (bi_mk 6 [1, 2] False) (bi_mk 6 [4, 0] False) = Some (Inr r) \<and> bi_val r = -480"
proof -
  have "\<exists>r. bi_mul 6 1 (bi_mk 6 [1, 2] False) (bi_mk 6 [4, 0] False) = Some (Inr r)
    \<and> mag r = mag (bi_mk 6 [1, 2] False) * mag (bi_mk 6 [4, 0] False)
    \<and> (isPositive r \<longleftrightarrow> isPositive (bi_mk 6 [1, 2] False) \<and> isPositive (bi_mk 6 [4, 0] False))"
    by (rule bi_mul_value) (simp_all add: bi_mk_canon)
  then show ?thesis by (auto simp: bi_val_def)
qed

text \<open>
  \<open>fact\<close> of a positive number \<open>n\<close> returns \<open>n!\<close> whenever \<open>n!\<close> has fewer digits than
  the array; recursion \<open>n\<close> deep is enough.
\<close>

theorem fact_bi_value:
  assumes "nr_ok nr" "bi_canon nr b" "bi_val b = int n" "isPositive b" "0 < n" "fact n < (10 :: int) ^ (nr - 1)" "n < fuel"
  shows "\<exists>r. fact_bi nr fuel b = Some (Inr r) \<and> bi_val r = fact n"
proof -
  have "fuel = n + Suc (fuel - Suc n)" using assms(7) by simp
  with fact_bi_spec [OF assms(1,2,4), of n "fuel - Suc n"] assms show ?thesis
    by (auto simp: bi_val_def)
qed

theorem fact_bi_value_witness:
  "\<exists>r. fact_bi 6 6 (bi_mk 6 [5] True) = Some (Inr r) \<and> bi_val r = fact 5"
  by (rule fact_bi_value) (simp_all add: bi_mk_canon fact_numeral)

text \<open>
  whatever the string constructor accepts is a string of at most \<open>NR_DIGITS\<close> decimal
  digits in base ten; the number has the string's decimal value, and printing it gives
  the string back. In particular the sign the constructor looks for is never accepted:
  a string with a leading minus is rejected as an invalid digit.
\<close>

theorem bi_of_string_roundtrip:
  assumes "nr_ok nr" "bi_of_string nr s base = Inr b"
  shows "base = 10 \<and> length s \<le> nr \<and> (\<forall>c \<in> set s. is_digit c) \<and> isPositive b
    \<and> bi_val b = decimal s \<and> bi_out nr b = Inr s"
proof -
  have f: "base = 10" "length s \<le> nr" "\<forall>c \<in> set s. is_digit c"
    "b = \<lparr>arr = replicate (nr - length s) 0 @ map digit_of s, len = int (length s), isPositive = True\<rparr>"
    using assms(2) bi_of_string_spec [OF assms(1)] by (auto split: if_splits)
  have "bi_out nr b = Inr s" using bi_out_of_string [OF assms(1) f(2,3), of b] assms(2) f(1) by simp
  with f show ?thesis by (simp add: bi_val_def mag_def decimal_def val_be_append)
qed

theorem bi_of_string_roundtrip_witness:
  "bi_out 6 \<lparr>arr = [0, 0, 0, 4, 0, 7], len = 3, isPositive = True\<rparr> = Inr ''407''"
proof -
  have "bi_of_string 6 ''407'' 10 = Inr \<lparr>arr = [0, 0, 0, 4, 0, 7], len = 3, isPositive = True\<rparr>"
    by (simp add: bi_of_string_spec is_digit_def digit_of_def numeral_3_eq_3)
  then show ?thesis using bi_of_string_roundtrip [of 6 "''407''" 10] by simp
qed

text \<open>
  The constructor from an \<open>int\<close> gives a well-formed number with that value, for
  every \<open>int\<close> but the least one (whose negation overflows), with ten digits of room.
\<close>

theorem bi_of_int_value:
  assumes "nr_ok nr" "10 \<le> nr" "in_int v" "v \<noteq> - (2 ^ 31)"
  shows "\<exists>b. bi_of_int nr v = Inr b \<and> bi_canon nr b \<and> bi_val b = v"
  by (rule bi_of_int_spec) (use assms in \<open>auto simp: in_int_def\<close>)

theorem bi_of_int_value_witness:
  "\<exists>b. bi_of_int 500 (-1234567890) = Inr b \<and> bi_canon 500 b \<and> bi_val b = -1234567890"
  by (rule bi_of_int_value) (simp_all add: in_int_def)

text \<open>
  \<open>operator>\<close> compares two negative numbers by magnitude: of two of different
  lengths the smaller one is reported as the greater.
\<close>

theorem bi_gt_negative_reversed:
  assumes "nr_ok nr" "bi_canon nr a" "bi_canon nr b" "\<not> isPositive a" "\<not> isPositive b" "len b < len a"
  shows "bi_gt nr a b = Inr True \<and> bi_val a < bi_val b"
  using bi_gt_canon [OF assms(2,3,1)] bi_gt_sound [OF assms(2,3)] assms by (simp add: bi_val_def)

theorem bi_gt_negative_reversed_witness:
  "bi_gt 6 (bi_mk 6 [1, 0] False) (bi_mk 6 [9] False) = Inr True"
  using bi_gt_negative_reversed [of 6 "bi_mk 6 [1, 0] False" "bi_mk 6 [9] False"]
  by (simp add: bi_mk_canon)

end
