(* ===== verification/Big_Integer_Old.thy ===== *)
theory Big_Integer_Old
  imports Big_Integer_Value
begin

text \<open>
  The earlier \<open>BigInteger\<close> of \<open>c++/BigInteger/main.cc\<close>: 100 digits, constructors that
  check nothing. Its operators are word for word those of the later file (they take
  references where the later ones take copies), so they are the operations of
  \<open>Big_Integer\<close> at \<open>nr = 100\<close>; the operators on an \<open>int\<close> build their operand with the
  constructor below, which agrees with the later one on every \<open>int\<close>
  (\<open>old_ctors_agree\<close>).
\<close>

definition OLD_NR_DIGITS :: nat where
  "OLD_NR_DIGITS = 100"

fun obi_digits_loop :: "string \<Rightarrow> nat \<Rightarrow> int \<Rightarrow> int list \<Rightarrow> bi_error + int list" where
  "obi_digits_loop digits 0 j a = Inr a"
| "obi_digits_loop digits (Suc i) j a =
     ebind (aput OutOfBounds a j (to_char (char_val (digits ! i) - 48)))
       (obi_digits_loop digits i (j - 1))"

text \<open>An unknown base stores no digit and raises nothing.\<close>

definition obi_of_string :: "string \<Rightarrow> int \<Rightarrow> bi_error + bigint" where
  "obi_of_string digits base =
     (let pos = \<not> (digits \<noteq> [] \<and> hd digits = CHR ''-'');
          l = to_short (int (length digits))
      in if base = 10
         then ebind (obi_digits_loop digits (nat l) (int OLD_NR_DIGITS - 1) (replicate OLD_NR_DIGITS 0))
                (\<lambda>a. Inr \<lparr>arr = a, len = l, isPositive = pos\<rparr>)
         else Inr \<lparr>arr = replicate OLD_NR_DIGITS 0, len = l, isPositive = pos\<rparr>)"

fun obi_int_loop :: "nat \<Rightarrow> int \<Rightarrow> int \<Rightarrow> int list \<Rightarrow> bi_error + (int list \<times> int)" where
  "obi_int_loop value i l a =
     ebind (aput OutOfBounds a i (to_char (int (value mod 10))))
       (\<lambda>a'. let value' = value div 10; l' = to_short (l + 1) in
         if l' \<noteq> 0 \<and> value' \<noteq> 0 then obi_int_loop value' (i - 1) l' a'
         else Inr (a', l'))"

declare obi_int_loop.simps [simp del]

definition obi_of_int :: "int \<Rightarrow> bi_error + bigint" where
  "obi_of_int value =
     (if value < 0 \<and> \<not> in_int (- value) then Inl SignedOverflow
      else
        ebind (obi_int_loop (nat \<bar>value\<bar>) (int OLD_NR_DIGITS - 1) 0 (replicate OLD_NR_DIGITS 0))
          (\<lambda>(a, l). Inr \<lparr>arr = a, len = l, isPositive = value \<ge> 0\<rparr>))"

definition obi_default :: bigint where
  "obi_default = bi_default OLD_NR_DIGITS"

definition obi_prependDigits :: "bigint \<Rightarrow> int \<Rightarrow> bi_error + bigint" where
  "obi_prependDigits = prependDigits OLD_NR_DIGITS"

definition obi_appendZeros :: "bigint \<Rightarrow> int \<Rightarrow> bi_error + bigint" where
  "obi_appendZeros = appendZeros OLD_NR_DIGITS"

definition obi_shrink :: "bigint \<Rightarrow> bigint" where
  "obi_shrink = shrink OLD_NR_DIGITS"

definition obi_show :: "bigint \<Rightarrow> bi_error + string" where
  "obi_show = bi_show OLD_NR_DIGITS"

definition obi_out :: "bigint \<Rightarrow> bi_error + string" where
  "obi_out = bi_out OLD_NR_DIGITS"

definition obi_gt :: "bigint \<Rightarrow> bigint \<Rightarrow> bi_error + bool" where
  "obi_gt = bi_gt OLD_NR_DIGITS"

definition obi_gt_int :: "bigint \<Rightarrow> int \<Rightarrow> bi_error + bool" where
  "obi_gt_int a v = ebind (obi_of_int v) (obi_gt a)"

definition obi_lt :: "bigint \<Rightarrow> bigint \<Rightarrow> bi_error + bool" where
  "obi_lt = bi_lt OLD_NR_DIGITS"

definition obi_lt_int :: "bigint \<Rightarrow> int \<Rightarrow> bi_error + bool" where
  "obi_lt_int a v = ebind (obi_of_int v) (obi_lt a)"

definition obi_add :: "nat \<Rightarrow> bigint \<Rightarrow> bigint \<Rightarrow> (bi_error + bigint) option" where
  "obi_add = bi_add OLD_NR_DIGITS"

definition obi_sub :: "nat \<Rightarrow> bigint \<Rightarrow> bigint \<Rightarrow> (bi_error + bigint) option" where
  "obi_sub = bi_sub OLD_NR_DIGITS"

definition obi_mul :: "nat \<Rightarrow> bigint \<Rightarrow> bigint \<Rightarrow> (bi_error + bigint) option" where
  "obi_mul = bi_mul OLD_NR_DIGITS"

section \<open>Agreement with the later file\<close>

lemma obi_int_loop_eq:
  "v < 10 ^ k \<Longrightarrow> 0 < k \<Longrightarrow> 0 \<le> l \<Longrightarrow> l + int k \<le> int nr \<Longrightarrow> nr < 32767 \<Longrightarrow>
   obi_int_loop v i l a = bi_int_loop nr v i l a"
proof (induction k arbitrary: v i l a)
  case (Suc k)
  have small: "\<not> int nr < l" "to_short (l + 1) = l + 1" using Suc.prems by auto
  have rec: "obi_int_loop (v div 10) (i - 1) (l + 1) a' = bi_int_loop nr (v div 10) (i - 1) (l + 1) a'"
    if "v div 10 \<noteq> 0" for a'
  proof (rule Suc.IH)
    show lt: "v div 10 < 10 ^ k" using Suc.prems(1) by (simp add: less_mult_imp_div_less mult.commute)
    show "0 < k" using that lt by (cases k) auto
  qed (use Suc.prems in auto)
  show ?case
    by (subst obi_int_loop.simps, subst bi_int_loop.simps)
      (use rec small in \<open>auto simp: Let_def intro!: ebind_cong\<close>)
qed simp

lemma obi_of_int_eq: "in_int v \<Longrightarrow> obi_of_int v = bi_of_int 100 v"
proof -
  assume "in_int v"
  then have "nat \<bar>v\<bar> < 10 ^ 10" by (auto simp: in_int_def)
  then have "obi_int_loop (nat \<bar>v\<bar>) 99 0 (replicate 100 0) = bi_int_loop 100 (nat \<bar>v\<bar>) 99 0 (replicate 100 0)"
    by (rule obi_int_loop_eq) simp_all
  then show ?thesis by (simp add: obi_of_int_def bi_of_int_def OLD_NR_DIGITS_def)
qed

lemma obi_digits_loop_eq:
  "i \<le> length s \<Longrightarrow> \<forall>c \<in> set s. is_digit c \<Longrightarrow> obi_digits_loop s i j a = bi_digits_loop s i j a"
proof (induction i arbitrary: j a)
  case (Suc i)
  have d: "is_digit (s ! i)" using Suc.prems by simp
  then have "to_char (char_val (s ! i) - 48) = char_val (s ! i) - 48"
    using digit_of_range [OF d] char_val_digit_of [OF d] by simp
  moreover have "48 \<le> char_val (s ! i) \<and> char_val (s ! i) \<le> 57" using d by (simp add: char_val_digit)
  moreover have "obi_digits_loop s i = bi_digits_loop s i" using Suc by (intro ext) simp
  ultimately show ?case by simp
qed simp

lemma obi_of_string_eq:
  assumes "length s \<le> 100" "\<forall>c \<in> set s. is_digit c"
  shows "obi_of_string s 10 = bi_of_string 100 s 10"
  using assms obi_digits_loop_eq [of "length s" s]
  by (simp add: obi_of_string_def bi_of_string_def OLD_NR_DIGITS_def Let_def)

text \<open>
  the two versions of the class build the same number (at 100 digits) from every
  \<open>int\<close> and from every string of at most 100 decimal digits: the checks the later
  version added only reject inputs, they change no accepted one.
\<close>

theorem old_ctors_agree:
  assumes "in_int v" "length s \<le> 100" "\<forall>c \<in> set s. is_digit c"
  shows "obi_of_int v = bi_of_int 100 v \<and> obi_of_string s 10 = bi_of_string 100 s 10"
  using obi_of_int_eq obi_of_string_eq assms by blast

theorem old_ctors_agree_witness:
  "obi_of_int (-42) = bi_of_int 100 (-42) \<and> obi_of_string ''0042'' 10 = bi_of_string 100 ''0042'' 10"
  by (rule old_ctors_agree) (simp_all add: in_int_def is_digit_def)

end
