(* ===== verification/Std_Map.thy ===== *)
theory Std_Map
  imports Prelude "HOL-Library.List_Lexorder" "HOL-Library.Char_ord"
begin

text \<open>
  \<open>std::map\<close> as the program uses it: an association list in ascending key order, so
  that an iteration visits the entries in the order the C++ does. \<open>map_set\<close> is
  \<open>m[k] = v\<close>, \<open>map_insert\<close> is \<open>insert(make_pair(k, v))\<close>, which keeps an entry that is
  already there. A \<open>std::set\<close> is a map with unit values. Keys of type \<open>string\<close> are
  ordered as \<open>std::string\<close>'s \<open><\<close> orders them (by unsigned bytes).

  The locale \<open>ordered_map\<close> states what a client of such a map relies on.
\<close>

type_synonym ('k, 'v) std_map = "('k \<times> 'v) list"

fun map_set :: "'k::linorder \<Rightarrow> 'v \<Rightarrow> ('k, 'v) std_map \<Rightarrow> ('k, 'v) std_map" where
  "map_set k v [] = [(k, v)]"
| "map_set k v ((k', v') # m) =
     (if k < k' then (k, v) # (k', v') # m
      else if k = k' then (k, v) # m
      else (k', v') # map_set k v m)"

definition map_find :: "('k, 'v) std_map \<Rightarrow> 'k \<Rightarrow> 'v option" where
  "map_find m k = map_of m k"

definition map_insert :: "'k::linorder \<Rightarrow> 'v \<Rightarrow> ('k, 'v) std_map \<Rightarrow> ('k, 'v) std_map" where
  "map_insert k v m = (case map_find m k of None \<Rightarrow> map_set k v m | Some _ \<Rightarrow> m)"

definition map_erase :: "'k \<Rightarrow> ('k, 'v) std_map \<Rightarrow> ('k, 'v) std_map" where
  "map_erase k m = filter (\<lambda>e. fst e \<noteq> k) m"

definition lower_bound :: "'k::linorder \<Rightarrow> ('k, 'v) std_map \<Rightarrow> ('k, 'v) std_map" where
  "lower_bound k m = dropWhile (\<lambda>e. fst e < k) m"

definition map_ok :: "('k::linorder, 'v) std_map \<Rightarrow> bool" where
  "map_ok m \<longleftrightarrow> sorted_wrt (<) (map fst m)"

locale ordered_map =
  fixes mfind :: "'m \<Rightarrow> 'k \<Rightarrow> 'v option"
    and mset :: "'k \<Rightarrow> 'v \<Rightarrow> 'm \<Rightarrow> 'm"
    and minsert :: "'k \<Rightarrow> 'v \<Rightarrow> 'm \<Rightarrow> 'm"
    and merase :: "'k \<Rightarrow> 'm \<Rightarrow> 'm"
    and mempty :: 'm
    and mok :: "'m \<Rightarrow> bool"
  assumes ok_empty: "mok mempty"
    and ok_set: "mok m \<Longrightarrow> mok (mset k v m)"
    and ok_insert: "mok m \<Longrightarrow> mok (minsert k v m)"
    and ok_erase: "mok m \<Longrightarrow> mok (merase k m)"
    and find_empty: "mfind mempty k = None"
    and find_set: "mok m \<Longrightarrow> mfind (mset k v m) k' = (if k' = k then Some v else mfind m k')"
    and find_insert: "mok m \<Longrightarrow> mfind (minsert k v m) k' =
      (if k' = k \<and> mfind m k = None then Some v else mfind m k')"
    and find_erase: "mok m \<Longrightarrow> mfind (merase k m) k' = (if k' = k then None else mfind m k')"
begin

lemmas find_simps = find_empty find_set find_insert find_erase
lemmas ok_intros = ok_empty ok_set ok_insert ok_erase

text \<open>A client that fills a map from a list keeps the first entry of each key, or the last.\<close>

lemma ok_insert_all: "mok m \<Longrightarrow> mok (foldl (\<lambda>m (k, v). minsert k v m) m kvs)"
  by (induction kvs arbitrary: m) (auto simp: ok_insert)

lemma find_insert_all: "mok m \<Longrightarrow> mfind (foldl (\<lambda>m (k, v). minsert k v m) m kvs) k =
    (case mfind m k of Some v \<Rightarrow> Some v | None \<Rightarrow> map_of kvs k)"
proof (induction kvs arbitrary: m)
  case (Cons kv kvs)
  obtain k' v where kv: "kv = (k', v)" by (cases kv)
  have "mfind (foldl (\<lambda>m (k, v). minsert k v m) (minsert k' v m) kvs) k =
      (case mfind (minsert k' v m) k of Some v \<Rightarrow> Some v | None \<Rightarrow> map_of kvs k)"
    by (rule Cons.IH) (rule ok_insert [OF Cons.prems])
  then show ?case using find_insert [OF Cons.prems] kv by (auto split: option.splits)
qed (auto split: option.splits)

lemma ok_set_all: "mok m \<Longrightarrow> mok (foldl (\<lambda>m (k, v). mset k v m) m kvs)"
  by (induction kvs arbitrary: m) (auto simp: ok_set)

lemma find_set_all: "mok m \<Longrightarrow> mfind (foldl (\<lambda>m (k, v). mset k v m) m kvs) k =
    (case map_of (rev kvs) k of Some v \<Rightarrow> Some v | None \<Rightarrow> mfind m k)"
proof (induction kvs rule: rev_induct)
  case (snoc kv kvs)
  obtain k' v where kv: "kv = (k', v)" by (cases kv)
  show ?case using find_set [OF ok_set_all [OF snoc.prems]] snoc kv by (auto split: option.splits)
qed (auto split: option.splits)

end

lemma map_set_keys: "fst ` set (map_set k v m) = insert k (fst ` set m)"
  by (induction k v m rule: map_set.induct) auto

lemma map_ok_simps [simp]:
  "map_ok []" "map_ok ((k, v) # m) \<longleftrightarrow> (\<forall>k' \<in> fst ` set m. k < k') \<and> map_ok m"
  by (auto simp: map_ok_def)

lemma map_ok_set: "map_ok m \<Longrightarrow> map_ok (map_set k v m)"
proof (induction k v m rule: map_set.induct)
  case (2 k v k' v' m)
  then show ?case by (auto simp: map_set_keys)
qed simp

lemma map_find_Cons: "map_find ((k, v) # m) k' = (if k' = k then Some v else map_find m k')"
  by (auto simp: map_find_def)

lemma map_find_set: "map_ok m \<Longrightarrow> map_find (map_set k v m) k' = (if k' = k then Some v else map_find m k')"
  by (induction k v m rule: map_set.induct) (auto simp: map_find_def)

lemma map_ok_insert: "map_ok m \<Longrightarrow> map_ok (map_insert k v m)"
  by (simp add: map_insert_def map_ok_set split: option.split)

lemma map_ok_erase: "map_ok m \<Longrightarrow> map_ok (map_erase k m)"
  by (auto simp: map_ok_def map_erase_def sorted_wrt_map intro: sorted_wrt_filter)

lemma map_find_erase: "map_find (map_erase k m) k' = (if k' = k then None else map_find m k')"
  by (induction m) (auto simp: map_find_def map_erase_def)

interpretation stdm: ordered_map map_find map_set map_insert map_erase "[]" map_ok
  by unfold_locales
    (auto simp: map_ok_set map_ok_insert map_ok_erase map_find_set map_find_erase map_insert_def
      map_find_def [of "[]"] split: option.splits)

text \<open>\<open>lower_bound\<close> gives the entries from the key on, in order.\<close>

lemma lower_bound_filter: "map_ok m \<Longrightarrow> lower_bound k m = filter (\<lambda>e. k \<le> fst e) m"
proof (induction m)
  case (Cons e m)
  obtain k' v where e: "e = (k', v)" by (cases e)
  show ?case
  proof (cases "k' < k")
    case False
    have "filter (\<lambda>e. k \<le> fst e) m = m"
      using Cons.prems False e by (auto simp: filter_id_conv not_less)
    with False e show ?thesis by (simp add: lower_bound_def not_less)
  qed (use Cons e in \<open>auto simp: lower_bound_def\<close>)
qed (simp add: lower_bound_def)

lemma map_set_append:
  "map_ok m \<Longrightarrow> \<forall>k' \<in> fst ` set m. k' < k \<Longrightarrow> map_set k v m = m @ [(k, v)]"
  by (induction k v m rule: map_set.induct) auto

text \<open>Setting the entries of an ordered map one by one rebuilds it.\<close>

lemma map_set_rebuild:
  "map_ok (m @ kvs) \<Longrightarrow> foldl (\<lambda>m (k, v). map_set k v m) m kvs = m @ kvs"
proof (induction kvs arbitrary: m)
  case (Cons kv kvs)
  obtain k v where kv: "kv = (k, v)" by (cases kv)
  have "map_set k v m = m @ [(k, v)]"
    by (rule map_set_append) (use Cons.prems kv in \<open>auto simp: map_ok_def sorted_wrt_append\<close>)
  then show ?case using Cons kv by simp
qed simp

end
