(* ===== verification/C_Strings.thy ===== *)
theory C_Strings
  imports Prelude
begin

text \<open>
  The parts of C's and C++'s string library the symbol code uses. A C string is the
  list of its characters before the terminating NUL. \<open>strtok_r\<close> returns the token and
  the text its save pointer is left at; \<open>strtol\<close>, \<open>strtoul\<close> and \<open>strtoull\<close> (with a
  64-bit \<open>long\<close>) return the value and the text at their end pointer.
\<close>

section \<open>strtok\_r\<close>

definition strtok_r :: "string \<Rightarrow> string \<Rightarrow> string option \<times> string" where
  "strtok_r seps s =
     (let t = dropWhile (\<lambda>c. c \<in> set seps) s in
      if t = [] then (None, [])
      else (Some (takeWhile (\<lambda>c. c \<notin> set seps) t), drop 1 (dropWhile (\<lambda>c. c \<notin> set seps) t)))"

lemma dropWhile_all: "(\<forall>c \<in> set s. P c) \<Longrightarrow> dropWhile P s = []"
  by simp

lemma strtok_r_Nil [simp]: "strtok_r seps [] = (None, [])"
  by (simp add: strtok_r_def)

lemma strtok_r_token:
  "t \<noteq> [] \<Longrightarrow> \<forall>c \<in> set t. c \<notin> set seps \<Longrightarrow> x \<in> set seps \<Longrightarrow> strtok_r seps (t @ x # s) = (Some t, s)"
  by (cases t) (auto simp: strtok_r_def Let_def dropWhile_append2 takeWhile_append2)

lemma strtok_r_last:
  assumes "t \<noteq> []" "\<forall>c \<in> set t. c \<notin> set seps"
  shows "strtok_r seps t = (Some t, [])"
proof -
  have a: "dropWhile (\<lambda>c. c \<in> set seps) t = t" using assms by (cases t) auto
  have b: "dropWhile (\<lambda>c. c \<notin> set seps) t = []" using assms(2) by (rule dropWhile_all)
  have c: "takeWhile (\<lambda>c. c \<notin> set seps) t = t" using assms(2) by (simp add: takeWhile_eq_all_conv)
  show ?thesis unfolding strtok_r_def Let_def a b c using assms(1) by simp
qed

lemma strtok_r_skip: "x \<in> set seps \<Longrightarrow> strtok_r seps (x # s) = strtok_r seps s"
  by (simp add: strtok_r_def)

lemma strtok_r_Some:
  assumes "strtok_r seps s = (Some t, r)"
  shows "t \<noteq> []" "\<forall>c \<in> set t. c \<in> set s \<and> c \<notin> set seps" "set r \<subseteq> set s" "length t + length r \<le> length s"
proof -
  define d where "d = dropWhile (\<lambda>c. c \<in> set seps) s"
  define w where "w = dropWhile (\<lambda>c. c \<notin> set seps) d"
  have "strtok_r seps s = (if d = [] then (None, []) else (Some (takeWhile (\<lambda>c. c \<notin> set seps) d), drop 1 w))"
    by (simp only: strtok_r_def d_def w_def Let_def)
  then have d: "d \<noteq> []" and t: "t = takeWhile (\<lambda>c. c \<notin> set seps) d" and r: "r = drop 1 w"
    using assms by (cases "d = []"; simp)+
  have ds: "set d \<subseteq> set s" "length d \<le> length s" unfolding d_def
    by (auto dest: set_dropWhileD simp: length_dropWhile_le)
  have ws: "set w \<subseteq> set d" unfolding w_def by (auto dest: set_dropWhileD)
  have "hd d \<notin> set seps" using hd_dropWhile [of "\<lambda>c. c \<in> set seps" s] d unfolding d_def by simp
  then show "t \<noteq> []" using d unfolding t by (cases d) auto
  show "\<forall>c \<in> set t. c \<in> set s \<and> c \<notin> set seps"
    using ds(1) unfolding t by (auto dest!: set_takeWhileD)
  show "set r \<subseteq> set s" using ds(1) ws set_drop_subset [of 1 w] unfolding r by blast
  have "length t + length w = length d"
    unfolding t w_def by (metis length_append takeWhile_dropWhile_id)
  then show "length t + length r \<le> length s" using r ds(2) by simp
qed

lemma strtok_r_None: "strtok_r seps s = (None, r) \<Longrightarrow> r = [] \<and> set s \<subseteq> set seps"
  by (auto simp: strtok_r_def Let_def split: if_splits)

section \<open>Numbers\<close>

definition c_isspace :: "char \<Rightarrow> bool" where
  "c_isspace c \<longleftrightarrow> c = CHR '' '' \<or> (9 \<le> (of_char c :: nat) \<and> (of_char c :: nat) \<le> 13)"

definition digit_val :: "char \<Rightarrow> nat option" where
  "digit_val c =
     (let n = (of_char c :: nat) in
      if 48 \<le> n \<and> n \<le> 57 then Some (n - 48)
      else if 97 \<le> n \<and> n \<le> 122 then Some (n - 87)
      else if 65 \<le> n \<and> n \<le> 90 then Some (n - 55)
      else None)"

definition is_base_digit :: "nat \<Rightarrow> char \<Rightarrow> bool" where
  "is_base_digit base c = (case digit_val c of None \<Rightarrow> False | Some d \<Rightarrow> d < base)"

fun digits_val :: "nat \<Rightarrow> nat \<Rightarrow> string \<Rightarrow> nat" where
  "digits_val base acc [] = acc"
| "digits_val base acc (c # cs) = digits_val base (acc * base + the (digit_val c)) cs"

text \<open>
  The subject sequence: optional white space, a sign, for base 16 a \<open>0x\<close> that a
  hexadecimal digit follows, digits. \<open>None\<close> is "no conversion", where the end pointer
  is the start of the string.
\<close>

definition strip_sign :: "string \<Rightarrow> bool \<times> string" where
  "strip_sign s = (case s of
      c # r \<Rightarrow> if c = CHR ''-'' then (True, r) else if c = CHR ''+'' then (False, r) else (False, s)
    | [] \<Rightarrow> (False, s))"

definition strip_0x :: "nat \<Rightarrow> string \<Rightarrow> string" where
  "strip_0x base s = (case s of
      z # x # d # r \<Rightarrow>
        if base = 16 \<and> z = CHR ''0'' \<and> (x = CHR ''x'' \<or> x = CHR ''X'') \<and> is_base_digit 16 d then d # r else s
    | _ \<Rightarrow> s)"

definition scan_number :: "nat \<Rightarrow> string \<Rightarrow> (bool \<times> nat \<times> string) option" where
  "scan_number base s =
     (let (neg, t) = strip_sign (dropWhile c_isspace s);
          u = strip_0x base t;
          ds = takeWhile (is_base_digit base) u
      in if ds = [] then None else Some (neg, digits_val base 0 ds, dropWhile (is_base_digit base) u))"

definition LONG_MAX :: int where "LONG_MAX = 2 ^ 63 - 1"
definition LONG_MIN :: int where "LONG_MIN = - (2 ^ 63)"
definition ULLONG_MAX :: "64 word" where "ULLONG_MAX = - 1"

definition strtol :: "string \<Rightarrow> nat \<Rightarrow> int \<times> string" where
  "strtol s base = (case scan_number base s of
      None \<Rightarrow> (0, s)
    | Some (neg, v, r) \<Rightarrow>
        let x = (if neg then - int v else int v)
        in (if x > LONG_MAX then LONG_MAX else if x < LONG_MIN then LONG_MIN else x, r))"

definition strtoull :: "string \<Rightarrow> nat \<Rightarrow> 64 word \<times> string" where
  "strtoull s base = (case scan_number base s of
      None \<Rightarrow> (0, s)
    | Some (neg, v, r) \<Rightarrow>
        (if 2 ^ 64 \<le> int v then ULLONG_MAX else if neg then - of_nat v else of_nat v, r))"

definition strtoul :: "string \<Rightarrow> nat \<Rightarrow> 64 word" where
  "strtoul s base = fst (strtoull s base)"

section \<open>Printing in a base\<close>

text \<open>Lower-case digits, no prefix: what \<open>%x\<close> and \<open>%d\<close> print for a non-negative number.\<close>

definition digit_char :: "nat \<Rightarrow> char" where
  "digit_char d = (if d < 10 then char_of (48 + d) else char_of (87 + d))"

fun show_base :: "nat \<Rightarrow> nat \<Rightarrow> string" where
  "show_base base n =
     (if n < base \<or> base < 2 then [digit_char n] else show_base base (n div base) @ [digit_char (n mod base)])"

declare show_base.simps [simp del]

abbreviation show_hex :: "nat \<Rightarrow> string" where "show_hex \<equiv> show_base 16"
abbreviation show_dec :: "nat \<Rightarrow> string" where "show_dec \<equiv> show_base 10"

lemma digit_char_val: "d < 16 \<Longrightarrow> digit_val (digit_char d) = Some d"
  by (auto simp: digit_char_def digit_val_def Let_def of_char_of)

lemma digits_val_append: "digits_val b acc (xs @ ys) = digits_val b (digits_val b acc xs) ys"
  by (induction xs arbitrary: acc) auto

lemma show_base_nonempty [simp]: "show_base b n \<noteq> []"
  by (subst show_base.simps) simp

lemma mod_lt_16: "2 \<le> b \<Longrightarrow> b \<le> 16 \<Longrightarrow> n mod b < (16 :: nat)"
  using mod_less_divisor [of b n] by linarith

lemma show_base_digits: "2 \<le> b \<Longrightarrow> b \<le> 16 \<Longrightarrow> \<forall>c \<in> set (show_base b n). is_base_digit b c"
proof (induction b n rule: show_base.induct)
  case (1 base n)
  have "n mod base < base" using 1 by simp
  moreover from this have "digit_val (digit_char (n mod base)) = Some (n mod base)"
    using 1 by (intro digit_char_val mod_lt_16)
  ultimately show ?case
    using 1 by (subst show_base.simps) (auto simp: is_base_digit_def digit_char_val)
qed

lemma show_base_val: "2 \<le> b \<Longrightarrow> b \<le> 16 \<Longrightarrow> digits_val b 0 (show_base b n) = n"
proof (induction b n rule: show_base.induct)
  case (1 base n)
  have "n mod base < base" using 1 by simp
  then have "digit_val (digit_char (n mod base)) = Some (n mod base)"
    using 1 by (intro digit_char_val mod_lt_16)
  with 1 show ?case
    by (subst show_base.simps) (auto simp: digits_val_append digit_char_val)
qed

end
