(* ===== verification/CFI_Rules.thy ===== *)
theory CFI_Rules
  imports Std_Map C_Strings "HOL-Library.Sublist"
begin

text \<open>
  \<open>minidump_src/cfi_frame_info.cc\<close>: the rules a STACK CFI record gives for recovering
  the caller's registers, their parser and their printed form. The postfix
  evaluator is not among the repository's files: it is the argument \<open>evaluate\<close>, from a
  dictionary of register values and an expression to the value, or \<open>None\<close> when
  evaluation fails. The \<open>RuleMap\<close> is a \<open>std::map\<close>.
\<close>

section \<open>Frame info and recovery\<close>

record cfi_frame_info =
  cfa_rule :: string
  ra_rule :: string
  register_rules :: "(string, string) std_map"

definition new_cfi_frame_info :: cfi_frame_info where
  "new_cfi_frame_info = \<lparr>cfa_rule = [], ra_rule = [], register_rules = []\<rparr>"

type_synonym 'v reg_map = "(string, 'v) std_map"

text \<open>The loop over the register rules; the boolean is "every rule evaluated so far".\<close>

fun recover_registers :: "('v reg_map \<Rightarrow> string \<Rightarrow> 'v option) \<Rightarrow> 'v reg_map \<Rightarrow> 'v
    \<Rightarrow> (string, string) std_map \<Rightarrow> 'v reg_map \<Rightarrow> bool \<times> 'v reg_map" where
  "recover_registers evaluate registers cfa [] caller = (True, caller)"
| "recover_registers evaluate registers cfa ((name, rule) # rules) caller =
     (case evaluate (map_set ''.cfa'' cfa registers) rule of
        None \<Rightarrow> (False, caller)
      | Some v \<Rightarrow> recover_registers evaluate registers cfa rules (map_set name v caller))"

definition FindCallerRegs :: "('v reg_map \<Rightarrow> string \<Rightarrow> 'v option) \<Rightarrow> cfi_frame_info \<Rightarrow> 'v reg_map
    \<Rightarrow> 'v reg_map \<Rightarrow> bool \<times> 'v reg_map" where
  "FindCallerRegs evaluate f registers caller =
     (if cfa_rule f = [] \<or> ra_rule f = [] then (False, caller)
      else
        case evaluate registers (cfa_rule f) of
          None \<Rightarrow> (False, [])
        | Some cfa \<Rightarrow>
            case evaluate (map_set ''.cfa'' cfa registers) (ra_rule f) of
              None \<Rightarrow> (False, [])
            | Some ra \<Rightarrow>
                case recover_registers evaluate registers cfa (register_rules f) [] of
                  (False, caller') \<Rightarrow> (False, caller')
                | (True, caller') \<Rightarrow> (True, map_set ''.cfa'' cfa (map_set ''.ra'' ra caller')))"

section \<open>Serialize\<close>

fun serialize_rules :: "string \<Rightarrow> (string, string) std_map \<Rightarrow> string" where
  "serialize_rules s [] = s"
| "serialize_rules s ((name, rule) # rules) =
     serialize_rules ((if s \<noteq> [] then s @ '' '' else s) @ name @ '': '' @ rule) rules"

definition Serialize :: "cfi_frame_info \<Rightarrow> string" where
  "Serialize f =
     (let s1 = (if cfa_rule f \<noteq> [] then ''.cfa: '' @ cfa_rule f else []);
          s2 = (if ra_rule f \<noteq> [] then (if s1 \<noteq> [] then s1 @ '' '' else s1) @ ''.ra: '' @ ra_rule f else s1)
      in serialize_rules s2 (register_rules f))"

section \<open>CFIRuleParser\<close>

text \<open>The parser's fields, with the frame info its handler fills.\<close>

record rule_parser =
  rp_name :: string
  rp_expression :: string
  rp_info :: cfi_frame_info

definition CFARule :: "string \<Rightarrow> cfi_frame_info \<Rightarrow> cfi_frame_info" where
  "CFARule e f = f\<lparr>cfa_rule := e\<rparr>"

definition RARule :: "string \<Rightarrow> cfi_frame_info \<Rightarrow> cfi_frame_info" where
  "RARule e f = f\<lparr>ra_rule := e\<rparr>"

definition RegisterRule :: "string \<Rightarrow> string \<Rightarrow> cfi_frame_info \<Rightarrow> cfi_frame_info" where
  "RegisterRule n e f = f\<lparr>register_rules := map_set n e (register_rules f)\<rparr>"

definition Report :: "rule_parser \<Rightarrow> bool \<times> rule_parser" where
  "Report p =
     (if rp_name p = [] \<or> rp_expression p = [] then (False, p)
      else if rp_name p = ''.cfa'' then (True, p\<lparr>rp_info := CFARule (rp_expression p) (rp_info p)\<rparr>)
      else if rp_name p = ''.ra'' then (True, p\<lparr>rp_info := RARule (rp_expression p) (rp_info p)\<rparr>)
      else (True, p\<lparr>rp_info := RegisterRule (rp_name p) (rp_expression p) (rp_info p)\<rparr>))"

definition token_breaks :: string where
  "token_breaks = [CHR '' '', CHR 0x09, CHR 0x0D, CHR 0x0A]"

lemma strtok_r_shrinks: "strtok_r seps s = (Some t, r) \<Longrightarrow> length r < length s"
  using strtok_r_Some(1,4) [of seps s t r] by (cases t) auto

function parse_rules_loop :: "string option \<Rightarrow> string \<Rightarrow> rule_parser \<Rightarrow> bool \<times> rule_parser" where
  "parse_rules_loop None cursor p = Report p"
| "parse_rules_loop (Some token) cursor p =
     (let next = strtok_r token_breaks cursor in
      if 1 \<le> length token \<and> last token = CHR '':''
      then
        if length token < 2 then (False, p)
        else
          case (if rp_name p \<noteq> [] \<or> rp_expression p \<noteq> [] then Report p else (True, p)) of
            (False, p') \<Rightarrow> (False, p')
          | (True, p') \<Rightarrow> parse_rules_loop (fst next) (snd next) (p'\<lparr>rp_name := butlast token, rp_expression := []\<rparr>)
      else
        parse_rules_loop (fst next) (snd next)
          (p\<lparr>rp_expression := (if rp_expression p \<noteq> [] then rp_expression p @ '' '' else rp_expression p) @ token\<rparr>))"
  by pat_completeness auto

termination
proof (relation "measure (\<lambda>(t, s, p). length s + (case t of None \<Rightarrow> 0 | Some _ \<Rightarrow> 1))", goal_cases)
  case (2 token cursor p p' b p'')
  then show ?case
    using strtok_r_shrinks [of token_breaks cursor] strtok_r_None [of token_breaks cursor]
    by (cases "strtok_r token_breaks cursor") (auto split: option.splits)
next
  case (3 token cursor p)
  then show ?case
    using strtok_r_shrinks [of token_breaks cursor] strtok_r_None [of token_breaks cursor]
    by (cases "strtok_r token_breaks cursor") (auto split: option.splits)
qed auto

definition ParseCFIRuleSet :: "string \<Rightarrow> cfi_frame_info \<Rightarrow> bool \<times> cfi_frame_info" where
  "ParseCFIRuleSet rule_set f =
     (let (token, cursor) = strtok_r token_breaks rule_set;
          (b, p) = parse_rules_loop token cursor \<lparr>rp_name = [], rp_expression = [], rp_info = f\<rparr>
      in (b, rp_info p))"

section \<open>The parser over the list of tokens\<close>

function strtok_all :: "string \<Rightarrow> string \<Rightarrow> string list" where
  "strtok_all seps s = (case strtok_r seps s of (None, _) \<Rightarrow> [] | (Some t, r) \<Rightarrow> t # strtok_all seps r)"
  by pat_completeness auto
termination
  by (relation "measure (\<lambda>(seps, s). length s)") (auto dest: strtok_r_shrinks sym)

declare strtok_all.simps [simp del]

fun unwords :: "string list \<Rightarrow> string" where
  "unwords [] = []"
| "unwords [t] = t"
| "unwords (t # ts) = t @ CHR '' '' # unwords ts"

definition is_word :: "string \<Rightarrow> bool" where
  "is_word t \<longleftrightarrow> t \<noteq> [] \<and> (\<forall>c \<in> set t. c \<notin> set token_breaks)"

lemma space_break: "CHR '' '' \<in> set token_breaks"
  by (simp add: token_breaks_def)

lemma strtok_all_unwords: "\<forall>t \<in> set ts. is_word t \<Longrightarrow> strtok_all token_breaks (unwords ts) = ts"
proof (induction ts rule: unwords.induct)
  case 1
  then show ?case by (simp add: strtok_all.simps)
next
  case (2 t)
  then show ?case
    using strtok_r_last [of t token_breaks] by (simp add: is_word_def strtok_all.simps [of _ t] strtok_all.simps [of _ "[]"])
next
  case (3 t u ts)
  then show ?case
    using strtok_r_token [of t token_breaks, OF _ _ space_break]
    by (subst strtok_all.simps) (simp add: is_word_def)
qed

fun parse_tokens :: "string list \<Rightarrow> rule_parser \<Rightarrow> bool \<times> rule_parser" where
  "parse_tokens [] p = Report p"
| "parse_tokens (token # ts) p =
     (if 1 \<le> length token \<and> last token = CHR '':''
      then
        if length token < 2 then (False, p)
        else
          case (if rp_name p \<noteq> [] \<or> rp_expression p \<noteq> [] then Report p else (True, p)) of
            (False, p') \<Rightarrow> (False, p')
          | (True, p') \<Rightarrow> parse_tokens ts (p'\<lparr>rp_name := butlast token, rp_expression := []\<rparr>)
      else
        parse_tokens ts
          (p\<lparr>rp_expression := (if rp_expression p \<noteq> [] then rp_expression p @ '' '' else rp_expression p) @ token\<rparr>))"

definition tokens_of :: "string option \<Rightarrow> string \<Rightarrow> string list" where
  "tokens_of token cursor = (case token of None \<Rightarrow> [] | Some t \<Rightarrow> t # strtok_all token_breaks cursor)"

lemma tokens_of_next: "tokens_of (fst (strtok_r token_breaks s)) (snd (strtok_r token_breaks s)) = strtok_all token_breaks s"
  by (cases "strtok_r token_breaks s") (simp add: tokens_of_def strtok_all.simps [of _ s] split: option.splits)

lemma parse_rules_loop_tokens: "parse_rules_loop token cursor p = parse_tokens (tokens_of token cursor) p"
proof (induction token cursor p rule: parse_rules_loop.induct)
  case (1 cursor p)
  then show ?case by (simp add: tokens_of_def)
next
  case (2 token cursor p)
  have t: "tokens_of (Some token) cursor = token # strtok_all token_breaks cursor" by (simp add: tokens_of_def)
  show ?case
    unfolding t parse_rules_loop.simps parse_tokens.simps Let_def
    using 2 by (auto simp: Let_def tokens_of_next split: prod.split bool.split simp del: parse_tokens.simps)
qed

lemma ParseCFIRuleSet_tokens:
  "ParseCFIRuleSet s f = (case parse_tokens (strtok_all token_breaks s) \<lparr>rp_name = [], rp_expression = [], rp_info = f\<rparr> of
     (b, p) \<Rightarrow> (b, rp_info p))"
  using tokens_of_next [of s]
  by (auto simp: ParseCFIRuleSet_def parse_rules_loop_tokens split: prod.splits)

section \<open>Round trip\<close>

definition ok_expr :: "string \<Rightarrow> bool" where
  "ok_expr e \<longleftrightarrow> (let ts = strtok_all token_breaks e in
     ts \<noteq> [] \<and> unwords ts = e \<and> (\<forall>t \<in> set ts. is_word t \<and> last t \<noteq> CHR '':''))"

definition ok_rule :: "string \<times> string \<Rightarrow> bool" where
  "ok_rule r \<longleftrightarrow> is_word (fst r) \<and> ok_expr (snd r)"

definition rule_tokens :: "string \<times> string \<Rightarrow> string list" where
  "rule_tokens r = (fst r @ '':'') # strtok_all token_breaks (snd r)"

definition apply_rule :: "cfi_frame_info \<Rightarrow> string \<times> string \<Rightarrow> cfi_frame_info" where
  "apply_rule f r =
     (if fst r = ''.cfa'' then CFARule (snd r) f
      else if fst r = ''.ra'' then RARule (snd r) f else RegisterRule (fst r) (snd r) f)"

lemma unwords_nonempty: "ts \<noteq> [] \<Longrightarrow> \<forall>t \<in> set ts. is_word t \<Longrightarrow> unwords ts \<noteq> []"
  by (cases ts rule: unwords.cases) (auto simp: is_word_def)

lemma unwords_append: "xs \<noteq> [] \<Longrightarrow> ys \<noteq> [] \<Longrightarrow> unwords (xs @ ys) = unwords xs @ CHR '' '' # unwords ys"
proof (induction xs rule: unwords.induct)
  case (2 t)
  then show ?case by (cases ys) auto
qed auto

lemma parse_tokens_expr:
  "\<forall>t \<in> set ts. is_word t \<and> last t \<noteq> CHR '':'' \<Longrightarrow> rp_expression p = unwords us \<Longrightarrow> \<forall>u \<in> set us. is_word u \<Longrightarrow>
   parse_tokens (ts @ rest) p = parse_tokens rest (p\<lparr>rp_expression := unwords (us @ ts)\<rparr>)"
proof (induction ts arbitrary: p us)
  case Nil
  have "p\<lparr>rp_expression := unwords us\<rparr> = p" unfolding Nil.prems(2) [symmetric] by simp
  then show ?case by simp
next
  case (Cons t ts)
  let ?e = "(if rp_expression p \<noteq> [] then rp_expression p @ '' '' else rp_expression p) @ t"
  have e: "?e = unwords (us @ [t])"
    using Cons.prems unwords_nonempty [of us] unwords_append [of us "[t]"] by (cases "us = []") auto
  have "parse_tokens ((t # ts) @ rest) p = parse_tokens (ts @ rest) (p\<lparr>rp_expression := ?e\<rparr>)"
    using Cons.prems by (auto simp: is_word_def)
  also have "\<dots> = parse_tokens rest (p\<lparr>rp_expression := unwords ((us @ [t]) @ ts)\<rparr>)"
    using Cons.IH [of "p\<lparr>rp_expression := ?e\<rparr>" "us @ [t]"] Cons.prems e by simp
  finally show ?case by simp
qed

lemma parse_tokens_rule:
  assumes "ok_rule r" "if rp_name p \<noteq> [] \<or> rp_expression p \<noteq> [] then Report p = (True, p') else p' = p"
  shows "parse_tokens (rule_tokens r @ rest) p = parse_tokens rest (p'\<lparr>rp_name := fst r, rp_expression := snd r\<rparr>)"
proof -
  let ?ts = "strtok_all token_breaks (snd r)"
  have ts: "unwords ?ts = snd r" "\<forall>t \<in> set ?ts. is_word t \<and> last t \<noteq> CHR '':''" and n: "fst r \<noteq> []"
    using assms(1) by (auto simp: ok_rule_def ok_expr_def Let_def is_word_def)
  have "parse_tokens (rule_tokens r @ rest) p = parse_tokens (?ts @ rest) (p'\<lparr>rp_name := fst r, rp_expression := []\<rparr>)"
    using assms(2) n by (auto simp: rule_tokens_def Suc_le_eq split: if_splits)
  also have "\<dots> = parse_tokens rest (p'\<lparr>rp_name := fst r, rp_expression := snd r\<rparr>)"
    using parse_tokens_expr [OF ts(2), of "p'\<lparr>rp_name := fst r, rp_expression := []\<rparr>" "[]" rest] ts(1) by simp
  finally show ?thesis .
qed

lemma Report_ok:
  assumes "ok_rule r" "rp_name p = fst r" "rp_expression p = snd r"
  shows "Report p = (True, p\<lparr>rp_info := apply_rule (rp_info p) r\<rparr>)"
proof -
  have "fst r \<noteq> []" "snd r \<noteq> []"
    using assms(1) unwords_nonempty [of "strtok_all token_breaks (snd r)"]
    by (auto simp: ok_rule_def is_word_def ok_expr_def Let_def)
  with assms show ?thesis by (simp add: Report_def apply_rule_def)
qed

lemma parse_tokens_rules:
  "\<forall>r' \<in> set (r # rs). ok_rule r' \<Longrightarrow> rp_name p = fst r \<Longrightarrow> rp_expression p = snd r \<Longrightarrow>
   \<exists>p'. parse_tokens (concat (map rule_tokens rs)) p = (True, p') \<and> rp_info p' = foldl apply_rule (rp_info p) (r # rs)"
proof (induction rs arbitrary: r p)
  case Nil
  then show ?case using Report_ok [of r p] by simp
next
  case (Cons q rs)
  let ?p = "p\<lparr>rp_info := apply_rule (rp_info p) r\<rparr>"
  have "Report p = (True, ?p)" "rp_name p \<noteq> []"
    using Report_ok [of r p] Cons.prems by (auto simp: ok_rule_def is_word_def)
  then have "parse_tokens (concat (map rule_tokens (q # rs))) p
      = parse_tokens (concat (map rule_tokens rs)) (?p\<lparr>rp_name := fst q, rp_expression := snd q\<rparr>)"
    using parse_tokens_rule [of q p ?p] Cons.prems by simp
  then show ?case using Cons.IH [of q "?p\<lparr>rp_name := fst q, rp_expression := snd q\<rparr>"] Cons.prems by simp
qed

definition all_rules :: "cfi_frame_info \<Rightarrow> (string \<times> string) list" where
  "all_rules f = (if cfa_rule f \<noteq> [] then [(''.cfa'', cfa_rule f)] else [])
     @ (if ra_rule f \<noteq> [] then [(''.ra'', ra_rule f)] else []) @ register_rules f"

definition ok_frame_info :: "cfi_frame_info \<Rightarrow> bool" where
  "ok_frame_info f \<longleftrightarrow> all_rules f \<noteq> [] \<and> (\<forall>r \<in> set (all_rules f). ok_rule r) \<and> map_ok (register_rules f)
     \<and> map_find (register_rules f) ''.cfa'' = None \<and> map_find (register_rules f) ''.ra'' = None"

lemma unwords_rule: "ok_rule r \<Longrightarrow> unwords (rule_tokens r) = fst r @ '': '' @ snd r"
  by (cases "strtok_all token_breaks (snd r)") (auto simp: rule_tokens_def ok_rule_def ok_expr_def Let_def)

lemma unwords_rules_snoc:
  assumes "ok_rule r" "rs \<noteq> []"
  shows "unwords (concat (map rule_tokens (rs @ [r]))) = unwords (concat (map rule_tokens rs)) @ '' '' @ fst r @ '': '' @ snd r"
proof -
  have "concat (map rule_tokens rs) \<noteq> []" using assms(2) by (cases rs) (auto simp: rule_tokens_def)
  then show ?thesis
    using unwords_append [of "concat (map rule_tokens rs)" "rule_tokens r"] unwords_rule [OF assms(1)]
    by (simp add: rule_tokens_def)
qed

lemma rule_tokens_words: "ok_rule r \<Longrightarrow> \<forall>t \<in> set (rule_tokens r). is_word t"
  by (auto simp: rule_tokens_def ok_rule_def ok_expr_def Let_def is_word_def token_breaks_def)

lemma unwords_rules_nonempty:
  assumes "rs \<noteq> []" "\<forall>r \<in> set rs. ok_rule r"
  shows "unwords (concat (map rule_tokens rs)) \<noteq> []"
proof (rule unwords_nonempty)
  show "concat (map rule_tokens rs) \<noteq> []" using assms(1) by (cases rs) (auto simp: rule_tokens_def)
qed (use assms rule_tokens_words in auto)

lemma serialize_rules_unwords:
  "\<forall>r \<in> set (qs @ rs). ok_rule r \<Longrightarrow>
   serialize_rules (unwords (concat (map rule_tokens qs))) rs = unwords (concat (map rule_tokens (qs @ rs)))"
proof (induction rs arbitrary: qs)
  case (Cons r rs)
  obtain n e where r: "r = (n, e)" by (cases r)
  let ?s = "unwords (concat (map rule_tokens qs))"
  have "(if ?s \<noteq> [] then ?s @ '' '' else ?s) @ n @ '': '' @ e = unwords (concat (map rule_tokens (qs @ [r])))"
    using unwords_rules_snoc [of r qs] unwords_rule [of r] unwords_rules_nonempty [of qs] Cons.prems r
    by (cases "qs = []") auto
  then show ?case using Cons.IH [of "qs @ [r]"] Cons.prems r by simp
qed simp

lemma Serialize_unwords:
  assumes "\<forall>r \<in> set (all_rules f). ok_rule r"
  shows "Serialize f = unwords (concat (map rule_tokens (all_rules f)))"
proof -
  let ?qs = "(if cfa_rule f \<noteq> [] then [(''.cfa'', cfa_rule f)] else []) @ (if ra_rule f \<noteq> [] then [(''.ra'', ra_rule f)] else [])"
  let ?s1 = "if cfa_rule f \<noteq> [] then ''.cfa: '' @ cfa_rule f else []"
  let ?s2 = "if ra_rule f \<noteq> [] then (if ?s1 \<noteq> [] then ?s1 @ '' '' else ?s1) @ ''.ra: '' @ ra_rule f else ?s1"
  have s2: "?s2 = unwords (concat (map rule_tokens ?qs))"
    using assms unwords_rule [of "(''.cfa'', cfa_rule f)"] unwords_rule [of "(''.ra'', ra_rule f)"]
      unwords_rules_snoc [of "(''.ra'', ra_rule f)" "[(''.cfa'', cfa_rule f)]"]
    by (auto simp: all_rules_def)
  have "Serialize f = serialize_rules ?s2 (register_rules f)" by (simp add: Serialize_def Let_def)
  also have "\<dots> = unwords (concat (map rule_tokens (?qs @ register_rules f)))"
    unfolding s2 by (rule serialize_rules_unwords) (use assms in \<open>simp add: all_rules_def\<close>)
  finally show ?thesis by (simp add: all_rules_def)
qed

lemma foldl_register_rules:
  "\<forall>r \<in> set rs. fst r \<noteq> ''.cfa'' \<and> fst r \<noteq> ''.ra'' \<Longrightarrow>
   foldl apply_rule f rs = f\<lparr>register_rules := foldl (\<lambda>m (k, v). map_set k v m) (register_rules f) rs\<rparr>"
  by (induction rs arbitrary: f) (auto simp: apply_rule_def RegisterRule_def)

lemma foldl_all_rules:
  assumes "ok_frame_info f"
  shows "foldl apply_rule new_cfi_frame_info (all_rules f) = f"
proof -
  have nk: "\<forall>r \<in> set (register_rules f). fst r \<noteq> ''.cfa'' \<and> fst r \<noteq> ''.ra''"
    using assms by (force simp: ok_frame_info_def map_find_def map_of_eq_None_iff)
  have "foldl (\<lambda>m (k, v). map_set k v m) [] (register_rules f) = register_rules f"
    using map_set_rebuild [of "[]" "register_rules f"] assms by (simp add: ok_frame_info_def)
  with nk show ?thesis
    by (cases f) (auto simp: all_rules_def new_cfi_frame_info_def foldl_register_rules apply_rule_def CFARule_def RARule_def)
qed

lemma parse_serialize:
  assumes "ok_frame_info f"
  shows "ParseCFIRuleSet (Serialize f) new_cfi_frame_info = (True, f)"
proof -
  obtain r rs where rs: "all_rules f = r # rs" using assms by (cases "all_rules f") (auto simp: ok_frame_info_def)
  have ok: "\<forall>r \<in> set (all_rules f). ok_rule r" using assms by (simp add: ok_frame_info_def)
  let ?p = "\<lparr>rp_name = [], rp_expression = [], rp_info = new_cfi_frame_info\<rparr>"
  let ?q = "?p\<lparr>rp_name := fst r, rp_expression := snd r\<rparr>"
  have words: "\<forall>t \<in> set (concat (map rule_tokens (all_rules f))). is_word t"
    using ok rule_tokens_words by auto
  have tk: "strtok_all token_breaks (Serialize f) = concat (map rule_tokens (all_rules f))"
    unfolding Serialize_unwords [OF ok] by (rule strtok_all_unwords [OF words])
  have "parse_tokens (concat (map rule_tokens (all_rules f))) ?p = parse_tokens (concat (map rule_tokens rs)) ?q"
    using parse_tokens_rule [of r ?p ?p] ok rs by simp
  moreover obtain p' where "parse_tokens (concat (map rule_tokens rs)) ?q = (True, p')"
    "rp_info p' = foldl apply_rule new_cfi_frame_info (r # rs)"
    using parse_tokens_rules [of r rs ?q] ok rs by auto
  ultimately show ?thesis using foldl_all_rules [OF assms] tk rs by (simp add: ParseCFIRuleSet_tokens)
qed

section \<open>Register recovery\<close>

lemma recover_registers_spec:
  "map_ok c \<Longrightarrow> recover_registers evaluate regs cfa rules c = (True, c') \<Longrightarrow> map_ok c'
    \<and> (\<forall>n. map_find c' n = (case map_of (rev rules) n of
         Some e \<Rightarrow> evaluate (map_set ''.cfa'' cfa regs) e | None \<Rightarrow> map_find c n))
    \<and> (\<forall>(n, e) \<in> set rules. evaluate (map_set ''.cfa'' cfa regs) e \<noteq> None)"
proof (induction rules arbitrary: c)
  case (Cons r rules)
  obtain n e where r: "r = (n, e)" by (cases r)
  obtain v where v: "evaluate (map_set ''.cfa'' cfa regs) e = Some v"
    "recover_registers evaluate regs cfa rules (map_set n v c) = (True, c')"
    using Cons.prems r by (auto split: option.splits)
  from Cons.IH [OF map_ok_set [OF Cons.prems(1)] v(2)] show ?case
    using r v(1) map_find_set [OF Cons.prems(1)] by (auto simp: map_add_def split: option.splits)
qed simp

section \<open>Properties\<close>



text \<open>
  when \<open>FindCallerRegs\<close> succeeds, the caller's registers are exactly the return
  address, the CFA and the registers with a rule, each of them the value of its rule in
  the callee's registers extended by the CFA; nothing of the caller's old map is left.
\<close>

theorem FindCallerRegs_values:
  assumes "FindCallerRegs evaluate f regs old = (True, caller)" "map_ok (register_rules f)"
  shows "\<exists>cfa ra. evaluate regs (cfa_rule f) = Some cfa
    \<and> evaluate (map_set ''.cfa'' cfa regs) (ra_rule f) = Some ra
    \<and> (\<forall>n. map_find caller n =
      (if n = ''.cfa'' then Some cfa else if n = ''.ra'' then Some ra
       else case map_find (register_rules f) n of
              None \<Rightarrow> None | Some e \<Rightarrow> evaluate (map_set ''.cfa'' cfa regs) e))"
proof -
  obtain cfa ra c where f: "evaluate regs (cfa_rule f) = Some cfa"
    "evaluate (map_set ''.cfa'' cfa regs) (ra_rule f) = Some ra"
    "recover_registers evaluate regs cfa (register_rules f) [] = (True, c)"
    "caller = map_set ''.cfa'' cfa (map_set ''.ra'' ra c)"
    using assms(1) by (auto simp: FindCallerRegs_def split: if_splits option.splits prod.splits bool.splits)
  have c: "map_ok c" "\<And>n. map_find c n = (case map_of (rev (register_rules f)) n of
         Some e \<Rightarrow> evaluate (map_set ''.cfa'' cfa regs) e | None \<Rightarrow> None)"
    using recover_registers_spec [OF _ f(3)] by (auto simp: stdm.find_empty split: option.splits)
  have "distinct (map fst (register_rules f))"
    using assms(2) by (simp add: map_ok_def strict_sorted_iff)
  then have "map_of (rev (register_rules f)) = map_of (register_rules f)"
    by (subst map_of_inject_set) (simp_all add: rev_map [symmetric])
  then have "map_of (rev (register_rules f)) = map_find (register_rules f)"
    by (intro ext) (simp add: map_find_def)
  with f c show ?thesis by (auto simp: map_find_set map_ok_set)
qed

theorem FindCallerRegs_values_witness:
  "map_find (snd (FindCallerRegs map_find
      \<lparr>cfa_rule = ''$esp'', ra_rule = ''$eip'', register_rules = [(''$ebx'', ''.cfa'')]\<rparr>
      [(''$eip'', 5), (''$esp'', 16 :: nat)] [])) ''$ebx'' = Some 16"
proof -
  let ?f = "\<lparr>cfa_rule = ''$esp'', ra_rule = ''$eip'', register_rules = [(''$ebx'', ''.cfa'')]\<rparr>"
  let ?r = "[(''$eip'', 5), (''$esp'', 16 :: nat)]"
  have run: "FindCallerRegs map_find ?f ?r [] = (True, [(''$ebx'', 16), (''.cfa'', 16), (''.ra'', 5)])"
    by code_simp
  show ?thesis
    using FindCallerRegs_values [OF run] unfolding run by (simp add: map_find_def)
qed

end
