(* ===== verification/Symbol_Records.thy ===== *)
theory Symbol_Records
  imports C_Strings
begin

text \<open>
  One line of a Breakpad symbol file: \<open>Tokenize\<close> and \<open>StringToVector\<close> of
  \<open>minidump_src/tokenize.cc\<close> and the class \<open>SymbolParseHelper\<close> of
  \<open>minidump_src/basic_source_line_resolver.cc\<close>. A parser's output parameters are its
  result; \<open>None\<close> is the return value \<open>false\<close>.
\<close>

section \<open>Tokenize\<close>

text \<open>
  The loop of \<open>Tokenize\<close>: \<open>remaining\<close> counts down before each token is stored, and the
  last but one token is not followed by another \<open>strtok_r\<close> on the separators.
\<close>

function tokenize_loop :: "string \<Rightarrow> int \<Rightarrow> string option \<Rightarrow> string \<Rightarrow> string list
    \<Rightarrow> string list \<times> int \<times> string" where
  "tokenize_loop separators remaining token save_ptr tokens =
     (case token of
        None \<Rightarrow> (tokens, remaining, save_ptr)
      | Some t \<Rightarrow>
          let remaining' = remaining - 1 in
          if remaining' > 0
          then if remaining' > 1
               then case strtok_r separators save_ptr of
                      (token', save') \<Rightarrow> tokenize_loop separators remaining' token' save' (tokens @ [t])
               else tokenize_loop separators remaining' token save_ptr (tokens @ [t])
          else (tokens, remaining', save_ptr))"
  by pat_completeness auto
termination
  by (relation "measure (\<lambda>(s, r, t, p, ts). nat r)") auto

declare tokenize_loop.simps [simp del]

definition crlf :: string where
  "crlf = [CHR 0x0D, CHR 0x0A]"

definition Tokenize :: "string \<Rightarrow> string \<Rightarrow> int \<Rightarrow> bool \<times> string list" where
  "Tokenize line separators max_tokens =
     (let (token, save_ptr) = strtok_r separators line;
          (tokens, remaining, save) = tokenize_loop separators max_tokens token save_ptr [];
          tokens' = (if remaining = 0
                     then (case strtok_r crlf save of
                             (Some t, _) \<Rightarrow> tokens @ [t]
                           | (None, _) \<Rightarrow> tokens)
                     else tokens)
      in (int (length tokens') = max_tokens, tokens'))"

definition StringToVector :: "string \<Rightarrow> char list" where
  "StringToVector str = str @ [CHR 0x00]"

section \<open>SymbolParseHelper\<close>

definition kWhitespace :: string where
  "kWhitespace = [CHR '' '', CHR 0x0D, CHR 0x0A]"

text \<open>\<open>strchr\<close> finds the terminating NUL too, so the end of the token is valid.\<close>

definition IsValidAfterNumber :: "string \<Rightarrow> bool" where
  "IsValidAfterNumber after_number = (case after_number of [] \<Rightarrow> True | c # _ \<Rightarrow> c \<in> set kWhitespace)"

definition parse_file_line :: "string \<Rightarrow> (int \<times> string) option" where
  "parse_file_line file_line =
     (case Tokenize (drop 5 file_line) kWhitespace 2 of
        (False, _) \<Rightarrow> None
      | (True, tokens) \<Rightarrow>
          let (index, after_number) = strtol (tokens ! 0) 10 in
          if \<not> IsValidAfterNumber after_number \<or> index < 0 \<or> index = LONG_MAX then None
          else Some (index, tokens ! 1))"

definition parse_function_line :: "string \<Rightarrow> (64 word \<times> 64 word \<times> int \<times> string) option" where
  "parse_function_line function_line =
     (case Tokenize (drop 5 function_line) kWhitespace 4 of
        (False, _) \<Rightarrow> None
      | (True, tokens) \<Rightarrow>
          let (address, after_address) = strtoull (tokens ! 0) 16 in
          if \<not> IsValidAfterNumber after_address \<or> address = ULLONG_MAX then None
          else
            let (sz, after_size) = strtoull (tokens ! 1) 16 in
            if \<not> IsValidAfterNumber after_size \<or> sz = ULLONG_MAX then None
            else
              let (stack_param_size, after_param) = strtol (tokens ! 2) 16 in
              if \<not> IsValidAfterNumber after_param \<or> stack_param_size = LONG_MAX \<or> stack_param_size < 0
              then None
              else Some (address, sz, stack_param_size, tokens ! 3))"

definition parse_line_line :: "string \<Rightarrow> (64 word \<times> 64 word \<times> int \<times> int) option" where
  "parse_line_line line_line =
     (case Tokenize line_line kWhitespace 4 of
        (False, _) \<Rightarrow> None
      | (True, tokens) \<Rightarrow>
          let (address, after_address) = strtoull (tokens ! 0) 16 in
          if \<not> IsValidAfterNumber after_address \<or> address = ULLONG_MAX then None
          else
            let (sz, after_size) = strtoull (tokens ! 1) 16 in
            if \<not> IsValidAfterNumber after_size \<or> sz = ULLONG_MAX then None
            else
              let (line_number, after_line) = strtol (tokens ! 2) 10 in
              if \<not> IsValidAfterNumber after_line \<or> line_number = LONG_MAX then None
              else
                let (source_file, after_file) = strtol (tokens ! 3) 10 in
                if \<not> IsValidAfterNumber after_file \<or> source_file < 0 \<or> source_file = LONG_MAX then None
                else if line_number < 0 then None
                else Some (address, sz, line_number, source_file))"

definition parse_public_line :: "string \<Rightarrow> (64 word \<times> int \<times> string) option" where
  "parse_public_line public_line =
     (case Tokenize (drop 7 public_line) kWhitespace 3 of
        (False, _) \<Rightarrow> None
      | (True, tokens) \<Rightarrow>
          let (address, after_address) = strtoull (tokens ! 0) 16 in
          if \<not> IsValidAfterNumber after_address \<or> address = ULLONG_MAX then None
          else
            let (stack_param_size, after_param) = strtol (tokens ! 1) 16 in
            if \<not> IsValidAfterNumber after_param \<or> stack_param_size = LONG_MAX \<or> stack_param_size < 0
            then None
            else Some (address, stack_param_size, tokens ! 2))"

section \<open>Tokens\<close>

definition is_token :: "string \<Rightarrow> string \<Rightarrow> bool" where
  "is_token seps t \<longleftrightarrow> t \<noteq> [] \<and> (\<forall>c \<in> set t. c \<notin> set seps)"

definition is_rest :: "string \<Rightarrow> bool" where
  "is_rest = is_token crlf"

fun joined :: "char \<Rightarrow> string list \<Rightarrow> string \<Rightarrow> string" where
  "joined x [] rest = rest"
| "joined x (t # ts) rest = t @ x # joined x ts rest"

lemma tokenize_loop_last:
  "tokenize_loop seps 2 (Some t) save ts = (ts @ [t], 0, save)"
  by (simp add: tokenize_loop.simps)

lemma tokenize_loop_joined:
  assumes "x \<in> set seps"
  shows "\<forall>u \<in> set (t # us). is_token seps u \<Longrightarrow>
    tokenize_loop seps (int (length us) + 2) (Some t) (joined x us rest) ts = (ts @ t # us, 0, rest)"
proof (induction us arbitrary: t ts)
  case Nil
  then show ?case by (simp add: tokenize_loop_last)
next
  case (Cons u us)
  have "strtok_r seps (joined x (u # us) rest) = (Some u, joined x us rest)"
    using strtok_r_token [of u seps x] assms Cons.prems by (simp add: is_token_def)
  then have "tokenize_loop seps (int (length (u # us)) + 2) (Some t) (joined x (u # us) rest) ts
      = tokenize_loop seps (int (length us) + 2) (Some u) (joined x us rest) (ts @ [t])"
    by (subst tokenize_loop.simps) (simp add: Let_def add.commute)
  then show ?case using Cons by simp
qed

text \<open>
  A line of separator-free tokens with one separator after each, and a last field to
  the end of the line, is split into exactly these.
\<close>

lemma Tokenize_joined:
  assumes "x \<in> set seps" "\<forall>u \<in> set (t # us). is_token seps u" "is_rest rest"
  shows "Tokenize (joined x (t # us) rest) seps (int (length us) + 2) = (True, t # us @ [rest])"
proof -
  have "strtok_r seps (joined x (t # us) rest) = (Some t, joined x us rest)"
    using strtok_r_token [of t seps x] assms by (simp add: is_token_def)
  moreover have "strtok_r crlf rest = (Some rest, [])"
    using strtok_r_last assms(3) by (simp add: is_rest_def is_token_def)
  ultimately show ?thesis
    using tokenize_loop_joined [OF assms(1,2), of rest "[]"] by (simp add: Tokenize_def)
qed

section \<open>Printed numbers are read back\<close>

lemma base_digit_chars:
  assumes "is_base_digit b c"
  shows "\<not> c_isspace c" "c \<noteq> CHR ''-''" "c \<noteq> CHR ''+''" "c \<notin> set kWhitespace" "b \<le> 16 \<Longrightarrow> c \<noteq> CHR ''x'' \<and> c \<noteq> CHR ''X''"
  using assms by (auto simp: is_base_digit_def digit_val_def c_isspace_def kWhitespace_def Let_def split: if_splits)

lemma scan_number_digits:
  assumes "ds \<noteq> []" "\<forall>c \<in> set ds. is_base_digit b c" "b \<le> 16"
  shows "scan_number b ds = Some (False, digits_val b 0 ds, [])"
proof -
  obtain c r where ds: "ds = c # r" using assms(1) by (cases ds) auto
  have c: "is_base_digit b c" using assms ds by simp
  have sp: "dropWhile c_isspace ds = ds" using base_digit_chars [OF c] ds by simp
  have sg: "strip_sign ds = (False, ds)" using base_digit_chars [OF c] ds by (simp add: strip_sign_def)
  have ox: "strip_0x b ds = ds"
    using assms base_digit_chars(5) ds by (fastforce simp: strip_0x_def split: list.splits)
  have tk: "takeWhile (is_base_digit b) ds = ds" and dr: "dropWhile (is_base_digit b) ds = []"
    using assms(2) by (simp_all add: takeWhile_eq_all_conv)
  show ?thesis unfolding scan_number_def sp sg Let_def prod.case ox tk dr using assms(1) by simp
qed

lemma scan_number_show:
  "2 \<le> b \<Longrightarrow> b \<le> 16 \<Longrightarrow> scan_number b (show_base b n) = Some (False, n, [])"
  using scan_number_digits [of "show_base b n" b] show_base_digits [of b n] show_base_val [of b n] by simp

lemma strtoull_show: "n < 2 ^ 64 \<Longrightarrow> strtoull (show_hex n) 16 = (of_nat n, [])"
  by (simp add: strtoull_def scan_number_show)

lemma strtol_show: "2 \<le> b \<Longrightarrow> b \<le> 16 \<Longrightarrow> n < 2 ^ 63 \<Longrightarrow> strtol (show_base b n) b = (int n, [])"
  by (simp add: strtol_def scan_number_show LONG_MAX_def LONG_MIN_def Let_def)

lemma show_base_token: "2 \<le> b \<Longrightarrow> b \<le> 16 \<Longrightarrow> is_token kWhitespace (show_base b n)"
  using show_base_digits [of b n] base_digit_chars(4) by (auto simp: is_token_def)

lemma show_dec_rest: "is_rest (show_dec n)"
  using show_base_token [of 10 n] by (auto simp: is_rest_def is_token_def crlf_def kWhitespace_def)

lemma of_nat_ULLONG_MAX: "n < 2 ^ 64 - 1 \<Longrightarrow> (of_nat n :: 64 word) \<noteq> ULLONG_MAX"
proof
  assume n: "n < 2 ^ 64 - 1" and "(of_nat n :: 64 word) = ULLONG_MAX"
  then have "unat (of_nat n :: 64 word) = unat (- 1 :: 64 word)" by (simp add: ULLONG_MAX_def)
  moreover have "unat (of_nat n :: 64 word) = n" using n by (simp add: unsigned_of_nat take_bit_nat_eq_self)
  ultimately show False using n by (simp add: unsigned_minus_1_eq_mask mask_eq_exp_minus_1)
qed

lemmas record_parse_simps = strtoull_show strtol_show of_nat_ULLONG_MAX IsValidAfterNumber_def LONG_MAX_def Let_def

section \<open>Symbol lines\<close>

text \<open>The record formats the comments of \<open>SymbolParseHelper\<close> give, printed.\<close>

definition print_file :: "nat \<Rightarrow> string \<Rightarrow> string" where
  "print_file index filename = ''FILE '' @ joined (CHR '' '') [show_dec index] filename"

definition print_function :: "nat \<Rightarrow> nat \<Rightarrow> nat \<Rightarrow> string \<Rightarrow> string" where
  "print_function address sz param name =
     ''FUNC '' @ joined (CHR '' '') [show_hex address, show_hex sz, show_hex param] name"

definition print_line :: "nat \<Rightarrow> nat \<Rightarrow> nat \<Rightarrow> nat \<Rightarrow> string" where
  "print_line address sz line source_file =
     joined (CHR '' '') [show_hex address, show_hex sz, show_dec line] (show_dec source_file)"

definition print_public :: "nat \<Rightarrow> nat \<Rightarrow> string \<Rightarrow> string" where
  "print_public address param name = ''PUBLIC '' @ joined (CHR '' '') [show_hex address, show_hex param] name"

lemma space_sep: "CHR '' '' \<in> set kWhitespace"
  by (simp add: kWhitespace_def)

lemma parse_print_file:
  assumes "index < 2 ^ 63 - 1" "is_rest filename"
  shows "parse_file_line (print_file index filename) = Some (int index, filename)"
proof -
  have "Tokenize (drop 5 (print_file index filename)) kWhitespace 2 = (True, [show_dec index, filename])"
    using Tokenize_joined [OF space_sep, of "show_dec index" "[]" filename] assms show_base_token [of 10 index]
    by (simp add: print_file_def)
  with assms show ?thesis by (simp add: parse_file_line_def record_parse_simps)
qed

lemma parse_print_function:
  assumes "address < 2 ^ 64 - 1" "sz < 2 ^ 64 - 1" "param < 2 ^ 63 - 1" "is_rest name"
  shows "parse_function_line (print_function address sz param name)
    = Some (of_nat address, of_nat sz, int param, name)"
proof -
  have "Tokenize (drop 5 (print_function address sz param name)) kWhitespace 4
      = (True, [show_hex address, show_hex sz, show_hex param, name])"
    using Tokenize_joined [OF space_sep, of "show_hex address" "[show_hex sz, show_hex param]" name]
      assms show_base_token [of 16]
    by (simp add: print_function_def)
  with assms show ?thesis by (simp add: parse_function_line_def record_parse_simps)
qed

lemma parse_print_line:
  assumes "address < 2 ^ 64 - 1" "sz < 2 ^ 64 - 1" "line < 2 ^ 63 - 1" "source_file < 2 ^ 63 - 1"
  shows "parse_line_line (print_line address sz line source_file)
    = Some (of_nat address, of_nat sz, int line, int source_file)"
proof -
  have "Tokenize (print_line address sz line source_file) kWhitespace 4
      = (True, [show_hex address, show_hex sz, show_dec line, show_dec source_file])"
    using Tokenize_joined [OF space_sep, of "show_hex address" "[show_hex sz, show_dec line]" "show_dec source_file"]
      show_base_token [of 16] show_base_token [of 10] show_dec_rest
    by (simp add: print_line_def)
  with assms show ?thesis by (simp add: parse_line_line_def record_parse_simps)
qed

lemma parse_print_public:
  assumes "address < 2 ^ 64 - 1" "param < 2 ^ 63 - 1" "is_rest name"
  shows "parse_public_line (print_public address param name) = Some (of_nat address, int param, name)"
proof -
  have "Tokenize (drop 7 (print_public address param name)) kWhitespace 3
      = (True, [show_hex address, show_hex param, name])"
    using Tokenize_joined [OF space_sep, of "show_hex address" "[show_hex param]" name]
      assms show_base_token [of 16]
    by (simp add: print_public_def)
  with assms show ?thesis by (simp add: parse_public_line_def record_parse_simps)
qed

section \<open>Properties\<close>

text \<open>
  the four kinds of symbol records, printed in the format the comments of
  \<open>SymbolParseHelper\<close> document, are parsed back to the same fields, for every address
  and size below the reserved maximum and every name without line ends.
\<close>

theorem symbol_records_roundtrip:
  assumes "address < 2 ^ 64 - 1" "sz < 2 ^ 64 - 1" "param < 2 ^ 63 - 1" "line < 2 ^ 63 - 1" "index < 2 ^ 63 - 1"
    and "is_rest name"
  shows "parse_file_line (print_file index name) = Some (int index, name)
    \<and> parse_function_line (print_function address sz param name) = Some (of_nat address, of_nat sz, int param, name)
    \<and> parse_line_line (print_line address sz line index) = Some (of_nat address, of_nat sz, int line, int index)
    \<and> parse_public_line (print_public address param name) = Some (of_nat address, int param, name)"
  using parse_print_file parse_print_function parse_print_line parse_print_public assms by blast

theorem symbol_records_roundtrip_witness:
  "parse_file_line (print_file 3 ''a b.c'') = Some (3, ''a b.c'')
   \<and> parse_function_line (print_function 4096 32 8 ''main'') = Some (4096, 32, 8, ''main'')"
proof -
  have "is_rest ''a b.c''" "is_rest ''main''" by (simp_all add: is_rest_def is_token_def crlf_def)
  then show ?thesis
    using symbol_records_roundtrip [of 0 0 0 0 3 "''a b.c''"] symbol_records_roundtrip [of 4096 32 8 0 0 "''main''"]
    by simp
qed

end
