(* ===== verification/Frames.thy ===== *)
theory Frames
  imports Std_Map C_Strings
begin

text \<open>
  The data the minidump processor's components pass to each other: a code module, a
  stack frame with its trust, the information of a STACK WIN record, and the results of
  the symbol supplier and of the symbolizer. The headers that declare these types are
  not among the repository's files; the fields are those the sources read and write.
  A CPU's own frame type extends \<open>stack_frame\<close> with its context.

  The containers \<open>RangeMap\<close>, \<open>ContainedRangeMap\<close> and \<open>AddressMap\<close> are templates of such
  headers too. Their operations are parameters, gathered in records; what the code relies
  on is stated as a hypothesis where a theorem needs it.
\<close>

section \<open>Modules and frames\<close>

text \<open>
  Modules are handled by pointer; \<open>cm_ptr\<close> is the object's identity.
\<close>

record codemodule =
  cm_ptr :: nat
  cm_base_address :: "64 word"
  cm_size :: "64 word"
  cm_code_file :: string
  cm_code_identifier :: string
  cm_debug_file :: string
  cm_debug_identifier :: string
  cm_version :: string

datatype frame_trust = FRAME_TRUST_NONE | FRAME_TRUST_SCAN | FRAME_TRUST_CFI_SCAN | FRAME_TRUST_FP
  | FRAME_TRUST_CFI | FRAME_TRUST_PREWALKED | FRAME_TRUST_CONTEXT

record stack_frame =
  sf_instruction :: "64 word"
  sf_module :: "codemodule option"
  sf_function_name :: string
  sf_function_base :: "64 word"
  sf_source_file_name :: string
  sf_source_line :: int
  sf_source_line_base :: "64 word"
  sf_trust :: frame_trust

record windows_frame_info =
  wfi_type :: int
  wfi_valid :: "32 word"
  wfi_prolog_size :: "32 word"
  wfi_parameter_size :: "32 word"
  wfi_saved_register_size :: "32 word"
  wfi_local_size :: "32 word"
  wfi_allocates_base_pointer :: bool
  wfi_program_string :: string

datatype symbol_result = FOUND | NOT_FOUND | INTERRUPT

datatype symbolizer_result = kNoError | kError | kInterrupt | kWarningCorruptSymbols

record system_info =
  si_os :: string
  si_os_short :: string
  si_os_version :: string
  si_cpu :: string
  si_cpu_info :: string
  si_cpu_count :: "32 word"

text \<open>
  What a call can end in besides a result: a read past the end of a line's memory, an
  index outside an array, a loop that does not end.
\<close>

datatype run_error = Overrun | ArrayIndex | Diverges

section \<open>Containers declared elsewhere\<close>

text \<open>
  \<open>rm_store base size entry\<close> is \<open>StoreRange\<close>, with its return value; \<open>rm_retrieve\<close> and
  \<open>rm_nearest\<close> are \<open>RetrieveRange\<close> and \<open>RetrieveNearestRange\<close>, giving the entry, its base
  and its size; \<open>rm_at\<close> is \<open>RetrieveRangeAtIndex\<close> and \<open>rm_count\<close> is \<open>GetCount\<close>.
\<close>

record ('m, 'v) range_map =
  rm_empty :: 'm
  rm_store :: "64 word \<Rightarrow> 64 word \<Rightarrow> 'v \<Rightarrow> 'm \<Rightarrow> bool \<times> 'm"
  rm_retrieve :: "64 word \<Rightarrow> 'm \<Rightarrow> ('v \<times> 64 word \<times> 64 word) option"
  rm_nearest :: "64 word \<Rightarrow> 'm \<Rightarrow> ('v \<times> 64 word \<times> 64 word) option"
  rm_at :: "nat \<Rightarrow> 'm \<Rightarrow> 'v option"
  rm_count :: "'m \<Rightarrow> nat"

record ('m, 'v) address_map =
  am_empty :: 'm
  am_store :: "64 word \<Rightarrow> 'v \<Rightarrow> 'm \<Rightarrow> bool \<times> 'm"
  am_retrieve :: "64 word \<Rightarrow> 'm \<Rightarrow> ('v \<times> 64 word) option"

record ('m, 'v) contained_map =
  ct_empty :: 'm
  ct_store :: "64 word \<Rightarrow> 64 word \<Rightarrow> 'v \<Rightarrow> 'm \<Rightarrow> bool \<times> 'm"
  ct_retrieve :: "64 word \<Rightarrow> 'm \<Rightarrow> 'v option"

text \<open>
  Calls through a pointer to the base class see a frame's base part only; \<open>on_base\<close> lets
  such a function work on a CPU's frame.
\<close>

definition on_base :: "(stack_frame \<Rightarrow> stack_frame) \<Rightarrow> 'a stack_frame_scheme \<Rightarrow> 'a stack_frame_scheme" where
  "on_base f frame = stack_frame.extend (f (stack_frame.truncate frame)) (stack_frame.more frame)"

lemma on_base_simps [simp]:
  "sf_instruction (on_base f x) = sf_instruction (f (stack_frame.truncate x))"
  "sf_module (on_base f x) = sf_module (f (stack_frame.truncate x))"
  "sf_trust (on_base f x) = sf_trust (f (stack_frame.truncate x))"
  "stack_frame.more (on_base f x) = stack_frame.more x"
  by (simp_all add: on_base_def stack_frame.extend_def)

lemma truncate_simps [simp]:
  "sf_instruction (stack_frame.truncate x) = sf_instruction x"
  "sf_module (stack_frame.truncate x) = sf_module x"
  "sf_trust (stack_frame.truncate x) = sf_trust x"
  by (simp_all add: stack_frame.truncate_def)

text \<open>
  The half-open range from \<open>base\<close> of \<open>size\<close> bytes, compared without overflow as the
  sources do it.
\<close>

definition in_range :: "64 word \<Rightarrow> 64 word \<Rightarrow> 64 word \<Rightarrow> bool" where
  "in_range address base sz \<longleftrightarrow> base \<le> address \<and> address - base < sz"

lemma in_range_unat:
  "in_range address base sz \<longleftrightarrow> unat base \<le> unat address \<and> unat address < unat base + unat sz"
  by (auto simp: in_range_def word_le_nat_alt word_less_nat_alt unat_sub_if')

section \<open>What the code relies on\<close>

text \<open>
  The documented behaviour of \<open>RangeMap\<close>: a range that is not empty, does not wrap and
  meets no stored range is stored; a stored range is found from each of its addresses and
  leaves the others alone; a refused one changes nothing; the nearest range to an address is the one that holds it.
\<close>

definition range_map_laws :: "('m, 'v) range_map \<Rightarrow> bool" where
  "range_map_laws rm \<longleftrightarrow>
     (\<forall>a. rm_retrieve rm a (rm_empty rm) = None) \<and>
     (\<forall>a b s v m. fst (rm_store rm b s v m) \<longrightarrow>
        rm_retrieve rm a (snd (rm_store rm b s v m)) = (if in_range a b s then Some (v, b, s) else rm_retrieve rm a m)) \<and>
     (\<forall>b s v m. \<not> fst (rm_store rm b s v m) \<longrightarrow> snd (rm_store rm b s v m) = m) \<and>
     (\<forall>b s v m. s \<noteq> 0 \<and> unat b + unat s \<le> 2 ^ 64 \<and> (\<forall>a. in_range a b s \<longrightarrow> rm_retrieve rm a m = None) \<longrightarrow>
        fst (rm_store rm b s v m)) \<and>
     (\<forall>a m x. rm_retrieve rm a m = Some x \<longrightarrow> rm_nearest rm a m = Some x)"

section \<open>Association lists as containers\<close>

text \<open>
  The simplest containers that keep every entry: the instance the examples run on.
\<close>

definition disjoint_range :: "64 word \<Rightarrow> 64 word \<Rightarrow> 64 word \<Rightarrow> 64 word \<Rightarrow> bool" where
  "disjoint_range b s b' s' \<longleftrightarrow> s' = 0 \<or> uint b + uint s \<le> uint b' \<or> uint b' + uint s' \<le> uint b"

definition list_range_map :: "(('v \<times> 64 word \<times> 64 word) list, 'v) range_map" where
  "list_range_map = \<lparr>rm_empty = [],
     rm_store = (\<lambda>b s v m.
       if s \<noteq> 0 \<and> uint b + uint s \<le> 2 ^ 64 \<and> (\<forall>(v', b', s') \<in> set m. disjoint_range b s b' s')
       then (True, (v, b, s) # m) else (False, m)),
     rm_retrieve = (\<lambda>a. List.find (\<lambda>(v, b, s). in_range a b s)),
     rm_nearest = (\<lambda>a. List.find (\<lambda>(v, b, s). in_range a b s)),
     rm_at = (\<lambda>i m. if i < length m then Some (fst (m ! i)) else None), rm_count = length\<rparr>"

definition list_address_map :: "(('v \<times> 64 word) list, 'v) address_map" where
  "list_address_map = \<lparr>am_empty = [], am_store = (\<lambda>b v m. (True, m @ [(v, b)])),
     am_retrieve = (\<lambda>a. List.find (\<lambda>(v, b). b \<le> a))\<rparr>"

definition list_contained_map :: "(('v \<times> 64 word \<times> 64 word) list, 'v) contained_map" where
  "list_contained_map = \<lparr>ct_empty = [], ct_store = (\<lambda>b s v m. (True, m @ [(v, b, s)])),
     ct_retrieve = (\<lambda>a m. map_option fst (List.find (\<lambda>(v, b, s). in_range a b s) m))\<rparr>"

lemma uint_add_le: "uint b + uint s \<le> int n \<longleftrightarrow> unat b + unat s \<le> n"
  unfolding uint_nat by linarith

lemma disjoint_range_unat:
  "disjoint_range b s b' s' \<longleftrightarrow> s' = 0 \<or> unat b + unat s \<le> unat b' \<or> unat b' + unat s' \<le> unat b"
  unfolding disjoint_range_def uint_nat by linarith

lemma overlap_common:
  assumes "\<not> disjoint_range b s b' s'" "s \<noteq> 0"
  shows "\<exists>a. in_range a b s \<and> in_range a b' s'"
proof -
  let ?a = "if b \<le> b' then b' else b"
  have "s' \<noteq> 0" using assms(1) by (simp add: disjoint_range_unat)
  then have "0 < unat s" "0 < unat s'" using assms(2) by (simp_all add: unat_gt_0)
  then have "in_range ?a b s \<and> in_range ?a b' s'"
    using assms(1) by (auto simp: in_range_unat disjoint_range_unat word_le_nat_alt)
  then show ?thesis by blast
qed

lemma list_range_map_laws: "range_map_laws (list_range_map :: (('v \<times> 64 word \<times> 64 word) list, 'v) range_map)"
proof -
  have store: "fst (rm_store list_range_map b s v m)"
    if "s \<noteq> 0" "unat b + unat s \<le> 2 ^ 64" and none: "\<And>a. in_range a b s \<Longrightarrow> rm_retrieve list_range_map a m = None"
    for b s and v :: 'v and m
  proof -
    have "disjoint_range b s b' s'" if "(v', b', s') \<in> set m" for v' b' s'
    proof (rule ccontr)
      assume "\<not> disjoint_range b s b' s'"
      then obtain a where "in_range a b s" "in_range a b' s'"
        using overlap_common \<open>s \<noteq> 0\<close> by blast
      with none [of a] that show False by (force simp: list_range_map_def find_None_iff)
    qed
    moreover have "uint b + uint s \<le> 2 ^ 64"
      using that(2) uint_add_le [of b s "2 ^ 64"] by simp
    ultimately show ?thesis using that(1) by (auto simp: list_range_map_def)
  qed
  show ?thesis
    unfolding range_map_laws_def
    by (intro conjI allI impI)
      (use store in \<open>auto simp: list_range_map_def split: if_splits\<close>)
qed

end
