(* ===== verification/Symbol_Module.thy ===== *)
theory Symbol_Module
  imports Frames Symbol_Records CFI_Rules
begin

text \<open>
  The class \<open>Module\<close> of \<open>minidump_src/basic_source_line_resolver.cc\<close>: loading a symbol
  file from memory and looking addresses up in it. The module's range maps and the parser
  of STACK WIN records come from headers that are not in the repository; they are the
  fields of \<open>symbol_env\<close>. Function objects are shared between the module's map and the
  loader's current function, so they live in a heap, and the map holds their indices.

  A STACK record whose platform token ends the line makes \<open>ParseStackInfo\<close> step over the
  line's terminator and read on in the memory behind it; this is the error \<open>Overrun\<close>.
\<close>

section \<open>State\<close>

record line_record =
  ln_address :: "64 word"
  ln_size :: "64 word"
  ln_source_file_id :: int
  ln_line :: int

record 'lm sym_function =
  fn_name :: string
  fn_address :: "64 word"
  fn_size :: "64 word"
  fn_parameter_size :: int
  fn_lines :: 'lm

record public_symbol =
  ps_name :: string
  ps_address :: "64 word"
  ps_parameter_size :: int

record ('fm, 'lm, 'pm, 'wm, 'cm) symbol_env =
  env_functions :: "('fm, nat) range_map"
  env_lines :: "('lm, line_record) range_map"
  env_publics :: "('pm, public_symbol) address_map"
  env_windows :: "('wm, windows_frame_info) contained_map"
  env_cfi :: "('cm, string) range_map"
  env_ParseFromString :: "string \<Rightarrow> (windows_frame_info \<times> int \<times> 64 word \<times> 64 word) option"
  env_WindowsFrameInfo :: windows_frame_info
  env_STACK_INFO_FRAME_DATA :: int
  env_STACK_INFO_FPO :: int
  env_VALID_PARAMETER_SIZE :: "32 word"

record ('fm, 'lm, 'pm, 'wm, 'cm) sym_module =
  sm_name :: string
  sm_files :: "(int, string) std_map"
  sm_heap :: "'lm sym_function list"
  sm_functions :: 'fm
  sm_public_symbols :: 'pm
  sm_windows_frame_info :: "(int, 'wm) std_map"
  sm_cfi_initial_rules :: 'cm
  sm_cfi_delta_rules :: "(64 word, string) std_map"
  sm_is_corrupt :: bool

definition new_module :: "('fm, 'lm, 'pm, 'wm, 'cm) symbol_env \<Rightarrow> string \<Rightarrow> ('fm, 'lm, 'pm, 'wm, 'cm) sym_module" where
  "new_module env name = \<lparr>sm_name = name, sm_files = [], sm_heap = [], sm_functions = rm_empty (env_functions env),
     sm_public_symbols = am_empty (env_publics env), sm_windows_frame_info = [],
     sm_cfi_initial_rules = rm_empty (env_cfi env), sm_cfi_delta_rules = [], sm_is_corrupt = False\<rparr>"

section \<open>Records\<close>

definition ParseFile :: "string \<Rightarrow> ('fm, 'lm, 'pm, 'wm, 'cm) sym_module \<Rightarrow> bool \<times> ('fm, 'lm, 'pm, 'wm, 'cm) sym_module" where
  "ParseFile file_line m = (case parse_file_line file_line of
      Some (index, filename) \<Rightarrow> (True, m\<lparr>sm_files := map_insert index filename (sm_files m)\<rparr>)
    | None \<Rightarrow> (False, m))"

definition ParseFunction :: "('fm, 'lm, 'pm, 'wm, 'cm) symbol_env \<Rightarrow> string \<Rightarrow> 'lm sym_function option" where
  "ParseFunction env function_line = (case parse_function_line function_line of
      Some (address, sz, stack_param_size, name) \<Rightarrow>
        Some \<lparr>fn_name = name, fn_address = address, fn_size = sz, fn_parameter_size = stack_param_size,
              fn_lines = rm_empty (env_lines env)\<rparr>
    | None \<Rightarrow> None)"

definition ParseLine :: "string \<Rightarrow> line_record option" where
  "ParseLine line_line = (case parse_line_line line_line of
      Some (address, sz, line_number, source_file) \<Rightarrow>
        Some \<lparr>ln_address = address, ln_size = sz, ln_source_file_id = source_file, ln_line = line_number\<rparr>
    | None \<Rightarrow> None)"

definition ParsePublicSymbol :: "('fm, 'lm, 'pm, 'wm, 'cm) symbol_env \<Rightarrow> string \<Rightarrow> ('fm, 'lm, 'pm, 'wm, 'cm) sym_module
    \<Rightarrow> bool \<times> ('fm, 'lm, 'pm, 'wm, 'cm) sym_module" where
  "ParsePublicSymbol env public_line m = (case parse_public_line public_line of
      Some (address, stack_param_size, name) \<Rightarrow>
        if address = 0 then (True, m)
        else
          let (ok, pm) = am_store (env_publics env) address
                \<lparr>ps_name = name, ps_address = address, ps_parameter_size = stack_param_size\<rparr> (sm_public_symbols m)
          in (ok, m\<lparr>sm_public_symbols := pm\<rparr>)
    | None \<Rightarrow> (False, m))"

definition ParseCFIFrameInfo :: "('fm, 'lm, 'pm, 'wm, 'cm) symbol_env \<Rightarrow> string \<Rightarrow> ('fm, 'lm, 'pm, 'wm, 'cm) sym_module
    \<Rightarrow> bool \<times> ('fm, 'lm, 'pm, 'wm, 'cm) sym_module" where
  "ParseCFIFrameInfo env stack_info_line m =
     (case strtok_r kWhitespace stack_info_line of
        (None, _) \<Rightarrow> (False, m)
      | (Some init_or_address, cursor) \<Rightarrow>
          if init_or_address = ''INIT''
          then
            case strtok_r kWhitespace cursor of
              (None, _) \<Rightarrow> (False, m)
            | (Some address_field, cursor1) \<Rightarrow>
                case strtok_r kWhitespace cursor1 of
                  (None, _) \<Rightarrow> (False, m)
                | (Some size_field, cursor2) \<Rightarrow>
                    case strtok_r crlf cursor2 of
                      (None, _) \<Rightarrow> (False, m)
                    | (Some initial_rules, _) \<Rightarrow>
                        (True, m\<lparr>sm_cfi_initial_rules :=
                           snd (rm_store (env_cfi env) (strtoul address_field 16) (strtoul size_field 16)
                             initial_rules (sm_cfi_initial_rules m))\<rparr>)
          else
            case strtok_r crlf cursor of
              (None, _) \<Rightarrow> (False, m)
            | (Some delta_rules, _) \<Rightarrow>
                (True, m\<lparr>sm_cfi_delta_rules :=
                   map_set (strtoul init_or_address 16) delta_rules (sm_cfi_delta_rules m)\<rparr>))"

text \<open>\<open>windows_frame_info_\<close> is an array of maps, one for each type; one not stored yet is empty.\<close>

definition windows_map :: "('fm, 'lm, 'pm, 'wm, 'cm) symbol_env \<Rightarrow> ('fm, 'lm, 'pm, 'wm, 'cm) sym_module \<Rightarrow> int \<Rightarrow> 'wm" where
  "windows_map env m type = (case map_find (sm_windows_frame_info m) type of
     Some w \<Rightarrow> w | None \<Rightarrow> ct_empty (env_windows env))"

definition ParseStackInfo :: "('fm, 'lm, 'pm, 'wm, 'cm) symbol_env \<Rightarrow> string \<Rightarrow> ('fm, 'lm, 'pm, 'wm, 'cm) sym_module
    \<Rightarrow> run_error + (bool \<times> ('fm, 'lm, 'pm, 'wm, 'cm) sym_module)" where
  "ParseStackInfo env stack_info_line m =
     (let s = dropWhile (\<lambda>c. c = CHR '' '') (drop 6 stack_info_line);
          platform = takeWhile (\<lambda>c. c \<notin> set kWhitespace) s;
          rest = dropWhile (\<lambda>c. c \<notin> set kWhitespace) s
      in if platform = ''WIN''
         then
           (case rest of
              [] \<Rightarrow> Inl Overrun
            | _ # info \<Rightarrow>
                (case env_ParseFromString env info of
                   None \<Rightarrow> Inr (False, m)
                 | Some (stack_frame_info, type, rva, code_size) \<Rightarrow>
                     Inr (True, m\<lparr>sm_windows_frame_info := map_set type
                       (snd (ct_store (env_windows env) rva code_size stack_frame_info (windows_map env m type)))
                       (sm_windows_frame_info m)\<rparr>)))
         else if platform = ''CFI''
         then (case rest of [] \<Rightarrow> Inl Overrun | _ # info \<Rightarrow> Inr (ParseCFIFrameInfo env info m))
         else Inr (False, m))"

section \<open>Loading\<close>

definition kMaxErrorsBeforeBailing :: nat where
  "kMaxErrorsBeforeBailing = 100"

text \<open>
  One line of the loop: the flag tells whether it was parsed (\<open>LogParseError\<close> counts it
  otherwise), \<open>cur_func\<close> is the index of the function the following line records belong
  to.
\<close>

definition starts :: "string \<Rightarrow> string \<Rightarrow> bool" where
  "starts p s \<longleftrightarrow> take (length p) s = p"

definition load_line :: "('fm, 'lm, 'pm, 'wm, 'cm) symbol_env \<Rightarrow> string \<Rightarrow> nat option \<Rightarrow> ('fm, 'lm, 'pm, 'wm, 'cm) sym_module
    \<Rightarrow> run_error + (bool \<times> nat option \<times> ('fm, 'lm, 'pm, 'wm, 'cm) sym_module)" where
  "load_line env buffer cur_func m =
     (if starts ''FILE '' buffer then
        (let (ok, m') = ParseFile buffer m in Inr (ok, cur_func, m'))
      else if starts ''STACK '' buffer then
        ebind (ParseStackInfo env buffer m) (\<lambda>(ok, m'). Inr (ok, cur_func, m'))
      else if starts ''FUNC '' buffer then
        (case ParseFunction env buffer of
           None \<Rightarrow> Inr (False, None, m)
         | Some f \<Rightarrow>
             let i = length (sm_heap m) in
             Inr (True, Some i, m\<lparr>sm_heap := sm_heap m @ [f],
               sm_functions := snd (rm_store (env_functions env) (fn_address f) (fn_size f) i (sm_functions m))\<rparr>))
      else if starts ''PUBLIC '' buffer then
        (let (ok, m') = ParsePublicSymbol env buffer m in Inr (ok, None, m'))
      else if starts ''MODULE '' buffer then Inr (True, cur_func, m)
      else if starts ''INFO '' buffer then Inr (True, cur_func, m)
      else
        (case cur_func of
           None \<Rightarrow> Inr (False, cur_func, m)
         | Some i \<Rightarrow>
             (case ParseLine buffer of
                None \<Rightarrow> Inr (False, cur_func, m)
              | Some l \<Rightarrow>
                  Inr (True, cur_func, m\<lparr>sm_heap := (sm_heap m)[i := (sm_heap m ! i)
                    \<lparr>fn_lines := snd (rm_store (env_lines env) (ln_address l) (ln_size l) l
                       (fn_lines (sm_heap m ! i)))\<rparr>]\<rparr>))))"

function load_loop :: "('fm, 'lm, 'pm, 'wm, 'cm) symbol_env \<Rightarrow> string option \<Rightarrow> string \<Rightarrow> nat option \<Rightarrow> nat
    \<Rightarrow> ('fm, 'lm, 'pm, 'wm, 'cm) sym_module \<Rightarrow> run_error + (nat \<times> ('fm, 'lm, 'pm, 'wm, 'cm) sym_module)" where
  "load_loop env None save_ptr cur_func num_errors m = Inr (num_errors, m)"
| "load_loop env (Some buffer) save_ptr cur_func num_errors m =
     ebind (load_line env buffer cur_func m) (\<lambda>(ok, cur_func', m').
       let num_errors' = (if ok then num_errors else num_errors + 1) in
       if num_errors' > kMaxErrorsBeforeBailing then Inr (num_errors', m')
       else case strtok_r crlf save_ptr of
              (buffer', save_ptr') \<Rightarrow> load_loop env buffer' save_ptr' cur_func' num_errors' m')"
  by pat_completeness auto
termination
proof (relation "measure (\<lambda>(env, t, s, _). length s + (case t of None \<Rightarrow> 0 | Some _ \<Rightarrow> 1))", goal_cases)
  case (2 env buffer save_ptr cur_func num_errors m x ok y cur_func' m' num_errors' buffer' save_ptr')
  then show ?case
    using strtok_r_shrinks [of crlf save_ptr] strtok_r_None [of crlf save_ptr]
    by (auto dest: sym split: option.splits)
qed auto

text \<open>
  The buffer is made to end in a NUL (its last byte is overwritten), the NULs at its end
  are dropped and those inside it become underscores.
\<close>

definition prepare_buffer :: "string \<Rightarrow> bool \<times> string" where
  "prepare_buffer memory_buffer =
     (let body = rev (dropWhile (\<lambda>c. c = CHR 0x00) (rev (butlast memory_buffer)))
      in (CHR 0x00 \<in> set body, List.map (\<lambda>c. if c = CHR 0x00 then CHR ''_'' else c) body))"

definition LoadMapFromMemory :: "('fm, 'lm, 'pm, 'wm, 'cm) symbol_env \<Rightarrow> string \<Rightarrow> ('fm, 'lm, 'pm, 'wm, 'cm) sym_module
    \<Rightarrow> run_error + ('fm, 'lm, 'pm, 'wm, 'cm) sym_module" where
  "LoadMapFromMemory env memory_buffer m =
     (if memory_buffer = [] then Inr m
      else
        let (has_null_terminator_in_the_middle, text) = prepare_buffer memory_buffer;
            (buffer, save_ptr) = strtok_r crlf text
        in ebind (load_loop env buffer save_ptr None (if has_null_terminator_in_the_middle then 1 else 0) m)
             (\<lambda>(num_errors, m'). Inr (m'\<lparr>sm_is_corrupt := num_errors > 0\<rparr>)))"

section \<open>Lookup\<close>

text \<open>The frame's module is not null here: the resolver checks it before the call.\<close>

definition LookupAddress :: "('fm, 'lm, 'pm, 'wm, 'cm) symbol_env \<Rightarrow> ('fm, 'lm, 'pm, 'wm, 'cm) sym_module \<Rightarrow> codemodule
    \<Rightarrow> 'a stack_frame_scheme \<Rightarrow> 'a stack_frame_scheme" where
  "LookupAddress env m cm frame =
     (let address = sf_instruction frame - cm_base_address cm;
          nearest = rm_nearest (env_functions env) address (sm_functions m)
      in case nearest of
           Some (i, function_base, function_size) \<Rightarrow>
             if in_range address function_base function_size
             then
               let func = sm_heap m ! i;
                   frame1 = frame\<lparr>sf_function_name := fn_name func, sf_function_base := cm_base_address cm + function_base\<rparr>
               in (case rm_retrieve (env_lines env) address (fn_lines func) of
                     None \<Rightarrow> frame1
                   | Some (line, line_base, _) \<Rightarrow>
                       let frame2 = (case map_find (sm_files m) (ln_source_file_id line) of
                                       Some name \<Rightarrow> frame1\<lparr>sf_source_file_name := name\<rparr>
                                     | None \<Rightarrow> frame1)
                       in frame2\<lparr>sf_source_line := ln_line line, sf_source_line_base := cm_base_address cm + line_base\<rparr>)
             else
               (case am_retrieve (env_publics env) address (sm_public_symbols m) of
                  Some (public_symbol, public_address) \<Rightarrow>
                    if public_address > function_base
                    then frame\<lparr>sf_function_name := ps_name public_symbol,
                               sf_function_base := cm_base_address cm + public_address\<rparr>
                    else frame
                | None \<Rightarrow> frame)
         | None \<Rightarrow>
             (case am_retrieve (env_publics env) address (sm_public_symbols m) of
                Some (public_symbol, public_address) \<Rightarrow>
                  frame\<lparr>sf_function_name := ps_name public_symbol,
                        sf_function_base := cm_base_address cm + public_address\<rparr>
              | None \<Rightarrow> frame))"

text \<open>
  \<open>FindWindowsFrameInfo\<close>: the parameter size of a public symbol is stored into a result
  that is then dropped; the function returns null there.
\<close>

definition FindWindowsFrameInfo :: "('fm, 'lm, 'pm, 'wm, 'cm) symbol_env \<Rightarrow> ('fm, 'lm, 'pm, 'wm, 'cm) sym_module \<Rightarrow> codemodule
    \<Rightarrow> 'a stack_frame_scheme \<Rightarrow> windows_frame_info option" where
  "FindWindowsFrameInfo env m cm frame =
     (let address = sf_instruction frame - cm_base_address cm;
          result = env_WindowsFrameInfo env
      in case ct_retrieve (env_windows env) address (windows_map env m (env_STACK_INFO_FRAME_DATA env)) of
           Some frame_info \<Rightarrow> Some frame_info
         | None \<Rightarrow>
             (case ct_retrieve (env_windows env) address (windows_map env m (env_STACK_INFO_FPO env)) of
                Some frame_info \<Rightarrow> Some frame_info
              | None \<Rightarrow>
                  (case rm_nearest (env_functions env) address (sm_functions m) of
                     Some (i, function_base, function_size) \<Rightarrow>
                       if in_range address function_base function_size
                       then Some (result\<lparr>wfi_parameter_size := word_of_int (fn_parameter_size (sm_heap m ! i)),
                              wfi_valid := or (wfi_valid result) (env_VALID_PARAMETER_SIZE env)\<rparr>)
                       else
                         let dropped =
                           (case am_retrieve (env_publics env) address (sm_public_symbols m) of
                              Some (public_symbol, public_address) \<Rightarrow>
                                if public_address > function_base
                                then result\<lparr>wfi_parameter_size := word_of_int (ps_parameter_size public_symbol)\<rparr>
                                else result
                            | None \<Rightarrow> result)
                         in None
                   | None \<Rightarrow>
                       let dropped =
                         (case am_retrieve (env_publics env) address (sm_public_symbols m) of
                            Some (public_symbol, public_address) \<Rightarrow>
                              result\<lparr>wfi_parameter_size := word_of_int (ps_parameter_size public_symbol)\<rparr>
                          | None \<Rightarrow> result)
                       in None)))"

text \<open>The loop over the delta rules, from the first at or after the initial rule's base.\<close>

fun apply_deltas :: "64 word \<Rightarrow> (64 word, string) std_map \<Rightarrow> cfi_frame_info \<Rightarrow> cfi_frame_info" where
  "apply_deltas address [] rules = rules"
| "apply_deltas address ((a, rule_set) # delta) rules =
     (if a \<le> address then apply_deltas address delta (snd (ParseCFIRuleSet rule_set rules)) else rules)"

definition FindCFIFrameInfo :: "('fm, 'lm, 'pm, 'wm, 'cm) symbol_env \<Rightarrow> ('fm, 'lm, 'pm, 'wm, 'cm) sym_module \<Rightarrow> codemodule
    \<Rightarrow> 'a stack_frame_scheme \<Rightarrow> cfi_frame_info option" where
  "FindCFIFrameInfo env m cm frame =
     (let address = sf_instruction frame - cm_base_address cm in
      case rm_retrieve (env_cfi env) address (sm_cfi_initial_rules m) of
        None \<Rightarrow> None
      | Some (initial_rules, initial_base, initial_size) \<Rightarrow>
          (case ParseCFIRuleSet initial_rules new_cfi_frame_info of
             (False, _) \<Rightarrow> None
           | (True, rules) \<Rightarrow> Some (apply_deltas address (lower_bound initial_base (sm_cfi_delta_rules m)) rules)))"

end
