(* ===== verification/Symbol_Lookup.thy ===== *)
theory Symbol_Lookup
  imports Symbol_Module
begin

text \<open>
  What loading and looking up guarantee together: which files are marked corrupt, what
  the frame of an address in a loaded function gets, which CFI rules are in force at an
  address.
\<close>

section \<open>The loader over the list of lines\<close>

fun load_lines :: "('fm, 'lm, 'pm, 'wm, 'cm) symbol_env \<Rightarrow> string list \<Rightarrow> nat option \<Rightarrow> nat
    \<Rightarrow> ('fm, 'lm, 'pm, 'wm, 'cm) sym_module \<Rightarrow> run_error + (nat \<times> ('fm, 'lm, 'pm, 'wm, 'cm) sym_module)" where
  "load_lines env [] cur_func num_errors m = Inr (num_errors, m)"
| "load_lines env (l # ls) cur_func num_errors m =
     ebind (load_line env l cur_func m) (\<lambda>(ok, cur_func', m').
       let num_errors' = (if ok then num_errors else num_errors + 1) in
       if num_errors' > kMaxErrorsBeforeBailing then Inr (num_errors', m')
       else load_lines env ls cur_func' num_errors' m')"

definition lines_from :: "string option \<Rightarrow> string \<Rightarrow> string list" where
  "lines_from token save_ptr = (case token of None \<Rightarrow> [] | Some t \<Rightarrow> t # strtok_all crlf save_ptr)"

lemma lines_from_next: "strtok_r crlf s = (t, r) \<Longrightarrow> lines_from t r = strtok_all crlf s"
  by (simp add: lines_from_def strtok_all.simps [of _ s] split: option.splits)

lemma load_loop_lines:
  "load_loop env token save_ptr cur_func n m = load_lines env (lines_from token save_ptr) cur_func n m"
proof (induction env token save_ptr cur_func n m rule: load_loop.induct)
  case (2 env buffer save_ptr cur_func n m)
  obtain t r where tr: "strtok_r crlf save_ptr = (t, r)" by fastforce
  have l: "lines_from (Some buffer) save_ptr = buffer # lines_from t r"
    using lines_from_next [OF tr] by (simp add: lines_from_def)
  show ?case
    unfolding l load_loop.simps load_lines.simps
    using 2 tr by (auto simp: Let_def intro!: ebind_cong)
qed (simp add: lines_from_def)

definition file_lines :: "string \<Rightarrow> string list" where
  "file_lines memory_buffer = strtok_all crlf (snd (prepare_buffer memory_buffer))"

lemma LoadMapFromMemory_lines:
  assumes "memory_buffer \<noteq> []"
  shows "LoadMapFromMemory env memory_buffer m =
    ebind (load_lines env (file_lines memory_buffer) None (if fst (prepare_buffer memory_buffer) then 1 else 0) m)
      (\<lambda>(n, m'). Inr (m'\<lparr>sm_is_corrupt := n > 0\<rparr>))"
proof -
  obtain t r where tr: "strtok_r crlf (snd (prepare_buffer memory_buffer)) = (t, r)" by fastforce
  obtain b body where p: "prepare_buffer memory_buffer = (b, body)" by fastforce
  show ?thesis
    using assms lines_from_next [OF tr] tr
    by (simp add: LoadMapFromMemory_def load_loop_lines file_lines_def p)
qed

text \<open>The loader that insists on every line.\<close>

fun load_all :: "('fm, 'lm, 'pm, 'wm, 'cm) symbol_env \<Rightarrow> string list \<Rightarrow> nat option
    \<Rightarrow> ('fm, 'lm, 'pm, 'wm, 'cm) sym_module \<Rightarrow> ('fm, 'lm, 'pm, 'wm, 'cm) sym_module option" where
  "load_all env [] cur_func m = Some m"
| "load_all env (l # ls) cur_func m =
     (case load_line env l cur_func m of
        Inr (True, cur_func', m') \<Rightarrow> load_all env ls cur_func' m'
      | _ \<Rightarrow> None)"

lemma load_lines_all: "load_all env ls cur_func m = Some m' \<Longrightarrow> load_lines env ls cur_func 0 m = Inr (0, m')"
  by (induction ls arbitrary: cur_func m) (auto simp: kMaxErrorsBeforeBailing_def split: sum.splits prod.splits bool.splits)

lemma load_lines_mono: "load_lines env ls cur_func n m = Inr (n', m') \<Longrightarrow> n \<le> n'"
proof (induction ls arbitrary: cur_func n m)
  case (Cons l ls)
  then show ?case by (fastforce simp: Let_def split: if_splits)
qed simp

lemma load_lines_0: "load_lines env ls cur_func 0 m = Inr (0, m') \<Longrightarrow> load_all env ls cur_func m = Some m'"
proof (induction ls arbitrary: cur_func m)
  case (Cons l ls)
  then obtain ok c m1 where l: "load_line env l cur_func m = Inr (ok, c, m1)" by auto
  have ok: "ok"
  proof (rule ccontr)
    assume "\<not> ok"
    then have "load_lines env ls c 1 m1 = Inr (0, m')"
      using Cons.prems l by (auto simp: kMaxErrorsBeforeBailing_def split: if_splits)
    from load_lines_mono [OF this] show False by simp
  qed
  then show ?case using Cons l by (auto simp: kMaxErrorsBeforeBailing_def)
qed simp

lemma load_lines_bound: "load_lines env ls cur_func n m = Inr (n', m') \<Longrightarrow> n \<le> 100 \<Longrightarrow> n' \<le> 101"
proof (induction ls arbitrary: cur_func n m)
  case (Cons l ls)
  then show ?case
    by (fastforce simp: Let_def kMaxErrorsBeforeBailing_def split: if_splits)
qed simp

section \<open>Invariant of the maps\<close>

definition module_ok :: "('fm, 'lm, 'pm, 'wm, 'cm) sym_module \<Rightarrow> bool" where
  "module_ok m \<longleftrightarrow> map_ok (sm_files m) \<and> map_ok (sm_cfi_delta_rules m)"

lemma new_module_ok: "module_ok (new_module env name)"
  by (simp add: module_ok_def new_module_def)

lemma ParseFile_ok: "module_ok m \<Longrightarrow> module_ok (snd (ParseFile l m))"
  by (auto simp: ParseFile_def module_ok_def map_ok_insert split: option.splits)

lemma ParsePublicSymbol_ok: "module_ok m \<Longrightarrow> module_ok (snd (ParsePublicSymbol env l m))"
  by (auto simp: ParsePublicSymbol_def module_ok_def Let_def split: option.splits prod.splits)

lemma ParseCFIFrameInfo_ok: "module_ok m \<Longrightarrow> ParseCFIFrameInfo env l m = (ok, m') \<Longrightarrow> module_ok m'"
  by (auto simp: ParseCFIFrameInfo_def module_ok_def map_ok_set split: option.splits prod.splits if_splits)

lemma ParseStackInfo_ok:
  assumes "module_ok m" "ParseStackInfo env l m = Inr (ok, m')"
  shows "module_ok m'"
proof -
  define s where "s = dropWhile (\<lambda>c. c = CHR '' '') (drop 6 l)"
  define platform where "platform = takeWhile (\<lambda>c. c \<notin> set kWhitespace) s"
  define rest where "rest = dropWhile (\<lambda>c. c \<notin> set kWhitespace) s"
  note p = assms(2) [unfolded ParseStackInfo_def Let_def, folded s_def, folded platform_def rest_def]
  show ?thesis
  proof (cases rest)
    case Nil
    with p assms(1) show ?thesis by (simp split: if_splits)
  next
    case (Cons x info)
    with p assms(1) show ?thesis
      using ParseCFIFrameInfo_ok [OF assms(1), of env info ok m']
      by (auto simp: module_ok_def split: if_splits option.splits prod.splits)
  qed
qed

lemma load_line_cases:
  assumes "load_line env l cur_func m = Inr (ok, c, m')"
  obtains "(ok, m') = ParseFile l m"
  | "ParseStackInfo env l m = Inr (ok, m')"
  | "(ok, m') = ParsePublicSymbol env l m"
  | "sm_files m' = sm_files m" "sm_cfi_delta_rules m' = sm_cfi_delta_rules m"
  using assms unfolding load_line_def Let_def
  by (simp split: if_splits prod.splits option.splits) (blast | force)+

lemma load_line_ok:
  assumes "module_ok m" "load_line env l cur_func m = Inr (ok, c, m')"
  shows "module_ok m'"
  using assms(2)
proof (cases rule: load_line_cases)
  case 1
  then show ?thesis using ParseFile_ok [OF assms(1), of l] by (metis snd_conv)
next
  case 2
  then show ?thesis using ParseStackInfo_ok [OF assms(1)] by blast
next
  case 3
  then show ?thesis using ParsePublicSymbol_ok [OF assms(1), of env l] by (metis snd_conv)
next
  case 4
  then show ?thesis using assms(1) by (simp add: module_ok_def)
qed

lemma load_lines_Cons:
  assumes "load_lines env (l # ls) cur_func n m = Inr (n', m')"
  obtains ok c m1 where "load_line env l cur_func m = Inr (ok, c, m1)"
    "n' = (if ok then n else n + 1) \<and> m' = m1 \<or> load_lines env ls c (if ok then n else n + 1) m1 = Inr (n', m')"
  using assms by (auto simp: Let_def split: if_splits)

lemma load_lines_ok: "module_ok m \<Longrightarrow> load_lines env ls cur_func n m = Inr (n', m') \<Longrightarrow> module_ok m'"
proof (induction ls arbitrary: cur_func n m)
  case (Cons l ls)
  from Cons.prems(2) show ?case
  proof (cases rule: load_lines_Cons)
    case (1 ok c m1)
    have "module_ok m1" by (rule load_line_ok [OF Cons.prems(1) 1(1)])
    with 1(2) Cons.IH show ?thesis by blast
  qed
qed simp

lemma LoadMapFromMemory_ok:
  assumes "module_ok m" "LoadMapFromMemory env b m = Inr m'"
  shows "module_ok m'"
proof (cases "b = []")
  case True
  with assms show ?thesis by (simp add: LoadMapFromMemory_def)
next
  case False
  obtain n m1 where "load_lines env (file_lines b) None (if fst (prepare_buffer b) then 1 else 0) m = Inr (n, m1)"
    "m' = m1\<lparr>sm_is_corrupt := n > 0\<rparr>"
    using assms(2) unfolding LoadMapFromMemory_lines [OF False] by auto
  with load_lines_ok [OF assms(1)] show ?thesis by (simp add: module_ok_def)
qed

section \<open>Symbol text\<close>

fun line_text :: "string list \<Rightarrow> string" where
  "line_text [] = []"
| "line_text (l # ls) = l @ CHR 0x0A # line_text ls"

definition is_text_line :: "string \<Rightarrow> bool" where
  "is_text_line l \<longleftrightarrow> is_rest l \<and> CHR 0x00 \<notin> set l"

lemma strtok_all_line_text: "\<forall>l \<in> set ls. is_text_line l \<Longrightarrow> strtok_all crlf (line_text ls) = ls"
proof (induction ls)
  case Nil
  then show ?case by (simp add: strtok_all.simps)
next
  case (Cons l ls)
  have "strtok_r crlf (l @ CHR 0x0A # line_text ls) = (Some l, line_text ls)"
    using Cons.prems by (intro strtok_r_token) (auto simp: is_text_line_def is_rest_def is_token_def crlf_def)
  then show ?case using Cons by (simp add: strtok_all.simps [of crlf "l @ _"])
qed

lemma line_text_no_nul: "\<forall>l \<in> set ls. is_text_line l \<Longrightarrow> CHR 0x00 \<notin> set (line_text ls)"
  by (induction ls) (auto simp: is_text_line_def)

lemma prepare_buffer_text:
  assumes "\<forall>l \<in> set ls. is_text_line l"
  shows "prepare_buffer (line_text ls @ [CHR 0x00]) = (False, line_text ls)"
proof -
  define t where "t = line_text ls"
  have n: "CHR 0x00 \<notin> set t" using line_text_no_nul [OF assms] by (simp add: t_def)
  then have "\<forall>c \<in> set (rev t). c \<noteq> CHR 0x00" by auto
  then have "dropWhile (\<lambda>c. c = CHR 0x00) (rev t) = rev t" by (cases "rev t") simp_all
  moreover have "List.map (\<lambda>c. if c = CHR 0x00 then CHR ''_'' else c) t = t"
    using n by (intro map_idI) auto
  ultimately show ?thesis using n unfolding t_def [symmetric] by (simp add: prepare_buffer_def)
qed

lemma load_text:
  assumes "\<forall>l \<in> set ls. is_text_line l" "load_all env ls None m = Some m'"
  shows "LoadMapFromMemory env (line_text ls @ [CHR 0x00]) m = Inr (m'\<lparr>sm_is_corrupt := False\<rparr>)"
proof -
  have ne: "line_text ls @ [CHR 0x00] \<noteq> []" by simp
  show ?thesis
    unfolding LoadMapFromMemory_lines [OF ne] file_lines_def prepare_buffer_text [OF assms(1)]
    using load_lines_all [OF assms(2)] by (simp add: strtok_all_line_text [OF assms(1)])
qed

section \<open>Functions with line records\<close>

type_synonym line_entry = "nat \<times> nat \<times> nat"

definition entry_line :: "nat \<Rightarrow> line_entry \<Rightarrow> string" where
  "entry_line fid e = (case e of (a, s, n) \<Rightarrow> print_line a s n fid)"

definition entry_record :: "nat \<Rightarrow> line_entry \<Rightarrow> line_record" where
  "entry_record fid e = (case e of (a, s, n) \<Rightarrow>
     \<lparr>ln_address = of_nat a, ln_size = of_nat s, ln_source_file_id = int fid, ln_line = int n\<rparr>)"

definition entry_ok :: "line_entry \<Rightarrow> bool" where
  "entry_ok e \<longleftrightarrow> (case e of (a, s, n) \<Rightarrow> 0 < s \<and> a + s < 2 ^ 64 - 1 \<and> n < 2 ^ 63 - 1)"

definition entries_ok :: "line_entry list \<Rightarrow> bool" where
  "entries_ok es \<longleftrightarrow> (\<forall>e \<in> set es. entry_ok e) \<and> sorted_wrt (\<lambda>(a, s, n) (b, _, _). a + s \<le> b) es"

definition function_text :: "nat \<Rightarrow> string \<Rightarrow> nat \<Rightarrow> nat \<Rightarrow> nat \<Rightarrow> string \<Rightarrow> line_entry list \<Rightarrow> string list" where
  "function_text fid filename address sz param name es =
     print_file fid filename # print_function address sz param name # List.map (entry_line fid) es"

lemma starts_hex_line:
  assumes "h \<noteq> []" "\<forall>c \<in> set h. is_base_digit 16 c" "p \<in> {''FILE '', ''STACK '', ''FUNC '', ''PUBLIC '', ''MODULE '', ''INFO ''}"
  shows "\<not> starts p (h @ CHR '' '' # r)"
proof -
  obtain c d t where l: "h @ CHR '' '' # r = c # d # t" "is_base_digit 16 c" "is_base_digit 16 d \<or> d = CHR '' ''"
  proof (cases h)
    case (Cons c h')
    with assms(2) that show ?thesis by (cases h') auto
  qed (use assms(1) in simp)
  show ?thesis using assms(3) l(2,3) unfolding l(1)
    by (auto simp: starts_def is_base_digit_def digit_val_def)
qed

lemma load_entry_line:
  assumes "entry_ok e" "fid < 2 ^ 63 - 1" "i < length (sm_heap m)"
  shows "load_line env (entry_line fid e) (Some i) m = Inr (True, Some i, m\<lparr>sm_heap := (sm_heap m)[i := (sm_heap m ! i)
     \<lparr>fn_lines := snd (rm_store (env_lines env) (ln_address (entry_record fid e)) (ln_size (entry_record fid e))
        (entry_record fid e) (fn_lines (sm_heap m ! i)))\<rparr>]\<rparr>)"
proof -
  obtain a s n where e: "e = (a, s, n)" by (cases e)
  have "\<not> starts p (entry_line fid e)"
    if "p \<in> {''FILE '', ''STACK '', ''FUNC '', ''PUBLIC '', ''MODULE '', ''INFO ''}" for p
    using starts_hex_line [of "show_hex a" p] show_base_digits [of 16 a] that e
    by (simp add: entry_line_def print_line_def)
  moreover have "ParseLine (entry_line fid e) = Some (entry_record fid e)"
    using parse_print_line [of a s n fid] assms e
    by (simp add: ParseLine_def entry_line_def entry_record_def entry_ok_def)
  ultimately show ?thesis by (simp add: load_line_def)
qed

definition store_entry :: "('fm, 'lm, 'pm, 'wm, 'cm) symbol_env \<Rightarrow> nat \<Rightarrow> 'lm \<Rightarrow> line_entry \<Rightarrow> 'lm" where
  "store_entry env fid lm e = snd (rm_store (env_lines env) (ln_address (entry_record fid e))
     (ln_size (entry_record fid e)) (entry_record fid e) lm)"

lemma load_entry_lines:
  assumes "\<forall>e \<in> set es. entry_ok e" "fid < 2 ^ 63 - 1" "i < length (sm_heap m)"
  shows "load_all env (List.map (entry_line fid) es) (Some i) m = Some (m\<lparr>sm_heap := (sm_heap m)[i := (sm_heap m ! i)
     \<lparr>fn_lines := foldl (store_entry env fid) (fn_lines (sm_heap m ! i)) es\<rparr>]\<rparr>)"
  using assms
proof (induction es arbitrary: m)
  case (Cons e es)
  then show ?case by (simp add: load_entry_line store_entry_def)
qed simp

lemma unat_entry: "entry_ok (a, s, n) \<Longrightarrow> unat (of_nat a :: 64 word) = a \<and> unat (of_nat s :: 64 word) = s"
  by (simp add: entry_ok_def unsigned_of_nat take_bit_nat_eq_self)

lemma retrieve_entries:
  assumes laws: "range_map_laws (env_lines env)" and "entries_ok es"
  shows "rm_retrieve (env_lines env) x (foldl (store_entry env fid) (rm_empty (env_lines env)) es) =
    map_option (\<lambda>e. (entry_record fid e, ln_address (entry_record fid e), ln_size (entry_record fid e)))
      (List.find (\<lambda>(a, s, n). a \<le> unat x \<and> unat x < a + s) es)"
  using assms(2)
proof (induction es arbitrary: x rule: rev_induct)
  case Nil
  then show ?case using laws by (simp add: range_map_laws_def)
next
  case (snoc e es)
  let ?rm = "env_lines env"
  let ?m = "foldl (store_entry env fid) (rm_empty ?rm) es"
  obtain a s n where e: "e = (a, s, n)" by (cases e)
  have ok: "entry_ok (a, s, n)" "entries_ok es" and before: "\<forall>(b, t, k) \<in> set es. b + t \<le> a"
    using snoc.prems e by (auto simp: entries_ok_def sorted_wrt_append)
  note u = unat_entry [OF ok(1)]
  have none: "rm_retrieve ?rm y ?m = None" if "in_range y (of_nat a) (of_nat s)" for y
  proof -
    have "a \<le> unat y" using that u by (simp add: in_range_unat)
    with before have "List.find (\<lambda>(a, s, n). a \<le> unat y \<and> unat y < a + s) es = None"
      by (fastforce simp: find_None_iff)
    with snoc.IH [OF ok(2), of y] show ?thesis by simp
  qed
  have "(of_nat s :: 64 word) \<noteq> 0" using ok(1) u by (auto simp: entry_ok_def)
  moreover have "unat (of_nat a :: 64 word) + unat (of_nat s :: 64 word) \<le> 2 ^ 64"
    using ok(1) u by (simp add: entry_ok_def)
  ultimately have st: "fst (rm_store ?rm (of_nat a) (of_nat s) v ?m)" for v
    using laws none unfolding range_map_laws_def by blast
  have r: "ln_address (entry_record fid e) = of_nat a" "ln_size (entry_record fid e) = of_nat s"
    by (simp_all add: e entry_record_def)
  have "rm_retrieve ?rm x (store_entry env fid ?m e) =
      (if in_range x (of_nat a) (of_nat s) then Some (entry_record fid e, of_nat a, of_nat s) else rm_retrieve ?rm x ?m)"
    using laws st unfolding range_map_laws_def store_entry_def r by blast
  moreover have "in_range x (of_nat a) (of_nat s) \<longleftrightarrow> a \<le> unat x \<and> unat x < a + s"
    using u by (simp add: in_range_unat)
  moreover have "List.find P (es @ [e]) = (case List.find P es of None \<Rightarrow> if P e then Some e else None | Some y \<Rightarrow> Some y)" for P
    by (induction es) auto
  ultimately show ?case
    using snoc.IH [OF ok(2), of x] none [of x] r by (auto simp: e split: option.splits)
qed

lemma find_entry:
  assumes "entries_ok es" "(a, s, n) \<in> set es" "a \<le> x" "x < a + s"
  shows "List.find (\<lambda>(a, s, n). a \<le> x \<and> x < a + s) es = Some (a, s, n)"
  using assms
proof (induction es)
  case (Cons e es)
  obtain b t k where e: "e = (b, t, k)" by (cases e)
  show ?case
  proof (cases "(a, s, n) = e")
    case False
    with Cons.prems e have "b + t \<le> a" by (force simp: entries_ok_def)
    moreover have "(a, s, n) \<in> set es" "entries_ok es" using Cons.prems False by (auto simp: entries_ok_def)
    ultimately show ?thesis using Cons e by simp
  qed (use Cons.prems e in auto)
qed simp

lemma show_base_no_nul: "2 \<le> b \<Longrightarrow> b \<le> 16 \<Longrightarrow> CHR 0x00 \<notin> set (show_base b n)"
  using show_base_digits [of b n] by (auto simp: is_base_digit_def digit_val_def)

lemma show_base_rest: "2 \<le> b \<Longrightarrow> b \<le> 16 \<Longrightarrow> is_text_line (show_base b n)"
  using show_base_token [of b n] show_base_no_nul [of b n]
  by (auto simp: is_text_line_def is_rest_def is_token_def crlf_def kWhitespace_def)

lemma is_text_line_append: "is_text_line a \<Longrightarrow> is_text_line b \<Longrightarrow> is_text_line (a @ b)"
  by (auto simp: is_text_line_def is_rest_def is_token_def)

lemma is_text_line_space: "is_text_line t \<Longrightarrow> is_text_line (CHR '' '' # t)"
  by (auto simp: is_text_line_def is_rest_def is_token_def crlf_def)

lemma is_text_line_joined:
  "\<forall>t \<in> set ts. is_text_line t \<Longrightarrow> is_text_line r \<Longrightarrow> is_text_line (joined (CHR '' '') ts r)"
  by (induction ts) (simp_all add: is_text_line_append is_text_line_space)

lemma function_text_lines:
  assumes "is_text_line name" "is_text_line filename"
  shows "\<forall>l \<in> set (function_text fid filename address sz param name es). is_text_line l"
proof -
  have "is_text_line ''FILE ''" "is_text_line ''FUNC ''"
    by (simp_all add: is_text_line_def is_rest_def is_token_def crlf_def)
  then have "is_text_line (print_file fid filename)" "is_text_line (print_function address sz param name)"
    unfolding print_file_def print_function_def
    using assms by (auto intro!: is_text_line_append is_text_line_joined simp: show_base_rest simp del: joined.simps append.simps)
  moreover have "is_text_line (entry_line fid e)" for e
    unfolding entry_line_def print_line_def
    by (cases e) (auto intro!: is_text_line_joined simp: show_base_rest simp del: joined.simps)
  ultimately show ?thesis by (auto simp: function_text_def)
qed

lemma starts_file: "starts ''FILE '' (print_file fid filename)"
  by (simp add: print_file_def starts_def)

lemma starts_func:
  "starts ''FUNC '' (print_function address sz param name)" "\<not> starts ''FILE '' (print_function address sz param name)"
  "\<not> starts ''STACK '' (print_function address sz param name)"
  by (simp_all add: print_function_def starts_def)

lemma load_function_text:
  assumes "is_text_line name" "is_text_line filename" "fid < 2 ^ 63 - 1" "param < 2 ^ 63 - 1"
    and "address < 2 ^ 64 - 1" "sz < 2 ^ 64 - 1" "\<forall>e \<in> set es. entry_ok e"
  shows "load_all env (function_text fid filename address sz param name es) None (new_module env mname) =
    Some ((new_module env mname)\<lparr>sm_files := [(int fid, filename)],
      sm_heap := [\<lparr>fn_name = name, fn_address = of_nat address, fn_size = of_nat sz, fn_parameter_size = int param,
        fn_lines = foldl (store_entry env fid) (rm_empty (env_lines env)) es\<rparr>],
      sm_functions := snd (rm_store (env_functions env) (of_nat address) (of_nat sz) 0 (rm_empty (env_functions env)))\<rparr>)"
proof -
  have r: "is_rest name" "is_rest filename" using assms by (simp_all add: is_text_line_def)
  have a: "load_line env (print_file fid filename) None m = Inr (True, None, m\<lparr>sm_files := map_insert (int fid) filename (sm_files m)\<rparr>)" for m
    by (simp add: load_line_def starts_file ParseFile_def parse_print_file [OF assms(3) r(2)])
  have b: "load_line env (print_function address sz param name) None m =
    Inr (True, Some (length (sm_heap m)), m\<lparr>sm_heap := sm_heap m @ [\<lparr>fn_name = name, fn_address = of_nat address,
      fn_size = of_nat sz, fn_parameter_size = int param, fn_lines = rm_empty (env_lines env)\<rparr>],
      sm_functions := snd (rm_store (env_functions env) (of_nat address) (of_nat sz) (length (sm_heap m)) (sm_functions m))\<rparr>)" for m
    by (simp add: load_line_def starts_func ParseFunction_def parse_print_function [OF assms(5,6,4) r(1)] Let_def)
  show ?thesis
    unfolding function_text_def
    by (simp add: a b load_entry_lines [OF assms(7,3)] new_module_def map_insert_def map_find_def)
qed

section \<open>An environment to run on\<close>

definition list_env :: "((nat \<times> 64 word \<times> 64 word) list, (line_record \<times> 64 word \<times> 64 word) list,
    (public_symbol \<times> 64 word) list, (windows_frame_info \<times> 64 word \<times> 64 word) list,
    (string \<times> 64 word \<times> 64 word) list) symbol_env" where
  "list_env = \<lparr>env_functions = list_range_map, env_lines = list_range_map, env_publics = list_address_map,
     env_windows = list_contained_map, env_cfi = list_range_map, env_ParseFromString = (\<lambda>_. None),
     env_WindowsFrameInfo = \<lparr>wfi_type = 0, wfi_valid = 0, wfi_prolog_size = 0, wfi_parameter_size = 0,
       wfi_saved_register_size = 0, wfi_local_size = 0, wfi_allocates_base_pointer = False, wfi_program_string = []\<rparr>,
     env_STACK_INFO_FRAME_DATA = 4, env_STACK_INFO_FPO = 0, env_VALID_PARAMETER_SIZE = 1\<rparr>"

definition a_module :: codemodule where
  "a_module = \<lparr>cm_ptr = 1, cm_base_address = 0x400000, cm_size = 0x1000, cm_code_file = ''a.out'',
     cm_code_identifier = [], cm_debug_file = ''a.out'', cm_debug_identifier = ''1'', cm_version = []\<rparr>"

definition a_frame :: "64 word \<Rightarrow> stack_frame" where
  "a_frame pc = \<lparr>sf_instruction = pc, sf_module = None, sf_function_name = [], sf_function_base = 0,
     sf_source_file_name = [], sf_source_line = 0, sf_source_line_base = 0, sf_trust = FRAME_TRUST_NONE\<rparr>"

definition cfi_text :: string where
  "cfi_text = line_text [''STACK CFI INIT 10 20 .cfa: $esp 4 + .ra: .cfa 4 - ^'', ''STACK CFI 18 .cfa: $esp 8 +'',
     ''STACK CFI 14 .cfa: $esp 12 + $ebx: 1'', ''STACK CFI 1c .cfa: 0''] @ [CHR 0x00]"

lemma list_env_laws: "range_map_laws (env_functions list_env)" "range_map_laws (env_lines list_env)"
  by (simp_all add: list_env_def list_range_map_laws)

section \<open>Properties\<close>



text \<open>
  C33: a loaded module is marked corrupt exactly when its file holds a NUL character or a
  line that is rejected; otherwise every line of the file has been applied in order.
\<close>

theorem load_corrupt_iff:
  assumes "buffer \<noteq> []" "LoadMapFromMemory env buffer m = Inr m'"
  shows "\<not> sm_is_corrupt m' \<longleftrightarrow> \<not> fst (prepare_buffer buffer) \<and>
    (\<exists>m1. load_all env (file_lines buffer) None m = Some m1 \<and> m' = m1\<lparr>sm_is_corrupt := False\<rparr>)"
proof -
  define k :: nat where "k = (if fst (prepare_buffer buffer) then 1 else 0)"
  obtain n m1 where r: "load_lines env (file_lines buffer) None k m = Inr (n, m1)" "m' = m1\<lparr>sm_is_corrupt := n > 0\<rparr>"
    using assms(2) unfolding LoadMapFromMemory_lines [OF assms(1)] k_def by auto
  show ?thesis
  proof (cases "n = 0")
    case True
    with load_lines_mono [OF r(1)] have "k = 0" by simp
    with True r load_lines_0 [of env "file_lines buffer" None m m1] show ?thesis
      by (auto simp: k_def split: if_splits)
  next
    case False
    then have "sm_is_corrupt m'" using r(2) by simp
    moreover from this have "m' \<noteq> q\<lparr>sm_is_corrupt := False\<rparr>" for q by auto
    ultimately show ?thesis by blast
  qed
qed

theorem load_corrupt_iff_witness:
  "sm_is_corrupt (case LoadMapFromMemory list_env ''FILE x'' (new_module list_env ''m'') of Inr m \<Rightarrow> m)"
proof -
  have r: "LoadMapFromMemory list_env ''FILE x'' (new_module list_env ''m'') =
      Inr ((new_module list_env ''m'')\<lparr>sm_is_corrupt := True\<rparr>)"
    by code_simp
  have f: "file_lines ''FILE x'' = [''FILE '']" by code_simp
  have l: "load_all list_env [''FILE ''] None (new_module list_env ''m'') = None" by code_simp
  have "\<not> \<not> sm_is_corrupt ((new_module list_env ''m'')\<lparr>sm_is_corrupt := True\<rparr>)"
    by (subst load_corrupt_iff [OF _ r]) (simp_all add: f l del: load_all.simps)
  then show ?thesis unfolding r by simp
qed

text \<open>
  C5: the CFI rules \<open>FindCFIFrameInfo\<close> finds are those of the covering initial record,
  changed by the delta records from the initial record's base up to and including the
  frame's address, in ascending order of their addresses; it never looks past them.
\<close>

theorem FindCFIFrameInfo_deltas:
  assumes "LoadMapFromMemory env buffer (new_module env name) = Inr m"
    and "address = sf_instruction frame - cm_base_address cm"
    and "rm_retrieve (env_cfi env) address (sm_cfi_initial_rules m) = Some (initial_rules, base, sz)"
    and "ParseCFIRuleSet initial_rules new_cfi_frame_info = (True, rules)"
  shows "sorted_wrt (<) (List.map fst (sm_cfi_delta_rules m)) \<and>
    FindCFIFrameInfo env m cm frame = Some (foldl (\<lambda>r (a, rule_set). snd (ParseCFIRuleSet rule_set r)) rules
      (filter (\<lambda>(a, rule_set). base \<le> a \<and> a \<le> address) (sm_cfi_delta_rules m)))"
proof -
  have ok: "map_ok (sm_cfi_delta_rules m)"
    using LoadMapFromMemory_ok [OF new_module_ok assms(1)] by (simp add: module_ok_def)
  have walk: "apply_deltas address d r = foldl (\<lambda>r (a, rule_set). snd (ParseCFIRuleSet rule_set r)) r
      (filter (\<lambda>(a, rule_set). a \<le> address) d)" if "map_ok d" for d r
    using that
  proof (induction address d r rule: apply_deltas.induct)
    case (2 address a rule_set delta rules)
    have "filter (\<lambda>(a, rule_set). a \<le> address) delta = []" if "\<not> a \<le> address"
      using 2(2) that by (force simp: filter_empty_conv)
    with 2 show ?case by auto
  qed simp
  have "map_ok (lower_bound base (sm_cfi_delta_rules m))"
    unfolding lower_bound_filter [OF ok] using ok
    by (auto simp: map_ok_def sorted_wrt_map intro: sorted_wrt_filter)
  from walk [OF this] have "FindCFIFrameInfo env m cm frame = Some (foldl (\<lambda>r (a, rule_set). snd (ParseCFIRuleSet rule_set r)) rules
      (filter (\<lambda>(a, rule_set). a \<le> address) (filter (\<lambda>e. base \<le> fst e) (sm_cfi_delta_rules m))))"
    using assms by (simp add: FindCFIFrameInfo_def lower_bound_filter [OF ok])
  moreover have "filter (\<lambda>(a, rule_set). a \<le> address) (filter (\<lambda>e. base \<le> fst e) (sm_cfi_delta_rules m))
      = filter (\<lambda>(a, rule_set). base \<le> a \<and> a \<le> address) (sm_cfi_delta_rules m)"
    unfolding filter_filter by (rule filter_cong) auto
  ultimately show ?thesis using ok by (simp add: map_ok_def)
qed

theorem FindCFIFrameInfo_deltas_witness:
  "\<exists>m. LoadMapFromMemory list_env cfi_text (new_module list_env ''a.out'') = Inr m
    \<and> FindCFIFrameInfo list_env m a_module (a_frame 0x40001a) =
      Some \<lparr>cfa_rule = ''$esp 8 +'', ra_rule = ''.cfa 4 - ^'', register_rules = [(''$ebx'', ''1'')]\<rparr>"
proof -
  let ?r = "LoadMapFromMemory list_env cfi_text (new_module list_env ''a.out'')"
  let ?init = "''.cfa: $esp 4 + .ra: .cfa 4 - ^''"
  let ?rules = "\<lparr>cfa_rule = ''$esp 4 +'', ra_rule = ''.cfa 4 - ^'', register_rules = []\<rparr>"
  let ?deltas = "[(0x14, ''.cfa: $esp 12 + $ebx: 1''), (0x18, ''.cfa: $esp 8 +''), (0x1c, ''.cfa: 0'')]"
  have "map_sum id (\<lambda>m. (sm_cfi_delta_rules m, sm_cfi_initial_rules m)) ?r = Inr (?deltas, [(?init, 0x10, 0x20)])"
    by code_simp
  then obtain m where m: "?r = Inr m" "sm_cfi_delta_rules m = ?deltas" "sm_cfi_initial_rules m = [(?init, 0x10, 0x20)]"
    by (cases ?r) auto
  have a: "0x1a = sf_instruction (a_frame 0x40001a) - cm_base_address a_module" by (simp add: a_frame_def a_module_def)
  have i: "rm_retrieve (env_cfi list_env) 0x1a (sm_cfi_initial_rules m) = Some (?init, 0x10, 0x20)"
    by (simp add: m list_env_def list_range_map_def in_range_def)
  have p: "ParseCFIRuleSet ?init new_cfi_frame_info = (True, ?rules)" by code_simp
  have d: "foldl (\<lambda>r (a, rule_set). snd (ParseCFIRuleSet rule_set r)) ?rules
      (filter (\<lambda>(a, rule_set). 0x10 \<le> a \<and> a \<le> (0x1a :: 64 word)) ?deltas) =
      \<lparr>cfa_rule = ''$esp 8 +'', ra_rule = ''.cfa 4 - ^'', register_rules = [(''$ebx'', ''1'')]\<rparr>"
    by code_simp
  have "FindCFIFrameInfo list_env m a_module (a_frame 0x40001a) =
      Some (foldl (\<lambda>r (a, rule_set). snd (ParseCFIRuleSet rule_set r)) ?rules
        (filter (\<lambda>(a, rule_set). 0x10 \<le> a \<and> a \<le> 0x1a) (sm_cfi_delta_rules m)))"
    using FindCFIFrameInfo_deltas [OF m(1) a i p] by blast
  with m(1) d show ?thesis unfolding m(2) by simp
qed

text \<open>
  Public symbols have no influence on \<open>FindWindowsFrameInfo\<close>, although a comment in
  it says that their parameter size is used: the function returns null on that path.
\<close>

theorem FindWindowsFrameInfo_ignores_publics:
  "FindWindowsFrameInfo env (m\<lparr>sm_public_symbols := p\<rparr>) cm frame = FindWindowsFrameInfo env m cm frame"
  by (simp add: FindWindowsFrameInfo_def windows_map_def Let_def split: option.split prod.split)



end
