(* ===== verification/Resolver.thy ===== *)
theory Resolver
  imports Symbol_Lookup
begin

text \<open>
  \<open>minidump_src/source_line_resolver_base.cc\<close>: the set of modules whose symbols are
  loaded, the set of those whose symbols are corrupt, and the operations on them, for the
  modules of \<open>Symbol_Module\<close>. The file system is a parameter: \<open>st_size\<close> is \<open>stat\<close>'s
  \<open>st_size\<close> (\<open>None\<close> when it fails), \<open>contents\<close> what a file holds when it can be opened.

  The record \<open>resolver_ops\<close> is the abstract class \<open>SourceLineResolverInterface\<close> its
  clients call; the locale \<open>source_line_resolver\<close> states what they rely on, and the
  interpretation shows that the base class keeps it.
\<close>

section \<open>State\<close>

record ('fm, 'lm, 'pm, 'wm, 'cm) resolver =
  rs_modules :: "(string, ('fm, 'lm, 'pm, 'wm, 'cm) sym_module) std_map"
  rs_corrupt_modules :: "(string, unit) std_map"
  rs_memory_buffers :: "(string, string) std_map"

definition new_resolver :: "('fm, 'lm, 'pm, 'wm, 'cm) resolver" where
  "new_resolver = \<lparr>rs_modules = [], rs_corrupt_modules = [], rs_memory_buffers = []\<rparr>"

record file_system =
  fs_st_size :: "string \<Rightarrow> nat option"
  fs_contents :: "string \<Rightarrow> string option"

section \<open>Reading a symbol file\<close>

text \<open>
  \<open>fread\<close>'s count is kept in an \<open>int\<close> and compared with the file's size, so a file of
  2 GiB or more is never read.
\<close>

definition ReadSymbolFile :: "file_system \<Rightarrow> string \<Rightarrow> string option" where
  "ReadSymbolFile fs map_file =
     (case fs_st_size fs map_file of
        None \<Rightarrow> None
      | Some file_size \<Rightarrow>
          (case fs_contents fs map_file of
             None \<Rightarrow> None
           | Some contents \<Rightarrow>
               let bytes = take file_size contents;
                   items_read = to_signed 32 (int (length bytes))
               in if items_read \<noteq> int file_size then None else Some (bytes @ [CHR 0x00])))"

section \<open>Operations\<close>

definition ShouldDeleteMemoryBufferAfterLoadModule :: bool where
  "ShouldDeleteMemoryBufferAfterLoadModule = True"

definition HasModule :: "('fm, 'lm, 'pm, 'wm, 'cm) resolver \<Rightarrow> codemodule option \<Rightarrow> bool" where
  "HasModule r module = (case module of
     None \<Rightarrow> False | Some cm \<Rightarrow> map_find (rs_modules r) (cm_code_file cm) \<noteq> None)"

definition IsModuleCorrupt :: "('fm, 'lm, 'pm, 'wm, 'cm) resolver \<Rightarrow> codemodule option \<Rightarrow> bool" where
  "IsModuleCorrupt r module = (case module of
     None \<Rightarrow> False | Some cm \<Rightarrow> map_find (rs_corrupt_modules r) (cm_code_file cm) \<noteq> None)"

text \<open>\<open>LoadMapFromMemory\<close> returns true on every path, so its result is not looked at.\<close>

definition LoadModuleUsingMemoryBuffer :: "('fm, 'lm, 'pm, 'wm, 'cm) symbol_env \<Rightarrow> codemodule option \<Rightarrow> string
    \<Rightarrow> ('fm, 'lm, 'pm, 'wm, 'cm) resolver \<Rightarrow> run_error + (bool \<times> ('fm, 'lm, 'pm, 'wm, 'cm) resolver)" where
  "LoadModuleUsingMemoryBuffer env module memory_buffer r = (case module of
     None \<Rightarrow> Inr (False, r)
   | Some cm \<Rightarrow>
       if map_find (rs_modules r) (cm_code_file cm) \<noteq> None then Inr (False, r)
       else
         ebind (LoadMapFromMemory env memory_buffer (new_module env (cm_code_file cm))) (\<lambda>basic_module.
           let r1 = r\<lparr>rs_modules := map_insert (cm_code_file cm) basic_module (rs_modules r)\<rparr>;
               r2 = (if sm_is_corrupt basic_module
                     then r1\<lparr>rs_corrupt_modules := map_insert (cm_code_file cm) () (rs_corrupt_modules r1)\<rparr>
                     else r1)
           in Inr (True, r2)))"

definition keep_memory_buffer :: "bool \<Rightarrow> codemodule \<Rightarrow> string \<Rightarrow> ('fm, 'lm, 'pm, 'wm, 'cm) resolver
    \<Rightarrow> ('fm, 'lm, 'pm, 'wm, 'cm) resolver" where
  "keep_memory_buffer load_result cm memory_buffer r =
     (if load_result \<and> \<not> ShouldDeleteMemoryBufferAfterLoadModule
      then r\<lparr>rs_memory_buffers := map_insert (cm_code_file cm) memory_buffer (rs_memory_buffers r)\<rparr>
      else r)"

definition LoadModule :: "('fm, 'lm, 'pm, 'wm, 'cm) symbol_env \<Rightarrow> file_system \<Rightarrow> codemodule option \<Rightarrow> string
    \<Rightarrow> ('fm, 'lm, 'pm, 'wm, 'cm) resolver \<Rightarrow> run_error + (bool \<times> ('fm, 'lm, 'pm, 'wm, 'cm) resolver)" where
  "LoadModule env fs module map_file r = (case module of
     None \<Rightarrow> Inr (False, r)
   | Some cm \<Rightarrow>
       if map_find (rs_modules r) (cm_code_file cm) \<noteq> None then Inr (False, r)
       else
         (case ReadSymbolFile fs map_file of
            None \<Rightarrow> Inr (False, r)
          | Some memory_buffer \<Rightarrow>
              ebind (LoadModuleUsingMemoryBuffer env module memory_buffer r) (\<lambda>(load_result, r').
                Inr (load_result, keep_memory_buffer load_result cm memory_buffer r'))))"

definition LoadModuleUsingMapBuffer :: "('fm, 'lm, 'pm, 'wm, 'cm) symbol_env \<Rightarrow> codemodule option \<Rightarrow> string
    \<Rightarrow> ('fm, 'lm, 'pm, 'wm, 'cm) resolver \<Rightarrow> run_error + (bool \<times> ('fm, 'lm, 'pm, 'wm, 'cm) resolver)" where
  "LoadModuleUsingMapBuffer env module map_buffer r = (case module of
     None \<Rightarrow> Inr (False, r)
   | Some cm \<Rightarrow>
       if map_find (rs_modules r) (cm_code_file cm) \<noteq> None then Inr (False, r)
       else
         let memory_buffer = map_buffer @ [CHR 0x00] in
         ebind (LoadModuleUsingMemoryBuffer env module memory_buffer r) (\<lambda>(load_result, r').
           Inr (load_result, keep_memory_buffer load_result cm memory_buffer r')))"

definition UnloadModule :: "codemodule option \<Rightarrow> ('fm, 'lm, 'pm, 'wm, 'cm) resolver \<Rightarrow> ('fm, 'lm, 'pm, 'wm, 'cm) resolver" where
  "UnloadModule module r = (case module of
     None \<Rightarrow> r
   | Some cm \<Rightarrow>
       let r1 = (case map_find (rs_modules r) (cm_code_file cm) of
                   None \<Rightarrow> r
                 | Some _ \<Rightarrow> r\<lparr>rs_corrupt_modules := map_erase (cm_code_file cm) (rs_corrupt_modules r),
                              rs_modules := map_erase (cm_code_file cm) (rs_modules r)\<rparr>)
       in if ShouldDeleteMemoryBufferAfterLoadModule then r1
          else r1\<lparr>rs_memory_buffers := map_erase (cm_code_file cm) (rs_memory_buffers r1)\<rparr>)"

definition resolver_FillSourceLineInfo :: "('fm, 'lm, 'pm, 'wm, 'cm) symbol_env \<Rightarrow> ('fm, 'lm, 'pm, 'wm, 'cm) resolver
    \<Rightarrow> 'a stack_frame_scheme \<Rightarrow> 'a stack_frame_scheme" where
  "resolver_FillSourceLineInfo env r frame = (case sf_module frame of
     None \<Rightarrow> frame
   | Some cm \<Rightarrow> (case map_find (rs_modules r) (cm_code_file cm) of
       None \<Rightarrow> frame | Some m \<Rightarrow> LookupAddress env m cm frame))"

definition resolver_FindWindowsFrameInfo :: "('fm, 'lm, 'pm, 'wm, 'cm) symbol_env \<Rightarrow> ('fm, 'lm, 'pm, 'wm, 'cm) resolver
    \<Rightarrow> 'a stack_frame_scheme \<Rightarrow> windows_frame_info option" where
  "resolver_FindWindowsFrameInfo env r frame = (case sf_module frame of
     None \<Rightarrow> None
   | Some cm \<Rightarrow> (case map_find (rs_modules r) (cm_code_file cm) of
       None \<Rightarrow> None | Some m \<Rightarrow> FindWindowsFrameInfo env m cm frame))"

definition resolver_FindCFIFrameInfo :: "('fm, 'lm, 'pm, 'wm, 'cm) symbol_env \<Rightarrow> ('fm, 'lm, 'pm, 'wm, 'cm) resolver
    \<Rightarrow> 'a stack_frame_scheme \<Rightarrow> cfi_frame_info option" where
  "resolver_FindCFIFrameInfo env r frame = (case sf_module frame of
     None \<Rightarrow> None
   | Some cm \<Rightarrow> (case map_find (rs_modules r) (cm_code_file cm) of
       None \<Rightarrow> None | Some m \<Rightarrow> FindCFIFrameInfo env m cm frame))"

section \<open>The interface\<close>

text \<open>
  \<open>SourceLineResolverInterface\<close> sees a frame through its base class, so its operations
  take the plain \<open>stack_frame\<close>.
\<close>

record 'r resolver_ops =
  ro_HasModule :: "'r \<Rightarrow> codemodule option \<Rightarrow> bool"
  ro_IsModuleCorrupt :: "'r \<Rightarrow> codemodule option \<Rightarrow> bool"
  ro_LoadModuleUsingMemoryBuffer :: "codemodule option \<Rightarrow> string \<Rightarrow> 'r \<Rightarrow> run_error + (bool \<times> 'r)"
  ro_ShouldDelete :: bool
  ro_UnloadModule :: "codemodule option \<Rightarrow> 'r \<Rightarrow> 'r"
  ro_FillSourceLineInfo :: "'r \<Rightarrow> stack_frame \<Rightarrow> stack_frame"
  ro_FindWindowsFrameInfo :: "'r \<Rightarrow> stack_frame \<Rightarrow> windows_frame_info option"
  ro_FindCFIFrameInfo :: "'r \<Rightarrow> stack_frame \<Rightarrow> cfi_frame_info option"

definition basic_resolver_ops :: "('fm, 'lm, 'pm, 'wm, 'cm) symbol_env \<Rightarrow> ('fm, 'lm, 'pm, 'wm, 'cm) resolver resolver_ops" where
  "basic_resolver_ops env = \<lparr>ro_HasModule = HasModule, ro_IsModuleCorrupt = IsModuleCorrupt,
     ro_LoadModuleUsingMemoryBuffer = LoadModuleUsingMemoryBuffer env,
     ro_ShouldDelete = ShouldDeleteMemoryBufferAfterLoadModule, ro_UnloadModule = UnloadModule,
     ro_FillSourceLineInfo = resolver_FillSourceLineInfo env,
     ro_FindWindowsFrameInfo = resolver_FindWindowsFrameInfo env,
     ro_FindCFIFrameInfo = resolver_FindCFIFrameInfo env\<rparr>"

locale source_line_resolver =
  fixes ops :: "'r resolver_ops"
    and rok :: "'r \<Rightarrow> bool"
  assumes no_null: "\<not> ro_HasModule ops r None"
    and by_code_file: "cm_code_file cm = cm_code_file cm' \<Longrightarrow>
      ro_HasModule ops r (Some cm) = ro_HasModule ops r (Some cm')"
    and corrupt_loaded: "rok r \<Longrightarrow> ro_IsModuleCorrupt ops r module \<Longrightarrow> ro_HasModule ops r module"
    and load_result: "ro_LoadModuleUsingMemoryBuffer ops (Some cm) data r = Inr (b, r') \<Longrightarrow>
      b \<longleftrightarrow> \<not> ro_HasModule ops r (Some cm)"
    and load_has: "rok r \<Longrightarrow> ro_LoadModuleUsingMemoryBuffer ops (Some cm) data r = Inr (b, r') \<Longrightarrow>
      ro_HasModule ops r' (Some cm') \<longleftrightarrow> ro_HasModule ops r (Some cm') \<or> cm_code_file cm' = cm_code_file cm"
    and load_ok: "rok r \<Longrightarrow> ro_LoadModuleUsingMemoryBuffer ops module data r = Inr (b, r') \<Longrightarrow> rok r'"
    and unload_has: "rok r \<Longrightarrow> ro_HasModule ops (ro_UnloadModule ops (Some cm) r) (Some cm') \<longleftrightarrow>
      ro_HasModule ops r (Some cm') \<and> cm_code_file cm' \<noteq> cm_code_file cm"
    and unload_ok: "rok r \<Longrightarrow> rok (ro_UnloadModule ops module r)"
    and fill_keeps: "sf_module (ro_FillSourceLineInfo ops r frame) = sf_module frame"
      "sf_instruction (ro_FillSourceLineInfo ops r frame) = sf_instruction frame"
      "sf_trust (ro_FillSourceLineInfo ops r frame) = sf_trust frame"
begin

text \<open>A module can be loaded again only after it has been unloaded.\<close>

lemma load_twice:
  assumes "rok r" "ro_LoadModuleUsingMemoryBuffer ops (Some cm) data r = Inr (b, r')"
    "ro_LoadModuleUsingMemoryBuffer ops (Some cm) data' r' = Inr (b', r'')"
  shows "\<not> b'"
  using load_result [OF assms(3)] load_has [OF assms(1,2), of cm] by simp

lemma reload_after_unload:
  assumes "rok r" "ro_LoadModuleUsingMemoryBuffer ops (Some cm) data (ro_UnloadModule ops (Some cm) r) = Inr (b, r')"
  shows "b"
  using load_result [OF assms(2)] unload_has [OF assms(1), of cm cm] by simp

end

section \<open>The base class keeps the contract\<close>

definition resolver_ok :: "('fm, 'lm, 'pm, 'wm, 'cm) resolver \<Rightarrow> bool" where
  "resolver_ok r \<longleftrightarrow> map_ok (rs_modules r) \<and> map_ok (rs_corrupt_modules r) \<and>
     (\<forall>k. map_find (rs_corrupt_modules r) k \<noteq> None \<longleftrightarrow>
       (\<exists>m. map_find (rs_modules r) k = Some m \<and> sm_is_corrupt m))"

lemma new_resolver_ok: "resolver_ok new_resolver"
  by (simp add: resolver_ok_def new_resolver_def map_find_def)

lemma LoadModuleUsingMemoryBuffer_cases:
  assumes "LoadModuleUsingMemoryBuffer env module data r = Inr (b, r')"
  obtains "\<not> b" "r' = r" "\<forall>cm. module = Some cm \<longrightarrow> HasModule r module"
  | cm m where "b" "module = Some cm" "\<not> HasModule r module"
    "LoadMapFromMemory env data (new_module env (cm_code_file cm)) = Inr m"
    "rs_modules r' = map_set (cm_code_file cm) m (rs_modules r)"
    "rs_corrupt_modules r' = (if sm_is_corrupt m then map_insert (cm_code_file cm) () (rs_corrupt_modules r)
       else rs_corrupt_modules r)"
proof (cases module)
  case None
  with assms that(1) show ?thesis by (simp add: LoadModuleUsingMemoryBuffer_def)
next
  case (Some cm)
  show ?thesis
  proof (cases "map_find (rs_modules r) (cm_code_file cm)")
    case (Some m)
    with assms \<open>module = Some cm\<close> show ?thesis
      by (intro that(1)) (simp_all add: LoadModuleUsingMemoryBuffer_def HasModule_def)
  next
    case None
    obtain m where m: "LoadMapFromMemory env data (new_module env (cm_code_file cm)) = Inr m"
      using assms None \<open>module = Some cm\<close> by (auto simp: LoadModuleUsingMemoryBuffer_def)
    with assms None \<open>module = Some cm\<close> show ?thesis
      by (intro that(2) [of cm m])
        (auto simp: LoadModuleUsingMemoryBuffer_def HasModule_def map_insert_def Let_def)
  qed
qed

lemma LoadModuleUsingMemoryBuffer_ok:
  assumes "resolver_ok r" "LoadModuleUsingMemoryBuffer env module data r = Inr (b, r')"
  shows "resolver_ok r'"
  using assms(2)
proof (cases rule: LoadModuleUsingMemoryBuffer_cases)
  case 1
  with assms show ?thesis by simp
next
  case (2 cm m)
  let ?k = "cm_code_file cm"
  have ok: "map_ok (rs_modules r)" "map_ok (rs_corrupt_modules r)" using assms(1) by (simp_all add: resolver_ok_def)
  have "map_find (rs_modules r) ?k = None" using 2 by (simp add: HasModule_def)
  moreover from this have "map_find (rs_corrupt_modules r) ?k = None" using assms(1) unfolding resolver_ok_def by (metis option.distinct(1))
  ultimately show ?thesis
    using assms(1) 2(5,6) stdm.find_set [OF ok(1)] stdm.find_insert [OF ok(2), of ?k "()"] stdm.ok_set [OF ok(1)] stdm.ok_insert [OF ok(2)]
    by (auto simp: resolver_ok_def)
qed

lemma UnloadModule_ok: "resolver_ok r \<Longrightarrow> resolver_ok (UnloadModule module r)"
  by (auto simp: UnloadModule_def resolver_ok_def ShouldDeleteMemoryBufferAfterLoadModule_def
      stdm.find_erase stdm.ok_erase split: option.splits)

interpretation base_resolver: source_line_resolver "basic_resolver_ops env" resolver_ok for env
proof (unfold_locales, goal_cases)
  case (4 cm data r b r')
  then show ?case
    by (auto simp: basic_resolver_ops_def elim: LoadModuleUsingMemoryBuffer_cases)
next
  case (5 r cm data b r' cm')
  then have "LoadModuleUsingMemoryBuffer env (Some cm) data r = Inr (b, r')" by (simp add: basic_resolver_ops_def)
  then show ?case
    by (cases rule: LoadModuleUsingMemoryBuffer_cases)
      (use 5(1) in \<open>auto simp: basic_resolver_ops_def HasModule_def resolver_ok_def stdm.find_set\<close>)
next
  case (6 r module data b r')
  then show ?case using LoadModuleUsingMemoryBuffer_ok by (fastforce simp: basic_resolver_ops_def)
next
  case (7 r cm cm')
  then show ?case
    by (auto simp: basic_resolver_ops_def HasModule_def UnloadModule_def resolver_ok_def
        ShouldDeleteMemoryBufferAfterLoadModule_def stdm.find_erase split: option.splits)
next
  case (8 r module)
  then show ?case by (simp add: basic_resolver_ops_def UnloadModule_ok)
qed (auto simp: basic_resolver_ops_def HasModule_def IsModuleCorrupt_def resolver_ok_def
    resolver_FillSourceLineInfo_def LookupAddress_def Let_def split: option.splits prod.splits)

section \<open>Reachable resolvers\<close>

text \<open>One call of a client that changes the resolver and returns.\<close>

inductive resolver_step :: "('fm, 'lm, 'pm, 'wm, 'cm) symbol_env \<Rightarrow> file_system \<Rightarrow> ('fm, 'lm, 'pm, 'wm, 'cm) resolver
    \<Rightarrow> ('fm, 'lm, 'pm, 'wm, 'cm) resolver \<Rightarrow> bool" for env fs where
  step_LoadModule: "LoadModule env fs module map_file r = Inr (b, r') \<Longrightarrow> resolver_step env fs r r'"
| step_LoadModuleUsingMapBuffer: "LoadModuleUsingMapBuffer env module map_buffer r = Inr (b, r') \<Longrightarrow> resolver_step env fs r r'"
| step_LoadModuleUsingMemoryBuffer: "LoadModuleUsingMemoryBuffer env module data r = Inr (b, r') \<Longrightarrow> resolver_step env fs r r'"
| step_UnloadModule: "resolver_step env fs r (UnloadModule module r)"

inductive resolver_reachable :: "('fm, 'lm, 'pm, 'wm, 'cm) symbol_env \<Rightarrow> file_system \<Rightarrow> ('fm, 'lm, 'pm, 'wm, 'cm) resolver \<Rightarrow> bool"
  for env fs where
  reach_new: "resolver_reachable env fs new_resolver"
| reach_step: "resolver_reachable env fs r \<Longrightarrow> resolver_step env fs r r' \<Longrightarrow> resolver_reachable env fs r'"

inductive_cases resolver_stepE: "resolver_step env fs r r'"

lemma keep_memory_buffer_id: "keep_memory_buffer b cm data r = r"
  by (simp add: keep_memory_buffer_def ShouldDeleteMemoryBufferAfterLoadModule_def)

lemma ebind_pair_id: "ebind m (\<lambda>(a, b). Inr (a, b)) = m"
  by (cases m) auto

lemma LoadModuleUsingMapBuffer_memory:
  "LoadModuleUsingMapBuffer env module buf r = LoadModuleUsingMemoryBuffer env module (buf @ [CHR 0x00]) r"
  unfolding LoadModuleUsingMapBuffer_def Let_def keep_memory_buffer_id ebind_pair_id
  by (simp add: LoadModuleUsingMemoryBuffer_def split: option.split)

lemma LoadModule_memory:
  assumes "LoadModule env fs module map_file r = Inr (b, r')"
  shows "\<not> b \<and> r' = r \<or> (\<exists>data. ReadSymbolFile fs map_file = Some data \<and>
    LoadModuleUsingMemoryBuffer env module data r = Inr (b, r'))"
  using assms by (auto simp: LoadModule_def keep_memory_buffer_id split: option.splits if_splits)

lemma resolver_step_ok: "resolver_step env fs r r' \<Longrightarrow> resolver_ok r \<Longrightarrow> resolver_ok r'"
proof (induction rule: resolver_step.induct)
  case (step_LoadModule module map_file r b r')
  then show ?case using LoadModule_memory [OF step_LoadModule(1)] LoadModuleUsingMemoryBuffer_ok by blast
next
  case (step_LoadModuleUsingMapBuffer module map_buffer r b r')
  then show ?case using LoadModuleUsingMemoryBuffer_ok by (simp add: LoadModuleUsingMapBuffer_memory) blast
qed (use LoadModuleUsingMemoryBuffer_ok UnloadModule_ok in blast)+

section \<open>Properties\<close>

text \<open>
  in every state of the resolver that its operations reach from the empty one, the
  set of corrupt modules is exactly the set of loaded modules whose symbol file had an
  error, so a module that is unloaded leaves no trace in it.
\<close>

theorem resolver_corrupt_exact:
  assumes "resolver_reachable env fs r"
  shows "IsModuleCorrupt r (Some cm) \<longleftrightarrow>
    (\<exists>m. map_find (rs_modules r) (cm_code_file cm) = Some m \<and> sm_is_corrupt m)"
proof -
  have "resolver_ok r"
    using assms by (induction rule: resolver_reachable.induct) (auto intro: new_resolver_ok resolver_step_ok)
  then show ?thesis unfolding resolver_ok_def IsModuleCorrupt_def by simp
qed

theorem resolver_corrupt_exact_witness:
  "\<exists>r. LoadModuleUsingMapBuffer list_env (Some a_module) ''FILE x'' new_resolver = Inr (True, r)
    \<and> IsModuleCorrupt r (Some a_module)"
proof -
  have "map_sum id (\<lambda>(b, r). (b, map_option sm_is_corrupt (map_find (rs_modules r) ''a.out'')))
      (LoadModuleUsingMapBuffer list_env (Some a_module) ''FILE x'' new_resolver) = Inr (True, Some True)"
    by code_simp
  then obtain r where r: "LoadModuleUsingMapBuffer list_env (Some a_module) ''FILE x'' new_resolver = Inr (True, r)"
    "map_option sm_is_corrupt (map_find (rs_modules r) ''a.out'') = Some True"
    by (cases "LoadModuleUsingMapBuffer list_env (Some a_module) ''FILE x'' new_resolver") auto
  have "resolver_reachable list_env fs r" for fs
    by (rule reach_step [OF reach_new step_LoadModuleUsingMapBuffer [OF r(1)]])
  from resolver_corrupt_exact [OF this, of a_module] r show ?thesis
    by (auto simp: a_module_def)
qed

text \<open>
  loading a module's symbols from a string reports success exactly when the module
  was not loaded yet, and then the loaded modules are the old ones and this one; unloading
  it takes it out and allows it to be loaded again.
\<close>

theorem load_unload_modules:
  assumes "resolver_ok r" "LoadModuleUsingMapBuffer env (Some cm) map_buffer r = Inr (b, r')"
  shows "(b \<longleftrightarrow> \<not> HasModule r (Some cm))
    \<and> (\<forall>cm'. HasModule r' (Some cm') \<longleftrightarrow> HasModule r (Some cm') \<or> cm_code_file cm' = cm_code_file cm)
    \<and> (\<forall>cm'. HasModule (UnloadModule (Some cm) r') (Some cm') \<longleftrightarrow>
          HasModule r (Some cm') \<and> cm_code_file cm' \<noteq> cm_code_file cm)"
proof -
  have l: "ro_LoadModuleUsingMemoryBuffer (basic_resolver_ops env) (Some cm) (map_buffer @ [CHR 0x00]) r = Inr (b, r')"
    using assms(2) by (simp add: LoadModuleUsingMapBuffer_memory basic_resolver_ops_def)
  have ok: "resolver_ok r'" by (rule base_resolver.load_ok [OF assms(1) l])
  show ?thesis
    using base_resolver.load_result [OF l] base_resolver.load_has [OF assms(1) l] base_resolver.unload_has [OF ok, where env = env]
    by (auto simp: basic_resolver_ops_def)
qed

theorem load_unload_modules_witness:
  "\<exists>r'. LoadModuleUsingMapBuffer list_env (Some a_module) ''INFO x'' new_resolver = Inr (True, r')
    \<and> HasModule r' (Some a_module) \<and> \<not> HasModule (UnloadModule (Some a_module) r') (Some a_module)"
proof -
  have "map_sum id fst (LoadModuleUsingMapBuffer list_env (Some a_module) ''INFO x'' new_resolver) = Inr True"
    by code_simp
  then obtain r' where r: "LoadModuleUsingMapBuffer list_env (Some a_module) ''INFO x'' new_resolver = Inr (True, r')"
    by (cases "LoadModuleUsingMapBuffer list_env (Some a_module) ''INFO x'' new_resolver") auto
  show ?thesis using load_unload_modules [OF new_resolver_ok r] r by auto
qed

text \<open>
  \<open>ReadSymbolFile\<close> succeeds exactly for a file that can be opened, holds at least as
  many bytes as \<open>stat\<close> reports, and is smaller than 2 GiB; the data is those bytes and a
  NUL. The limit comes from the \<open>int\<close> that keeps \<open>fread\<close>'s count.
\<close>

theorem ReadSymbolFile_limit:
  "ReadSymbolFile fs map_file = Some data \<longleftrightarrow>
    (\<exists>n bytes. fs_st_size fs map_file = Some n \<and> fs_contents fs map_file = Some bytes
      \<and> n \<le> length bytes \<and> n < 2 ^ 31 \<and> data = take n bytes @ [CHR 0x00])"
proof -
  have s: "to_signed 32 (int k) = int n \<longleftrightarrow> k = n \<and> n < 2 ^ 31" if "k \<le> n" for k n
  proof (cases "n < 2 ^ 31")
    case True
    with that show ?thesis by (simp add: to_signed_def)
  next
    case False
    have "to_signed 32 (int k) < 2 ^ 31"
      using pos_mod_bound [of "2 ^ 32" "int k + 2 ^ 31"] by (simp add: to_signed_def)
    with False show ?thesis by simp
  qed
  show ?thesis
    using s by (auto simp: ReadSymbolFile_def Let_def split: option.splits)
qed

end
