(* ===== verification/Symbol_Supplier.thy ===== *)
theory Symbol_Supplier
  imports Frames
begin

text \<open>
  \<open>minidump_src/pathname_stripper.cc\<close> and \<open>minidump_src/simple_symbol_supplier.cc\<close>: where
  the symbol file of a module is looked for and how its text is read. The file system is a
  parameter: \<open>file_exists\<close> tells whether \<open>stat\<close> succeeds, \<open>file_text\<close> what an input
  stream opened on the path reads (nothing, if it cannot be opened).

  The record \<open>supplier_ops\<close> is the abstract class \<open>SymbolSupplier\<close>, as the symbolizer
  calls it.
\<close>

section \<open>PathnameStripper\<close>

definition rfind :: "string \<Rightarrow> char \<Rightarrow> nat option" where
  "rfind s c = (let t = takeWhile (\<lambda>x. x \<noteq> c) (rev s) in
     if length t = length s then None else Some (length s - length t - 1))"

definition PathnameStripper_File :: "string \<Rightarrow> string" where
  "PathnameStripper_File path =
     (let slash = rfind path (CHR ''/'');
          backslash = rfind path (CHR 0x5C);
          file_start =
            (case slash of
               Some s \<Rightarrow>
                 (case backslash of
                    None \<Rightarrow> s + 1
                  | Some b \<Rightarrow> if s > b then s + 1 else b + 1)
             | None \<Rightarrow> (case backslash of Some b \<Rightarrow> b + 1 | None \<Rightarrow> 0))
      in drop file_start path)"

section \<open>SimpleSymbolSupplier\<close>

record supplier =
  sp_paths :: "string list"
  sp_memory_buffers :: "(string, string) std_map"

record supplier_files =
  sf_file_exists :: "string \<Rightarrow> bool"
  sf_file_text :: "string \<Rightarrow> string"

definition c_tolower :: "char \<Rightarrow> char" where
  "c_tolower c = (let n = (of_char c :: nat) in if 65 \<le> n \<and> n \<le> 90 then char_of (n + 32) else c)"

text \<open>The path below a root: debug file, identifier, and the file's name with \<open>.sym\<close>.\<close>

definition symbol_path :: "codemodule \<Rightarrow> string \<Rightarrow> string option" where
  "symbol_path cm root_path =
     (let debug_file_name = PathnameStripper_File (cm_debug_file cm) in
      if debug_file_name = [] then None
      else
        let identifier = cm_debug_identifier cm in
        if identifier = [] then None
        else
          let path = root_path @ ''/'' @ debug_file_name @ ''/'' @ identifier @ ''/'';
              debug_file_extension =
                (if length debug_file_name > 4 then drop (length debug_file_name - 4) debug_file_name else []);
              base = (if List.map c_tolower debug_file_extension = ''.pdb''
                      then take (length debug_file_name - 4) debug_file_name else debug_file_name)
          in Some (path @ base @ ''.sym''))"

definition GetSymbolFileAtPathFromRoot :: "supplier_files \<Rightarrow> codemodule option \<Rightarrow> string \<Rightarrow> symbol_result \<times> string" where
  "GetSymbolFileAtPathFromRoot fs module root_path =
     (case module of
        None \<Rightarrow> (NOT_FOUND, [])
      | Some cm \<Rightarrow>
          (case symbol_path cm root_path of
             None \<Rightarrow> (NOT_FOUND, [])
           | Some path \<Rightarrow> if sf_file_exists fs path then (FOUND, path) else (NOT_FOUND, [])))"

fun search_paths :: "supplier_files \<Rightarrow> codemodule option \<Rightarrow> string list \<Rightarrow> symbol_result \<times> string" where
  "search_paths fs module [] = (NOT_FOUND, [])"
| "search_paths fs module (path # paths) =
     (case GetSymbolFileAtPathFromRoot fs module path of
        (NOT_FOUND, _) \<Rightarrow> search_paths fs module paths
      | (result, symbol_file) \<Rightarrow> (result, symbol_file))"

definition GetSymbolFile :: "supplier_files \<Rightarrow> supplier \<Rightarrow> codemodule option \<Rightarrow> symbol_result \<times> string" where
  "GetSymbolFile fs s module = search_paths fs module (sp_paths s)"

text \<open>
  \<open>getline\<close> reads up to the delimiter \<open>to_char_type(eof())\<close>, which is the character 0xFF.
\<close>

definition eof_char :: char where
  "eof_char = CHR 0xFF"

definition GetSymbolFile_data :: "supplier_files \<Rightarrow> supplier \<Rightarrow> codemodule option \<Rightarrow> symbol_result \<times> string \<times> string" where
  "GetSymbolFile_data fs s module =
     (case GetSymbolFile fs s module of
        (FOUND, symbol_file) \<Rightarrow> (FOUND, symbol_file, takeWhile (\<lambda>c. c \<noteq> eof_char) (sf_file_text fs symbol_file))
      | (result, symbol_file) \<Rightarrow> (result, symbol_file, []))"

text \<open>The buffer given out holds the data and a NUL; \<open>new\<close> does not return null.\<close>

definition GetCStringSymbolData :: "supplier_files \<Rightarrow> codemodule \<Rightarrow> system_info option \<Rightarrow> supplier
    \<Rightarrow> symbol_result \<times> string \<times> string \<times> supplier" where
  "GetCStringSymbolData fs cm system_info s =
     (case GetSymbolFile_data fs s (Some cm) of
        (FOUND, symbol_file, symbol_data_string) \<Rightarrow>
          let symbol_data = symbol_data_string @ [CHR 0x00] in
          (FOUND, symbol_file, symbol_data,
           s\<lparr>sp_memory_buffers := map_insert (cm_code_file cm) symbol_data (sp_memory_buffers s)\<rparr>)
      | (result, symbol_file, _) \<Rightarrow> (result, symbol_file, [], s))"

definition FreeSymbolData :: "codemodule option \<Rightarrow> supplier \<Rightarrow> supplier" where
  "FreeSymbolData module s = (case module of
     None \<Rightarrow> s
   | Some cm \<Rightarrow>
       (case map_find (sp_memory_buffers s) (cm_code_file cm) of
          None \<Rightarrow> s
        | Some _ \<Rightarrow> s\<lparr>sp_memory_buffers := map_erase (cm_code_file cm) (sp_memory_buffers s)\<rparr>))"

section \<open>The interface\<close>

record 's supplier_ops =
  so_GetCStringSymbolData :: "codemodule \<Rightarrow> system_info option \<Rightarrow> 's \<Rightarrow> symbol_result \<times> string \<times> string \<times> 's"
  so_FreeSymbolData :: "codemodule option \<Rightarrow> 's \<Rightarrow> 's"

definition simple_supplier_ops :: "supplier_files \<Rightarrow> supplier supplier_ops" where
  "simple_supplier_ops fs =
     \<lparr>so_GetCStringSymbolData = GetCStringSymbolData fs, so_FreeSymbolData = FreeSymbolData\<rparr>"

section \<open>Lemmas\<close>

lemma takeWhile_rev_full: "length (takeWhile P (rev s)) = length s \<longleftrightarrow> (\<forall>x \<in> set s. P x)"
proof
  assume "length (takeWhile P (rev s)) = length s"
  then have "takeWhile P (rev s) = rev s"
    by (metis append_Nil2 append_eq_conv_conj length_rev takeWhile_eq_take take_all_iff order_refl)
  then show "\<forall>x \<in> set s. P x" by (simp add: takeWhile_eq_all_conv)
qed (simp add: takeWhile_eq_all_conv [THEN iffD2])

lemma rfind_None: "rfind s c = None \<longleftrightarrow> c \<notin> set s"
  using takeWhile_rev_full [of "\<lambda>x. x \<noteq> c" s] by (auto simp: rfind_def Let_def)

lemma rfind_split:
  assumes "c \<notin> set t"
  shows "rfind (s @ c # t) c = Some (length s)"
proof -
  have "takeWhile (\<lambda>x. x \<noteq> c) (rev t @ c # rev s) = rev t"
    using assms by (subst takeWhile_append2) auto
  then show ?thesis by (simp add: rfind_def Let_def)
qed

lemma rfind_Some:
  assumes "rfind s c = Some i"
  obtains a b where "s = a @ c # b" "c \<notin> set b" "i = length a"
proof -
  have "c \<in> set s" using assms rfind_None [of s c] by auto
  then obtain a b where s: "s = a @ c # b" "c \<notin> set b" by (metis split_list_last)
  with assms rfind_split [OF s(2), of a] that show ?thesis by simp
qed

lemma rfind_append:
  assumes "c \<notin> set t"
  shows "rfind (s @ t) c = rfind s c"
proof -
  have "takeWhile (\<lambda>x. x \<noteq> c) (rev t @ rev s) = rev t @ takeWhile (\<lambda>x. x \<noteq> c) (rev s)"
    using assms by (intro takeWhile_append2) auto
  then show ?thesis by (simp add: rfind_def Let_def)
qed

lemma rfind_less: "rfind s c = Some i \<Longrightarrow> i < length s"
  by (auto elim: rfind_Some)

lemma map_find_set_same: "map_find (map_set k v m) k = Some v"
  by (induction k v m rule: map_set.induct) (auto simp: map_find_def)

lemma map_erase_set: "map_find m k = None \<Longrightarrow> map_erase k (map_set k v m) = m"
proof (induction k v m rule: map_set.induct)
  case (2 k v k' v' m)
  have "filter (\<lambda>e. fst e \<noteq> k) m = m" if "map_find m k = None"
    using that by (force simp: filter_id_conv map_find_def map_of_eq_None_iff)
  moreover have "k \<noteq> k'" "map_find m k = None" using 2(2) by (auto simp: map_find_def split: if_splits)
  ultimately show ?case using 2(1) by (auto simp: map_erase_def)
qed (simp add: map_erase_def)

section \<open>Properties\<close>

text \<open>
  \<open>PathnameStripper::File\<close> splits a path after its last separator of either kind: the
  result holds no separator, and what is cut off is empty or ends in one.
\<close>

theorem PathnameStripper_File_spec:
  "\<exists>dir. path = dir @ PathnameStripper_File path
    \<and> CHR ''/'' \<notin> set (PathnameStripper_File path) \<and> CHR 0x5C \<notin> set (PathnameStripper_File path)
    \<and> (dir = [] \<or> last dir = CHR ''/'' \<or> last dir = CHR 0x5C)"
proof -
  let ?S = "\<lambda>x. x = CHR ''/'' \<or> x = CHR 0x5C"
  have one: "PathnameStripper_File (d @ c # f) = f"
    if "?S c" "CHR ''/'' \<notin> set f" "CHR 0x5C \<notin> set f" for d c f
  proof -
    have here: "rfind (d @ c # f) c = Some (length d)" using that by (intro rfind_split) auto
    have other: "rfind (d @ c # f) x = rfind d x" if "x \<noteq> c" "x \<notin> set f" for x
      using rfind_append [of x "c # f" d] that by simp
    show ?thesis
      using that(1)
    proof
      assume c: "c = CHR ''/''"
      then have "rfind (d @ c # f) (CHR 0x5C) = rfind d (CHR 0x5C)" using that by (intro other) auto
      with here c show ?thesis
        by (auto simp: PathnameStripper_File_def Let_def split: option.splits dest: rfind_less)
    next
      assume c: "c = CHR 0x5C"
      then have "rfind (d @ c # f) (CHR ''/'') = rfind d (CHR ''/'')" using that by (intro other) auto
      with here c show ?thesis
        by (auto simp: PathnameStripper_File_def Let_def split: option.splits dest: rfind_less)
    qed
  qed
  show ?thesis
  proof (cases "\<exists>x \<in> set path. ?S x")
    case True
    obtain d c f where p: "path = d @ c # f" "?S c" "\<forall>x \<in> set f. \<not> ?S x"
      by (rule split_list_last_propE [OF True])
    have "PathnameStripper_File path = f" unfolding p(1) by (rule one) (use p(2,3) in auto)
    moreover have "path = (d @ [c]) @ f" "last (d @ [c]) = c" using p(1) by simp_all
    ultimately show ?thesis using p(2,3) by metis
  next
    case False
    then have "rfind path (CHR ''/'') = None" "rfind path (CHR 0x5C) = None" by (auto simp: rfind_None)
    with False show ?thesis by (auto simp: PathnameStripper_File_def)
  qed
qed

text \<open>
  the symbol file found is the module's file below the first of the supplier's paths
  under which it exists, and the search fails only if it exists below none of them.
\<close>

theorem GetSymbolFile_first:
  "GetSymbolFile fs s (Some cm) = (FOUND, f) \<longleftrightarrow>
    (\<exists>before root after. sp_paths s = before @ root # after \<and> symbol_path cm root = Some f \<and> sf_file_exists fs f
      \<and> (\<forall>p \<in> set before. \<forall>g. symbol_path cm p = Some g \<longrightarrow> \<not> sf_file_exists fs g))"
proof -
  have "search_paths fs (Some cm) ps = (FOUND, f) \<longleftrightarrow>
    (\<exists>before root after. ps = before @ root # after \<and> symbol_path cm root = Some f \<and> sf_file_exists fs f
      \<and> (\<forall>p \<in> set before. \<forall>g. symbol_path cm p = Some g \<longrightarrow> \<not> sf_file_exists fs g))" for ps
  proof (induction ps)
    case (Cons p ps)
    have split: "(\<exists>b r a. p # ps = b @ r # a \<and> Q b r) \<longleftrightarrow> Q [] p \<or> (\<exists>b r a. ps = b @ r # a \<and> Q (p # b) r)" for Q
      by (auto simp: Cons_eq_append_conv)
    show ?case
      unfolding split
      by (cases "symbol_path cm p")
        (auto simp: GetSymbolFileAtPathFromRoot_def Cons.IH split: symbol_result.splits)
  qed simp
  then show ?thesis by (simp add: GetSymbolFile_def)
qed

theorem GetSymbolFile_first_witness:
  "\<exists>before root after. [''q'', ''r''] = before @ root # after \<and> symbol_path
      \<lparr>cm_ptr = 0, cm_base_address = 0, cm_size = 1, cm_code_file = ''a'', cm_code_identifier = [],
       cm_debug_file = ''a.PDB'', cm_debug_identifier = ''1'', cm_version = []\<rparr> root = Some ''r/a.PDB/1/a.sym''"
proof -
  let ?fs = "\<lparr>sf_file_exists = (\<lambda>f. f = ''r/a.PDB/1/a.sym''), sf_file_text = (\<lambda>_. [])\<rparr>"
  let ?cm = "\<lparr>cm_ptr = 0, cm_base_address = 0, cm_size = 1, cm_code_file = ''a'', cm_code_identifier = [],
       cm_debug_file = ''a.PDB'', cm_debug_identifier = ''1'', cm_version = []\<rparr>"
  let ?s = "\<lparr>sp_paths = [''q'', ''r''], sp_memory_buffers = []\<rparr>"
  have "GetSymbolFile ?fs ?s (Some ?cm) = (FOUND, ''r/a.PDB/1/a.sym'')" by code_simp
  then obtain before root after where "sp_paths ?s = before @ root # after" "symbol_path ?cm root = Some ''r/a.PDB/1/a.sym''"
    unfolding GetSymbolFile_first by blast
  then show ?thesis unfolding supplier.simps by blast
qed

text \<open>
  the symbol data given out is the file's text up to its first byte 0xFF (which is
  what the delimiter \<open>eof()\<close> becomes as a character), followed by a NUL; freeing it gives
  the supplier back as it was, when no buffer was held for the module before.
\<close>

theorem GetCStringSymbolData_spec:
  assumes "GetCStringSymbolData fs cm si s = (FOUND, f, symbol_data, s')"
    and "map_find (sp_memory_buffers s) (cm_code_file cm) = None"
  shows "(\<exists>rest. sf_file_text fs f = butlast symbol_data @ rest \<and> (rest = [] \<or> hd rest = CHR 0xFF))
    \<and> CHR 0xFF \<notin> set symbol_data \<and> last symbol_data = CHR 0x00
    \<and> FreeSymbolData (Some cm) s' = s"
proof -
  let ?t = "takeWhile (\<lambda>c. c \<noteq> eof_char) (sf_file_text fs f)"
  have d: "symbol_data = ?t @ [CHR 0x00]"
    "s' = s\<lparr>sp_memory_buffers := map_set (cm_code_file cm) symbol_data (sp_memory_buffers s)\<rparr>"
    using assms by (auto simp: GetCStringSymbolData_def GetSymbolFile_data_def map_insert_def Let_def
        split: prod.splits symbol_result.splits)
  have "dropWhile (\<lambda>c. c \<noteq> eof_char) (sf_file_text fs f) = [] \<or>
      hd (dropWhile (\<lambda>c. c \<noteq> eof_char) (sf_file_text fs f)) = eof_char"
    using hd_dropWhile [of "\<lambda>c. c \<noteq> eof_char" "sf_file_text fs f"] by blast
  then have "\<exists>rest. sf_file_text fs f = ?t @ rest \<and> (rest = [] \<or> hd rest = eof_char)"
    by (intro exI [of _ "dropWhile (\<lambda>c. c \<noteq> eof_char) (sf_file_text fs f)"]) simp
  moreover have "eof_char \<notin> set ?t" by (auto dest: set_takeWhileD)
  moreover have "FreeSymbolData (Some cm) s' = s"
    using map_erase_set [OF assms(2), of symbol_data] d(2) by (simp add: FreeSymbolData_def map_find_set_same)
  ultimately show ?thesis by (simp add: d(1) eof_char_def)
qed

theorem GetCStringSymbolData_spec_witness:
  "\<exists>d s'. GetCStringSymbolData \<lparr>sf_file_exists = (\<lambda>f. f = ''r/a.pdb/1/a.sym''), sf_file_text = (\<lambda>_. ''ab'' @ CHR 0xFF # ''c'')\<rparr>
      \<lparr>cm_ptr = 0, cm_base_address = 0, cm_size = 1, cm_code_file = ''a'', cm_code_identifier = [],
       cm_debug_file = [CHR ''d'', CHR 0x5C] @ ''a.pdb'', cm_debug_identifier = ''1'', cm_version = []\<rparr> None
      \<lparr>sp_paths = [''q'', ''r''], sp_memory_buffers = []\<rparr> = (FOUND, ''r/a.pdb/1/a.sym'', d, s')
    \<and> d = ''ab'' @ [CHR 0x00]
    \<and> FreeSymbolData (Some \<lparr>cm_ptr = 0, cm_base_address = 0, cm_size = 1, cm_code_file = ''a'', cm_code_identifier = [],
       cm_debug_file = [CHR ''d'', CHR 0x5C] @ ''a.pdb'', cm_debug_identifier = ''1'', cm_version = []\<rparr>) s' =
       \<lparr>sp_paths = [''q'', ''r''], sp_memory_buffers = []\<rparr>"
proof -
  let ?fs = "\<lparr>sf_file_exists = (\<lambda>f. f = ''r/a.pdb/1/a.sym''), sf_file_text = (\<lambda>_. ''ab'' @ CHR 0xFF # ''c'')\<rparr>"
  let ?cm = "\<lparr>cm_ptr = 0, cm_base_address = 0, cm_size = 1, cm_code_file = ''a'', cm_code_identifier = [],
       cm_debug_file = [CHR ''d'', CHR 0x5C] @ ''a.pdb'', cm_debug_identifier = ''1'', cm_version = []\<rparr>"
  let ?s = "\<lparr>sp_paths = [''q'', ''r''], sp_memory_buffers = []\<rparr>"
  have r: "GetCStringSymbolData ?fs ?cm None ?s = (FOUND, ''r/a.pdb/1/a.sym'', ''ab'' @ [CHR 0x00],
      ?s\<lparr>sp_memory_buffers := [(''a'', ''ab'' @ [CHR 0x00])]\<rparr>)"
    by code_simp
  have "map_find (sp_memory_buffers ?s) (cm_code_file ?cm) = None" by (simp add: map_find_def)
  from GetCStringSymbolData_spec [OF r this] r show ?thesis by blast
qed

end
