(* ===== verification/Code_Modules.thy ===== *)
theory Code_Modules
  imports Frames
begin

text \<open>
  \<open>minidump_src/basic_code_modules.cc\<close>: a process's modules copied into a range map. The
  map's operations and the virtual functions of the list copied from are parameters;
  \<open>copy\<close> is \<open>CodeModule::Copy\<close>.
\<close>

section \<open>State and operations\<close>

text \<open>The abstract class \<open>CodeModules\<close>.\<close>

record code_modules_ops =
  cmo_GetMainModule :: "codemodule option"
  cmo_module_count :: nat
  cmo_GetModuleAtIndex :: "nat \<Rightarrow> codemodule option"

record 'm basic_code_modules =
  bcm_main_address :: "64 word"
  bcm_map :: 'm

datatype modules_error = NullModule

definition new_BasicCodeModules :: "('m, codemodule) range_map \<Rightarrow> 'm basic_code_modules" where
  "new_BasicCodeModules rm = \<lparr>bcm_main_address = 0, bcm_map = rm_empty rm\<rparr>"

text \<open>The loop over the modules; a refused module is reported and skipped.\<close>

fun copy_modules :: "('m, codemodule) range_map \<Rightarrow> (codemodule \<Rightarrow> codemodule) \<Rightarrow> (nat \<Rightarrow> codemodule option)
    \<Rightarrow> nat list \<Rightarrow> 'm \<Rightarrow> modules_error + 'm" where
  "copy_modules rm copy get [] m = Inr m"
| "copy_modules rm copy get (i # is) m =
     (case get i of
        None \<Rightarrow> Inl NullModule
      | Some that \<Rightarrow>
          let module = copy that in
          copy_modules rm copy get is (snd (rm_store rm (cm_base_address module) (cm_size module) module m)))"

definition BasicCodeModules :: "('m, codemodule) range_map \<Rightarrow> (codemodule \<Rightarrow> codemodule) \<Rightarrow> code_modules_ops
    \<Rightarrow> modules_error + 'm basic_code_modules" where
  "BasicCodeModules rm copy that =
     ebind (copy_modules rm copy (cmo_GetModuleAtIndex that) [0..<cmo_module_count that] (rm_empty rm)) (\<lambda>m.
       Inr \<lparr>bcm_main_address = (case cmo_GetMainModule that of
              Some main_module \<Rightarrow> cm_base_address main_module | None \<Rightarrow> 0),
            bcm_map = m\<rparr>)"

definition module_count :: "('m, codemodule) range_map \<Rightarrow> 'm basic_code_modules \<Rightarrow> nat" where
  "module_count rm b = rm_count rm (bcm_map b)"

definition GetModuleForAddress :: "('m, codemodule) range_map \<Rightarrow> 'm basic_code_modules \<Rightarrow> 64 word \<Rightarrow> codemodule option" where
  "GetModuleForAddress rm b address = (case rm_retrieve rm address (bcm_map b) of
     None \<Rightarrow> None | Some (module, _, _) \<Rightarrow> Some module)"

definition GetMainModule :: "('m, codemodule) range_map \<Rightarrow> 'm basic_code_modules \<Rightarrow> codemodule option" where
  "GetMainModule rm b = GetModuleForAddress rm b (bcm_main_address b)"

definition GetModuleAtSequence :: "('m, codemodule) range_map \<Rightarrow> 'm basic_code_modules \<Rightarrow> nat \<Rightarrow> codemodule option" where
  "GetModuleAtSequence rm b sequence = rm_at rm sequence (bcm_map b)"

definition GetModuleAtIndex :: "('m, codemodule) range_map \<Rightarrow> 'm basic_code_modules \<Rightarrow> nat \<Rightarrow> codemodule option" where
  "GetModuleAtIndex rm b index = GetModuleAtSequence rm b index"

definition modules_Copy :: "('m, codemodule) range_map \<Rightarrow> (codemodule \<Rightarrow> codemodule) \<Rightarrow> 'm basic_code_modules
    \<Rightarrow> modules_error + 'm basic_code_modules" where
  "modules_Copy rm copy b = BasicCodeModules rm copy
     \<lparr>cmo_GetMainModule = GetMainModule rm b, cmo_module_count = module_count rm b,
      cmo_GetModuleAtIndex = GetModuleAtIndex rm b\<rparr>"

section \<open>Lemmas\<close>

definition module_range :: "codemodule \<Rightarrow> 64 word \<Rightarrow> bool" where
  "module_range module address \<longleftrightarrow> in_range address (cm_base_address module) (cm_size module)"

definition storable :: "codemodule \<Rightarrow> bool" where
  "storable module \<longleftrightarrow> cm_size module \<noteq> 0 \<and> unat (cm_base_address module) + unat (cm_size module) \<le> 2 ^ 64"

definition disjoint_modules :: "codemodule list \<Rightarrow> bool" where
  "disjoint_modules ms \<longleftrightarrow> sorted_wrt (\<lambda>m m'. \<forall>a. \<not> (module_range m a \<and> module_range m' a)) ms"

definition stored_from :: "('m, codemodule) range_map \<Rightarrow> codemodule list \<Rightarrow> 'm \<Rightarrow> bool" where
  "stored_from rm ms m \<longleftrightarrow> (\<forall>a x. rm_retrieve rm a m = Some x \<longrightarrow>
     (\<exists>module \<in> set ms. x = (module, cm_base_address module, cm_size module) \<and> module_range module a))"

definition all_found :: "('m, codemodule) range_map \<Rightarrow> codemodule list \<Rightarrow> 'm \<Rightarrow> bool" where
  "all_found rm ms m \<longleftrightarrow> (\<forall>module \<in> set ms. \<forall>a. module_range module a \<longrightarrow>
     rm_retrieve rm a m = Some (module, cm_base_address module, cm_size module))"

lemma store_module:
  assumes "range_map_laws rm" "stored_from rm ms m"
  shows "stored_from rm (module # ms) (snd (rm_store rm (cm_base_address module) (cm_size module) module m))"
proof (cases "fst (rm_store rm (cm_base_address module) (cm_size module) module m)")
  case True
  with assms show ?thesis
    by (auto simp: range_map_laws_def stored_from_def module_range_def split: if_splits)
next
  case False
  then have "snd (rm_store rm (cm_base_address module) (cm_size module) module m) = m"
    using assms(1) unfolding range_map_laws_def by blast
  with assms(2) show ?thesis by (auto simp: stored_from_def)
qed

lemma store_module_found:
  assumes "range_map_laws rm" "stored_from rm ms m" "all_found rm ms m" "storable module"
    and "\<forall>m' \<in> set ms. \<forall>a. \<not> (module_range module a \<and> module_range m' a)"
  shows "all_found rm (module # ms) (snd (rm_store rm (cm_base_address module) (cm_size module) module m))"
proof -
  have "rm_retrieve rm a m = None" if "module_range module a" for a
    using assms(2,5) that by (cases "rm_retrieve rm a m") (fastforce simp: stored_from_def)+
  then have st: "fst (rm_store rm (cm_base_address module) (cm_size module) module m)"
    using assms(1,4) unfolding range_map_laws_def storable_def module_range_def by blast
  have r: "rm_retrieve rm a (snd (rm_store rm (cm_base_address module) (cm_size module) module m)) =
      (if module_range module a then Some (module, cm_base_address module, cm_size module) else rm_retrieve rm a m)" for a
    using assms(1) st unfolding range_map_laws_def module_range_def by blast
  show ?thesis using assms(3,5) by (auto simp: all_found_def r)
qed

lemma copy_modules_run:
  assumes "range_map_laws rm" "stored_from rm done m" "copy_modules rm copy get is m = Inr m'"
  shows "stored_from rm (rev (List.map (\<lambda>i. copy (the (get i))) is) @ done) m'
    \<and> (all_found rm done m \<and> (\<forall>x \<in> set (List.map (\<lambda>i. copy (the (get i))) is). storable x)
       \<and> disjoint_modules (done @ List.map (\<lambda>i. copy (the (get i))) is) \<longrightarrow>
       all_found rm (rev (List.map (\<lambda>i. copy (the (get i))) is) @ done) m')"
  using assms(2,3)
proof (induction "is" arbitrary: m "done")
  case (Cons i "is")
  then obtain that where g: "get i = Some that" by (auto split: option.splits)
  let ?x = "copy that"
  let ?m = "snd (rm_store rm (cm_base_address ?x) (cm_size ?x) ?x m)"
  have run: "copy_modules rm copy get is ?m = Inr m'" using Cons.prems(2) g by (simp add: Let_def)
  note st = store_module [OF assms(1) Cons.prems(1), of ?x]
  note IH = Cons.IH [OF st run]
  show ?case
  proof (intro conjI impI)
    show "stored_from rm (rev (List.map (\<lambda>i. copy (the (get i))) (i # is)) @ done) m'" using IH g by simp
  next
    assume a: "all_found rm done m \<and> (\<forall>x \<in> set (List.map (\<lambda>i. copy (the (get i))) (i # is)). storable x)
       \<and> disjoint_modules (done @ List.map (\<lambda>i. copy (the (get i))) (i # is))"
    have "\<forall>m' \<in> set done. \<forall>a. \<not> (module_range ?x a \<and> module_range m' a)"
      using a g by (auto simp: disjoint_modules_def sorted_wrt_append)
    then have "all_found rm (?x # done) ?m" using store_module_found [OF assms(1) Cons.prems(1)] a g by auto
    moreover have "disjoint_modules ((?x # done) @ List.map (\<lambda>i. copy (the (get i))) is)"
      using a g by (auto simp: disjoint_modules_def sorted_wrt_append)
    ultimately show "all_found rm (rev (List.map (\<lambda>i. copy (the (get i))) (i # is)) @ done) m'" using IH a g by simp
  qed
qed simp

section \<open>Properties\<close>

text \<open>
  a module returned for an address is a copy of one of the modules of the list and
  holds the address; if the modules are not empty, do not wrap and do not overlap, every
  address in one of them gives that module.
\<close>

theorem BasicCodeModules_lookup:
  assumes "range_map_laws rm" "BasicCodeModules rm copy that = Inr b"
    and "copies = List.map (\<lambda>i. copy (the (cmo_GetModuleAtIndex that i))) [0..<cmo_module_count that]"
  shows "(\<forall>a x. GetModuleForAddress rm b a = Some x \<longrightarrow> x \<in> set copies \<and> module_range x a)
    \<and> ((\<forall>x \<in> set copies. storable x) \<and> disjoint_modules copies \<longrightarrow>
        (\<forall>x \<in> set copies. \<forall>a. module_range x a \<longrightarrow> GetModuleForAddress rm b a = Some x))"
proof -
  have m: "copy_modules rm copy (cmo_GetModuleAtIndex that) [0..<cmo_module_count that] (rm_empty rm) = Inr (bcm_map b)"
    using assms(2) by (auto simp: BasicCodeModules_def)
  have "stored_from rm [] (rm_empty rm)" "all_found rm [] (rm_empty rm)"
    using assms(1) by (auto simp: stored_from_def all_found_def range_map_laws_def)
  with copy_modules_run [OF assms(1) _ m, of "[]"] show ?thesis
    by (fastforce simp: assms(3) stored_from_def all_found_def GetModuleForAddress_def split: option.splits)
qed

definition page_module :: "nat \<Rightarrow> 64 word \<Rightarrow> codemodule" where
  "page_module p b = \<lparr>cm_ptr = p, cm_base_address = b, cm_size = 0x1000, cm_code_file = ''m'', cm_code_identifier = [],
     cm_debug_file = [], cm_debug_identifier = [], cm_version = []\<rparr>"

definition two_modules :: code_modules_ops where
  "two_modules = \<lparr>cmo_GetMainModule = None, cmo_module_count = 2,
     cmo_GetModuleAtIndex = (\<lambda>i. if i = 0 then Some (page_module 1 0x1000) else if i = 1 then Some (page_module 2 0x2000) else None)\<rparr>"

theorem BasicCodeModules_lookup_witness:
  "\<exists>b. BasicCodeModules list_range_map id two_modules = Inr b
    \<and> GetModuleForAddress list_range_map b 0x2abc = Some (page_module 2 0x2000)"
proof -
  let ?copies = "List.map (\<lambda>i. id (the (cmo_GetModuleAtIndex two_modules i))) [0..<cmo_module_count two_modules]"
  obtain b where b: "BasicCodeModules list_range_map id two_modules = Inr b"
  proof -
    have "map_sum id (\<lambda>_. ()) (BasicCodeModules list_range_map id two_modules) = Inr ()" by code_simp
    with that show ?thesis by (cases "BasicCodeModules list_range_map id two_modules") auto
  qed
  have "[0..<2] = [0, 1 :: nat]" by (simp add: upt_rec)
  then have c: "?copies = [page_module 1 0x1000, page_module 2 0x2000]" by (simp add: two_modules_def)
  have "disjoint_modules ?copies" "\<forall>x \<in> set ?copies. storable x" "module_range (page_module 2 0x2000) 0x2abc"
    unfolding c by (auto simp: disjoint_modules_def module_range_def in_range_unat storable_def page_module_def)
  moreover have "page_module 2 0x2000 \<in> set ?copies" unfolding c by simp
  ultimately have "GetModuleForAddress list_range_map b 0x2abc = Some (page_module 2 0x2000)"
    using BasicCodeModules_lookup [OF list_range_map_laws b refl] by blast
  with b show ?thesis by blast
qed

end
