(* ===== verification/Symbolizer.thy ===== *)
theory Symbolizer
  imports Resolver Symbol_Supplier
begin

text \<open>
  \<open>minidump_src/stack_frame_symbolizer.cc\<close>: the symbolizer asks the supplier for a
  module's symbols the first time a frame of the module comes by, has the resolver load
  them, and remembers the modules it got none for. It works on the interfaces of the
  resolver and of the supplier; either may be missing (a null pointer).
\<close>

section \<open>State and operations\<close>

record ('r, 's) symbolizer =
  sy_supplier :: "'s option"
  sy_resolver :: "'r option"
  sy_no_symbol_modules :: "(string, unit) std_map"

definition new_symbolizer :: "'s option \<Rightarrow> 'r option \<Rightarrow> ('r, 's) symbolizer" where
  "new_symbolizer supplier resolver =
     \<lparr>sy_supplier = supplier, sy_resolver = resolver, sy_no_symbol_modules = []\<rparr>"

type_synonym module_lookup = "64 word \<Rightarrow> codemodule option"

definition fill_result :: "'r resolver_ops \<Rightarrow> 'r \<Rightarrow> stack_frame \<Rightarrow> symbolizer_result \<times> stack_frame" where
  "fill_result ro r frame =
     (let frame' = ro_FillSourceLineInfo ro r frame in
      (if ro_IsModuleCorrupt ro r (sf_module frame') then kWarningCorruptSymbols else kNoError, frame'))"

definition FillSourceLineInfo :: "'r resolver_ops \<Rightarrow> 's supplier_ops \<Rightarrow> module_lookup option \<Rightarrow> system_info option
    \<Rightarrow> stack_frame \<Rightarrow> ('r, 's) symbolizer \<Rightarrow> run_error + (symbolizer_result \<times> stack_frame \<times> ('r, 's) symbolizer)" where
  "FillSourceLineInfo ro so modules system_info frame0 sy =
     (case modules of
        None \<Rightarrow> Inr (kError, frame0, sy)
      | Some get_module \<Rightarrow>
     (case get_module (sf_instruction frame0) of
        None \<Rightarrow> Inr (kError, frame0, sy)
      | Some module \<Rightarrow>
     (let frame = frame0\<lparr>sf_module := Some module\<rparr> in
      case sy_resolver sy of
        None \<Rightarrow> Inr (kError, frame, sy)
      | Some r \<Rightarrow>
          if map_find (sy_no_symbol_modules sy) (cm_code_file module) \<noteq> None then Inr (kError, frame, sy)
          else if ro_HasModule ro r (sf_module frame)
          then (let (result, frame') = fill_result ro r frame in Inr (result, frame', sy))
          else
            (case sy_supplier sy of
               None \<Rightarrow> Inr (kError, frame, sy)
             | Some s \<Rightarrow>
                 (case so_GetCStringSymbolData so module system_info s of
                    (FOUND, symbol_file, symbol_data, s1) \<Rightarrow>
                      ebind (ro_LoadModuleUsingMemoryBuffer ro (sf_module frame) symbol_data r) (\<lambda>(load_success, r1).
                        let s2 = (if ro_ShouldDelete ro then so_FreeSymbolData so (Some module) s1 else s1);
                            sy1 = sy\<lparr>sy_resolver := Some r1, sy_supplier := Some s2\<rparr>
                        in if load_success
                           then (let (result, frame') = fill_result ro r1 frame in Inr (result, frame', sy1))
                           else Inr (kError, frame, sy1\<lparr>sy_no_symbol_modules :=
                                  map_insert (cm_code_file module) () (sy_no_symbol_modules sy1)\<rparr>))
                  | (NOT_FOUND, symbol_file, symbol_data, s1) \<Rightarrow>
                      Inr (kError, frame, sy\<lparr>sy_supplier := Some s1, sy_no_symbol_modules :=
                        map_insert (cm_code_file module) () (sy_no_symbol_modules sy)\<rparr>)
                  | (INTERRUPT, symbol_file, symbol_data, s1) \<Rightarrow>
                      Inr (kInterrupt, frame, sy\<lparr>sy_supplier := Some s1\<rparr>))))))"

definition symbolizer_FindWindowsFrameInfo :: "'r resolver_ops \<Rightarrow> stack_frame \<Rightarrow> ('r, 's) symbolizer \<Rightarrow> windows_frame_info option" where
  "symbolizer_FindWindowsFrameInfo ro frame sy = (case sy_resolver sy of
     None \<Rightarrow> None | Some r \<Rightarrow> ro_FindWindowsFrameInfo ro r frame)"

definition symbolizer_FindCFIFrameInfo :: "'r resolver_ops \<Rightarrow> stack_frame \<Rightarrow> ('r, 's) symbolizer \<Rightarrow> cfi_frame_info option" where
  "symbolizer_FindCFIFrameInfo ro frame sy = (case sy_resolver sy of
     None \<Rightarrow> None | Some r \<Rightarrow> ro_FindCFIFrameInfo ro r frame)"

section \<open>Over any resolver that keeps the contract\<close>

definition symbolizer_inv :: "'r resolver_ops \<Rightarrow> ('r \<Rightarrow> bool) \<Rightarrow> ('r, 's) symbolizer \<Rightarrow> bool" where
  "symbolizer_inv ro rok sy \<longleftrightarrow> map_ok (sy_no_symbol_modules sy) \<and>
     (\<forall>r. sy_resolver sy = Some r \<longrightarrow> rok r \<and>
       (\<forall>cm. map_find (sy_no_symbol_modules sy) (cm_code_file cm) \<noteq> None \<longrightarrow> \<not> ro_HasModule ro r (Some cm)))"

lemma find_insert_unit:
  "map_ok (m :: (string, unit) std_map) \<Longrightarrow> map_find (map_insert k () m) k' \<noteq> None \<longleftrightarrow> k' = k \<or> map_find m k' \<noteq> None"
  using stdm.find_insert [of m k "()" k'] by auto

text \<open>The cases in which the symbolizer's state changes, or the supplier is asked.\<close>

lemma FillSourceLineInfo_cases:
  assumes "FillSourceLineInfo ro so modules si frame0 sy = Inr (res, frame, sy')"
  obtains (refused) "res = kError" "sy' = sy" "frame = frame0 \<or> (\<exists>cm. frame = frame0\<lparr>sf_module := Some cm\<rparr>)"
  | (cached) get cm r where "modules = Some get" "get (sf_instruction frame0) = Some cm" "sy_resolver sy = Some r"
      "ro_HasModule ro r (Some cm)" "fill_result ro r (frame0\<lparr>sf_module := Some cm\<rparr>) = (res, frame)" "sy' = sy"
  | (loaded) get cm r r1 sup data b where "modules = Some get" "get (sf_instruction frame0) = Some cm"
      "sy_resolver sy = Some r" "map_find (sy_no_symbol_modules sy) (cm_code_file cm) = None"
      "\<not> ro_HasModule ro r (Some cm)" "ro_LoadModuleUsingMemoryBuffer ro (Some cm) data r = Inr (b, r1)"
      "b \<Longrightarrow> sy' = sy\<lparr>sy_resolver := Some r1, sy_supplier := Some sup\<rparr>"
      "b \<Longrightarrow> fill_result ro r1 (frame0\<lparr>sf_module := Some cm\<rparr>) = (res, frame)"
      "\<not> b \<Longrightarrow> sy' = sy\<lparr>sy_resolver := Some r1, sy_supplier := Some sup,
         sy_no_symbol_modules := map_insert (cm_code_file cm) () (sy_no_symbol_modules sy)\<rparr>"
  | (not_found) get cm r s1 where "modules = Some get" "get (sf_instruction frame0) = Some cm"
      "sy_resolver sy = Some r" "\<not> ro_HasModule ro r (Some cm)" "res = kError"
      "frame = frame0\<lparr>sf_module := Some cm\<rparr>"
      "sy' = sy\<lparr>sy_supplier := Some s1, sy_no_symbol_modules := map_insert (cm_code_file cm) () (sy_no_symbol_modules sy)\<rparr>"
  | (interrupted) cm s1 where "res = kInterrupt" "sy' = sy\<lparr>sy_supplier := Some s1\<rparr>" "frame = frame0\<lparr>sf_module := Some cm\<rparr>"
proof -
  show ?thesis
  proof (cases modules)
    case None
    with assms show ?thesis by (intro refused) (auto simp: FillSourceLineInfo_def)
  next
    case get: (Some get)
    show ?thesis
    proof (cases "get (sf_instruction frame0)")
      case None
      with assms get show ?thesis by (intro refused) (auto simp: FillSourceLineInfo_def)
    next
      case cm: (Some cm)
      show ?thesis
      proof (cases "sy_resolver sy")
        case None
        with assms get cm show ?thesis by (intro refused) (auto simp: FillSourceLineInfo_def)
      next
        case r: (Some r)
        let ?frame = "frame0\<lparr>sf_module := Some cm\<rparr>"
        show ?thesis
        proof (cases "map_find (sy_no_symbol_modules sy) (cm_code_file cm) \<noteq> None \<or> ro_HasModule ro r (Some cm) \<or> sy_supplier sy = None")
          case True
          show ?thesis
          proof (cases "map_find (sy_no_symbol_modules sy) (cm_code_file cm) = None \<and> ro_HasModule ro r (Some cm)")
            case True
            then show ?thesis
              using assms get cm r
              by (intro cached [OF get cm r]) (auto simp: FillSourceLineInfo_def Let_def split: prod.splits)
          next
            case no: False
            with True have "map_find (sy_no_symbol_modules sy) (cm_code_file cm) \<noteq> None \<or>
                \<not> ro_HasModule ro r (Some cm) \<and> sy_supplier sy = None" by argo
            then show ?thesis
              using assms get cm r by (intro refused) (auto simp: FillSourceLineInfo_def Let_def split: if_splits)
          qed
        next
          case False
          then have n: "map_find (sy_no_symbol_modules sy) (cm_code_file cm) = None" "\<not> ro_HasModule ro r (Some cm)"
            by blast+
          from False obtain s where s: "sy_supplier sy = Some s" by auto
          obtain sr fname data s1 where g: "so_GetCStringSymbolData so cm si s = (sr, fname, data, s1)" by (metis prod_cases4)
          note e = assms [unfolded FillSourceLineInfo_def get option.case cm r Let_def]
          show ?thesis
          proof (cases sr)
            case FOUND
            with e n s g obtain b r1 where l: "ro_LoadModuleUsingMemoryBuffer ro (Some cm) data r = Inr (b, r1)" by auto
            show ?thesis
              by (rule loaded [OF get cm r n l, where sup = "if ro_ShouldDelete ro then so_FreeSymbolData so (Some cm) s1 else s1"])
                (use e n s g l FOUND in \<open>auto split: prod.splits if_splits\<close>)
          next
            case NOT_FOUND
            show ?thesis by (rule not_found [OF get cm r]) (use e n s g NOT_FOUND in auto)
          next
            case INTERRUPT
            show ?thesis by (rule interrupted) (use e n s g INTERRUPT in auto)
          qed
        qed
      qed
    qed
  qed
qed

context source_line_resolver begin

lemma fill_inv:
  assumes "symbolizer_inv ops rok sy" "FillSourceLineInfo ops so modules si frame0 sy = Inr (res, frame, sy')"
  shows "symbolizer_inv ops rok sy'"
  using assms(2)
proof (cases rule: FillSourceLineInfo_cases)
  case refused
  with assms(1) show ?thesis by simp
next
  case (cached get cm r)
  with assms(1) show ?thesis by simp
next
  case (loaded get cm r r1 sup data b)
  have ok: "map_ok (sy_no_symbol_modules sy)" "rok r" "rok r1"
    using assms(1) loaded(3) load_ok [OF _ loaded(6)] by (auto simp: symbolizer_inv_def)
  have new: b using load_result [OF loaded(6)] loaded(5) by simp
  have "\<not> ro_HasModule ops r1 (Some cm')"
    if "map_find (sy_no_symbol_modules sy) (cm_code_file cm') \<noteq> None" for cm'
  proof -
    have "cm_code_file cm' \<noteq> cm_code_file cm" using that loaded(4) by auto
    moreover have "\<not> ro_HasModule ops r (Some cm')" using that assms(1) loaded(3) by (auto simp: symbolizer_inv_def)
    ultimately show ?thesis using load_has [OF ok(2) loaded(6), of cm'] by simp
  qed
  with ok loaded(7) [OF new] show ?thesis by (simp add: symbolizer_inv_def)
next
  case (not_found get cm r s1)
  have ok: "map_ok (sy_no_symbol_modules sy)" using assms(1) by (simp add: symbolizer_inv_def)
  have "\<not> ro_HasModule ops r (Some cm')" if "cm_code_file cm' = cm_code_file cm" for cm'
    using not_found(4) by_code_file [OF that] by simp
  with assms(1) not_found(3,7) find_insert_unit [OF ok] stdm.ok_insert [OF ok] show ?thesis
    unfolding symbolizer_inv_def by simp
next
  case (interrupted cm s1)
  with assms(1) show ?thesis by (simp add: symbolizer_inv_def)
qed

text \<open>A second question about the same address is answered without the supplier.\<close>

lemma fill_again:
  assumes "symbolizer_inv ops rok sy"
    and "FillSourceLineInfo ops so modules si frame0 sy = Inr (res, frame, sy')" "res \<noteq> kInterrupt"
  shows "FillSourceLineInfo ops so modules si frame0 sy' = Inr (res, frame, sy')"
  using assms(2)
proof (cases rule: FillSourceLineInfo_cases)
  case (loaded get cm r r1 sup data b)
  have rok: "rok r" and new: b using assms(1) loaded(3) load_result [OF loaded(6)] loaded(5) by (auto simp: symbolizer_inv_def)
  have "ro_HasModule ops r1 (Some cm)" using load_has [OF rok loaded(6), of cm] by simp
  with loaded(1-5) loaded(7,8) [OF new] show ?thesis by (simp add: FillSourceLineInfo_def)
next
  case (not_found get cm r s1)
  have ok: "map_ok (sy_no_symbol_modules sy)" using assms(1) by (simp add: symbolizer_inv_def)
  have "map_find (map_insert (cm_code_file cm) () (sy_no_symbol_modules sy)) (cm_code_file cm) \<noteq> None"
    using find_insert_unit [OF ok] by blast
  with not_found show ?thesis by (simp add: FillSourceLineInfo_def)
qed (use assms(2,3) in simp_all)

lemma fill_loaded:
  assumes "symbolizer_inv ops rok sy"
    and "FillSourceLineInfo ops so modules si frame0 sy = Inr (res, frame, sy')"
    and "res = kNoError \<or> res = kWarningCorruptSymbols"
  shows "\<exists>get cm r. modules = Some get \<and> get (sf_instruction frame0) = Some cm \<and> sy_resolver sy' = Some r
    \<and> ro_HasModule ops r (Some cm) \<and> fill_result ops r (frame0\<lparr>sf_module := Some cm\<rparr>) = (res, frame)"
  using assms(2)
proof (cases rule: FillSourceLineInfo_cases)
  case (loaded get cm r r1 sup data b)
  have rok: "rok r" and new: b using assms(1) loaded(3) load_result [OF loaded(6)] loaded(5) by (auto simp: symbolizer_inv_def)
  with loaded load_has [OF rok loaded(6), of cm] show ?thesis by auto
qed (use assms(3) in auto)

lemma fill_result_keeps:
  assumes "fill_result ops r frame0 = (res, frame)"
  shows "sf_module frame = sf_module frame0" "sf_instruction frame = sf_instruction frame0" "sf_trust frame = sf_trust frame0"
    "frame = ro_FillSourceLineInfo ops r frame0"
    "res = kWarningCorruptSymbols \<longleftrightarrow> ro_IsModuleCorrupt ops r (sf_module frame0)"
    "res = kNoError \<or> res = kWarningCorruptSymbols"
  using assms fill_keeps [of r frame0] by (auto simp: fill_result_def Let_def split: if_splits)

lemma fill_keeps_frame:
  assumes "FillSourceLineInfo ops so modules si frame0 sy = Inr (res, frame, sy')"
  shows "sf_instruction frame = sf_instruction frame0 \<and> sf_trust frame = sf_trust frame0"
  using assms
proof (cases rule: FillSourceLineInfo_cases)
  case (cached get cm r)
  then show ?thesis using fill_result_keeps(2,3) [OF cached(5)] by simp
next
  case (loaded get cm r r1 sup data b)
  then have b using load_result [OF loaded(6)] by simp
  with loaded(8) show ?thesis using fill_result_keeps(2,3) [OF loaded(8)] by simp
qed auto

end

section \<open>Reachable symbolizers\<close>

text \<open>A symbolizer on the basic resolver that has answered any number of questions.\<close>

inductive symbolizer_reachable :: "('fm, 'lm, 'pm, 'wm, 'cm) symbol_env \<Rightarrow> 's supplier_ops
    \<Rightarrow> (('fm, 'lm, 'pm, 'wm, 'cm) resolver, 's) symbolizer \<Rightarrow> bool" for env so where
  reach_new_symbolizer: "symbolizer_reachable env so (new_symbolizer supplier (Some new_resolver))"
| reach_fill: "symbolizer_reachable env so sy \<Longrightarrow>
    FillSourceLineInfo (basic_resolver_ops env) so modules si frame sy = Inr (res, frame', sy') \<Longrightarrow>
    symbolizer_reachable env so sy'"

lemma symbolizer_reachable_inv:
  "symbolizer_reachable env so sy \<Longrightarrow> symbolizer_inv (basic_resolver_ops env) resolver_ok sy"
proof (induction rule: symbolizer_reachable.induct)
  case (reach_new_symbolizer supplier)
  show ?case by (simp add: symbolizer_inv_def new_symbolizer_def new_resolver_ok map_find_def)
next
  case (reach_fill sy modules si frame res frame' sy')
  show ?case by (rule base_resolver.fill_inv [OF reach_fill(3,2)])
qed

section \<open>Properties\<close>

text \<open>
  C34: whatever the symbolizer has been asked before, no module is both loaded in the
  resolver and remembered as one without symbols.
\<close>

theorem symbolizer_modules_disjoint:
  assumes "symbolizer_reachable env so sy" "sy_resolver sy = Some r"
    and "map_find (sy_no_symbol_modules sy) (cm_code_file cm) \<noteq> None"
  shows "\<not> HasModule r (Some cm)"
proof -
  have "\<not> ro_HasModule (basic_resolver_ops env) r (Some cm)"
    using symbolizer_reachable_inv [OF assms(1)] assms(2,3) unfolding symbolizer_inv_def by blast
  then show ?thesis by (simp add: basic_resolver_ops_def)
qed

text \<open>
  asking a second time about a frame at the same address gives the same answer and
  changes nothing, unless the supplier interrupted the first one; the supplier is
  consulted at most once for a module.
\<close>

theorem FillSourceLineInfo_cached:
  assumes "symbolizer_reachable env so sy" "res \<noteq> kInterrupt"
    and "FillSourceLineInfo (basic_resolver_ops env) so modules si frame0 sy = Inr (res, frame, sy')"
  shows "FillSourceLineInfo (basic_resolver_ops env) so modules si frame0 sy' = Inr (res, frame, sy')"
  by (rule base_resolver.fill_again [OF symbolizer_reachable_inv [OF assms(1)] assms(3,2)])

text \<open>
  an answer without error means that the frame's address lies in a module, that the
  module's symbols are loaded in the resolver and that the frame holds what the resolver
  finds for it; the warning tells whether the symbol file was corrupt.
\<close>

theorem FillSourceLineInfo_no_error:
  assumes "symbolizer_reachable env so sy" "res = kNoError \<or> res = kWarningCorruptSymbols"
    and "FillSourceLineInfo (basic_resolver_ops env) so modules si frame0 sy = Inr (res, frame, sy')"
  shows "\<exists>get cm r. modules = Some get \<and> get (sf_instruction frame0) = Some cm \<and> sy_resolver sy' = Some r
    \<and> HasModule r (Some cm) \<and> frame = resolver_FillSourceLineInfo env r (frame0\<lparr>sf_module := Some cm\<rparr>)
    \<and> (res = kWarningCorruptSymbols \<longleftrightarrow> IsModuleCorrupt r (Some cm))"
proof -
  obtain get cm r where f: "modules = Some get" "get (sf_instruction frame0) = Some cm" "sy_resolver sy' = Some r"
    "ro_HasModule (basic_resolver_ops env) r (Some cm)"
    "fill_result (basic_resolver_ops env) r (frame0\<lparr>sf_module := Some cm\<rparr>) = (res, frame)"
    using base_resolver.fill_loaded [OF symbolizer_reachable_inv [OF assms(1)] assms(3,2)] by blast
  with base_resolver.fill_result_keeps(4,5) [OF f(5)] show ?thesis by (auto simp: basic_resolver_ops_def)
qed

section \<open>Examples\<close>

definition a_supplier :: supplier_files where
  "a_supplier = \<lparr>sf_file_exists = (\<lambda>f. f = ''r/a.out/1/a.out.sym''),
     sf_file_text = (\<lambda>_. line_text (function_text 3 ''a.c'' 0x10 0x20 8 ''main'' []))\<rparr>"

definition a_lookup :: module_lookup where
  "a_lookup pc = (if 0x400000 \<le> pc \<and> pc < 0x401000 then Some a_module else None)"

definition a_symbolizer :: "string list \<Rightarrow> (('fm, 'lm, 'pm, 'wm, 'cm) resolver, supplier) symbolizer" where
  "a_symbolizer paths = new_symbolizer (Some \<lparr>sp_paths = paths, sp_memory_buffers = []\<rparr>) (Some new_resolver)"

lemma a_symbolizer_reachable: "symbolizer_reachable env so (a_symbolizer paths)"
  unfolding a_symbolizer_def by (rule reach_new_symbolizer)

lemma a_symbolizer_loads:
  "\<exists>frame sy'. FillSourceLineInfo (basic_resolver_ops list_env) (simple_supplier_ops a_supplier) (Some a_lookup) None
     (a_frame 0x400015) (a_symbolizer [''r'']) = Inr (kNoError, frame, sy') \<and> sf_function_name frame = ''main''"
proof -
  let ?r = "FillSourceLineInfo (basic_resolver_ops list_env) (simple_supplier_ops a_supplier) (Some a_lookup) None
     (a_frame 0x400015) (a_symbolizer [''r''])"
  have "map_sum id (\<lambda>(res, frame, sy'). (res, sf_function_name frame)) ?r = Inr (kNoError, ''main'')"
    by code_simp
  then show ?thesis by (cases ?r) auto
qed

theorem FillSourceLineInfo_cached_witness:
  "\<exists>frame sy'. FillSourceLineInfo (basic_resolver_ops list_env) (simple_supplier_ops a_supplier) (Some a_lookup) None
     (a_frame 0x400015) sy' = Inr (kNoError, frame, sy') \<and> sf_function_name frame = ''main''"
  using a_symbolizer_loads FillSourceLineInfo_cached [OF a_symbolizer_reachable] by blast

theorem FillSourceLineInfo_no_error_witness:
  "\<exists>frame sy' r. FillSourceLineInfo (basic_resolver_ops list_env) (simple_supplier_ops a_supplier) (Some a_lookup) None
     (a_frame 0x400015) (a_symbolizer [''r'']) = Inr (kNoError, frame, sy')
     \<and> sy_resolver sy' = Some r \<and> HasModule r (Some a_module)"
proof -
  obtain frame sy' where f: "FillSourceLineInfo (basic_resolver_ops list_env) (simple_supplier_ops a_supplier) (Some a_lookup) None
     (a_frame 0x400015) (a_symbolizer [''r'']) = Inr (kNoError, frame, sy')"
    using a_symbolizer_loads by blast
  from FillSourceLineInfo_no_error [OF a_symbolizer_reachable _ f] show ?thesis
    using f by (auto simp: a_lookup_def split: if_splits)
qed

theorem symbolizer_modules_disjoint_witness:
  "\<exists>frame sy' r. FillSourceLineInfo (basic_resolver_ops list_env) (simple_supplier_ops a_supplier) (Some a_lookup) None
     (a_frame 0x400015) (a_symbolizer [''q'']) = Inr (kError, frame, sy')
     \<and> sy_resolver sy' = Some r \<and> \<not> HasModule r (Some a_module)"
proof -
  let ?r = "FillSourceLineInfo (basic_resolver_ops list_env) (simple_supplier_ops a_supplier) (Some a_lookup) None
     (a_frame 0x400015) (a_symbolizer [''q''])"
  have "map_sum id (\<lambda>(res, frame, sy'). (res, sy_no_symbol_modules sy', sy_resolver sy' \<noteq> None)) ?r =
      Inr (kError, [(''a.out'', ())], True)"
    by code_simp
  then obtain frame sy' r where f: "?r = Inr (kError, frame, sy')" "sy_no_symbol_modules sy' = [(''a.out'', ())]"
    "sy_resolver sy' = Some r"
    by (cases ?r) auto
  have "symbolizer_reachable list_env (simple_supplier_ops a_supplier) sy'"
    by (rule reach_fill [OF a_symbolizer_reachable f(1)])
  from symbolizer_modules_disjoint [OF this f(3), of a_module] show ?thesis
    using f by (simp add: map_find_def a_module_def)
qed

end
