(* ===== verification/Stack_Walk.thy ===== *)
theory Stack_Walk
  imports Symbolizer
begin

text \<open>
  \<open>minidump_src/stackwalker.cc\<close> and \<open>minidump_src/stackwalker_address_list.cc\<close>: the walk
  from the context frame to its callers. A CPU's walker gives \<open>GetContextFrame\<close> and
  \<open>GetCallerFrame\<close>; the latter may change the last frame of the stack (it keeps the
  frame's unwind information there) and the symbolizer, so it returns both.
\<close>

section \<open>Interfaces\<close>

record memory_region =
  mr_base :: "64 word"
  mr_size :: "32 word"
  mr_get32 :: "64 word \<Rightarrow> 32 word option"
  mr_get64 :: "64 word \<Rightarrow> 64 word option"

type_synonym 'a frame_list = "'a stack_frame_scheme list"

record ('f, 'y) walker =
  wk_GetContextFrame :: "'f option"
  wk_GetCallerFrame :: "'f list \<Rightarrow> bool \<Rightarrow> 'y \<Rightarrow> run_error + ('f option \<times> 'f \<times> 'y)"

text \<open>The call of the symbolizer a walker makes, with its map of modules and system info.\<close>

type_synonym 'y fill = "stack_frame \<Rightarrow> 'y \<Rightarrow> run_error + (symbolizer_result \<times> stack_frame \<times> 'y)"

section \<open>Walk\<close>

definition InsertSpecialAttentionModule :: "codemodule option \<Rightarrow> codemodule list \<Rightarrow> codemodule list" where
  "InsertSpecialAttentionModule module modules = (case module of
     None \<Rightarrow> modules
   | Some m \<Rightarrow> if \<exists>x \<in> set modules. cm_ptr x = cm_ptr m then modules else modules @ [m])"

record ('f, 'y) walk_state =
  ws_frames :: "'f list"
  ws_modules_without_symbols :: "codemodule list"
  ws_modules_with_corrupt_symbols :: "codemodule list"
  ws_scanned_frames :: "32 word"
  ws_symbolizer :: 'y

definition default_max_frames :: "32 word" where
  "default_max_frames = 1024"

definition default_max_frames_scanned :: "32 word" where
  "default_max_frames_scanned = 1024"

definition dubious :: "frame_trust \<Rightarrow> bool" where
  "dubious t \<longleftrightarrow> t \<in> {FRAME_TRUST_NONE, FRAME_TRUST_SCAN, FRAME_TRUST_CFI_SCAN}"

text \<open>
  The body of the loop up to the push of the frame: the module lists, the count of
  dubious frames, the frame with its source information. \<open>False\<close> is the interrupted walk.
\<close>

definition visit_frame :: "'y fill \<Rightarrow> 'a stack_frame_scheme \<Rightarrow> ('a stack_frame_scheme, 'y) walk_state
    \<Rightarrow> run_error + (bool \<times> ('a stack_frame_scheme, 'y) walk_state)" where
  "visit_frame fill frame s =
     ebind (fill (stack_frame.truncate frame) (ws_symbolizer s)) (\<lambda>(symbolizer_result, base, sy).
       let frame' = on_base (\<lambda>_. base) frame;
           s1 = s\<lparr>ws_symbolizer := sy\<rparr>
       in if symbolizer_result = kInterrupt then Inr (False, s1)
          else
            let s2 = (if symbolizer_result = kError
                      then s1\<lparr>ws_modules_without_symbols :=
                             InsertSpecialAttentionModule (sf_module frame') (ws_modules_without_symbols s1)\<rparr>
                      else if symbolizer_result = kWarningCorruptSymbols
                      then s1\<lparr>ws_modules_with_corrupt_symbols :=
                             InsertSpecialAttentionModule (sf_module frame') (ws_modules_with_corrupt_symbols s1)\<rparr>
                      else s1);
                s3 = (if dubious (sf_trust frame') then s2\<lparr>ws_scanned_frames := ws_scanned_frames s2 + 1\<rparr> else s2)
            in Inr (True, s3\<lparr>ws_frames := ws_frames s3 @ [frame']\<rparr>))"

lemma visit_frame_frames:
  assumes "visit_frame fill frame s = Inr (go_on, s')"
  shows "go_on \<Longrightarrow> \<exists>frame'. ws_frames s' = ws_frames s @ [frame']" "\<not> go_on \<Longrightarrow> ws_frames s' = ws_frames s"
  using assms by (auto simp: visit_frame_def Let_def split: prod.splits if_splits)

text \<open>The loop ends at the first frame without a caller, or when the stack is over the limit.\<close>

function walk_loop :: "'y fill \<Rightarrow> ('a stack_frame_scheme, 'y) walker \<Rightarrow> 32 word \<Rightarrow> 32 word
    \<Rightarrow> 'a stack_frame_scheme option \<Rightarrow> ('a stack_frame_scheme, 'y) walk_state
    \<Rightarrow> run_error + (bool \<times> ('a stack_frame_scheme, 'y) walk_state)" where
  "walk_loop fill w max_frames max_frames_scanned None s = Inr (True, s)"
| "walk_loop fill w max_frames max_frames_scanned (Some frame) s =
     ebind (visit_frame fill frame s) (\<lambda>(go_on, s1).
       if \<not> go_on then Inr (False, s1)
       else if length (ws_frames s1) > unat max_frames then Inr (True, s1)
       else
         ebind (wk_GetCallerFrame w (ws_frames s1) (ws_scanned_frames s1 < max_frames_scanned) (ws_symbolizer s1))
           (\<lambda>(caller, last_frame, sy).
             walk_loop fill w max_frames max_frames_scanned caller
               (s1\<lparr>ws_frames := butlast (ws_frames s1) @ [last_frame], ws_symbolizer := sy\<rparr>)))"
  by pat_completeness auto

termination
proof (relation "measure (\<lambda>(fill, w, mx, ms, f, s). (unat mx + 2 - length (ws_frames s)) + (case f of None \<Rightarrow> 0 | Some _ \<Rightarrow> 1))", goal_cases)
  case (2 fill w mx ms frame s x go_on s1 y caller z last_frame sy)
  then have "length (ws_frames s1) = Suc (length (ws_frames s))" using visit_frame_frames(1) [of fill frame s go_on s1] by auto
  with 2 show ?case by (auto split: option.splits)
qed simp

definition Walk :: "'y fill \<Rightarrow> ('a stack_frame_scheme, 'y) walker \<Rightarrow> 32 word \<Rightarrow> 32 word
    \<Rightarrow> codemodule list \<Rightarrow> codemodule list \<Rightarrow> 'y \<Rightarrow> run_error + (bool \<times> ('a stack_frame_scheme, 'y) walk_state)" where
  "Walk fill w max_frames max_frames_scanned without corrupt sy =
     walk_loop fill w max_frames max_frames_scanned (wk_GetContextFrame w)
       \<lparr>ws_frames = [], ws_modules_without_symbols = without, ws_modules_with_corrupt_symbols = corrupt,
        ws_scanned_frames = 0, ws_symbolizer = sy\<rparr>"

section \<open>InstructionAddressSeemsValid\<close>

text \<open>
  The frame is a default-constructed one, \<open>new_frame\<close>; \<open>has_implementation\<close> is
  \<open>frame_symbolizer_->HasImplementation()\<close>.
\<close>

definition InstructionAddressSeemsValid :: "'y fill \<Rightarrow> stack_frame \<Rightarrow> ('y \<Rightarrow> bool) \<Rightarrow> 64 word \<Rightarrow> 'y
    \<Rightarrow> run_error + (bool \<times> 'y)" where
  "InstructionAddressSeemsValid fill new_frame has_implementation address sy =
     ebind (fill (new_frame\<lparr>sf_instruction := address\<rparr>) sy) (\<lambda>(symbolizer_result, frame, sy').
       if sf_module frame = None then Inr (False, sy')
       else if \<not> has_implementation sy' then Inr (True, sy')
       else if symbolizer_result \<noteq> kNoError \<and> symbolizer_result \<noteq> kWarningCorruptSymbols then Inr (True, sy')
       else Inr (sf_function_name frame \<noteq> [], sy'))"

section \<open>StackwalkerForCPU\<close>

text \<open>
  The kinds of walkers, and the values of \<open>GetContextCPU\<close> that choose them, which the
  minidump format's header defines.
\<close>

datatype cpu_walker = WalkerX86 | WalkerPPC | WalkerPPC64 | WalkerAMD64 | WalkerSPARC | WalkerMIPS
  | WalkerARM int | WalkerARM64

record context_cpus =
  MD_CONTEXT_X86 :: "32 word"
  MD_CONTEXT_PPC :: "32 word"
  MD_CONTEXT_PPC64 :: "32 word"
  MD_CONTEXT_AMD64 :: "32 word"
  MD_CONTEXT_SPARC :: "32 word"
  MD_CONTEXT_MIPS :: "32 word"
  MD_CONTEXT_MIPS64 :: "32 word"
  MD_CONTEXT_ARM :: "32 word"
  MD_CONTEXT_ARM64 :: "32 word"
  MD_CONTEXT_ARM_REG_IOS_FP :: int

definition StackwalkerForCPU :: "context_cpus \<Rightarrow> string \<Rightarrow> 32 word option \<Rightarrow> cpu_walker option" where
  "StackwalkerForCPU md os_short context = (case context of
     None \<Rightarrow> None
   | Some cpu \<Rightarrow>
       if cpu = MD_CONTEXT_X86 md then Some WalkerX86
       else if cpu = MD_CONTEXT_PPC md then Some WalkerPPC
       else if cpu = MD_CONTEXT_PPC64 md then Some WalkerPPC64
       else if cpu = MD_CONTEXT_AMD64 md then Some WalkerAMD64
       else if cpu = MD_CONTEXT_SPARC md then Some WalkerSPARC
       else if cpu = MD_CONTEXT_MIPS md \<or> cpu = MD_CONTEXT_MIPS64 md then Some WalkerMIPS
       else if cpu = MD_CONTEXT_ARM md
       then Some (WalkerARM (if os_short = ''ios'' then MD_CONTEXT_ARM_REG_IOS_FP md else -1))
       else if cpu = MD_CONTEXT_ARM64 md then Some WalkerARM64
       else None)"

section \<open>A list of addresses\<close>

text \<open>\<open>StackwalkerAddressList\<close>: the frames are given, one address each.\<close>

definition address_list_frame :: "stack_frame \<Rightarrow> 64 word \<Rightarrow> stack_frame" where
  "address_list_frame new_frame pc = new_frame\<lparr>sf_instruction := pc, sf_trust := FRAME_TRUST_PREWALKED\<rparr>"

definition address_list_GetContextFrame :: "stack_frame \<Rightarrow> 64 word list \<Rightarrow> stack_frame option" where
  "address_list_GetContextFrame new_frame frames =
     (if length frames = 0 then None else Some (address_list_frame new_frame (frames ! 0)))"

definition address_list_GetCallerFrame :: "stack_frame \<Rightarrow> 64 word list \<Rightarrow> stack_frame list \<Rightarrow> bool \<Rightarrow> 'y
    \<Rightarrow> run_error + (stack_frame option \<times> stack_frame \<times> 'y)" where
  "address_list_GetCallerFrame new_frame frames stack stack_scan_allowed sy =
     (let frame_index = length stack in
      if frame_index \<ge> length frames then Inr (None, last stack, sy)
      else Inr (Some (address_list_frame new_frame (frames ! frame_index)), last stack, sy))"

definition address_list_walker :: "stack_frame \<Rightarrow> 64 word list \<Rightarrow> (stack_frame, 'y) walker" where
  "address_list_walker new_frame frames =
     \<lparr>wk_GetContextFrame = address_list_GetContextFrame new_frame frames,
      wk_GetCallerFrame = address_list_GetCallerFrame new_frame frames\<rparr>"

end
