(* ===== verification/Walk_Facts.thy ===== *)
theory Walk_Facts
  imports Stack_Walk
begin

text \<open>
  What every walk guarantees: the bound on the number of frames, module lists without
  repetitions, and, for a CPU's walker that keeps a relation between a frame and its
  caller, that the frames of the stack are so related one after the other. The locale
  \<open>caller_frames\<close> is that contract; the CPUs' theories interpret it.
\<close>

section \<open>One turn of the loop\<close>

lemma visit_frame_keeps:
  assumes "visit_frame fill frame s = Inr (True, s')"
  obtains res base sy where "fill (stack_frame.truncate frame) (ws_symbolizer s) = Inr (res, base, sy)"
    "res \<noteq> kInterrupt" "ws_frames s' = ws_frames s @ [on_base (\<lambda>_. base) frame]"
  using assms by (fastforce simp: visit_frame_def Let_def split: prod.splits if_splits)

lemma walk_loop_Some:
  assumes "walk_loop fill w mx ms (Some frame) s = Inr (b, s')"
  obtains (interrupted) "\<not> b" "visit_frame fill frame s = Inr (False, s')"
  | (full) "b" "visit_frame fill frame s = Inr (True, s')" "length (ws_frames s') > unat mx"
  | (next_frame) s1 caller l sy where "visit_frame fill frame s = Inr (True, s1)" "length (ws_frames s1) \<le> unat mx"
      "wk_GetCallerFrame w (ws_frames s1) (ws_scanned_frames s1 < ms) (ws_symbolizer s1) = Inr (caller, l, sy)"
      "walk_loop fill w mx ms caller (s1\<lparr>ws_frames := butlast (ws_frames s1) @ [l], ws_symbolizer := sy\<rparr>) = Inr (b, s')"
proof -
  obtain go_on s1 where v: "visit_frame fill frame s = Inr (go_on, s1)" using assms by auto
  consider "\<not> go_on" | "go_on" "length (ws_frames s1) > unat mx" | "go_on" "length (ws_frames s1) \<le> unat mx" by linarith
  then show ?thesis
  proof cases
    case 1
    with assms v interrupted show ?thesis by auto
  next
    case 2
    with assms v full show ?thesis by auto
  next
    case 3
    with assms v show ?thesis by (auto elim!: next_frame simp: not_less [symmetric])
  qed
qed

text \<open>The rule by which the loop's invariants are proved.\<close>

lemma walk_loop_rule:
  assumes "walk_loop fill w mx ms f s = Inr (b, s')" "P f s"
    and no_caller: "\<And>s. P None s \<Longrightarrow> Q True s"
    and interrupted: "\<And>frame s s'. P (Some frame) s \<Longrightarrow> visit_frame fill frame s = Inr (False, s') \<Longrightarrow> Q False s'"
    and full: "\<And>frame s s'. P (Some frame) s \<Longrightarrow> visit_frame fill frame s = Inr (True, s') \<Longrightarrow>
      length (ws_frames s') > unat mx \<Longrightarrow> Q True s'"
    and step: "\<And>frame s s' c l sy. P (Some frame) s \<Longrightarrow> visit_frame fill frame s = Inr (True, s') \<Longrightarrow>
      length (ws_frames s') \<le> unat mx \<Longrightarrow>
      wk_GetCallerFrame w (ws_frames s') (ws_scanned_frames s' < ms) (ws_symbolizer s') = Inr (c, l, sy) \<Longrightarrow>
      P c (s'\<lparr>ws_frames := butlast (ws_frames s') @ [l], ws_symbolizer := sy\<rparr>)"
  shows "Q b s'"
  using assms(1,2)
proof (induction "unat mx + 2 - length (ws_frames s)" arbitrary: f s rule: less_induct)
  case less
  show ?case
  proof (cases f)
    case None
    with less.prems show ?thesis by (auto intro: no_caller)
  next
    case (Some frame)
    from less.prems(1) [unfolded Some] show ?thesis
    proof (cases rule: walk_loop_Some)
      case interrupted
      with less.prems(2) Some assms(4) show ?thesis by simp
    next
      case full
      with less.prems(2) Some assms(5) show ?thesis by simp
    next
      case (next_frame s1 c l sy)
      obtain g where fr: "ws_frames s1 = ws_frames s @ [g]" using visit_frame_frames(1) [OF next_frame(1)] by auto
      show ?thesis
        by (rule less.hyps [OF _ next_frame(4) step [OF _ next_frame(1,2,3)]])
          (use less.prems(2) Some fr next_frame(2) in auto)
    qed
  qed
qed

section \<open>Bound and module lists\<close>

definition distinct_modules :: "codemodule list \<Rightarrow> bool" where
  "distinct_modules ms \<longleftrightarrow> distinct (List.map cm_ptr ms)"

lemma InsertSpecialAttentionModule_distinct:
  "distinct_modules ms \<Longrightarrow> distinct_modules (InsertSpecialAttentionModule m ms)"
  by (auto simp: InsertSpecialAttentionModule_def distinct_modules_def split: option.split)

lemma visit_frame_modules:
  assumes "visit_frame fill frame s = Inr (go_on, s')"
    and "distinct_modules (ws_modules_without_symbols s) \<and> distinct_modules (ws_modules_with_corrupt_symbols s)"
  shows "distinct_modules (ws_modules_without_symbols s') \<and> distinct_modules (ws_modules_with_corrupt_symbols s')"
  using assms
  by (auto simp: visit_frame_def Let_def InsertSpecialAttentionModule_distinct split: prod.splits if_splits)

lemma Walk_bound:
  assumes "Walk fill w mx ms without corrupt sy = Inr (b, s)"
  shows "length (ws_frames s) \<le> unat mx + 1"
proof (rule walk_loop_rule [OF assms [unfolded Walk_def], where P = "\<lambda>f s. length (ws_frames s) \<le> unat mx"
    and Q = "\<lambda>b s. length (ws_frames s) \<le> unat mx + 1"], goal_cases)
  case (3 frame s s')
  then show ?case using visit_frame_frames(2) [OF 3(2)] by simp
next
  case (4 frame s s')
  then show ?case using visit_frame_frames(1) [OF 4(2)] by auto
next
  case (5 frame s s' c l sy)
  then show ?case using visit_frame_frames(1) [OF 5(2)] by auto
qed simp_all

lemma Walk_modules:
  assumes "Walk fill w mx ms without corrupt sy = Inr (b, s)" "distinct_modules without" "distinct_modules corrupt"
  shows "distinct_modules (ws_modules_without_symbols s) \<and> distinct_modules (ws_modules_with_corrupt_symbols s)"
proof (rule walk_loop_rule [OF assms(1) [unfolded Walk_def],
    where P = "\<lambda>f s. distinct_modules (ws_modules_without_symbols s) \<and> distinct_modules (ws_modules_with_corrupt_symbols s)"
      and Q = "\<lambda>b s. distinct_modules (ws_modules_without_symbols s) \<and> distinct_modules (ws_modules_with_corrupt_symbols s)"], goal_cases)
  case (3 frame s s')
  then show ?case using visit_frame_modules by blast
next
  case (4 frame s s')
  then show ?case using visit_frame_modules by blast
next
  case (5 frame s s' c l sy)
  then show ?case using visit_frame_modules [OF 5(2)] by simp
qed (use assms(2,3) in simp_all)

lemma Walk_total:
  assumes "\<And>frame y. \<exists>r. fill frame y = Inr r" "\<And>frames allowed y. \<exists>r. wk_GetCallerFrame w frames allowed y = Inr r"
  shows "\<exists>b s. Walk fill w max_frames max_frames_scanned without corrupt sy = Inr (b, s)"
proof -
  have v: "\<exists>r. visit_frame fill frame s = Inr r" for frame s
  proof -
    obtain res base sy where "fill (stack_frame.truncate frame) (ws_symbolizer s) = Inr (res, base, sy)"
      using assms(1) by (metis prod_cases3)
    then show ?thesis by (cases "res = kInterrupt") (auto simp: visit_frame_def Let_def)
  qed
  have "\<exists>b s'. walk_loop fill w max_frames max_frames_scanned f s = Inr (b, s')" for f s
  proof (induction "unat max_frames + 2 - length (ws_frames s)" arbitrary: f s rule: less_induct)
    case less
    show ?case
    proof (cases f)
      case (Some frame)
      obtain go_on s1 where 1: "visit_frame fill frame s = Inr (go_on, s1)" using v [of frame s] by auto
      obtain c l sy where 2: "wk_GetCallerFrame w (ws_frames s1) (ws_scanned_frames s1 < max_frames_scanned) (ws_symbolizer s1) = Inr (c, l, sy)"
        using assms(2) by (metis prod_cases3)
      show ?thesis
      proof (cases "go_on \<and> length (ws_frames s1) \<le> unat max_frames")
        case True
        with visit_frame_frames(1) [OF 1] have len: "length (ws_frames s1) = Suc (length (ws_frames s))" by auto
        have "\<exists>b s'. walk_loop fill w max_frames max_frames_scanned c (s1\<lparr>ws_frames := butlast (ws_frames s1) @ [l], ws_symbolizer := sy\<rparr>) = Inr (b, s')"
          by (rule less) (use True len in auto)
        with True 1 2 Some show ?thesis by (auto simp: not_less [symmetric])
      next
        case False
        with 1 Some show ?thesis by (cases go_on) (auto simp: not_less)
      qed
    qed auto
  qed
  then show ?thesis by (simp add: Walk_def)
qed

section \<open>The contract of a CPU's walker\<close>

definition chained :: "('c \<Rightarrow> 'c \<Rightarrow> bool) \<Rightarrow> 'c list \<Rightarrow> bool" where
  "chained link xs \<longleftrightarrow> (\<forall>i. Suc i < length xs \<longrightarrow> link (xs ! i) (xs ! Suc i))"

lemma chained_snoc: "chained link (xs @ [x]) \<longleftrightarrow> chained link xs \<and> (xs \<noteq> [] \<longrightarrow> link (last xs) x)"
proof (cases xs rule: rev_cases)
  case (snoc ys y)
  have "(\<forall>i. Suc i < Suc (Suc (length ys)) \<longrightarrow> R i) \<longleftrightarrow> (\<forall>i. Suc i < Suc (length ys) \<longrightarrow> R i) \<and> R (length ys)" for R
    by (auto simp: less_Suc_eq)
  with snoc show ?thesis by (auto simp: chained_def nth_append)
qed (simp add: chained_def)

locale caller_frames =
  fixes w :: "('a stack_frame_scheme, 'y) walker"
    and ctx :: "'a stack_frame_scheme \<Rightarrow> 'c"
    and link :: "'c \<Rightarrow> 'c \<Rightarrow> bool"
  assumes ctx_base: "ctx (on_base g x) = ctx x"
    and ctx_last: "frames \<noteq> [] \<Longrightarrow> wk_GetCallerFrame w frames allowed sy = Inr (caller, l, sy') \<Longrightarrow> ctx l = ctx (last frames)"
    and linked: "frames \<noteq> [] \<Longrightarrow> wk_GetCallerFrame w frames allowed sy = Inr (Some f, l, sy') \<Longrightarrow> link (ctx (last frames)) (ctx f)"
begin

lemma visit_chained:
  assumes "visit_frame fill frame s = Inr (True, s')" "chained link (List.map ctx (ws_frames s))"
    and "ws_frames s \<noteq> [] \<Longrightarrow> link (ctx (last (ws_frames s))) (ctx frame)"
  shows "chained link (List.map ctx (ws_frames s'))"
  using assms(1)
proof (cases rule: visit_frame_keeps)
  case (1 res base sy)
  with assms(2,3) show ?thesis by (auto simp: chained_snoc ctx_base last_map)
qed

lemma walk_chained:
  assumes "Walk fill w mx ms without corrupt sy = Inr (b, s)"
  shows "chained link (List.map ctx (ws_frames s))"
proof (rule walk_loop_rule [OF assms [unfolded Walk_def], where Q = "\<lambda>b s. chained link (List.map ctx (ws_frames s))"
    and P = "\<lambda>f s. chained link (List.map ctx (ws_frames s)) \<and>
      (\<forall>g. f = Some g \<longrightarrow> ws_frames s \<noteq> [] \<longrightarrow> link (ctx (last (ws_frames s))) (ctx g))"], goal_cases)
  case 1
  show ?case by (simp add: chained_def)
next
  case (2 s)
  then show ?case by simp
next
  case (3 frame s s')
  then show ?case using visit_frame_frames(2) [OF 3(2)] by simp
next
  case (4 frame s s')
  then show ?case using visit_chained by blast
next
  case (5 frame s s' c l sy)
  obtain g where fr: "ws_frames s' = ws_frames s @ [g]" using visit_frame_frames(1) [OF 5(2)] by auto
  then have "ctx l = ctx g" "\<And>f. c = Some f \<Longrightarrow> link (ctx g) (ctx f)"
    using ctx_last [OF _ 5(4)] linked [of "ws_frames s'"] 5(4) by auto
  with visit_chained [OF 5(2)] 5(1) fr show ?case by simp
qed

end

text \<open>
  A walker whose caller's context is a function of the last frame's: then the walk is the
  iteration of that function, cut at the limit on the frames.
\<close>

fun callers :: "('c \<Rightarrow> 'c option) \<Rightarrow> nat \<Rightarrow> 'c option \<Rightarrow> 'c list" where
  "callers nxt (Suc n) (Some c) = c # callers nxt n (nxt c)"
| "callers nxt _ _ = []"

lemma callers_fixed: "nxt c = Some c \<Longrightarrow> callers nxt n (Some c) = replicate n c"
  by (induction n) auto

locale caller_function =
  fixes w :: "('a stack_frame_scheme, 'y) walker"
    and ctx :: "'a stack_frame_scheme \<Rightarrow> 'c"
    and nxt :: "'c \<Rightarrow> 'c option"
  assumes ctx_base: "ctx (on_base g x) = ctx x"
    and ctx_last: "frames \<noteq> [] \<Longrightarrow> wk_GetCallerFrame w frames allowed sy = Inr (caller, l, sy') \<Longrightarrow> ctx l = ctx (last frames)"
    and ctx_caller: "frames \<noteq> [] \<Longrightarrow> wk_GetCallerFrame w frames allowed sy = Inr (caller, l, sy') \<Longrightarrow>
      map_option ctx caller = nxt (ctx (last frames))"
begin

lemma walk_callers:
  assumes "Walk fill w mx ms without corrupt sy = Inr (True, s)"
  shows "List.map ctx (ws_frames s) = callers nxt (unat mx + 1) (map_option ctx (wk_GetContextFrame w))"
proof -
  let ?c0 = "map_option ctx (wk_GetContextFrame w)"
  let ?all = "callers nxt (unat mx + 1) ?c0"
  let ?P = "\<lambda>f s. length (ws_frames s) \<le> unat mx \<and>
      List.map ctx (ws_frames s) @ callers nxt (unat mx + 1 - length (ws_frames s)) (map_option ctx f) = ?all"
  have visit: "List.map ctx (ws_frames s') = List.map ctx (ws_frames s) @ [ctx frame]"
    if "visit_frame fill frame s = Inr (True, s')" for frame s s'
    using that by (cases rule: visit_frame_keeps) (simp add: ctx_base)
  have "True \<longrightarrow> List.map ctx (ws_frames s) = ?all"
  proof (rule walk_loop_rule [OF assms [unfolded Walk_def], where P = ?P
        and Q = "\<lambda>b s. b \<longrightarrow> List.map ctx (ws_frames s) = ?all"], goal_cases)
    case (4 frame s s')
    have v: "List.map ctx (ws_frames s') = List.map ctx (ws_frames s) @ [ctx frame]" by (rule visit [OF 4(2)])
    then have "length (ws_frames s') = Suc (length (ws_frames s))" by (metis length_append_singleton length_map)
    with 4(1,3) have "unat mx + 1 - length (ws_frames s) = Suc 0" by linarith
    with 4(1) v show ?case by simp
  next
    case (5 frame s s' c l sy)
    have v: "List.map ctx (ws_frames s') = List.map ctx (ws_frames s) @ [ctx frame]" by (rule visit [OF 5(2)])
    then have len: "length (ws_frames s') = Suc (length (ws_frames s))" by (metis length_append_singleton length_map)
    then have ne: "ws_frames s' \<noteq> []" by auto
    have last: "ctx (last (ws_frames s')) = ctx frame" using v ne by (metis last_map last_snoc)
    have "List.map ctx (butlast (ws_frames s') @ [l]) = List.map ctx (ws_frames s')"
      using ctx_last [OF ne 5(4)] ne by (metis append_butlast_last_id list.map(1,2) map_append)
    moreover have "unat mx + 1 - length (ws_frames s) = Suc (unat mx + 1 - length (ws_frames s'))"
      using len 5(3) by simp
    moreover have "map_option ctx c = nxt (ctx frame)" using ctx_caller [OF ne 5(4)] last by simp
    ultimately show ?case using 5(1,3) v ne by simp
  qed auto
  then show ?thesis by simp
qed

end

section \<open>Walks with the symbolizer\<close>

definition symbolizer_fill :: "('fm, 'lm, 'pm, 'wm, 'cm) symbol_env \<Rightarrow> 's supplier_ops \<Rightarrow> module_lookup option \<Rightarrow> system_info option
    \<Rightarrow> (('fm, 'lm, 'pm, 'wm, 'cm) resolver, 's) symbolizer fill" where
  "symbolizer_fill env so modules si = FillSourceLineInfo (basic_resolver_ops env) so modules si"

lemma symbolizer_fill_keeps:
  "symbolizer_fill env so modules si frame0 sy = Inr (res, frame, sy') \<Longrightarrow>
    sf_instruction frame = sf_instruction frame0 \<and> sf_trust frame = sf_trust frame0"
  unfolding symbolizer_fill_def by (rule base_resolver.fill_keeps_frame)

text \<open>The address list's walker: after \<open>n\<close> frames the next one is the address at \<open>n\<close>.\<close>

lemma address_list_walk:
  fixes s :: "(stack_frame, (('a, 'b, 'c, 'd, 'e) resolver, 'f) symbolizer) walk_state"
  assumes "Walk (symbolizer_fill env so modules si) (address_list_walker new_frame addresses) mx ms without corrupt sy = Inr (b, s)"
  shows "List.map sf_instruction (ws_frames s) = take (length (ws_frames s)) addresses
    \<and> (\<forall>f \<in> set (ws_frames s). sf_trust f = FRAME_TRUST_PREWALKED)
    \<and> (b \<longrightarrow> length (ws_frames s) = min (unat mx + 1) (length addresses))"
proof -
  let ?fill = "symbolizer_fill env so modules si"
  define good where "good n s \<longleftrightarrow> length (ws_frames s) = n \<and> List.map sf_instruction (ws_frames s) = take n addresses
    \<and> n \<le> length addresses \<and> (\<forall>f \<in> set (ws_frames s). sf_trust f = FRAME_TRUST_PREWALKED)"
    for n and s :: "(stack_frame, (('a, 'b, 'c, 'd, 'e) resolver, 'f) symbolizer) walk_state"
  define nxt where "nxt n = (if n < length addresses then Some (address_list_frame new_frame (addresses ! n)) else None)" for n
  have visit: "good (Suc n) s'"
    if "visit_frame ?fill frame s = Inr (True, s')" "good n s" "Some frame = nxt n" for frame s s' n
    using that(1)
  proof (cases rule: visit_frame_keeps)
    case (1 res base sy)
    have n: "n < length addresses" "frame = address_list_frame new_frame (addresses ! n)"
      using that(3) by (auto simp: nxt_def split: if_splits)
    have "sf_instruction base = addresses ! n" "sf_trust base = FRAME_TRUST_PREWALKED"
      using symbolizer_fill_keeps [OF 1(1)] n(2) by (simp_all add: address_list_frame_def)
    with 1(3) that(2) n(1) show ?thesis by (auto simp: good_def take_Suc_conv_app_nth)
  qed
  have keep: "good n s'" if "visit_frame ?fill frame s = Inr (False, s')" "good n s" for frame s s' n
    using that visit_frame_frames(2) [OF that(1)] by (simp add: good_def)
  have next_good: "good n (s\<lparr>ws_frames := butlast (ws_frames s) @ [l], ws_symbolizer := sy\<rparr>) \<and> c = nxt n"
    if "wk_GetCallerFrame (address_list_walker new_frame addresses) (ws_frames s) a y = Inr (c, l, sy)" "good n s" "0 < n"
    for s a y c l sy n
  proof -
    have "l = last (ws_frames s)" "c = nxt n"
      using that by (auto simp: address_list_walker_def address_list_GetCallerFrame_def Let_def nxt_def good_def split: if_splits)
    moreover have "ws_frames s \<noteq> []" using that by (auto simp: good_def)
    ultimately show ?thesis using that(2) by (simp add: good_def)
  qed
  have "good (length (ws_frames s)) s \<and> (b \<longrightarrow> length (ws_frames s) = min (unat mx + 1) (length addresses))"
  proof (rule walk_loop_rule [OF assms [unfolded Walk_def],
      where P = "\<lambda>f s. good (length (ws_frames s)) s \<and> length (ws_frames s) \<le> unat mx \<and> f = nxt (length (ws_frames s))"
        and Q = "\<lambda>b s. good (length (ws_frames s)) s \<and> (b \<longrightarrow> length (ws_frames s) = min (unat mx + 1) (length addresses))"], goal_cases)
    case 1
    show ?case
      by (simp add: good_def nxt_def address_list_walker_def address_list_GetContextFrame_def)
  next
    case (2 s)
    then show ?case by (auto simp: nxt_def good_def split: if_splits)
  next
    case (3 frame s s')
    then show ?case using keep [OF 3(2)] visit_frame_frames(2) [OF 3(2)] by simp
  next
    case (4 frame s s')
    have "length (ws_frames s') = Suc (length (ws_frames s))" using visit_frame_frames(1) [OF 4(2)] by auto
    with visit [OF 4(2)] 4 show ?case by (auto simp: good_def)
  next
    case (5 frame s s' c l sy)
    have len: "length (ws_frames s') = Suc (length (ws_frames s))" using visit_frame_frames(1) [OF 5(2)] by auto
    then have "good (length (ws_frames s')) s'" using visit [OF 5(2)] 5(1) by auto
    from next_good [OF 5(4) this] len 5(3) show ?case by (auto simp: good_def)
  qed
  then show ?thesis by (simp add: good_def)
qed

section \<open>Properties\<close>

text \<open>
  a stack walk never collects more than \<open>max_frames\<close> frames and one, and lists each
  module without symbols, and each with corrupt symbols, once.
\<close>

theorem Walk_bounded:
  assumes "Walk fill w max_frames max_frames_scanned without corrupt sy = Inr (b, s)"
    and "distinct_modules without" "distinct_modules corrupt"
  shows "length (ws_frames s) \<le> unat max_frames + 1
    \<and> distinct_modules (ws_modules_without_symbols s) \<and> distinct_modules (ws_modules_with_corrupt_symbols s)"
  using Walk_bound [OF assms(1)] Walk_modules [OF assms] by blast


text \<open>
  walking a given list of addresses with a symbolizer gives exactly these addresses,
  in order and each trusted as prewalked, up to one more than \<open>max_frames\<close> of them,
  unless the supplier of the symbols interrupts the walk.
\<close>

theorem address_list_walk_spec:
  assumes "Walk (symbolizer_fill env so modules si) (address_list_walker new_frame addresses) max_frames max_frames_scanned
    without corrupt sy = Inr (True, s)"
  shows "List.map sf_instruction (ws_frames s) = take (unat max_frames + 1) addresses
    \<and> (\<forall>f \<in> set (ws_frames s). sf_trust f = FRAME_TRUST_PREWALKED)"
proof -
  note a = address_list_walk [OF assms]
  moreover have "take (min (unat max_frames + 1) (length addresses)) addresses = take (unat max_frames + 1) addresses"
    by (simp add: min_def)
  ultimately show ?thesis by simp
qed

section \<open>Examples\<close>

definition no_supplier :: "unit supplier_ops" where
  "no_supplier = \<lparr>so_GetCStringSymbolData = (\<lambda>_ _ s. (NOT_FOUND, [], [], s)), so_FreeSymbolData = (\<lambda>_ s. s)\<rparr>"

definition a_walk :: "run_error + (bool \<times> (stack_frame, (((nat \<times> 64 word \<times> 64 word) list, (line_record \<times> 64 word \<times> 64 word) list,
    (public_symbol \<times> 64 word) list, (windows_frame_info \<times> 64 word \<times> 64 word) list, (string \<times> 64 word \<times> 64 word) list) resolver, unit) symbolizer) walk_state)" where
  "a_walk = Walk (symbolizer_fill list_env no_supplier (Some a_lookup) None) (address_list_walker (a_frame 0) [0x400010, 0x400020, 7]) 1 1024 [] []
     (new_symbolizer (Some ()) (Some new_resolver))"

lemma a_walk_returns: "\<exists>s. a_walk = Inr (True, s)"
proof -
  have "map_sum id fst a_walk = Inr True" by code_simp
  moreover have "map_sum id fst x = Inr True \<Longrightarrow> \<exists>s. x = Inr (True, s)" for x :: "'e + bool \<times> 's"
    by (cases x) auto
  ultimately show ?thesis by blast
qed

theorem Walk_bounded_witness:
  "\<exists>s. a_walk = Inr (True, s) \<and> length (ws_frames s) \<le> 2 \<and> distinct_modules (ws_modules_without_symbols s)"
proof -
  obtain s where s: "a_walk = Inr (True, s)" using a_walk_returns by blast
  have "distinct_modules []" by (simp add: distinct_modules_def)
  from Walk_bounded [OF s [unfolded a_walk_def] this this]
  show ?thesis by (intro exI [of _ s]) (simp add: s)
qed

theorem address_list_walk_spec_witness:
  "\<exists>s. a_walk = Inr (True, s) \<and> List.map sf_instruction (ws_frames s) = [0x400010, 0x400020]"
proof -
  obtain s where s: "a_walk = Inr (True, s)" using a_walk_returns by blast
  from address_list_walk_spec [OF s [unfolded a_walk_def]]
  show ?thesis by (intro exI [of _ s]) (simp add: s numeral_2_eq_2)
qed


end
