(* ===== verification/Unwind.thy ===== *)
theory Unwind
  imports Walk_Facts
begin

text \<open>
  What the CPUs' walkers share: the parts of \<open>Stackwalker\<close> they call that are templates of
  headers outside the repository. The search of the stack for a return address and the
  walker of CFI rules over a register table are parameters, gathered in a record with the
  members of the walker object. The search asks the symbolizer, so it may change it and
  may end in an error.

  Registers are a datatype for each CPU; a context gives each its value and the validity
  flags are the set of those that hold the caller's value.
\<close>

section \<open>Interfaces\<close>

text \<open>\<open>ScanForReturnAddress\<close> is overloaded on its last argument.\<close>

datatype scan_limit = SearchWords int | IsContextFrame bool

record ('f, 'w, 'y) unwind_env =
  ue_memory :: "memory_region option"
  ue_new_frame :: 'f
  ue_ScanForReturnAddress :: "'w \<Rightarrow> scan_limit \<Rightarrow> 'y \<Rightarrow> run_error + (('w \<times> 'w) option \<times> 'y)"
  ue_FindCFIFrameInfo :: "stack_frame \<Rightarrow> 'y \<Rightarrow> cfi_frame_info option"

text \<open>One row of the table given to \<open>SimpleCFIWalker\<close>.\<close>

record 'r register_set =
  rg_name :: string
  rg_alternate_name :: "string option"
  rg_callee_saves :: bool
  rg_register :: 'r

text \<open>
  \<open>FindCallerRegisters\<close>: from the rules, the callee's registers and their validity, and the
  caller's as they are before, to the caller's registers and validity.
\<close>

type_synonym ('r, 'w) registers = "('r \<Rightarrow> 'w) \<times> ('r \<Rightarrow> bool)"

type_synonym ('r, 'w) cfi_walk =
  "'r register_set list \<Rightarrow> memory_region \<Rightarrow> cfi_frame_info \<Rightarrow> ('r, 'w) registers \<Rightarrow> ('r, 'w) registers
    \<Rightarrow> ('r, 'w) registers option"

section \<open>Results of the strategies\<close>

text \<open>A walker tries its strategies in turn; the first that gives a frame ends the trials.\<close>

definition or_else :: "run_error + ('f option \<times> 'y) \<Rightarrow> ('y \<Rightarrow> run_error + ('f option \<times> 'y)) \<Rightarrow> run_error + ('f option \<times> 'y)" where
  "or_else first second = ebind first (\<lambda>(f, sy). case f of Some _ \<Rightarrow> Inr (f, sy) | None \<Rightarrow> second sy)"

lemma returns_or_else [intro!]: "returns a \<Longrightarrow> (\<And>y. returns (b y)) \<Longrightarrow> returns (or_else a b)"
  by (auto simp: or_else_def split: option.split)

definition scan_returns :: "('f, 'w, 'y, 'a) unwind_env_scheme \<Rightarrow> bool" where
  "scan_returns e \<longleftrightarrow> (\<forall>a n y. returns (ue_ScanForReturnAddress e a n y))"

lemma scan_returnsD [intro]: "scan_returns e \<Longrightarrow> returns (ue_ScanForReturnAddress e a n y)"
  by (simp add: scan_returns_def)

lemma or_else_Some:
  assumes "or_else a b = Inr (Some f, sy)"
  obtains "a = Inr (Some f, sy)" | y where "a = Inr (None, y)" "b y = Inr (Some f, sy)"
  using assms by (cases a) (auto simp: or_else_def split: option.splits)

end
