(* ===== verification/Walker_X86.thy ===== *)
theory Walker_X86
  imports Unwind
begin

text \<open>
  \<open>minidump_src/stackwalker_x86.cc\<close>: the x86 walker. A frame keeps the context, which
  registers of it are valid, and the unwind information found for it. The evaluator of
  program strings and the constants of \<open>WindowsFrameInfo\<close> are parameters.
\<close>

section \<open>Frames and environment\<close>

datatype x86_register = EIP | ESP | EBP | EAX | EBX | ECX | EDX | ESI | EDI

record x86_frame = stack_frame +
  xf_context :: "x86_register \<Rightarrow> 32 word"
  xf_context_validity :: "x86_register \<Rightarrow> bool"
  xf_windows_frame_info :: "windows_frame_info option"
  xf_cfi_frame_info :: "cfi_frame_info option"

type_synonym dictionary = "(string, 32 word) std_map"

record 'y x86_env = "(x86_frame, 32 word, 'y) unwind_env" +
  xe_context :: "(x86_register \<Rightarrow> 32 word) option"
  xe_modules :: "module_lookup option"
  xe_FindWindowsFrameInfo :: "stack_frame \<Rightarrow> 'y \<Rightarrow> windows_frame_info option"
  xe_cfi_walk :: "(x86_register, 32 word) cfi_walk"
  xe_Evaluate :: "memory_region \<Rightarrow> dictionary \<Rightarrow> string \<Rightarrow> bool \<times> dictionary \<times> (string, bool) std_map"
  xe_VALID_ALL :: "32 word"
  xe_VALID_PARAMETER_SIZE :: "32 word"
  xe_STACK_INFO_FPO :: int

definition x86_get32 :: "memory_region \<Rightarrow> 32 word \<Rightarrow> 32 word option" where
  "x86_get32 memory address = mr_get32 memory (ucast address)"

definition kMaxReasonableGapBetweenFrames :: "32 word" where
  "kMaxReasonableGapBetweenFrames = 128 * 1024"

definition x86_cfi_register_map :: "x86_register register_set list" where
  "x86_cfi_register_map =
    [\<lparr>rg_name = ''$eip'', rg_alternate_name = Some ''.ra'', rg_callee_saves = False, rg_register = EIP\<rparr>,
     \<lparr>rg_name = ''$esp'', rg_alternate_name = Some ''.cfa'', rg_callee_saves = False, rg_register = ESP\<rparr>,
     \<lparr>rg_name = ''$ebp'', rg_alternate_name = None, rg_callee_saves = True, rg_register = EBP\<rparr>,
     \<lparr>rg_name = ''$eax'', rg_alternate_name = None, rg_callee_saves = False, rg_register = EAX\<rparr>,
     \<lparr>rg_name = ''$ebx'', rg_alternate_name = None, rg_callee_saves = True, rg_register = EBX\<rparr>,
     \<lparr>rg_name = ''$ecx'', rg_alternate_name = None, rg_callee_saves = False, rg_register = ECX\<rparr>,
     \<lparr>rg_name = ''$edx'', rg_alternate_name = None, rg_callee_saves = False, rg_register = EDX\<rparr>,
     \<lparr>rg_name = ''$esi'', rg_alternate_name = None, rg_callee_saves = True, rg_register = ESI\<rparr>,
     \<lparr>rg_name = ''$edi'', rg_alternate_name = None, rg_callee_saves = True, rg_register = EDI\<rparr>]"

text \<open>The constructor drops a memory region that does not lie in the 32-bit address space.\<close>

definition x86_memory :: "memory_region option \<Rightarrow> memory_region option" where
  "x86_memory memory = (case memory of
     Some m \<Rightarrow> if mr_base m + ucast (mr_size m) - 1 > 0xffffffff then None else Some m
   | None \<Rightarrow> None)"

definition x86_ReturnAddress :: "x86_frame \<Rightarrow> 64 word" where
  "x86_ReturnAddress frame = ucast (xf_context frame EIP)"

definition x86_GetContextFrame :: "'y x86_env \<Rightarrow> x86_frame option" where
  "x86_GetContextFrame e = (case xe_context e of
     None \<Rightarrow> None
   | Some context \<Rightarrow>
       Some ((ue_new_frame e)\<lparr>xf_context := context, xf_context_validity := (\<lambda>_. True),
         sf_trust := FRAME_TRUST_CONTEXT, sf_instruction := ucast (context EIP)\<rparr>))"

section \<open>GetCallerByWindowsFrameInfo\<close>

definition callee_parameter_size :: "'y x86_env \<Rightarrow> x86_frame list \<Rightarrow> 32 word" where
  "callee_parameter_size e frames =
     (let frames_already_walked = length frames in
      if frames_already_walked \<ge> 2
      then (case xf_windows_frame_info (frames ! (frames_already_walked - 2)) of
              Some info \<Rightarrow> if and (wfi_valid info) (xe_VALID_PARAMETER_SIZE e) \<noteq> 0 then wfi_parameter_size info else 0
            | None \<Rightarrow> 0)
      else 0)"

text \<open>Where the return address is looked for: up to three words above the computed place.\<close>

definition ra_search_start :: "'y x86_env \<Rightarrow> x86_frame \<Rightarrow> windows_frame_info \<Rightarrow> 32 word \<Rightarrow> 'y \<Rightarrow> run_error + (32 word \<times> 'y)" where
  "ra_search_start e last_frame info parameter_size sy =
     (let old = xf_context last_frame ESP + parameter_size + wfi_local_size info + wfi_saved_register_size info in
      ebind (ue_ScanForReturnAddress e old (SearchWords 3) sy) (\<lambda>(r, sy1).
        case r of
          None \<Rightarrow> Inr (old, sy1)
        | Some (start, found) \<Rightarrow>
            if sf_trust last_frame = FRAME_TRUST_CONTEXT \<and> xf_windows_frame_info last_frame \<noteq> None
               \<and> wfi_type info = xe_STACK_INFO_FPO e \<and> old = start \<and> found = xf_context last_frame EIP
            then
              ebind (ue_ScanForReturnAddress e (start + 4) (SearchWords 3) sy1) (\<lambda>(r2, sy2).
                Inr (case r2 of None \<Rightarrow> (start + 4, sy2) | Some (start2, _) \<Rightarrow> (start2, sy2)))
            else Inr (start, sy1)))"

definition choose_program_string :: "windows_frame_info \<Rightarrow> string \<times> bool" where
  "choose_program_string info =
     (if wfi_program_string info \<noteq> [] then (wfi_program_string info, True)
      else if wfi_allocates_base_pointer info
      then (''$eip .raSearchStart ^ = $ebp $esp .cbCalleeParams + .cbSavedRegs + 8 - ^ = $esp .raSearchStart 4 + ='', True)
      else (''$eip .raSearchStart ^ = $esp .raSearchStart 4 + ='', False))"

definition windows_dictionary :: "x86_frame \<Rightarrow> windows_frame_info \<Rightarrow> 32 word \<Rightarrow> 32 word \<Rightarrow> dictionary" where
  "windows_dictionary last_frame info parameter_size raSearchStart =
     map_set ''.raSearch'' raSearchStart (map_set ''.raSearchStart'' raSearchStart
       (map_set ''.cbParams'' (wfi_parameter_size info)
         (map_set ''.cbLocals'' (wfi_local_size info) (map_set ''.cbSavedRegs'' (wfi_saved_register_size info)
           (map_set ''.cbCalleeParams'' parameter_size
             (map_set ''$esp'' (xf_context last_frame ESP) (map_set ''$ebp'' (xf_context last_frame EBP) [])))))))"

text \<open>\<open>dictionary[name]\<close> of the C++ map: a missing entry reads as 0.\<close>

definition dict :: "dictionary \<Rightarrow> string \<Rightarrow> 32 word" where
  "dict d name = (case map_find d name of Some v \<Rightarrow> v | None \<Rightarrow> 0)"

text \<open>
  Evaluation of the program string, and the scan that replaces it when it fails. \<open>None\<close> is
  the return of a null frame.
\<close>

definition evaluate_or_scan :: "'y x86_env \<Rightarrow> memory_region \<Rightarrow> x86_frame list \<Rightarrow> bool \<Rightarrow> string \<Rightarrow> dictionary \<Rightarrow> 'y
    \<Rightarrow> run_error + ((dictionary \<times> (string, bool) std_map \<times> frame_trust) option \<times> 'y)" where
  "evaluate_or_scan e memory frames stack_scan_allowed program_string d sy =
     (let (ok, d1, validity) = xe_Evaluate e memory d program_string in
      if \<not> ok \<or> map_find validity ''$eip'' = None \<or> map_find validity ''$esp'' = None
      then
        if \<not> stack_scan_allowed then Inr (None, sy)
        else
          ebind (ue_ScanForReturnAddress e (xf_context (last frames) ESP) (IsContextFrame (length frames = 1)) sy)
            (\<lambda>(r, sy1).
              case r of
                None \<Rightarrow> Inr (None, sy1)
              | Some (location, eip) \<Rightarrow>
                  Inr (Some (map_set ''$esp'' (location + 4) (map_set ''$eip'' eip d1), validity, FRAME_TRUST_SCAN), sy1))
      else Inr (Some (d1, validity, FRAME_TRUST_CFI), sy))"

text \<open>The scan for a better return address when the one found lies in no module.\<close>

definition better_return_address :: "'y x86_env \<Rightarrow> x86_frame list \<Rightarrow> bool \<Rightarrow> dictionary \<Rightarrow> frame_trust \<Rightarrow> 'y
    \<Rightarrow> run_error + ((dictionary \<times> 32 word \<times> frame_trust) \<times> 'y)" where
  "better_return_address e frames stack_scan_allowed d trust sy =
     (case xe_modules e of
        None \<Rightarrow> Inr ((d, 0, trust), sy)
      | Some GetModuleForAddress \<Rightarrow>
          if GetModuleForAddress (ucast (dict d ''$eip'')) \<noteq> None then Inr ((d, 0, trust), sy)
          else
            let location_start = dict d ''.raSearchStart'' + 4 in
            if \<not> stack_scan_allowed then Inr ((d, 0, trust), sy)
            else
              ebind (ue_ScanForReturnAddress e location_start (IsContextFrame (length frames = 1)) sy) (\<lambda>(r, sy1).
                case r of
                  None \<Rightarrow> Inr ((d, 0, trust), sy1)
                | Some (location, eip) \<Rightarrow>
                    Inr ((map_set ''$esp'' (location + 4) (map_set ''$eip'' eip d), location - location_start,
                          FRAME_TRUST_CFI_SCAN), sy1)))"

text \<open>
  The search for the saved frame pointer, downwards from \<open>location\<close>. \<open>None\<close> is a loop that
  does not end; \<open>Some None\<close> one that ends without a candidate.
\<close>

partial_function (option) find_saved_ebp :: "memory_region \<Rightarrow> 32 word \<Rightarrow> 32 word \<Rightarrow> 32 word option option" where
  [code]: "find_saved_ebp memory location_end location =
     (if location \<ge> location_end
      then (case x86_get32 memory location of
              None \<Rightarrow> Some None
            | Some ebp \<Rightarrow>
                (case x86_get32 memory ebp of
                   Some _ \<Rightarrow> Some (Some ebp)
                 | None \<Rightarrow> find_saved_ebp memory location_end (location - 4)))
      else Some None)"

definition recover_ebp :: "memory_region \<Rightarrow> x86_frame \<Rightarrow> windows_frame_info \<Rightarrow> 32 word \<Rightarrow> 32 word \<Rightarrow> 32 word
    \<Rightarrow> frame_trust \<Rightarrow> dictionary \<Rightarrow> run_error + dictionary" where
  "recover_ebp memory last_frame info parameter_size raSearchStart offset trust d =
     (let ebp = dict d ''$ebp'';
          has_skipped_frames = (trust \<noteq> FRAME_TRUST_CFI \<and> ebp \<le> raSearchStart + offset)
      in if has_skipped_frames \<or> x86_get32 memory ebp = None
         then
           let fp_search_bytes = wfi_saved_register_size info + offset;
               location_end = xf_context last_frame ESP + parameter_size
           in (case find_saved_ebp memory location_end (location_end + fp_search_bytes) of
                 None \<Rightarrow> Inl Diverges
               | Some None \<Rightarrow> Inr d
               | Some (Some ebp) \<Rightarrow> Inr (map_set ''$ebp'' ebp d))
         else Inr d)"

definition windows_frame :: "'y x86_env \<Rightarrow> x86_frame \<Rightarrow> dictionary \<Rightarrow> (string, bool) std_map \<Rightarrow> frame_trust \<Rightarrow> x86_frame" where
  "windows_frame e last_frame d validity trust =
     (let fill = (\<lambda>(name, r) (c, v). if map_find validity name \<noteq> None then (c(r := dict d name), v(r := True)) else (c, v));
          c0 = (xf_context last_frame)(EIP := dict d ''$eip'', ESP := dict d ''$esp'', EBP := dict d ''$ebp'');
          v0 = (\<lambda>r. r = EIP \<or> r = ESP \<or> r = EBP);
          (context, context_validity) = fill (''$edi'', EDI) (fill (''$esi'', ESI) (fill (''$ebx'', EBX) (c0, v0)))
      in (ue_new_frame e)\<lparr>sf_trust := trust, xf_context := context, xf_context_validity := context_validity\<rparr>)"

text \<open>With an alignment operator in the program only the frame pointer is reliable.\<close>

definition adjust_for_alignment :: "x86_frame \<Rightarrow> string \<Rightarrow> 32 word \<Rightarrow> 32 word" where
  "adjust_for_alignment last_frame program_string raSearchStart =
     (if xf_context_validity last_frame EBP \<and> CHR ''@'' \<in> set program_string
      then xf_context last_frame EBP + 4 else raSearchStart)"

text \<open>The last frame, which keeps the information, is changed by the caller of this function.\<close>

definition GetCallerByWindowsFrameInfo :: "'y x86_env \<Rightarrow> memory_region \<Rightarrow> x86_frame list \<Rightarrow> windows_frame_info \<Rightarrow> bool \<Rightarrow> 'y
    \<Rightarrow> run_error + (x86_frame option \<times> 'y)" where
  "GetCallerByWindowsFrameInfo e memory frames info stack_scan_allowed sy =
     (let last_frame = last frames in
      if wfi_valid info \<noteq> xe_VALID_ALL e then Inr (None, sy)
      else
        let parameter_size = callee_parameter_size e frames in
        ebind (ra_search_start e last_frame info parameter_size sy) (\<lambda>(raSearchStart0, sy1).
          let (program_string, recover) = choose_program_string info;
              raSearchStart = adjust_for_alignment last_frame program_string raSearchStart0;
              d = windows_dictionary last_frame info parameter_size raSearchStart
          in ebind (evaluate_or_scan e memory frames stack_scan_allowed program_string d sy1) (\<lambda>(r, sy2).
               case r of
                 None \<Rightarrow> Inr (None, sy2)
               | Some (d1, validity, trust) \<Rightarrow>
                   if dict d1 ''$eip'' \<noteq> 0 \<or> dict d1 ''$ebp'' \<noteq> 0
                   then
                     ebind (better_return_address e frames stack_scan_allowed d1 trust sy2) (\<lambda>((d2, offset, trust2), sy3).
                       ebind (if recover then recover_ebp memory last_frame info parameter_size raSearchStart offset trust2 d2
                              else Inr d2)
                         (\<lambda>d3. Inr (Some (windows_frame e last_frame d3 validity trust2), sy3)))
                   else Inr (Some (windows_frame e last_frame d1 validity trust), sy2))))"

section \<open>The other strategies\<close>

definition x86_GetCallerByCFIFrameInfo :: "'y x86_env \<Rightarrow> memory_region \<Rightarrow> x86_frame list \<Rightarrow> cfi_frame_info \<Rightarrow> x86_frame option" where
  "x86_GetCallerByCFIFrameInfo e memory frames cfi_frame_info =
     (let last_frame = last frames; frame = ue_new_frame e in
      case xe_cfi_walk e x86_cfi_register_map memory cfi_frame_info
             (xf_context last_frame, xf_context_validity last_frame) (xf_context frame, xf_context_validity frame) of
        None \<Rightarrow> None
      | Some (context, validity) \<Rightarrow>
          if \<not> (validity EIP \<and> validity ESP \<and> validity EBP) then None
          else Some (frame\<lparr>xf_context := context, xf_context_validity := validity, sf_trust := FRAME_TRUST_CFI\<rparr>))"

definition GetCallerByEBPAtBase :: "'y x86_env \<Rightarrow> memory_region \<Rightarrow> x86_frame list \<Rightarrow> bool \<Rightarrow> 'y
    \<Rightarrow> run_error + (x86_frame option \<times> 'y)" where
  "GetCallerByEBPAtBase e memory frames stack_scan_allowed sy =
     (let last_frame = last frames;
          last_esp = xf_context last_frame ESP;
          last_ebp = xf_context last_frame EBP;
          frame = (\<lambda>trust caller_eip caller_esp caller_ebp. (ue_new_frame e)\<lparr>sf_trust := trust,
             xf_context := (xf_context last_frame)(EIP := caller_eip, ESP := caller_esp, EBP := caller_ebp),
             xf_context_validity := (\<lambda>r. r = EIP \<or> r = ESP \<or> r = EBP)\<rparr>);
          scan =
            (if \<not> stack_scan_allowed then Inr (None, sy)
             else
               ebind (ue_ScanForReturnAddress e last_esp (IsContextFrame (length frames = 1)) sy) (\<lambda>(r, sy1).
                 case r of
                   None \<Rightarrow> Inr (None, sy1)
                 | Some (location, caller_eip) \<Rightarrow>
                     let caller_esp = location + 4;
                         restored_ebp_chain = caller_esp - 8;
                         caller_ebp =
                           (case x86_get32 memory restored_ebp_chain of
                              None \<Rightarrow> last_ebp
                            | Some b \<Rightarrow>
                                if b \<le> restored_ebp_chain \<or> b - restored_ebp_chain > kMaxReasonableGapBetweenFrames
                                then last_ebp else b)
                     in Inr (Some (frame FRAME_TRUST_SCAN caller_eip caller_esp caller_ebp), sy1)))
      in case x86_get32 memory (last_ebp + 4) of
           None \<Rightarrow> scan
         | Some caller_eip \<Rightarrow>
             (case x86_get32 memory last_ebp of
                None \<Rightarrow> scan
              | Some caller_ebp \<Rightarrow> Inr (Some (frame FRAME_TRUST_FP caller_eip (last_ebp + 8) caller_ebp), sy)))"

section \<open>GetCallerFrame\<close>

text \<open>The checks on the new frame, and its instruction inside of the call.\<close>

definition x86_accept :: "x86_frame \<Rightarrow> x86_frame \<Rightarrow> x86_frame option" where
  "x86_accept last_frame frame =
     (if xf_context frame EIP = 0 then None
      else if xf_context frame ESP \<le> xf_context last_frame ESP then None
      else Some (frame\<lparr>sf_instruction := ucast (xf_context frame EIP - 1)\<rparr>))"

text \<open>
  The caller, the last frame with the unwind information found for it, and the symbolizer.
\<close>

definition x86_GetCallerFrame :: "'y x86_env \<Rightarrow> x86_frame list \<Rightarrow> bool \<Rightarrow> 'y
    \<Rightarrow> run_error + (x86_frame option \<times> x86_frame \<times> 'y)" where
  "x86_GetCallerFrame e frames stack_scan_allowed sy = (case ue_memory e of
     None \<Rightarrow> Inr (None, last frames, sy)
   | Some memory \<Rightarrow>
       let windows = xe_FindWindowsFrameInfo e (stack_frame.truncate (last frames)) sy;
           last1 = (case windows of Some info \<Rightarrow> (last frames)\<lparr>xf_windows_frame_info := Some info\<rparr> | None \<Rightarrow> last frames);
           frames1 = butlast frames @ [last1]
       in ebind (case windows of
                   Some info \<Rightarrow> GetCallerByWindowsFrameInfo e memory frames1 info stack_scan_allowed sy
                 | None \<Rightarrow> Inr (None, sy)) (\<lambda>(by_windows, sy1).
            let cfi = (if by_windows = None then ue_FindCFIFrameInfo e (stack_frame.truncate last1) sy1 else None);
                last2 = (case cfi of Some info \<Rightarrow> last1\<lparr>xf_cfi_frame_info := Some info\<rparr> | None \<Rightarrow> last1);
                frames2 = butlast frames @ [last2];
                by_cfi = (case cfi of Some info \<Rightarrow> x86_GetCallerByCFIFrameInfo e memory frames2 info | None \<Rightarrow> by_windows)
            in ebind (or_else (Inr (by_cfi, sy1)) (GetCallerByEBPAtBase e memory frames2 stack_scan_allowed))
                 (\<lambda>(new_frame, sy2).
                   Inr (Option.bind new_frame (x86_accept last2), last2, sy2))))"

definition x86_walker :: "'y x86_env \<Rightarrow> (x86_frame, 'y) walker" where
  "x86_walker e = \<lparr>wk_GetContextFrame = x86_GetContextFrame e, wk_GetCallerFrame = x86_GetCallerFrame e\<rparr>"

end
