(* ===== verification/X86_Walks.thy ===== *)
theory X86_Walks
  imports Walker_X86
begin

text \<open>
  The x86 walker's guarantees: the stack pointer grows from frame to frame, the search for
  a saved frame pointer ends, and without unwind information the walk is the chain of
  saved frame pointers.
\<close>

section \<open>Progress\<close>

lemma x86_GetCallerFrame_result:
  assumes "x86_GetCallerFrame e frames allowed sy = Inr (caller, l, sy')"
  shows "\<exists>new_frame. caller = Option.bind new_frame (x86_accept l)" "xf_context l = xf_context (last frames)"
proof -
  have "(\<exists>new_frame. caller = Option.bind new_frame (x86_accept l)) \<and> xf_context l = xf_context (last frames)"
  proof (cases "ue_memory e")
    case None
    with assms show ?thesis by (auto simp: x86_GetCallerFrame_def intro: exI [of _ None])
  next
    case (Some memory)
    from assms obtain last2 new_frame where "caller = Option.bind new_frame (x86_accept last2)" "l = last2"
      "last2 = last frames \<or> (\<exists>i. last2 = (last frames)\<lparr>xf_windows_frame_info := Some i\<rparr>)
       \<or> (\<exists>c. last2 = (last frames)\<lparr>xf_cfi_frame_info := Some c\<rparr>)
       \<or> (\<exists>i c. last2 = (last frames)\<lparr>xf_windows_frame_info := Some i, xf_cfi_frame_info := Some c\<rparr>)"
      unfolding x86_GetCallerFrame_def Some Let_def option.case ebind_eq_Inr
      by (elim exE conjE) (force split: option.splits)
    then show ?thesis by auto
  qed
  then show "\<exists>new_frame. caller = Option.bind new_frame (x86_accept l)" "xf_context l = xf_context (last frames)"
    by blast+
qed

lemma x86_GetCallerFrame_caller:
  assumes "x86_GetCallerFrame e frames allowed sy = Inr (Some f, l, sy')"
  shows "xf_context (last frames) ESP < xf_context f ESP" "xf_context f EIP \<noteq> 0"
    "sf_instruction f = ucast (xf_context f EIP - 1)"
proof -
  obtain g where "x86_accept l g = Some f" using x86_GetCallerFrame_result(1) [OF assms] by (metis bind_eq_Some_conv)
  then have "xf_context l ESP < xf_context f ESP \<and> xf_context f EIP \<noteq> 0 \<and> sf_instruction f = ucast (xf_context f EIP - 1)"
    by (auto simp: x86_accept_def not_le split: if_splits)
  then show "xf_context (last frames) ESP < xf_context f ESP" "xf_context f EIP \<noteq> 0"
    "sf_instruction f = ucast (xf_context f EIP - 1)"
    unfolding x86_GetCallerFrame_result(2) [OF assms] by blast+
qed

definition x86_link :: "(x86_register \<Rightarrow> 32 word) \<Rightarrow> (x86_register \<Rightarrow> 32 word) \<Rightarrow> bool" where
  "x86_link callee caller \<longleftrightarrow> callee ESP < caller ESP \<and> caller EIP \<noteq> 0"

lemma x86_context_on_base [simp]: "xf_context (on_base g x) = xf_context x"
  by (cases x) (simp add: on_base_def stack_frame.extend_def)

interpretation x86: caller_frames "x86_walker e" xf_context x86_link
  by unfold_locales
    (auto simp: x86_walker_def x86_link_def dest: x86_GetCallerFrame_result(2) x86_GetCallerFrame_caller)

section \<open>Termination\<close>

text \<open>A memory region answers only for addresses it holds entirely.\<close>

definition region_bounded :: "memory_region \<Rightarrow> bool" where
  "region_bounded m \<longleftrightarrow> (\<forall>a. mr_get32 m a \<noteq> None \<longrightarrow>
     uint (mr_base m) \<le> uint a \<and> uint a + 4 \<le> uint (mr_base m) + uint (mr_size m))"

lemma find_saved_ebp_ends:
  "x86_get32 m a = None \<Longrightarrow> location = a + 4 * of_nat k \<Longrightarrow> find_saved_ebp m location_end location \<noteq> None"
proof (induction k arbitrary: location)
  case 0
  then show ?case by (subst find_saved_ebp.simps) simp
next
  case (Suc k)
  have "location - 4 = a + 4 * of_nat k" using Suc.prems(2) by (simp add: algebra_simps)
  from Suc.IH [OF Suc.prems(1) this] show ?case by (subst find_saved_ebp.simps) (auto split: option.split)
qed

lemma unreadable_residue:
  assumes "region_bounded m"
  shows "\<exists>a k. x86_get32 m a = None \<and> location = a + 4 * of_nat k"
proof -
  let ?r = "location mod 4"
  have loc: "location = ?r + 4 * (location div 4)" by (metis mod_mult_div_eq)
  have "uint ?r = uint location mod 4" by (simp add: uint_mod)
  then have r: "0 \<le> uint ?r" "uint ?r < 4" by simp_all
  have u: "uint (?r - 4) = uint ?r + 2 ^ 32 - 4"
  proof -
    have "(x - 4) mod 2 ^ 32 = x + 2 ^ 32 - 4" if "0 \<le> x" "x < 4" for x :: int
      using mod_add_self2 [of "x - 4" "2 ^ 32"] that by (simp add: mod_pos_pos_trivial)
    then show ?thesis using r by (simp add: uint_word_ariths)
  qed
  consider "x86_get32 m ?r = None" | "x86_get32 m (?r - 4) = None"
  proof -
    have "False" if "x86_get32 m ?r \<noteq> None" "x86_get32 m (?r - 4) \<noteq> None"
    proof -
      have uc: "uint (ucast x :: 64 word) = uint x" for x :: "32 word" by (simp add: uint_up_ucast is_up)
      have "uint (mr_base m) \<le> uint ?r" "uint (?r - 4) + 4 \<le> uint (mr_base m) + uint (mr_size m)"
        using that assms by (auto simp: region_bounded_def x86_get32_def uc [symmetric])
      moreover have "uint (mr_size m) < 2 ^ 32" using uint_lt2p [of "mr_size m"] by simp
      ultimately show False using u by simp
    qed
    then show thesis using that by blast
  qed
  then show ?thesis
  proof cases
    case 1
    with loc show ?thesis by (intro exI [of _ ?r] exI [of _ "unat (location div 4)"]) simp
  next
    case 2
    have "location = ?r - 4 + 4 * (location div 4 + 1)" using loc by (simp add: algebra_simps)
    with 2 show ?thesis by (intro exI [of _ "?r - 4"] exI [of _ "unat (location div 4 + 1)"]) simp
  qed
qed

lemma find_saved_ebp_total: "region_bounded m \<Longrightarrow> find_saved_ebp m location_end location \<noteq> None"
  using unreadable_residue [of m location] find_saved_ebp_ends by blast

lemma recover_ebp_returns: "region_bounded m \<Longrightarrow> returns (recover_ebp m f info p ra off trust d)"
  by (auto simp: recover_ebp_def Let_def dest: find_saved_ebp_total split: option.split)

lemma ra_search_start_returns: "scan_returns e \<Longrightarrow> returns (ra_search_start e f info p y)"
  unfolding ra_search_start_def Let_def by (auto split: option.split)

lemma evaluate_or_scan_returns: "scan_returns e \<Longrightarrow> returns (evaluate_or_scan e memory frames allowed ps d y)"
  unfolding evaluate_or_scan_def Let_def by (auto split: option.split prod.split)

lemma better_return_address_returns: "scan_returns e \<Longrightarrow> returns (better_return_address e frames allowed d t y)"
  unfolding better_return_address_def Let_def by (auto split: option.split prod.split)

lemma GetCallerByWindowsFrameInfo_returns:
  "scan_returns e \<Longrightarrow> region_bounded memory \<Longrightarrow> returns (GetCallerByWindowsFrameInfo e memory frames info allowed sy)"
  unfolding GetCallerByWindowsFrameInfo_def Let_def
  by (auto split: option.split prod.split
      intro!: returns_ebind ra_search_start_returns evaluate_or_scan_returns better_return_address_returns recover_ebp_returns)

lemma GetCallerByEBPAtBase_returns: "scan_returns e \<Longrightarrow> returns (GetCallerByEBPAtBase e memory frames allowed sy)"
  unfolding GetCallerByEBPAtBase_def Let_def by (auto split: option.split)

lemma x86_GetCallerFrame_returns:
  assumes "scan_returns e" "\<And>m. ue_memory e = Some m \<Longrightarrow> region_bounded m"
  shows "returns (x86_GetCallerFrame e frames allowed sy)"
  using assms
  unfolding x86_GetCallerFrame_def Let_def
  by (auto split: option.split intro!: returns_ebind returns_or_else GetCallerByWindowsFrameInfo_returns GetCallerByEBPAtBase_returns)

section \<open>The chain of frame pointers\<close>

text \<open>An environment without unwind information, in which a scan finds nothing.\<close>

definition no_unwind_info :: "'y x86_env \<Rightarrow> 'y x86_env" where
  "no_unwind_info e = e\<lparr>ue_FindCFIFrameInfo := \<lambda>_ _. None, xe_FindWindowsFrameInfo := \<lambda>_ _. None,
     ue_ScanForReturnAddress := \<lambda>_ _ y. Inr (None, y)\<rparr>"

text \<open>
  The reference: the caller's frame pointer is where the frame pointer points to, the return
  address is one word above, and the caller's stack pointer is above that.
\<close>

definition x86_fp_step :: "memory_region option \<Rightarrow> (x86_register \<Rightarrow> 32 word) \<Rightarrow> (x86_register \<Rightarrow> 32 word) option" where
  "x86_fp_step memory c = Option.bind memory (\<lambda>m.
     Option.bind (x86_get32 m (c EBP + 4)) (\<lambda>eip.
     Option.bind (x86_get32 m (c EBP)) (\<lambda>ebp.
       if eip \<noteq> 0 \<and> c ESP < c EBP + 8 then Some (c(EIP := eip, ESP := c EBP + 8, EBP := ebp)) else None)))"

lemma x86_fp_caller:
  assumes "x86_GetCallerFrame (no_unwind_info e) frames allowed sy = Inr (caller, l, sy')"
  shows "map_option xf_context caller = x86_fp_step (ue_memory e) (xf_context (last frames))"
proof (cases "ue_memory e")
  case None
  with assms show ?thesis by (auto simp: x86_GetCallerFrame_def no_unwind_info_def x86_fp_step_def)
next
  case (Some m)
  with assms show ?thesis
    by (auto simp: x86_GetCallerFrame_def no_unwind_info_def x86_fp_step_def GetCallerByEBPAtBase_def Let_def or_else_def
        x86_accept_def not_le split: option.splits if_splits)
qed

interpretation x86_fp: caller_function "x86_walker (no_unwind_info e)" xf_context "x86_fp_step (ue_memory e)"
  by unfold_locales
    (simp_all add: x86_walker_def x86_GetCallerFrame_result(2) x86_fp_caller)

section \<open>Properties\<close>

text \<open>
  C8: whatever symbols and memory it is given, the x86 walk makes progress: every frame's
  stack pointer is above that of the frame it called, and its return address is not 0.
\<close>

theorem x86_walk_progress:
  assumes "Walk fill (x86_walker e) max_frames max_frames_scanned without corrupt sy = Inr (b, s)"
    and "Suc i < length (ws_frames s)"
  shows "xf_context (ws_frames s ! i) ESP < xf_context (ws_frames s ! Suc i) ESP
    \<and> xf_context (ws_frames s ! Suc i) EIP \<noteq> 0"
  using x86.walk_chained [OF assms(1)] assms(2) by (simp add: chained_def x86_link_def)

text \<open>
  C7: the x86 walk always returns if the memory region answers only for addresses it holds:
  neither the walk nor the downward search for a saved frame pointer, whose bound may wrap
  around, can run for ever.
\<close>

theorem x86_walk_returns:
  assumes "\<And>frame y. \<exists>r. fill frame y = Inr r" "\<And>a n y. \<exists>r. ue_ScanForReturnAddress e a n y = Inr r"
    and "\<And>m. ue_memory e = Some m \<Longrightarrow> region_bounded m"
  shows "\<exists>b s. Walk fill (x86_walker e) max_frames max_frames_scanned without corrupt sy = Inr (b, s)"
proof (rule Walk_total [OF assms(1)])
  have "scan_returns e" using assms(2) by (simp add: scan_returns_def returns_def)
  then have "returns (x86_GetCallerFrame e frames allowed y)" for frames allowed y
    by (rule x86_GetCallerFrame_returns) (rule assms(3))
  then show "\<exists>r. wk_GetCallerFrame (x86_walker e) frames allowed y = Inr r" for frames allowed y
    by (simp add: x86_walker_def returns_def)
qed


section \<open>An example\<close>

definition x86_words :: "(64 word \<times> 32 word) list" where
  "x86_words = [(0x1000, 0x1010), (0x1004, 0x400), (0x1010, 0x1020), (0x1014, 0x500), (0x1020, 0), (0x1024, 0)]"

definition x86_example :: "unit x86_env" where
  "x86_example = \<lparr>ue_memory = Some \<lparr>mr_base = 0x1000, mr_size = 0x100, mr_get32 = map_of x86_words, mr_get64 = (\<lambda>_. None)\<rparr>,
     ue_new_frame = \<lparr>sf_instruction = 0, sf_module = None, sf_function_name = [], sf_function_base = 0,
       sf_source_file_name = [], sf_source_line = 0, sf_source_line_base = 0, sf_trust = FRAME_TRUST_NONE,
       xf_context = (\<lambda>_. 0), xf_context_validity = (\<lambda>_. False), xf_windows_frame_info = None, xf_cfi_frame_info = None\<rparr>,
     ue_ScanForReturnAddress = (\<lambda>_ _ y. Inr (None, y)), ue_FindCFIFrameInfo = (\<lambda>_ _. None),
     xe_context = Some ((\<lambda>_. 0)(EIP := 0x300, ESP := 0xff0, EBP := 0x1000)), xe_modules = None,
     xe_FindWindowsFrameInfo = (\<lambda>_ _. None), xe_cfi_walk = (\<lambda>_ _ _ _ _. None),
     xe_Evaluate = (\<lambda>_ d _. (False, d, [])), xe_VALID_ALL = 0, xe_VALID_PARAMETER_SIZE = 1, xe_STACK_INFO_FPO = 0\<rparr>"

definition x86_example_walk :: "run_error + (bool \<times> (x86_frame, unit) walk_state)" where
  "x86_example_walk = Walk (\<lambda>f y. Inr (kError, f, y)) (x86_walker (no_unwind_info x86_example)) 1024 1024 [] [] ()"

lemma x86_example_run:
  "\<exists>s. x86_example_walk = Inr (True, s) \<and> length (ws_frames s) = 3
    \<and> List.map (\<lambda>f. (xf_context f EIP, xf_context f ESP)) (ws_frames s) = [(0x300, 0xff0), (0x400, 0x1008), (0x500, 0x1018)]"
proof -
  let ?f = "\<lambda>(b, s). (b, List.map (\<lambda>f. (xf_context f EIP, xf_context f ESP)) (ws_frames s))"
  have "map_sum id ?f x86_example_walk = Inr (True, [(0x300, 0xff0), (0x400, 0x1008), (0x500, 0x1018)])"
    by code_simp
  note run = map_sum_pair_Inr [OF this]
  show ?thesis
  proof (rule exE [OF run])
    fix s
    assume s: "x86_example_walk = Inr (True, s) \<and> List.map (\<lambda>f. (xf_context f EIP, xf_context f ESP)) (ws_frames s) =
      [(0x300, 0xff0), (0x400, 0x1008), (0x500, 0x1018)]"
    then have "length (ws_frames s) = length [(0x300 :: 32 word, 0xff0 :: 32 word), (0x400, 0x1008), (0x500, 0x1018)]"
      by (metis length_map)
    then have "length (ws_frames s) = 3" by simp
    then show ?thesis by (intro exI [of _ s] conjI conjunct1 [OF s] conjunct2 [OF s])
  qed
qed

theorem x86_walk_progress_witness:
  "\<exists>s. x86_example_walk = Inr (True, s) \<and> xf_context (ws_frames s ! 1) ESP < xf_context (ws_frames s ! 2) ESP"
proof -
  obtain s where s: "x86_example_walk = Inr (True, s)" "length (ws_frames s) = 3" using x86_example_run by blast
  from x86_walk_progress [OF s(1) [unfolded x86_example_walk_def], of 1] s show ?thesis
    by (intro exI [of _ s]) (simp add: numeral_2_eq_2)
qed

theorem x86_walk_returns_witness:
  "\<exists>b s. Walk (\<lambda>f y. Inr (kError, f, y)) (x86_walker x86_example) 1024 1024 [] [] () = Inr (b, s)"
proof (rule x86_walk_returns)
  fix m
  assume "ue_memory x86_example = Some m"
  then show "region_bounded m"
    by (auto simp: x86_example_def region_bounded_def x86_words_def split: if_splits)
qed (simp_all add: x86_example_def)


end
