(* ===== verification/Walker_AMD64.thy ===== *)
theory Walker_AMD64
  imports Unwind
begin

text \<open>
  \<open>minidump_src/stackwalker_amd64.cc\<close>: the AMD64 walker, its progress, and the chain of
  frame pointers it follows without unwind information.
\<close>

section \<open>Frames and environment\<close>

datatype amd64_register = RAX | RDX | RCX | RBX | RSI | RDI | RBP | RSP | R8 | R9 | R10 | R11 | R12
  | R13 | R14 | R15 | RIP

record amd64_frame = stack_frame +
  af_context :: "amd64_register \<Rightarrow> 64 word"
  af_context_validity :: "amd64_register \<Rightarrow> bool"

record 'y amd64_env = "(amd64_frame, 64 word, 'y) unwind_env" +
  ae_context :: "(amd64_register \<Rightarrow> 64 word) option"
  ae_cfi_walk :: "(amd64_register, 64 word) cfi_walk"
  ae_os_short :: string

definition amd64_cfi_register_map :: "amd64_register register_set list" where
  "amd64_cfi_register_map =
    [\<lparr>rg_name = ''$rax'', rg_alternate_name = None, rg_callee_saves = False, rg_register = RAX\<rparr>,
     \<lparr>rg_name = ''$rdx'', rg_alternate_name = None, rg_callee_saves = False, rg_register = RDX\<rparr>,
     \<lparr>rg_name = ''$rcx'', rg_alternate_name = None, rg_callee_saves = False, rg_register = RCX\<rparr>,
     \<lparr>rg_name = ''$rbx'', rg_alternate_name = None, rg_callee_saves = True, rg_register = RBX\<rparr>,
     \<lparr>rg_name = ''$rsi'', rg_alternate_name = None, rg_callee_saves = False, rg_register = RSI\<rparr>,
     \<lparr>rg_name = ''$rdi'', rg_alternate_name = None, rg_callee_saves = False, rg_register = RDI\<rparr>,
     \<lparr>rg_name = ''$rbp'', rg_alternate_name = None, rg_callee_saves = True, rg_register = RBP\<rparr>,
     \<lparr>rg_name = ''$rsp'', rg_alternate_name = Some ''.cfa'', rg_callee_saves = False, rg_register = RSP\<rparr>,
     \<lparr>rg_name = ''$r8'', rg_alternate_name = None, rg_callee_saves = False, rg_register = R8\<rparr>,
     \<lparr>rg_name = ''$r9'', rg_alternate_name = None, rg_callee_saves = False, rg_register = R9\<rparr>,
     \<lparr>rg_name = ''$r10'', rg_alternate_name = None, rg_callee_saves = False, rg_register = R10\<rparr>,
     \<lparr>rg_name = ''$r11'', rg_alternate_name = None, rg_callee_saves = False, rg_register = R11\<rparr>,
     \<lparr>rg_name = ''$r12'', rg_alternate_name = None, rg_callee_saves = True, rg_register = R12\<rparr>,
     \<lparr>rg_name = ''$r13'', rg_alternate_name = None, rg_callee_saves = True, rg_register = R13\<rparr>,
     \<lparr>rg_name = ''$r14'', rg_alternate_name = None, rg_callee_saves = True, rg_register = R14\<rparr>,
     \<lparr>rg_name = ''$r15'', rg_alternate_name = None, rg_callee_saves = True, rg_register = R15\<rparr>,
     \<lparr>rg_name = ''$rip'', rg_alternate_name = Some ''.ra'', rg_callee_saves = False, rg_register = RIP\<rparr>]"

definition amd64_ReturnAddress :: "amd64_frame \<Rightarrow> 64 word" where
  "amd64_ReturnAddress frame = af_context frame RIP"

definition amd64_GetContextFrame :: "'y amd64_env \<Rightarrow> amd64_frame option" where
  "amd64_GetContextFrame e = (case ae_context e of
     None \<Rightarrow> None
   | Some context \<Rightarrow>
       Some ((ue_new_frame e)\<lparr>af_context := context, af_context_validity := (\<lambda>_. True),
         sf_trust := FRAME_TRUST_CONTEXT, sf_instruction := context RIP\<rparr>))"

section \<open>Strategies\<close>

definition amd64_GetCallerByCFIFrameInfo :: "'y amd64_env \<Rightarrow> memory_region \<Rightarrow> amd64_frame list \<Rightarrow> cfi_frame_info \<Rightarrow> amd64_frame option" where
  "amd64_GetCallerByCFIFrameInfo e memory frames cfi_frame_info =
     (let last_frame = last frames; frame = ue_new_frame e in
      case ae_cfi_walk e amd64_cfi_register_map memory cfi_frame_info
             (af_context last_frame, af_context_validity last_frame) (af_context frame, af_context_validity frame) of
        None \<Rightarrow> None
      | Some (context, validity) \<Rightarrow>
          if \<not> (validity RIP \<and> validity RSP) then None
          else Some (frame\<lparr>af_context := context, af_context_validity := validity, sf_trust := FRAME_TRUST_CFI\<rparr>))"

definition IsEndOfStack :: "64 word \<Rightarrow> 64 word \<Rightarrow> 64 word \<Rightarrow> bool" where
  "IsEndOfStack caller_rip caller_rsp callee_rsp =
     (if caller_rip = 0 then True else if caller_rsp < callee_rsp then True else False)"

definition is_non_canonical :: "64 word \<Rightarrow> bool" where
  "is_non_canonical ptr \<longleftrightarrow> ptr > 0x7FFFFFFFFFFF \<and> ptr < 0xFFFF800000000000"

definition GetCallerByFramePointerRecovery :: "'y amd64_env \<Rightarrow> memory_region \<Rightarrow> amd64_frame list \<Rightarrow> amd64_frame option" where
  "GetCallerByFramePointerRecovery e memory frames =
     (let last_frame = last frames;
          last_rsp = af_context last_frame RSP;
          last_rbp = af_context last_frame RBP
      in if last_rbp mod 8 \<noteq> 0 then None
         else
           case mr_get64 memory (last_rbp + 8) of
             None \<Rightarrow> None
           | Some caller_rip \<Rightarrow>
               (case mr_get64 memory last_rbp of
                  None \<Rightarrow> None
                | Some caller_rbp \<Rightarrow>
                    let caller_rsp = last_rbp + 16 in
                    if is_non_canonical caller_rip then None
                    else if IsEndOfStack caller_rip caller_rsp last_rsp \<or> caller_rbp < last_rbp then None
                    else
                      Some ((ue_new_frame e)\<lparr>sf_trust := FRAME_TRUST_FP,
                        af_context := (af_context last_frame)(RIP := caller_rip, RSP := caller_rsp, RBP := caller_rbp),
                        af_context_validity := (\<lambda>r. r = RIP \<or> r = RSP \<or> r = RBP)\<rparr>)))"

definition amd64_GetCallerByStackScan :: "'y amd64_env \<Rightarrow> memory_region \<Rightarrow> amd64_frame list \<Rightarrow> 'y
    \<Rightarrow> run_error + (amd64_frame option \<times> 'y)" where
  "amd64_GetCallerByStackScan e memory frames sy =
     (let last_frame = last frames in
      ebind (ue_ScanForReturnAddress e (af_context last_frame RSP) (IsContextFrame (length frames = 1)) sy)
        (\<lambda>(r, sy1). case r of
           None \<Rightarrow> Inr (None, sy1)
         | Some (caller_rip_address, caller_rip) \<Rightarrow>
             let last_rbp = af_context last_frame RBP;
                 rbp =
                   (if af_context_validity last_frame RBP
                    then
                      if caller_rip_address - 8 = last_rbp
                      then (case mr_get64 memory last_rbp of
                              Some caller_rbp \<Rightarrow> if caller_rbp > caller_rip_address then Some caller_rbp else None
                            | None \<Rightarrow> None)
                      else if last_rbp \<ge> caller_rip_address + 8 then Some last_rbp
                      else None
                    else None);
                 context = (af_context last_frame)(RIP := caller_rip, RSP := caller_rip_address + 8);
                 validity = (\<lambda>r. r = RIP \<or> r = RSP)
             in Inr (Some ((ue_new_frame e)\<lparr>sf_trust := FRAME_TRUST_SCAN,
                  af_context := (case rbp of Some b \<Rightarrow> context(RBP := b) | None \<Rightarrow> context),
                  af_context_validity := (case rbp of Some _ \<Rightarrow> validity(RBP := True) | None \<Rightarrow> validity)\<rparr>), sy1)))"

section \<open>GetCallerFrame\<close>

definition truncate_nacl :: "(amd64_register \<Rightarrow> 64 word) \<Rightarrow> (amd64_register \<Rightarrow> 64 word)" where
  "truncate_nacl c = c(RIP := ucast (ucast (c RIP) :: 32 word), RSP := ucast (ucast (c RSP) :: 32 word),
     RBP := ucast (ucast (c RBP) :: 32 word))"

definition amd64_accept :: "string \<Rightarrow> amd64_frame \<Rightarrow> amd64_frame \<Rightarrow> amd64_frame option" where
  "amd64_accept os_short last_frame frame =
     (let context = (if os_short = ''nacl'' then truncate_nacl (af_context frame) else af_context frame) in
      if IsEndOfStack (context RIP) (context RSP) (af_context last_frame RSP) then None
      else Some (frame\<lparr>af_context := context, sf_instruction := context RIP - 1\<rparr>))"

definition amd64_GetCallerFrame :: "'y amd64_env \<Rightarrow> amd64_frame list \<Rightarrow> bool \<Rightarrow> 'y
    \<Rightarrow> run_error + (amd64_frame option \<times> amd64_frame \<times> 'y)" where
  "amd64_GetCallerFrame e frames stack_scan_allowed sy = (case ue_memory e of
     None \<Rightarrow> Inr (None, last frames, sy)
   | Some memory \<Rightarrow>
       let last_frame = last frames;
           by_cfi = Option.bind (ue_FindCFIFrameInfo e (stack_frame.truncate last_frame) sy)
                      (amd64_GetCallerByCFIFrameInfo e memory frames);
           by_fp = (if by_cfi = None then GetCallerByFramePointerRecovery e memory frames else by_cfi)
       in ebind (or_else (Inr (by_fp, sy))
                  (if stack_scan_allowed then amd64_GetCallerByStackScan e memory frames else (\<lambda>sy1. Inr (None, sy1))))
            (\<lambda>(new_frame, sy1). Inr (Option.bind new_frame (amd64_accept (ae_os_short e) last_frame), last_frame, sy1)))"

definition amd64_walker :: "'y amd64_env \<Rightarrow> (amd64_frame, 'y) walker" where
  "amd64_walker e = \<lparr>wk_GetContextFrame = amd64_GetContextFrame e, wk_GetCallerFrame = amd64_GetCallerFrame e\<rparr>"

section \<open>Progress\<close>

lemma amd64_GetCallerFrame_result:
  assumes "amd64_GetCallerFrame e frames allowed sy = Inr (caller, l, sy')"
  shows "l = last frames" "\<exists>new_frame. caller = Option.bind new_frame (amd64_accept (ae_os_short e) l)"
proof -
  have "l = last frames \<and> (\<exists>new_frame. caller = Option.bind new_frame (amd64_accept (ae_os_short e) l))"
  proof (cases "ue_memory e")
    case None
    with assms show ?thesis by (auto simp: amd64_GetCallerFrame_def intro: exI [of _ None])
  next
    case (Some memory)
    from assms show ?thesis
      unfolding amd64_GetCallerFrame_def Some Let_def option.case ebind_eq_Inr
      by (elim exE conjE) (auto simp del: bind_eq_Some_conv bind_eq_None_conv)
  qed
  then show "l = last frames" "\<exists>new_frame. caller = Option.bind new_frame (amd64_accept (ae_os_short e) l)" by blast+
qed

definition amd64_link :: "(amd64_register \<Rightarrow> 64 word) \<Rightarrow> (amd64_register \<Rightarrow> 64 word) \<Rightarrow> bool" where
  "amd64_link callee caller \<longleftrightarrow> callee RSP \<le> caller RSP \<and> caller RIP \<noteq> 0"

lemma amd64_GetCallerFrame_caller:
  assumes "amd64_GetCallerFrame e frames allowed sy = Inr (Some f, l, sy')"
  shows "amd64_link (af_context (last frames)) (af_context f)"
proof -
  obtain g where "amd64_accept (ae_os_short e) l g = Some f"
    using amd64_GetCallerFrame_result(2) [OF assms] by (metis bind_eq_Some_conv)
  then have "amd64_link (af_context l) (af_context f)"
    by (auto simp: amd64_accept_def amd64_link_def IsEndOfStack_def Let_def not_less split: if_splits)
  then show ?thesis unfolding amd64_GetCallerFrame_result(1) [OF assms] .
qed

lemma amd64_context_on_base [simp]: "af_context (on_base g x) = af_context x"
  by (cases x) (simp add: on_base_def stack_frame.extend_def)

interpretation amd64: caller_frames "amd64_walker e" af_context amd64_link
  by unfold_locales
    (auto simp: amd64_walker_def dest: amd64_GetCallerFrame_result(1) amd64_GetCallerFrame_caller)

section \<open>The chain of frame pointers\<close>

definition amd64_no_unwind_info :: "'y amd64_env \<Rightarrow> 'y amd64_env" where
  "amd64_no_unwind_info e = e\<lparr>ue_FindCFIFrameInfo := \<lambda>_ _. None, ue_ScanForReturnAddress := \<lambda>_ _ y. Inr (None, y),
     ae_os_short := ''linux''\<rparr>"

definition amd64_fp_step :: "memory_region option \<Rightarrow> (amd64_register \<Rightarrow> 64 word) \<Rightarrow> (amd64_register \<Rightarrow> 64 word) option" where
  "amd64_fp_step memory c = Option.bind memory (\<lambda>m.
     if c RBP mod 8 \<noteq> 0 then None
     else
       Option.bind (mr_get64 m (c RBP + 8)) (\<lambda>rip. Option.bind (mr_get64 m (c RBP)) (\<lambda>rbp.
         if is_non_canonical rip \<or> rip = 0 \<or> c RBP + 16 < c RSP \<or> rbp < c RBP then None
         else Some (c(RIP := rip, RSP := c RBP + 16, RBP := rbp)))))"

lemma amd64_fp_caller:
  assumes "amd64_GetCallerFrame (amd64_no_unwind_info e) frames allowed sy = Inr (caller, l, sy')"
  shows "map_option af_context caller = amd64_fp_step (ue_memory e) (af_context (last frames))"
proof (cases "ue_memory e")
  case None
  with assms show ?thesis by (auto simp: amd64_GetCallerFrame_def amd64_no_unwind_info_def amd64_fp_step_def)
next
  case (Some m)
  from assms have c: "caller = Option.bind (GetCallerByFramePointerRecovery (amd64_no_unwind_info e) m frames)
      (amd64_accept ''linux'' (last frames))"
    by (cases "GetCallerByFramePointerRecovery (amd64_no_unwind_info e) m frames")
      (auto simp: amd64_GetCallerFrame_def amd64_no_unwind_info_def amd64_GetCallerByStackScan_def Some Let_def or_else_def
        split: if_splits)
  show ?thesis
    unfolding c Some
    by (auto simp: amd64_fp_step_def GetCallerByFramePointerRecovery_def amd64_accept_def IsEndOfStack_def Let_def
        amd64_no_unwind_info_def split: option.split)
qed

interpretation amd64_fp: caller_function "amd64_walker (amd64_no_unwind_info e)" af_context "amd64_fp_step (ue_memory e)"
  by unfold_locales
    (auto simp: amd64_walker_def amd64_fp_caller dest: amd64_GetCallerFrame_result(1))

text \<open>A frame pointer that points to itself is the caller's, and the caller's caller's.\<close>

lemma amd64_self_loop:
  assumes "m = the (ue_memory e)" "ue_memory e \<noteq> None"
    and "c RBP mod 8 = 0" "mr_get64 m (c RBP) = Some (c RBP)" "mr_get64 m (c RBP + 8) = Some rip"
    and "\<not> is_non_canonical rip" "rip \<noteq> 0" "c RSP \<le> c RBP + 16"
  shows "callers (amd64_fp_step (ue_memory e)) (Suc n) (Some c) = c # replicate n (c(RIP := rip, RSP := c RBP + 16))"
proof -
  have 1: "amd64_fp_step (ue_memory e) c = Some (c(RIP := rip, RSP := c RBP + 16))"
    using assms by (auto simp: amd64_fp_step_def not_le intro!: ext)
  have 2: "amd64_fp_step (ue_memory e) (c(RIP := rip, RSP := c RBP + 16)) = Some (c(RIP := rip, RSP := c RBP + 16))"
    using assms by (auto simp: amd64_fp_step_def intro!: ext)
  show ?thesis using callers_fixed [of "amd64_fp_step (ue_memory e)", OF 2] 1 by simp
qed

section \<open>Properties\<close>


text \<open>
  C38: the AMD64 walk need not make progress, as the comment in \<open>IsEndOfStack\<close> says that it
  does: a saved frame pointer that points to itself gives the same caller, with the same
  stack pointer, again and again until the limit on the frames stops the walk.
\<close>

theorem amd64_walk_no_progress:
  assumes "Walk fill (amd64_walker (amd64_no_unwind_info e)) max_frames max_frames_scanned without corrupt sy = Inr (True, s)"
    and "ae_context e = Some c" "ue_memory e = Some m"
    and "c RBP mod 8 = 0" "mr_get64 m (c RBP) = Some (c RBP)" "mr_get64 m (c RBP + 8) = Some rip"
    and "\<not> is_non_canonical rip" "rip \<noteq> 0" "c RSP \<le> c RBP + 16"
  shows "List.map af_context (ws_frames s) = c # replicate (unat max_frames) (c(RIP := rip, RSP := c RBP + 16))"
proof -
  have "List.map af_context (ws_frames s) = callers (amd64_fp_step (ue_memory e)) (Suc (unat max_frames)) (Some c)"
    using amd64_fp.walk_callers [OF assms(1)] assms(2)
    by (simp add: amd64_walker_def amd64_GetContextFrame_def amd64_no_unwind_info_def)
  also have "\<dots> = c # replicate (unat max_frames) (c(RIP := rip, RSP := c RBP + 16))"
    by (rule amd64_self_loop [OF _ _ assms(4-9)]) (simp_all add: assms(3))
  finally show ?thesis .
qed

section \<open>An example\<close>

definition amd64_example :: "unit amd64_env" where
  "amd64_example = \<lparr>ue_memory = Some \<lparr>mr_base = 0x1000, mr_size = 0x100, mr_get32 = (\<lambda>_. None),
       mr_get64 = map_of [(0x1000, 0x1010), (0x1008, 0x400), (0x1010, 0x1010), (0x1018, 0x500)]\<rparr>,
     ue_new_frame = \<lparr>sf_instruction = 0, sf_module = None, sf_function_name = [], sf_function_base = 0,
       sf_source_file_name = [], sf_source_line = 0, sf_source_line_base = 0, sf_trust = FRAME_TRUST_NONE,
       af_context = (\<lambda>_. 0), af_context_validity = (\<lambda>_. False)\<rparr>,
     ue_ScanForReturnAddress = (\<lambda>_ _ y. Inr (None, y)), ue_FindCFIFrameInfo = (\<lambda>_ _. None),
     ae_context = Some ((\<lambda>_. 0)(RIP := 0x300, RSP := 0x1000, RBP := 0x1010)),
     ae_cfi_walk = (\<lambda>_ _ _ _ _. None), ae_os_short = ''linux''\<rparr>"

definition amd64_example_walk :: "run_error + (bool \<times> (amd64_frame, unit) walk_state)" where
  "amd64_example_walk = Walk (\<lambda>f y. Inr (kError, f, y)) (amd64_walker (amd64_no_unwind_info amd64_example)) 4 1024 [] [] ()"

lemma amd64_example_run: "\<exists>s. amd64_example_walk = Inr (True, s) \<and> length (ws_frames s) = 5"
proof -
  have "map_sum id (\<lambda>(b, s). (b, length (ws_frames s))) amd64_example_walk = Inr (True, 5)" by code_simp
  from map_sum_pair_Inr [OF this] show ?thesis .
qed


theorem amd64_walk_no_progress_witness:
  "\<exists>s. amd64_example_walk = Inr (True, s) \<and> List.map (\<lambda>f. af_context f RSP) (ws_frames s) = [0x1000, 0x1020, 0x1020, 0x1020, 0x1020]"
proof -
  obtain s where s: "amd64_example_walk = Inr (True, s)" using amd64_example_run by blast
  have "List.map af_context (ws_frames s) = the (ae_context amd64_example) #
      replicate (unat (4 :: 32 word)) ((the (ae_context amd64_example))(RIP := 0x500, RSP := the (ae_context amd64_example) RBP + 16))"
    by (rule amd64_walk_no_progress [OF s [unfolded amd64_example_walk_def], where m = "the (ue_memory amd64_example)"])
      (simp_all add: amd64_example_def is_non_canonical_def)
  moreover have "replicate (unat (4 :: 32 word)) x = [x, x, x, x]" for x :: "amd64_register \<Rightarrow> 64 word"
  proof -
    have u: "unat (4 :: 32 word) = 4" by simp
    show ?thesis unfolding u by (simp add: numeral_eq_Suc)
  qed
  ultimately have "List.map (\<lambda>c. c RSP) (List.map af_context (ws_frames s)) = [0x1000, 0x1020, 0x1020, 0x1020, 0x1020]"
    by (simp add: amd64_example_def)
  then
  have "List.map (\<lambda>f. af_context f RSP) (ws_frames s) = [0x1000, 0x1020, 0x1020, 0x1020, 0x1020]"
    by (simp add: comp_def)
  then show ?thesis by (intro exI [of _ s] conjI s)
qed

end
