(* ===== verification/Walker_ARM.thy ===== *)
theory Walker_ARM
  imports Unwind
begin

text \<open>
  \<open>minidump_src/stackwalker_arm.cc\<close>: the ARM walker. The context's integer registers are
  the array \<open>iregs\<close>; an index outside of it is an error. The numbers of the registers and
  the evaluator of CFI expressions are parameters. The validity flag of a register is the
  one of its number, which \<open>RegisterValidFlag\<close> gives.
\<close>

section \<open>Frames and environment\<close>

record arm_frame = stack_frame +
  rf_iregs :: "32 word list"
  rf_context_validity :: "nat \<Rightarrow> bool"

record 'y arm_env = "(arm_frame, 32 word, 'y) unwind_env" +
  re_context :: "32 word list option"
  re_fp_register :: int
  re_Evaluate :: "memory_region \<Rightarrow> 32 word reg_map \<Rightarrow> string \<Rightarrow> 32 word option"
  re_REG_SP :: nat
  re_REG_LR :: nat
  re_REG_PC :: nat

definition arm_GetContextFrame :: "'y arm_env \<Rightarrow> run_error + arm_frame option" where
  "arm_GetContextFrame e = (case re_context e of
     None \<Rightarrow> Inr None
   | Some iregs \<Rightarrow>
       ebind (aget ArrayIndex iregs (int (re_REG_PC e))) (\<lambda>pc.
         Inr (Some ((ue_new_frame e)\<lparr>rf_iregs := iregs, rf_context_validity := (\<lambda>_. True),
           sf_trust := FRAME_TRUST_CONTEXT, sf_instruction := ucast pc\<rparr>))))"

section \<open>CFI\<close>

definition arm_register_names :: "string list" where
  "arm_register_names =
    [''r0'', ''r1'', ''r2'', ''r3'', ''r4'', ''r5'', ''r6'', ''r7'',
     ''r8'', ''r9'', ''r10'', ''r11'', ''r12'', ''sp'', ''lr'', ''pc'',
     ''f0'', ''f1'', ''f2'', ''f3'', ''f4'', ''f5'', ''f6'', ''f7'',
     ''fps'', ''cpsr'']"

text \<open>The registers of the callee that are valid, by name.\<close>

fun callee_registers :: "(nat \<times> string) list \<Rightarrow> (nat \<Rightarrow> bool) \<Rightarrow> 'w list \<Rightarrow> 'w reg_map \<Rightarrow> run_error + 'w reg_map" where
  "callee_registers [] validity iregs m = Inr m"
| "callee_registers ((i, name) # names) validity iregs m =
     (if validity i
      then ebind (aget ArrayIndex iregs (int i)) (\<lambda>v. callee_registers names validity iregs (map_set name v m))
      else callee_registers names validity iregs m)"

text \<open>The caller's registers: those recovered, and the callee-saved ones that are valid in the callee.\<close>

fun caller_registers :: "(nat \<times> string) list \<Rightarrow> (nat \<Rightarrow> bool) \<Rightarrow> 'w reg_map \<Rightarrow> 'w list \<Rightarrow> (nat \<Rightarrow> bool)
    \<Rightarrow> 'w list \<Rightarrow> (nat \<Rightarrow> bool) \<Rightarrow> run_error + ('w list \<times> (nat \<Rightarrow> bool))" where
  "caller_registers [] callee_saves recovered last_iregs last_validity iregs validity = Inr (iregs, validity)"
| "caller_registers ((i, name) # names) callee_saves recovered last_iregs last_validity iregs validity =
     (case map_find recovered name of
        Some v \<Rightarrow>
          ebind (aput ArrayIndex iregs (int i) v) (\<lambda>iregs'.
            caller_registers names callee_saves recovered last_iregs last_validity iregs' (validity(i := True)))
      | None \<Rightarrow>
          if callee_saves i \<and> last_validity i
          then
            ebind (aget ArrayIndex last_iregs (int i)) (\<lambda>v.
            ebind (aput ArrayIndex iregs (int i) v) (\<lambda>iregs'.
              caller_registers names callee_saves recovered last_iregs last_validity iregs' (validity(i := True))))
          else caller_registers names callee_saves recovered last_iregs last_validity iregs validity)"

definition arm_recover_pc :: "'y arm_env \<Rightarrow> 32 word reg_map \<Rightarrow> 32 word list \<Rightarrow> 32 word list \<times> (nat \<Rightarrow> bool)
    \<Rightarrow> run_error + (32 word list \<times> (nat \<Rightarrow> bool))" where
  "arm_recover_pc e recovered last_iregs = (\<lambda>(iregs, validity).
     if validity (re_REG_PC e) then Inr (iregs, validity)
     else
       case map_find recovered ''.ra'' of
         None \<Rightarrow> Inr (iregs, validity)
       | Some ra \<Rightarrow>
           if re_fp_register e = -1
           then ebind (aput ArrayIndex iregs (int (re_REG_PC e)) ra) (\<lambda>iregs'. Inr (iregs', validity(re_REG_PC e := True)))
           else
             ebind (aput ArrayIndex iregs (int (re_REG_LR e)) ra) (\<lambda>iregs1.
             ebind (aget ArrayIndex last_iregs (int (re_REG_LR e))) (\<lambda>lr.
             ebind (aput ArrayIndex iregs1 (int (re_REG_PC e)) lr) (\<lambda>iregs2.
               Inr (iregs2, validity(re_REG_PC e := True, re_REG_LR e := True))))))"

definition recover_sp :: "nat \<Rightarrow> 'w reg_map \<Rightarrow> 'w list \<times> (nat \<Rightarrow> bool) \<Rightarrow> run_error + ('w list \<times> (nat \<Rightarrow> bool))" where
  "recover_sp reg_sp recovered = (\<lambda>(iregs, validity).
     if validity reg_sp then Inr (iregs, validity)
     else
       case map_find recovered ''.cfa'' of
         None \<Rightarrow> Inr (iregs, validity)
       | Some cfa \<Rightarrow> ebind (aput ArrayIndex iregs (int reg_sp) cfa) (\<lambda>iregs'. Inr (iregs', validity(reg_sp := True))))"

definition arm_GetCallerByCFIFrameInfo :: "'y arm_env \<Rightarrow> memory_region \<Rightarrow> arm_frame list \<Rightarrow> cfi_frame_info
    \<Rightarrow> run_error + arm_frame option" where
  "arm_GetCallerByCFIFrameInfo e memory frames cfi_frame_info =
     (let last_frame = last frames;
          frame = ue_new_frame e;
          names = List.enumerate 0 arm_register_names
      in ebind (callee_registers names (rf_context_validity last_frame) (rf_iregs last_frame) []) (\<lambda>callee.
           case FindCallerRegs (re_Evaluate e memory) cfi_frame_info callee [] of
             (False, _) \<Rightarrow> Inr None
           | (True, recovered) \<Rightarrow>
               ebind (caller_registers names (\<lambda>i. 4 \<le> i \<and> i \<le> 11) recovered (rf_iregs last_frame)
                        (rf_context_validity last_frame) (rf_iregs frame) (rf_context_validity frame)) (\<lambda>r1.
               ebind (arm_recover_pc e recovered (rf_iregs last_frame) r1) (\<lambda>r2.
               ebind (recover_sp (re_REG_SP e) recovered r2) (\<lambda>(iregs, validity).
                 if \<not> (validity (re_REG_SP e) \<and> validity (re_REG_PC e)) then Inr None
                 else Inr (Some (frame\<lparr>rf_iregs := iregs, rf_context_validity := validity, sf_trust := FRAME_TRUST_CFI\<rparr>)))))))"

section \<open>Stack scan and frame pointer\<close>

definition arm_GetCallerByStackScan :: "'y arm_env \<Rightarrow> arm_frame list \<Rightarrow> 'y \<Rightarrow> run_error + (arm_frame option \<times> 'y)" where
  "arm_GetCallerByStackScan e frames sy =
     (let last_frame = last frames in
      ebind (aget ArrayIndex (rf_iregs last_frame) (int (re_REG_SP e))) (\<lambda>last_sp.
      ebind (ue_ScanForReturnAddress e last_sp (IsContextFrame (length frames = 1)) sy) (\<lambda>(r, sy1).
        case r of
          None \<Rightarrow> Inr (None, sy1)
        | Some (location, caller_pc) \<Rightarrow>
            let caller_sp = location + 4 in
            ebind (aput ArrayIndex (rf_iregs last_frame) (int (re_REG_PC e)) caller_pc) (\<lambda>iregs1.
            ebind (aput ArrayIndex iregs1 (int (re_REG_SP e)) caller_sp) (\<lambda>iregs2.
              Inr (Some ((ue_new_frame e)\<lparr>sf_trust := FRAME_TRUST_SCAN, rf_iregs := iregs2,
                     rf_context_validity := (\<lambda>i. i = re_REG_PC e \<or> i = re_REG_SP e)\<rparr>), sy1))))))"

text \<open>
  Only called with a frame pointer register of at least 0. A frame pointer of 0 reads no memory.
\<close>

definition arm_GetCallerByFramePointer :: "'y arm_env \<Rightarrow> memory_region \<Rightarrow> arm_frame list \<Rightarrow> run_error + arm_frame option" where
  "arm_GetCallerByFramePointer e memory frames =
     (let last_frame = last frames; fp = re_fp_register e in
      if \<not> rf_context_validity last_frame (nat fp) then Inr None
      else
        ebind (aget ArrayIndex (rf_iregs last_frame) fp) (\<lambda>last_fp.
          case (if last_fp \<noteq> 0 then mr_get32 memory (ucast last_fp) else Some 0) of
            None \<Rightarrow> Inr None
          | Some caller_fp \<Rightarrow>
              (case (if last_fp \<noteq> 0 then mr_get32 memory (ucast (last_fp + 4)) else Some 0) of
                 None \<Rightarrow> Inr None
               | Some caller_lr \<Rightarrow>
                   ebind (aget ArrayIndex (rf_iregs last_frame) (int (re_REG_SP e))) (\<lambda>last_sp.
                   ebind (aget ArrayIndex (rf_iregs last_frame) (int (re_REG_LR e))) (\<lambda>last_lr.
                   let caller_sp = (if last_fp \<noteq> 0 then last_fp + 8 else last_sp) in
                   ebind (aput ArrayIndex (rf_iregs last_frame) fp caller_fp) (\<lambda>iregs1.
                   ebind (aput ArrayIndex iregs1 (int (re_REG_SP e)) caller_sp) (\<lambda>iregs2.
                   ebind (aput ArrayIndex iregs2 (int (re_REG_PC e)) last_lr) (\<lambda>iregs3.
                   ebind (aput ArrayIndex iregs3 (int (re_REG_LR e)) caller_lr) (\<lambda>iregs4.
                     Inr (Some ((ue_new_frame e)\<lparr>sf_trust := FRAME_TRUST_FP, rf_iregs := iregs4,
                       rf_context_validity := (\<lambda>i. i = re_REG_PC e \<or> i = re_REG_LR e \<or> i = nat fp \<or> i = re_REG_SP e)\<rparr>)))))))))))"

section \<open>GetCallerFrame\<close>

definition arm_accept :: "'y arm_env \<Rightarrow> arm_frame \<Rightarrow> arm_frame \<Rightarrow> run_error + arm_frame option" where
  "arm_accept e last_frame frame =
     ebind (aget ArrayIndex (rf_iregs frame) (int (re_REG_PC e))) (\<lambda>pc.
       if pc = 0 then Inr None
       else
         ebind (aget ArrayIndex (rf_iregs frame) (int (re_REG_SP e))) (\<lambda>caller_sp.
         ebind (aget ArrayIndex (rf_iregs last_frame) (int (re_REG_SP e))) (\<lambda>last_sp.
           if caller_sp < last_sp then Inr None
           else Inr (Some (frame\<lparr>sf_instruction := ucast (pc - 2)\<rparr>)))))"

definition arm_GetCallerFrame :: "'y arm_env \<Rightarrow> arm_frame list \<Rightarrow> bool \<Rightarrow> 'y
    \<Rightarrow> run_error + (arm_frame option \<times> arm_frame \<times> 'y)" where
  "arm_GetCallerFrame e frames stack_scan_allowed sy = (case ue_memory e of
     None \<Rightarrow> Inr (None, last frames, sy)
   | Some memory \<Rightarrow>
       let last_frame = last frames in
       ebind (case ue_FindCFIFrameInfo e (stack_frame.truncate last_frame) sy of
                None \<Rightarrow> Inr None
              | Some info \<Rightarrow> arm_GetCallerByCFIFrameInfo e memory frames info) (\<lambda>by_cfi.
       ebind (if re_fp_register e \<ge> 0 \<and> by_cfi = None then arm_GetCallerByFramePointer e memory frames else Inr by_cfi)
         (\<lambda>by_fp.
       ebind (or_else (Inr (by_fp, sy))
                (if stack_scan_allowed then arm_GetCallerByStackScan e frames else (\<lambda>sy1. Inr (None, sy1))))
         (\<lambda>(new_frame, sy1). case new_frame of
            None \<Rightarrow> Inr (None, last_frame, sy1)
          | Some frame \<Rightarrow> ebind (arm_accept e last_frame frame) (\<lambda>r. Inr (r, last_frame, sy1))))))"

text \<open>The walk from the context frame.\<close>

definition arm_walker :: "'y arm_env \<Rightarrow> arm_frame option \<Rightarrow> (arm_frame, 'y) walker" where
  "arm_walker e context_frame = \<lparr>wk_GetContextFrame = context_frame, wk_GetCallerFrame = arm_GetCallerFrame e\<rparr>"

section \<open>Order of the frames\<close>

definition arm_link :: "'y arm_env \<Rightarrow> 32 word list \<Rightarrow> 32 word list \<Rightarrow> bool" where
  "arm_link e callee caller \<longleftrightarrow> callee ! re_REG_SP e \<le> caller ! re_REG_SP e \<and> caller ! re_REG_PC e \<noteq> 0"

lemma aget_Inr [simp]: "aget err xs (int i) = Inr v \<longleftrightarrow> i < length xs \<and> v = xs ! i"
  by (auto simp: aget_def)

lemma arm_accept_link: "arm_accept e l frame = Inr (Some f) \<Longrightarrow> arm_link e (rf_iregs l) (rf_iregs f)"
  by (auto simp: arm_accept_def arm_link_def not_less split: if_splits)

lemma arm_GetCallerFrame_result:
  assumes "arm_GetCallerFrame e frames allowed sy = Inr (caller, l, sy')"
  shows "l = last frames" "caller = Some f \<Longrightarrow> \<exists>frame. arm_accept e l frame = Inr (Some f)"
proof -
  have "l = last frames \<and> (caller = Some f \<longrightarrow> (\<exists>frame. arm_accept e l frame = Inr (Some f)))"
  proof (cases "ue_memory e")
    case None
    with assms show ?thesis by (simp add: arm_GetCallerFrame_def)
  next
    case (Some memory)
    from assms show ?thesis
      unfolding arm_GetCallerFrame_def Some Let_def option.case ebind_eq_Inr
      by (elim exE conjE) (auto split: option.splits)
  qed
  then show "l = last frames" "caller = Some f \<Longrightarrow> \<exists>frame. arm_accept e l frame = Inr (Some f)" by blast+
qed

lemma arm_iregs_on_base [simp]: "rf_iregs (on_base g x) = rf_iregs x"
  by (cases x) (simp add: on_base_def stack_frame.extend_def)

interpretation arm: caller_frames "arm_walker e c" rf_iregs "arm_link e"
  by unfold_locales
    (auto simp: arm_walker_def dest: arm_GetCallerFrame_result(1) arm_GetCallerFrame_result(2) intro: arm_accept_link)

section \<open>Registers outside of the context's array\<close>

lemma callee_registers_outside:
  assumes "\<forall>(i, name) \<in> set names. validity i" "(i, name) \<in> set names" "length iregs \<le> i"
  shows "callee_registers names validity iregs m = Inl ArrayIndex"
  using assms(1,2)
proof (induction names arbitrary: m)
  case (Cons x names)
  obtain j n where x: "x = (j, n)" by fastforce
  with Cons assms(3) show ?case by (cases "j < length iregs") (auto simp: aget_def)
qed simp

text \<open>
  C39: the table of register names that the CFI code of the ARM walker goes through has 26
  entries, and all of a context frame's validity flags are set. If the context's array has
  fewer entries (the 16 integer registers), asking for the context frame's caller with CFI
  rules reads outside of it.
\<close>

theorem arm_cfi_outside_of_context:
  assumes "arm_GetContextFrame e = Inr (Some f)" "re_context e = Some iregs" "length iregs < 26"
    and "ue_memory e = Some memory" "ue_FindCFIFrameInfo e (stack_frame.truncate f) sy = Some info"
  shows "arm_GetCallerFrame e [f] allowed sy = Inl ArrayIndex"
proof -
  have f: "rf_iregs f = iregs" "rf_context_validity f = (\<lambda>_. True)"
    using assms(1,2) by (auto simp: arm_GetContextFrame_def)
  have "(25, ''cpsr'') \<in> set (List.enumerate 0 arm_register_names)"
    by (simp add: arm_register_names_def)
  then have "callee_registers (List.enumerate 0 arm_register_names) (\<lambda>_. True) iregs [] = Inl ArrayIndex"
    by (rule callee_registers_outside [rotated]) (use assms(3) in auto)
  then show ?thesis
    by (simp add: arm_GetCallerFrame_def assms(4,5) arm_GetCallerByCFIFrameInfo_def f Let_def)
qed

definition arm_example :: "unit arm_env" where
  "arm_example = \<lparr>ue_memory = Some \<lparr>mr_base = 0x1000, mr_size = 0x100, mr_get32 = (\<lambda>_. None), mr_get64 = (\<lambda>_. None)\<rparr>,
     ue_new_frame = \<lparr>sf_instruction = 0, sf_module = None, sf_function_name = [], sf_function_base = 0,
       sf_source_file_name = [], sf_source_line = 0, sf_source_line_base = 0, sf_trust = FRAME_TRUST_NONE,
       rf_iregs = replicate 16 0, rf_context_validity = (\<lambda>_. False)\<rparr>,
     ue_ScanForReturnAddress = (\<lambda>_ _ y. Inr (None, y)),
     ue_FindCFIFrameInfo = (\<lambda>_ _. Some \<lparr>cfa_rule = ''sp'', ra_rule = ''lr'', register_rules = []\<rparr>),
     re_context = Some (replicate 16 0x1000), re_fp_register = -1, re_Evaluate = (\<lambda>_ m n. map_find m n),
     re_REG_SP = 13, re_REG_LR = 14, re_REG_PC = 15\<rparr>"

theorem arm_cfi_outside_of_context_witness:
  "\<exists>f. arm_GetContextFrame arm_example = Inr (Some f) \<and> arm_GetCallerFrame arm_example [f] True () = Inl ArrayIndex"
proof -
  obtain f where f: "arm_GetContextFrame arm_example = Inr (Some f)"
    by (simp add: arm_GetContextFrame_def arm_example_def)
  have "arm_GetCallerFrame arm_example [f] True () = Inl ArrayIndex"
    by (rule arm_cfi_outside_of_context [OF f, where iregs = "replicate 16 0x1000"]) (simp_all add: arm_example_def)
  with f show ?thesis by (intro exI [of _ f]) simp
qed

end
