(* ===== verification/Walker_ARM64.thy ===== *)
theory Walker_ARM64
  imports Walker_ARM
begin

text \<open>
  \<open>minidump_src/stackwalker_arm64.cc\<close>: the ARM64 walker, on the same shape of context as
  the ARM walker, with its own table of registers, its frame pointer always tried, and the
  chain of frame pointers it follows without CFI rules.
\<close>

section \<open>Frames and environment\<close>

record arm64_frame = stack_frame +
  qf_iregs :: "64 word list"
  qf_context_validity :: "nat \<Rightarrow> bool"

record 'y arm64_env = "(arm64_frame, 64 word, 'y) unwind_env" +
  qe_context :: "64 word list option"
  qe_Evaluate :: "memory_region \<Rightarrow> 64 word reg_map \<Rightarrow> string \<Rightarrow> 64 word option"
  qe_REG_FP :: nat
  qe_REG_LR :: nat
  qe_REG_SP :: nat
  qe_REG_PC :: nat

definition arm64_GetContextFrame :: "'y arm64_env \<Rightarrow> run_error + arm64_frame option" where
  "arm64_GetContextFrame e = (case qe_context e of
     None \<Rightarrow> Inr None
   | Some iregs \<Rightarrow>
       ebind (aget ArrayIndex iregs (int (qe_REG_PC e))) (\<lambda>pc.
         Inr (Some ((ue_new_frame e)\<lparr>qf_iregs := iregs, qf_context_validity := (\<lambda>_. True),
           sf_trust := FRAME_TRUST_CONTEXT, sf_instruction := pc\<rparr>))))"

section \<open>CFI\<close>

definition arm64_register_names :: "string list" where
  "arm64_register_names =
    [''x0'', ''x1'', ''x2'', ''x3'', ''x4'', ''x5'', ''x6'', ''x7'',
     ''x8'', ''x9'', ''x10'', ''x11'', ''x12'', ''x13'', ''x14'', ''x15'',
     ''x16'', ''x17'', ''x18'', ''x19'', ''x20'', ''x21'', ''x22'', ''x23'',
     ''x24'', ''x25'', ''x26'', ''x27'', ''x28'', ''x29'', ''x30'', ''sp'',
     ''pc'']"

definition arm64_recover_pc :: "'y arm64_env \<Rightarrow> 64 word reg_map \<Rightarrow> 64 word list \<times> (nat \<Rightarrow> bool)
    \<Rightarrow> run_error + (64 word list \<times> (nat \<Rightarrow> bool))" where
  "arm64_recover_pc e recovered = (\<lambda>(iregs, validity).
     if validity (qe_REG_PC e) then Inr (iregs, validity)
     else
       case map_find recovered ''.ra'' of
         None \<Rightarrow> Inr (iregs, validity)
       | Some ra \<Rightarrow>
           ebind (aput ArrayIndex iregs (int (qe_REG_PC e)) ra) (\<lambda>iregs'. Inr (iregs', validity(qe_REG_PC e := True))))"

definition arm64_GetCallerByCFIFrameInfo :: "'y arm64_env \<Rightarrow> memory_region \<Rightarrow> arm64_frame list \<Rightarrow> cfi_frame_info
    \<Rightarrow> run_error + arm64_frame option" where
  "arm64_GetCallerByCFIFrameInfo e memory frames cfi_frame_info =
     (let last_frame = last frames;
          frame = ue_new_frame e;
          names = List.enumerate 0 arm64_register_names
      in ebind (callee_registers names (qf_context_validity last_frame) (qf_iregs last_frame) []) (\<lambda>callee.
           case FindCallerRegs (qe_Evaluate e memory) cfi_frame_info callee [] of
             (False, _) \<Rightarrow> Inr None
           | (True, recovered) \<Rightarrow>
               ebind (caller_registers names (\<lambda>i. 19 \<le> i \<and> i \<le> 29) recovered (qf_iregs last_frame)
                        (qf_context_validity last_frame) (qf_iregs frame) (qf_context_validity frame)) (\<lambda>r1.
               ebind (arm64_recover_pc e recovered r1) (\<lambda>r2.
               ebind (recover_sp (qe_REG_SP e) recovered r2) (\<lambda>(iregs, validity).
                 if \<not> (validity (qe_REG_SP e) \<and> validity (qe_REG_PC e)) then Inr None
                 else Inr (Some (frame\<lparr>qf_iregs := iregs, qf_context_validity := validity, sf_trust := FRAME_TRUST_CFI\<rparr>)))))))"

section \<open>Stack scan and frame pointer\<close>

definition arm64_GetCallerByStackScan :: "'y arm64_env \<Rightarrow> arm64_frame list \<Rightarrow> 'y \<Rightarrow> run_error + (arm64_frame option \<times> 'y)" where
  "arm64_GetCallerByStackScan e frames sy =
     (let last_frame = last frames in
      ebind (aget ArrayIndex (qf_iregs last_frame) (int (qe_REG_SP e))) (\<lambda>last_sp.
      ebind (ue_ScanForReturnAddress e last_sp (IsContextFrame (length frames = 1)) sy) (\<lambda>(r, sy1).
        case r of
          None \<Rightarrow> Inr (None, sy1)
        | Some (location, caller_pc) \<Rightarrow>
            let caller_sp = location + 8 in
            ebind (aput ArrayIndex (qf_iregs last_frame) (int (qe_REG_PC e)) caller_pc) (\<lambda>iregs1.
            ebind (aput ArrayIndex iregs1 (int (qe_REG_SP e)) caller_sp) (\<lambda>iregs2.
              Inr (Some ((ue_new_frame e)\<lparr>sf_trust := FRAME_TRUST_SCAN, qf_iregs := iregs2,
                     qf_context_validity := (\<lambda>i. i = qe_REG_PC e \<or> i = qe_REG_SP e)\<rparr>), sy1))))))"

definition arm64_GetCallerByFramePointer :: "'y arm64_env \<Rightarrow> memory_region \<Rightarrow> arm64_frame list \<Rightarrow> run_error + arm64_frame option" where
  "arm64_GetCallerByFramePointer e memory frames =
     (let last_frame = last frames in
      ebind (aget ArrayIndex (qf_iregs last_frame) (int (qe_REG_FP e))) (\<lambda>last_fp.
        case (if last_fp \<noteq> 0 then mr_get64 memory last_fp else Some 0) of
          None \<Rightarrow> Inr None
        | Some caller_fp \<Rightarrow>
            (case (if last_fp \<noteq> 0 then mr_get64 memory (last_fp + 8) else Some 0) of
               None \<Rightarrow> Inr None
             | Some caller_lr \<Rightarrow>
                 ebind (aget ArrayIndex (qf_iregs last_frame) (int (qe_REG_SP e))) (\<lambda>last_sp.
                 ebind (aget ArrayIndex (qf_iregs last_frame) (int (qe_REG_LR e))) (\<lambda>last_lr.
                 let caller_sp = (if last_fp \<noteq> 0 then last_fp + 16 else last_sp) in
                 ebind (aput ArrayIndex (qf_iregs last_frame) (int (qe_REG_FP e)) caller_fp) (\<lambda>iregs1.
                 ebind (aput ArrayIndex iregs1 (int (qe_REG_SP e)) caller_sp) (\<lambda>iregs2.
                 ebind (aput ArrayIndex iregs2 (int (qe_REG_PC e)) last_lr) (\<lambda>iregs3.
                 ebind (aput ArrayIndex iregs3 (int (qe_REG_LR e)) caller_lr) (\<lambda>iregs4.
                   Inr (Some ((ue_new_frame e)\<lparr>sf_trust := FRAME_TRUST_FP, qf_iregs := iregs4,
                     qf_context_validity := (\<lambda>i. i = qe_REG_PC e \<or> i = qe_REG_LR e \<or> i = qe_REG_FP e \<or> i = qe_REG_SP e)\<rparr>)))))))))))"

section \<open>GetCallerFrame\<close>

definition arm64_accept :: "'y arm64_env \<Rightarrow> arm64_frame \<Rightarrow> arm64_frame \<Rightarrow> run_error + arm64_frame option" where
  "arm64_accept e last_frame frame =
     ebind (aget ArrayIndex (qf_iregs frame) (int (qe_REG_PC e))) (\<lambda>pc.
       if pc = 0 then Inr None
       else
         ebind (aget ArrayIndex (qf_iregs frame) (int (qe_REG_SP e))) (\<lambda>caller_sp.
         ebind (aget ArrayIndex (qf_iregs last_frame) (int (qe_REG_SP e))) (\<lambda>last_sp.
           if caller_sp < last_sp then Inr None
           else Inr (Some (frame\<lparr>sf_instruction := pc - 4\<rparr>)))))"

definition arm64_GetCallerFrame :: "'y arm64_env \<Rightarrow> arm64_frame list \<Rightarrow> bool \<Rightarrow> 'y
    \<Rightarrow> run_error + (arm64_frame option \<times> arm64_frame \<times> 'y)" where
  "arm64_GetCallerFrame e frames stack_scan_allowed sy = (case ue_memory e of
     None \<Rightarrow> Inr (None, last frames, sy)
   | Some memory \<Rightarrow>
       let last_frame = last frames in
       ebind (case ue_FindCFIFrameInfo e (stack_frame.truncate last_frame) sy of
                None \<Rightarrow> Inr None
              | Some info \<Rightarrow> arm64_GetCallerByCFIFrameInfo e memory frames info) (\<lambda>by_cfi.
       ebind (if by_cfi = None then arm64_GetCallerByFramePointer e memory frames else Inr by_cfi) (\<lambda>by_fp.
       ebind (or_else (Inr (by_fp, sy))
                (if stack_scan_allowed then arm64_GetCallerByStackScan e frames else (\<lambda>sy1. Inr (None, sy1))))
         (\<lambda>(new_frame, sy1). case new_frame of
            None \<Rightarrow> Inr (None, last_frame, sy1)
          | Some frame \<Rightarrow> ebind (arm64_accept e last_frame frame) (\<lambda>r. Inr (r, last_frame, sy1))))))"

text \<open>The walk from the context frame.\<close>

definition arm64_walker :: "'y arm64_env \<Rightarrow> arm64_frame option \<Rightarrow> (arm64_frame, 'y) walker" where
  "arm64_walker e context_frame = \<lparr>wk_GetContextFrame = context_frame, wk_GetCallerFrame = arm64_GetCallerFrame e\<rparr>"

section \<open>Order of the frames\<close>

definition arm64_link :: "'y arm64_env \<Rightarrow> 64 word list \<Rightarrow> 64 word list \<Rightarrow> bool" where
  "arm64_link e callee caller \<longleftrightarrow> callee ! qe_REG_SP e \<le> caller ! qe_REG_SP e \<and> caller ! qe_REG_PC e \<noteq> 0"

lemma arm64_accept_link: "arm64_accept e l frame = Inr (Some f) \<Longrightarrow> arm64_link e (qf_iregs l) (qf_iregs f)"
  by (auto simp: arm64_accept_def arm64_link_def not_less split: if_splits)

lemma arm64_GetCallerFrame_result:
  assumes "arm64_GetCallerFrame e frames allowed sy = Inr (caller, l, sy')"
  shows "l = last frames" "caller = Some f \<Longrightarrow> \<exists>frame. arm64_accept e l frame = Inr (Some f)"
proof -
  have "l = last frames \<and> (caller = Some f \<longrightarrow> (\<exists>frame. arm64_accept e l frame = Inr (Some f)))"
  proof (cases "ue_memory e")
    case None
    with assms show ?thesis by (simp add: arm64_GetCallerFrame_def)
  next
    case (Some memory)
    from assms show ?thesis
      unfolding arm64_GetCallerFrame_def Some Let_def option.case ebind_eq_Inr
      by (elim exE conjE) (auto split: option.splits)
  qed
  then show "l = last frames" "caller = Some f \<Longrightarrow> \<exists>frame. arm64_accept e l frame = Inr (Some f)" by blast+
qed

lemma arm64_iregs_on_base [simp]: "qf_iregs (on_base g x) = qf_iregs x"
  by (cases x) (simp add: on_base_def stack_frame.extend_def)

interpretation arm64: caller_frames "arm64_walker e c" qf_iregs "arm64_link e"
  by unfold_locales
    (auto simp: arm64_walker_def dest: arm64_GetCallerFrame_result(1) arm64_GetCallerFrame_result(2) intro: arm64_accept_link)

section \<open>The chain of frame pointers\<close>

definition arm64_no_unwind_info :: "'y arm64_env \<Rightarrow> 'y arm64_env" where
  "arm64_no_unwind_info e = e\<lparr>ue_FindCFIFrameInfo := \<lambda>_ _. None, ue_ScanForReturnAddress := \<lambda>_ _ y. Inr (None, y)\<rparr>"

text \<open>
  The reference: the return address is in the link register, the saved link register and
  frame pointer are where the frame pointer points to; a frame pointer of 0 gives the frame
  of the link register, which has no caller.
\<close>

definition arm64_fp_step :: "'y arm64_env \<Rightarrow> 64 word list \<Rightarrow> 64 word list option" where
  "arm64_fp_step e regs = Option.bind (ue_memory e) (\<lambda>m.
     let fp = regs ! qe_REG_FP e; lr = regs ! qe_REG_LR e; sp = regs ! qe_REG_SP e in
     Option.bind (if fp \<noteq> 0 then mr_get64 m fp else Some 0) (\<lambda>fp'.
     Option.bind (if fp \<noteq> 0 then mr_get64 m (fp + 8) else Some 0) (\<lambda>lr'.
       let caller = regs[qe_REG_FP e := fp', qe_REG_SP e := (if fp \<noteq> 0 then fp + 16 else sp),
                         qe_REG_PC e := lr, qe_REG_LR e := lr']
       in if caller ! qe_REG_PC e = 0 \<or> caller ! qe_REG_SP e < sp then None else Some caller)))"

lemma aput_Inr [simp]: "aput err xs (int i) v = Inr ys \<longleftrightarrow> i < length xs \<and> ys = xs[i := v]"
  by (auto simp: aput_def)

lemma arm64_fp_caller:
  assumes "arm64_GetCallerFrame (arm64_no_unwind_info e) frames allowed sy = Inr (caller, l, sy')"
  shows "map_option qf_iregs caller = arm64_fp_step e (qf_iregs (last frames))"
proof (cases "ue_memory e")
  case None
  with assms show ?thesis by (auto simp: arm64_GetCallerFrame_def arm64_no_unwind_info_def arm64_fp_step_def)
next
  case (Some m)
  from assms obtain new_frame where n: "arm64_GetCallerByFramePointer (arm64_no_unwind_info e) m frames = Inr new_frame"
    and c: "(case new_frame of None \<Rightarrow> Inr None | Some frame \<Rightarrow> arm64_accept (arm64_no_unwind_info e) (last frames) frame) = Inr caller"
    by (auto simp: arm64_GetCallerFrame_def arm64_no_unwind_info_def arm64_GetCallerByStackScan_def Some Let_def or_else_def
        split: if_splits option.splits)
  show ?thesis
  proof (cases new_frame)
    case None
    with n c show ?thesis
      by (auto simp: Some arm64_GetCallerByFramePointer_def arm64_no_unwind_info_def arm64_fp_step_def Let_def
          split: option.splits if_splits)
  next
    case (Some frame)
    with n c \<open>ue_memory e = Some m\<close> show ?thesis
      by (auto simp: arm64_GetCallerByFramePointer_def arm64_no_unwind_info_def arm64_fp_step_def arm64_accept_def Let_def
          split: option.splits if_splits)
  qed
qed

interpretation arm64_fp: caller_function "arm64_walker (arm64_no_unwind_info e) c" qf_iregs "arm64_fp_step e"
  by unfold_locales
    (auto simp: arm64_walker_def arm64_fp_caller dest: arm64_GetCallerFrame_result(1))


definition arm64_example :: "unit arm64_env" where
  "arm64_example = \<lparr>ue_memory = Some \<lparr>mr_base = 0x1000, mr_size = 0x100, mr_get32 = (\<lambda>_. None),
       mr_get64 = map_of [(0x1000, 0x1010), (0x1008, 0x400), (0x1010, 0), (0x1018, 0x500)]\<rparr>,
     ue_new_frame = \<lparr>sf_instruction = 0, sf_module = None, sf_function_name = [], sf_function_base = 0,
       sf_source_file_name = [], sf_source_line = 0, sf_source_line_base = 0, sf_trust = FRAME_TRUST_NONE,
       qf_iregs = replicate 33 0, qf_context_validity = (\<lambda>_. False)\<rparr>,
     ue_ScanForReturnAddress = (\<lambda>_ _ y. Inr (None, y)), ue_FindCFIFrameInfo = (\<lambda>_ _. None),
     qe_context = Some ((replicate 33 0)[29 := 0x1000, 30 := 0x300, 31 := 0xff0, 32 := 0x200]),
     qe_Evaluate = (\<lambda>_ _ _. None), qe_REG_FP = 29, qe_REG_LR = 30, qe_REG_SP = 31, qe_REG_PC = 32\<rparr>"

definition arm64_example_frame :: arm64_frame where
  "arm64_example_frame = (ue_new_frame arm64_example)\<lparr>qf_iregs := the (qe_context arm64_example)\<rparr>"

definition arm64_example_walk :: "run_error + (bool \<times> (arm64_frame, unit) walk_state)" where
  "arm64_example_walk = Walk (\<lambda>f y. Inr (kError, f, y))
     (arm64_walker (arm64_no_unwind_info arm64_example) (Some arm64_example_frame)) 1024 1024 [] [] ()"

lemma arm64_example_run:
  "\<exists>s. arm64_example_walk = Inr (True, s) \<and> List.map (\<lambda>f. qf_iregs f ! 32) (ws_frames s) = [0x200, 0x300, 0x400, 0x500]"
proof -
  have "map_sum id (\<lambda>(b, s). (b, List.map (\<lambda>f. qf_iregs f ! 32) (ws_frames s))) arm64_example_walk =
      Inr (True, [0x200, 0x300, 0x400, 0x500])" by code_simp
  from map_sum_pair_Inr [OF this] show ?thesis .
qed


end
