(* ===== verification/Crash_Reason.thy ===== *)
theory Crash_Reason
  imports Frames
begin

text \<open>
  The parts of \<open>minidump_src/minidump_processor.cc\<close> that name what a minidump holds:
  the reason of a crash, the CPU, the operating system and an assertion. The constants of
  the minidump format are declared in a header outside the repository: \<open>md\<close> gives each its
  value by its name. A \<open>switch\<close> is a table of labels, searched in the order of the code; the
  compiler accepts it only if the labels have different values.
\<close>

section \<open>Constants and formats\<close>

type_synonym md_constants = "string \<Rightarrow> 32 word"

definition switch_case :: "md_constants \<Rightarrow> (string \<times> 'a) list \<Rightarrow> 32 word \<Rightarrow> 'a option" where
  "switch_case md cases v = map_option snd (List.find (\<lambda>(label, r). md label = v) cases)"

definition is_one_of :: "md_constants \<Rightarrow> string list \<Rightarrow> 32 word \<Rightarrow> bool" where
  "is_one_of md labels v \<longleftrightarrow> (\<exists>label \<in> set labels. md label = v)"

text \<open>The formats \<open>0x%0*x\<close>, \<open>0x%x\<close> and \<open>%u\<close>; a buffer of \<open>bytes\<close> bytes keeps one character less.\<close>

definition pad_zeros :: "nat \<Rightarrow> string \<Rightarrow> string" where
  "pad_zeros width s = replicate (width - length s) (CHR ''0'') @ s"

definition hex_padded :: "nat \<Rightarrow> 32 word \<Rightarrow> string" where
  "hex_padded width w = ''0x'' @ pad_zeros width (show_base 16 (unat w))"

definition show_hex :: "32 word \<Rightarrow> string" where
  "show_hex w = ''0x'' @ show_base 16 (unat w)"

definition show_dec :: "32 word \<Rightarrow> string" where
  "show_dec w = show_base 10 (unat w)"

definition snprintf :: "nat \<Rightarrow> string \<Rightarrow> string" where
  "snprintf bytes s = take (bytes - 1) s"

section \<open>The raw data\<close>

record exception_record =
  er_code :: "32 word"
  er_flags :: "32 word"
  er_address :: "64 word"
  er_number_parameters :: "32 word"
  er_information :: "nat \<Rightarrow> 64 word"

record raw_system_info =
  rs_processor_architecture :: "16 word"
  rs_processor_level :: "16 word"
  rs_processor_revision :: "16 word"
  rs_number_of_processors :: "8 word"
  rs_platform_id :: "32 word"
  rs_major_version :: "32 word"
  rs_minor_version :: "32 word"
  rs_build_number :: "32 word"
  rs_arm_cpuid :: "32 word"
  rs_arm_elf_hwcaps :: "32 word"

definition architecture_is :: "md_constants \<Rightarrow> string list \<Rightarrow> raw_system_info \<Rightarrow> bool" where
  "architecture_is md labels raw = is_one_of md labels (ucast (rs_processor_architecture raw))"

section \<open>Mac OS X and iOS\<close>

definition flags_or :: "md_constants \<Rightarrow> (string \<times> string) list \<Rightarrow> 32 word \<Rightarrow> string" where
  "flags_or md cases flags = (case switch_case md cases flags of Some s \<Rightarrow> s | None \<Rightarrow> snprintf 11 (hex_padded 8 flags))"

definition mac_bad_access_cases :: "(string \<times> string) list" where
  "mac_bad_access_cases =
    [(''MD_EXCEPTION_CODE_MAC_INVALID_ADDRESS'', ''KERN_INVALID_ADDRESS''),
     (''MD_EXCEPTION_CODE_MAC_PROTECTION_FAILURE'', ''KERN_PROTECTION_FAILURE''),
     (''MD_EXCEPTION_CODE_MAC_NO_ACCESS'', ''KERN_NO_ACCESS''),
     (''MD_EXCEPTION_CODE_MAC_MEMORY_FAILURE'', ''KERN_MEMORY_FAILURE''),
     (''MD_EXCEPTION_CODE_MAC_MEMORY_ERROR'', ''KERN_MEMORY_ERROR'')]"

definition mac_bad_access :: "md_constants \<Rightarrow> raw_system_info \<Rightarrow> 32 word \<Rightarrow> string" where
  "mac_bad_access md raw flags = ''EXC_BAD_ACCESS / '' @
     (case switch_case md mac_bad_access_cases flags of
        Some s \<Rightarrow> s
      | None \<Rightarrow>
          if architecture_is md [''MD_CPU_ARCHITECTURE_ARM'', ''MD_CPU_ARCHITECTURE_ARM64''] raw
          then flags_or md
            [(''MD_EXCEPTION_CODE_MAC_ARM_DA_ALIGN'', ''EXC_ARM_DA_ALIGN''),
             (''MD_EXCEPTION_CODE_MAC_ARM_DA_DEBUG'', ''EXC_ARM_DA_DEBUG'')] flags
          else if architecture_is md [''MD_CPU_ARCHITECTURE_PPC''] raw
          then flags_or md
            [(''MD_EXCEPTION_CODE_MAC_PPC_VM_PROT_READ'', ''EXC_PPC_VM_PROT_READ''),
             (''MD_EXCEPTION_CODE_MAC_PPC_BADSPACE'', ''EXC_PPC_BADSPACE''),
             (''MD_EXCEPTION_CODE_MAC_PPC_UNALIGNED'', ''EXC_PPC_UNALIGNED'')] flags
          else if architecture_is md [''MD_CPU_ARCHITECTURE_X86'', ''MD_CPU_ARCHITECTURE_AMD64''] raw
          then flags_or md [(''MD_EXCEPTION_CODE_MAC_X86_GENERAL_PROTECTION_FAULT'', ''EXC_I386_GPFLT'')] flags
          else snprintf 11 (hex_padded 8 flags))"

text \<open>
  The last three of Apple's exceptions choose the table of codes by the architecture; a PPC
  code may lack the \<open>break\<close> after its name, and then the flags follow the name.
\<close>

definition by_architecture :: "md_constants \<Rightarrow> raw_system_info \<Rightarrow> (string list \<times> (string \<times> string) list) list \<Rightarrow> 32 word \<Rightarrow> string" where
  "by_architecture md raw tables flags =
     (case List.find (\<lambda>(labels, cases). architecture_is md labels raw) tables of
        Some (labels, cases) \<Rightarrow> flags_or md cases flags
      | None \<Rightarrow> snprintf 11 (hex_padded 8 flags))"

definition mac_bad_instruction :: "md_constants \<Rightarrow> raw_system_info \<Rightarrow> 32 word \<Rightarrow> string" where
  "mac_bad_instruction md raw flags = ''EXC_BAD_INSTRUCTION / '' @ by_architecture md raw
     [([''MD_CPU_ARCHITECTURE_ARM'', ''MD_CPU_ARCHITECTURE_ARM64''],
       [(''MD_EXCEPTION_CODE_MAC_ARM_UNDEFINED'', ''EXC_ARM_UNDEFINED'')]),
      ([''MD_CPU_ARCHITECTURE_PPC''],
       [(''MD_EXCEPTION_CODE_MAC_PPC_INVALID_SYSCALL'', ''EXC_PPC_INVALID_SYSCALL''),
        (''MD_EXCEPTION_CODE_MAC_PPC_UNIMPLEMENTED_INSTRUCTION'', ''EXC_PPC_UNIPL_INST''),
        (''MD_EXCEPTION_CODE_MAC_PPC_PRIVILEGED_INSTRUCTION'', ''EXC_PPC_PRIVINST''),
        (''MD_EXCEPTION_CODE_MAC_PPC_PRIVILEGED_REGISTER'', ''EXC_PPC_PRIVREG''),
        (''MD_EXCEPTION_CODE_MAC_PPC_TRACE'', ''EXC_PPC_TRACE''),
        (''MD_EXCEPTION_CODE_MAC_PPC_PERFORMANCE_MONITOR'', ''EXC_PPC_PERFMON'')]),
      ([''MD_CPU_ARCHITECTURE_AMD64'', ''MD_CPU_ARCHITECTURE_X86''],
       [(''MD_EXCEPTION_CODE_MAC_X86_INVALID_OPERATION'', ''EXC_I386_INVOP''),
        (''MD_EXCEPTION_CODE_MAC_X86_INVALID_TASK_STATE_SEGMENT'', ''EXC_I386_INVTSSFLT''),
        (''MD_EXCEPTION_CODE_MAC_X86_SEGMENT_NOT_PRESENT'', ''EXC_I386_SEGNPFLT''),
        (''MD_EXCEPTION_CODE_MAC_X86_STACK_FAULT'', ''EXC_I386_STKFLT''),
        (''MD_EXCEPTION_CODE_MAC_X86_GENERAL_PROTECTION_FAULT'', ''EXC_I386_GPFLT''),
        (''MD_EXCEPTION_CODE_MAC_X86_ALIGNMENT_FAULT'', ''EXC_I386_ALIGNFLT'')])] flags"

definition ppc_arithmetic_cases :: "md_constants \<Rightarrow> 32 word \<Rightarrow> (string \<times> string) list" where
  "ppc_arithmetic_cases md flags =
    [(''MD_EXCEPTION_CODE_MAC_PPC_OVERFLOW'', ''EXC_PPC_OVERFLOW''),
     (''MD_EXCEPTION_CODE_MAC_PPC_ZERO_DIVIDE'', ''EXC_PPC_ZERO_DIVIDE''),
     (''MD_EXCEPTION_CODE_MAC_PPC_FLOAT_INEXACT'', ''EXC_FLT_INEXACT''),
     (''MD_EXCEPTION_CODE_MAC_PPC_FLOAT_ZERO_DIVIDE'', ''EXC_PPC_FLT_ZERO_DIVIDE''),
     (''MD_EXCEPTION_CODE_MAC_PPC_FLOAT_UNDERFLOW'', ''EXC_PPC_FLT_UNDERFLOW''),
     (''MD_EXCEPTION_CODE_MAC_PPC_FLOAT_OVERFLOW'', ''EXC_PPC_FLT_OVERFLOW''),
     (''MD_EXCEPTION_CODE_MAC_PPC_FLOAT_NOT_A_NUMBER'', ''EXC_PPC_FLT_NOT_A_NUMBER''),
     (''MD_EXCEPTION_CODE_MAC_PPC_NO_EMULATION'', ''EXC_PPC_NOEMULATION'')] @
    [(''MD_EXCEPTION_CODE_MAC_PPC_ALTIVEC_ASSIST'', ''EXC_PPC_ALTIVECASSIST'' @ snprintf 11 (hex_padded 8 flags))]"

definition mac_arithmetic :: "md_constants \<Rightarrow> raw_system_info \<Rightarrow> 32 word \<Rightarrow> string" where
  "mac_arithmetic md raw flags = ''EXC_ARITHMETIC / '' @ by_architecture md raw
     [([''MD_CPU_ARCHITECTURE_PPC''], ppc_arithmetic_cases md flags),
      ([''MD_CPU_ARCHITECTURE_AMD64'', ''MD_CPU_ARCHITECTURE_X86''],
       [(''MD_EXCEPTION_CODE_MAC_X86_DIV'', ''EXC_I386_DIV''), (''MD_EXCEPTION_CODE_MAC_X86_INTO'', ''EXC_I386_INTO''),
        (''MD_EXCEPTION_CODE_MAC_X86_NOEXT'', ''EXC_I386_NOEXT''),
        (''MD_EXCEPTION_CODE_MAC_X86_EXTOVR'', ''EXC_I386_EXTOVR''),
        (''MD_EXCEPTION_CODE_MAC_X86_EXTERR'', ''EXC_I386_EXTERR''),
        (''MD_EXCEPTION_CODE_MAC_X86_EMERR'', ''EXC_I386_EMERR''),
        (''MD_EXCEPTION_CODE_MAC_X86_BOUND'', ''EXC_I386_BOUND''),
        (''MD_EXCEPTION_CODE_MAC_X86_SSEEXTERR'', ''EXC_I386_SSEEXTERR'')])] flags"

definition mac_software :: "md_constants \<Rightarrow> 32 word \<Rightarrow> string" where
  "mac_software md flags = ''EXC_SOFTWARE / '' @ flags_or md
     [(''MD_EXCEPTION_CODE_MAC_ABORT'', ''SIGABRT''),
      (''MD_EXCEPTION_CODE_MAC_NS_EXCEPTION'', ''UNCAUGHT_NS_EXCEPTION''),
      (''MD_EXCEPTION_CODE_MAC_PPC_TRAP'', ''EXC_PPC_TRAP''),
      (''MD_EXCEPTION_CODE_MAC_PPC_MIGRATE'', ''EXC_PPC_MIGRATE'')] flags"

definition mac_breakpoint :: "md_constants \<Rightarrow> raw_system_info \<Rightarrow> 32 word \<Rightarrow> string" where
  "mac_breakpoint md raw flags = ''EXC_BREAKPOINT / '' @ by_architecture md raw
     [([''MD_CPU_ARCHITECTURE_ARM'', ''MD_CPU_ARCHITECTURE_ARM64''],
       [(''MD_EXCEPTION_CODE_MAC_ARM_DA_ALIGN'', ''EXC_ARM_DA_ALIGN''),
        (''MD_EXCEPTION_CODE_MAC_ARM_DA_DEBUG'', ''EXC_ARM_DA_DEBUG''),
        (''MD_EXCEPTION_CODE_MAC_ARM_BREAKPOINT'', ''EXC_ARM_BREAKPOINT'')]),
      ([''MD_CPU_ARCHITECTURE_PPC''], [(''MD_EXCEPTION_CODE_MAC_PPC_BREAKPOINT'', ''EXC_PPC_BREAKPOINT'')]),
      ([''MD_CPU_ARCHITECTURE_AMD64'', ''MD_CPU_ARCHITECTURE_X86''],
       [(''MD_EXCEPTION_CODE_MAC_X86_SGL'', ''EXC_I386_SGL''), (''MD_EXCEPTION_CODE_MAC_X86_BPT'', ''EXC_I386_BPT'')])] flags"

definition mac_reason :: "md_constants \<Rightarrow> raw_system_info \<Rightarrow> 32 word \<Rightarrow> 32 word \<Rightarrow> string option" where
  "mac_reason md raw code flags =
     (let flags_string = snprintf 11 (hex_padded 8 flags) in
      switch_case md
        [(''MD_EXCEPTION_MAC_BAD_ACCESS'', mac_bad_access md raw flags),
         (''MD_EXCEPTION_MAC_BAD_INSTRUCTION'', mac_bad_instruction md raw flags),
         (''MD_EXCEPTION_MAC_ARITHMETIC'', mac_arithmetic md raw flags),
         (''MD_EXCEPTION_MAC_EMULATION'', ''EXC_EMULATION / '' @ flags_string),
         (''MD_EXCEPTION_MAC_SOFTWARE'', mac_software md flags),
         (''MD_EXCEPTION_MAC_BREAKPOINT'', mac_breakpoint md raw flags),
         (''MD_EXCEPTION_MAC_SYSCALL'', ''EXC_SYSCALL / '' @ flags_string),
         (''MD_EXCEPTION_MAC_MACH_SYSCALL'', ''EXC_MACH_SYSCALL / '' @ flags_string),
         (''MD_EXCEPTION_MAC_RPC_ALERT'', ''EXC_RPC_ALERT / '' @ flags_string)] code)"

section \<open>Windows\<close>

definition win_cases :: "(string \<times> string) list" where
  "win_cases =
    [(''MD_EXCEPTION_CODE_WIN_CONTROL_C'', ''DBG_CONTROL_C''),
     (''MD_EXCEPTION_CODE_WIN_GUARD_PAGE_VIOLATION'', ''EXCEPTION_GUARD_PAGE''),
     (''MD_EXCEPTION_CODE_WIN_DATATYPE_MISALIGNMENT'', ''EXCEPTION_DATATYPE_MISALIGNMENT''),
     (''MD_EXCEPTION_CODE_WIN_BREAKPOINT'', ''EXCEPTION_BREAKPOINT''),
     (''MD_EXCEPTION_CODE_WIN_SINGLE_STEP'', ''EXCEPTION_SINGLE_STEP''),
     (''MD_EXCEPTION_CODE_WIN_INVALID_HANDLE'', ''EXCEPTION_INVALID_HANDLE''),
     (''MD_EXCEPTION_CODE_WIN_ILLEGAL_INSTRUCTION'', ''EXCEPTION_ILLEGAL_INSTRUCTION''),
     (''MD_EXCEPTION_CODE_WIN_NONCONTINUABLE_EXCEPTION'', ''EXCEPTION_NONCONTINUABLE_EXCEPTION''),
     (''MD_EXCEPTION_CODE_WIN_INVALID_DISPOSITION'', ''EXCEPTION_INVALID_DISPOSITION''),
     (''MD_EXCEPTION_CODE_WIN_ARRAY_BOUNDS_EXCEEDED'', ''EXCEPTION_BOUNDS_EXCEEDED''),
     (''MD_EXCEPTION_CODE_WIN_FLOAT_DENORMAL_OPERAND'', ''EXCEPTION_FLT_DENORMAL_OPERAND''),
     (''MD_EXCEPTION_CODE_WIN_FLOAT_DIVIDE_BY_ZERO'', ''EXCEPTION_FLT_DIVIDE_BY_ZERO''),
     (''MD_EXCEPTION_CODE_WIN_FLOAT_INEXACT_RESULT'', ''EXCEPTION_FLT_INEXACT_RESULT''),
     (''MD_EXCEPTION_CODE_WIN_FLOAT_INVALID_OPERATION'', ''EXCEPTION_FLT_INVALID_OPERATION''),
     (''MD_EXCEPTION_CODE_WIN_FLOAT_OVERFLOW'', ''EXCEPTION_FLT_OVERFLOW''),
     (''MD_EXCEPTION_CODE_WIN_FLOAT_STACK_CHECK'', ''EXCEPTION_FLT_STACK_CHECK''),
     (''MD_EXCEPTION_CODE_WIN_FLOAT_UNDERFLOW'', ''EXCEPTION_FLT_UNDERFLOW''),
     (''MD_EXCEPTION_CODE_WIN_INTEGER_DIVIDE_BY_ZERO'', ''EXCEPTION_INT_DIVIDE_BY_ZERO''),
     (''MD_EXCEPTION_CODE_WIN_INTEGER_OVERFLOW'', ''EXCEPTION_INT_OVERFLOW''),
     (''MD_EXCEPTION_CODE_WIN_PRIVILEGED_INSTRUCTION'', ''EXCEPTION_PRIV_INSTRUCTION''),
     (''MD_EXCEPTION_CODE_WIN_STACK_OVERFLOW'', ''EXCEPTION_STACK_OVERFLOW''),
     (''MD_EXCEPTION_CODE_WIN_POSSIBLE_DEADLOCK'', ''EXCEPTION_POSSIBLE_DEADLOCK''),
     (''MD_EXCEPTION_CODE_WIN_STACK_BUFFER_OVERRUN'', ''EXCEPTION_STACK_BUFFER_OVERRUN''),
     (''MD_EXCEPTION_CODE_WIN_HEAP_CORRUPTION'', ''EXCEPTION_HEAP_CORRUPTION''),
     (''MD_EXCEPTION_CODE_WIN_UNHANDLED_CPP_EXCEPTION'', ''Unhandled C++ Exception'')]"

text \<open>
  The kind of an access violation, with the casts to the 32-bit enumerations, and the
  address, which is replaced when there are two parameters. \<open>ntstatus\<close> is
  \<open>NTStatusToString\<close>, which the repository does not define.
\<close>

definition win_kind :: "md_constants \<Rightarrow> string \<Rightarrow> (string \<times> string) list \<Rightarrow> exception_record \<Rightarrow> string" where
  "win_kind md name cases er =
     (if er_number_parameters er \<ge> 1
      then (case switch_case md cases (ucast (er_information er 0)) of Some s \<Rightarrow> s | None \<Rightarrow> name)
      else name)"

definition win_address :: "exception_record \<Rightarrow> 64 word option \<Rightarrow> 64 word option" where
  "win_address er address =
     (if address \<noteq> None \<and> er_number_parameters er \<ge> 2 then Some (er_information er 1) else address)"

definition win_access_violation :: "md_constants \<Rightarrow> exception_record \<Rightarrow> 64 word option \<Rightarrow> string \<times> 64 word option" where
  "win_access_violation md er address =
     (win_kind md ''EXCEPTION_ACCESS_VIOLATION''
        [(''MD_ACCESS_VIOLATION_WIN_READ'', ''EXCEPTION_ACCESS_VIOLATION_READ''),
         (''MD_ACCESS_VIOLATION_WIN_WRITE'', ''EXCEPTION_ACCESS_VIOLATION_WRITE''),
         (''MD_ACCESS_VIOLATION_WIN_EXEC'', ''EXCEPTION_ACCESS_VIOLATION_EXEC'')] er,
      win_address er address)"

definition win_in_page_error :: "md_constants \<Rightarrow> (32 word \<Rightarrow> string) \<Rightarrow> exception_record \<Rightarrow> 64 word option \<Rightarrow> string \<times> 64 word option" where
  "win_in_page_error md ntstatus er address =
     (win_kind md ''EXCEPTION_IN_PAGE_ERROR''
        [(''MD_IN_PAGE_ERROR_WIN_READ'', ''EXCEPTION_IN_PAGE_ERROR_READ''),
         (''MD_IN_PAGE_ERROR_WIN_WRITE'', ''EXCEPTION_IN_PAGE_ERROR_WRITE''),
         (''MD_IN_PAGE_ERROR_WIN_EXEC'', ''EXCEPTION_IN_PAGE_ERROR_EXEC'')] er @
        (if er_number_parameters er \<ge> 3 then '' / '' @ ntstatus (ucast (er_information er 2)) else []),
      win_address er address)"

definition win_reason :: "md_constants \<Rightarrow> (32 word \<Rightarrow> string) \<Rightarrow> exception_record \<Rightarrow> 64 word option
    \<Rightarrow> (string \<times> 64 word option) option" where
  "win_reason md ntstatus er address =
     (if er_code er = md ''MD_EXCEPTION_CODE_WIN_ACCESS_VIOLATION'' then Some (win_access_violation md er address)
      else if er_code er = md ''MD_EXCEPTION_CODE_WIN_IN_PAGE_ERROR'' then Some (win_in_page_error md ntstatus er address)
      else map_option (\<lambda>s. (s, address)) (switch_case md win_cases (er_code er)))"

section \<open>Linux, Solaris and PS3\<close>

definition linux_cases :: "(string \<times> string) list" where
  "linux_cases =
    [(''MD_EXCEPTION_CODE_LIN_SIGHUP'', ''SIGHUP''), (''MD_EXCEPTION_CODE_LIN_SIGINT'', ''SIGINT''),
     (''MD_EXCEPTION_CODE_LIN_SIGQUIT'', ''SIGQUIT''), (''MD_EXCEPTION_CODE_LIN_SIGILL'', ''SIGILL''),
     (''MD_EXCEPTION_CODE_LIN_SIGTRAP'', ''SIGTRAP''), (''MD_EXCEPTION_CODE_LIN_SIGABRT'', ''SIGABRT''),
     (''MD_EXCEPTION_CODE_LIN_SIGBUS'', ''SIGBUS''), (''MD_EXCEPTION_CODE_LIN_SIGFPE'', ''SIGFPE''),
     (''MD_EXCEPTION_CODE_LIN_SIGKILL'', ''SIGKILL''), (''MD_EXCEPTION_CODE_LIN_SIGUSR1'', ''SIGUSR1''),
     (''MD_EXCEPTION_CODE_LIN_SIGSEGV'', ''SIGSEGV''), (''MD_EXCEPTION_CODE_LIN_SIGUSR2'', ''SIGUSR2''),
     (''MD_EXCEPTION_CODE_LIN_SIGPIPE'', ''SIGPIPE''), (''MD_EXCEPTION_CODE_LIN_SIGALRM'', ''SIGALRM''),
     (''MD_EXCEPTION_CODE_LIN_SIGTERM'', ''SIGTERM''), (''MD_EXCEPTION_CODE_LIN_SIGSTKFLT'', ''SIGSTKFLT''),
     (''MD_EXCEPTION_CODE_LIN_SIGCHLD'', ''SIGCHLD''), (''MD_EXCEPTION_CODE_LIN_SIGCONT'', ''SIGCONT''),
     (''MD_EXCEPTION_CODE_LIN_SIGSTOP'', ''SIGSTOP''), (''MD_EXCEPTION_CODE_LIN_SIGTSTP'', ''SIGTSTP''),
     (''MD_EXCEPTION_CODE_LIN_SIGTTIN'', ''SIGTTIN''), (''MD_EXCEPTION_CODE_LIN_SIGTTOU'', ''SIGTTOU''),
     (''MD_EXCEPTION_CODE_LIN_SIGURG'', ''SIGURG''), (''MD_EXCEPTION_CODE_LIN_SIGXCPU'', ''SIGXCPU''),
     (''MD_EXCEPTION_CODE_LIN_SIGXFSZ'', ''SIGXFSZ''), (''MD_EXCEPTION_CODE_LIN_SIGVTALRM'', ''SIGVTALRM''),
     (''MD_EXCEPTION_CODE_LIN_SIGPROF'', ''SIGPROF''), (''MD_EXCEPTION_CODE_LIN_SIGWINCH'', ''SIGWINCH''),
     (''MD_EXCEPTION_CODE_LIN_SIGIO'', ''SIGIO''), (''MD_EXCEPTION_CODE_LIN_SIGPWR'', ''SIGPWR''),
     (''MD_EXCEPTION_CODE_LIN_SIGSYS'', ''SIGSYS''), (''MD_EXCEPTION_CODE_LIN_DUMP_REQUESTED'', ''DUMP_REQUESTED'')]"

definition solaris_cases :: "(string \<times> string) list" where
  "solaris_cases =
    [(''MD_EXCEPTION_CODE_SOL_SIGHUP'', ''SIGHUP''), (''MD_EXCEPTION_CODE_SOL_SIGINT'', ''SIGINT''),
     (''MD_EXCEPTION_CODE_SOL_SIGQUIT'', ''SIGQUIT''), (''MD_EXCEPTION_CODE_SOL_SIGILL'', ''SIGILL''),
     (''MD_EXCEPTION_CODE_SOL_SIGTRAP'', ''SIGTRAP''), (''MD_EXCEPTION_CODE_SOL_SIGIOT'', ''SIGIOT | SIGABRT''),
     (''MD_EXCEPTION_CODE_SOL_SIGEMT'', ''SIGEMT''), (''MD_EXCEPTION_CODE_SOL_SIGFPE'', ''SIGFPE''),
     (''MD_EXCEPTION_CODE_SOL_SIGKILL'', ''SIGKILL''), (''MD_EXCEPTION_CODE_SOL_SIGBUS'', ''SIGBUS''),
     (''MD_EXCEPTION_CODE_SOL_SIGSEGV'', ''SIGSEGV''), (''MD_EXCEPTION_CODE_SOL_SIGSYS'', ''SIGSYS''),
     (''MD_EXCEPTION_CODE_SOL_SIGPIPE'', ''SIGPIPE''), (''MD_EXCEPTION_CODE_SOL_SIGALRM'', ''SIGALRM''),
     (''MD_EXCEPTION_CODE_SOL_SIGTERM'', ''SIGTERM''), (''MD_EXCEPTION_CODE_SOL_SIGUSR1'', ''SIGUSR1''),
     (''MD_EXCEPTION_CODE_SOL_SIGUSR2'', ''SIGUSR2''), (''MD_EXCEPTION_CODE_SOL_SIGCLD'', ''SIGCLD | SIGCHLD''),
     (''MD_EXCEPTION_CODE_SOL_SIGPWR'', ''SIGPWR''), (''MD_EXCEPTION_CODE_SOL_SIGWINCH'', ''SIGWINCH''),
     (''MD_EXCEPTION_CODE_SOL_SIGURG'', ''SIGURG''), (''MD_EXCEPTION_CODE_SOL_SIGPOLL'', ''SIGPOLL | SIGIO''),
     (''MD_EXCEPTION_CODE_SOL_SIGSTOP'', ''SIGSTOP''), (''MD_EXCEPTION_CODE_SOL_SIGTSTP'', ''SIGTSTP''),
     (''MD_EXCEPTION_CODE_SOL_SIGCONT'', ''SIGCONT''), (''MD_EXCEPTION_CODE_SOL_SIGTTIN'', ''SIGTTIN''),
     (''MD_EXCEPTION_CODE_SOL_SIGTTOU'', ''SIGTTOU''), (''MD_EXCEPTION_CODE_SOL_SIGVTALRM'', ''SIGVTALRM''),
     (''MD_EXCEPTION_CODE_SOL_SIGPROF'', ''SIGPROF''), (''MD_EXCEPTION_CODE_SOL_SIGXCPU'', ''SIGXCPU''),
     (''MD_EXCEPTION_CODE_SOL_SIGXFSZ'', ''SIGXFSZ''), (''MD_EXCEPTION_CODE_SOL_SIGWAITING'', ''SIGWAITING''),
     (''MD_EXCEPTION_CODE_SOL_SIGLWP'', ''SIGLWP''), (''MD_EXCEPTION_CODE_SOL_SIGFREEZE'', ''SIGFREEZE''),
     (''MD_EXCEPTION_CODE_SOL_SIGTHAW'', ''SIGTHAW''), (''MD_EXCEPTION_CODE_SOL_SIGCANCEL'', ''SIGCANCEL''),
     (''MD_EXCEPTION_CODE_SOL_SIGLOST'', ''SIGLOST''), (''MD_EXCEPTION_CODE_SOL_SIGXRES'', ''SIGXRES''),
     (''MD_EXCEPTION_CODE_SOL_SIGJVM1'', ''SIGJVM1''), (''MD_EXCEPTION_CODE_SOL_SIGJVM2'', ''SIGJVM2'')]"

definition ps3_cases :: "(string \<times> string) list" where
  "ps3_cases =
    [(''MD_EXCEPTION_CODE_PS3_UNKNOWN'', ''UNKNOWN''), (''MD_EXCEPTION_CODE_PS3_TRAP_EXCEP'', ''TRAP_EXCEP''),
     (''MD_EXCEPTION_CODE_PS3_PRIV_INSTR'', ''PRIV_INSTR''),
     (''MD_EXCEPTION_CODE_PS3_ILLEGAL_INSTR'', ''ILLEGAL_INSTR''),
     (''MD_EXCEPTION_CODE_PS3_INSTR_STORAGE'', ''INSTR_STORAGE''),
     (''MD_EXCEPTION_CODE_PS3_INSTR_SEGMENT'', ''INSTR_SEGMENT''),
     (''MD_EXCEPTION_CODE_PS3_DATA_STORAGE'', ''DATA_STORAGE''),
     (''MD_EXCEPTION_CODE_PS3_DATA_SEGMENT'', ''DATA_SEGMENT''),
     (''MD_EXCEPTION_CODE_PS3_FLOAT_POINT'', ''FLOAT_POINT''),
     (''MD_EXCEPTION_CODE_PS3_DABR_MATCH'', ''DABR_MATCH''),
     (''MD_EXCEPTION_CODE_PS3_ALIGN_EXCEP'', ''ALIGN_EXCEP''),
     (''MD_EXCEPTION_CODE_PS3_MEMORY_ACCESS'', ''MEMORY_ACCESS''),
     (''MD_EXCEPTION_CODE_PS3_COPRO_ALIGN'', ''COPRO_ALIGN''),
     (''MD_EXCEPTION_CODE_PS3_COPRO_INVALID_COM'', ''COPRO_INVALID_COM''),
     (''MD_EXCEPTION_CODE_PS3_COPRO_ERR'', ''COPRO_ERR''), (''MD_EXCEPTION_CODE_PS3_COPRO_FIR'', ''COPRO_FIR''),
     (''MD_EXCEPTION_CODE_PS3_COPRO_DATA_SEGMENT'', ''COPRO_DATA_SEGMENT''),
     (''MD_EXCEPTION_CODE_PS3_COPRO_DATA_STORAGE'', ''COPRO_DATA_STORAGE''),
     (''MD_EXCEPTION_CODE_PS3_COPRO_STOP_INSTR'', ''COPRO_STOP_INSTR''),
     (''MD_EXCEPTION_CODE_PS3_COPRO_HALT_INSTR'', ''COPRO_HALT_INSTR''),
     (''MD_EXCEPTION_CODE_PS3_COPRO_HALTINST_UNKNOWN'', ''COPRO_HALTINSTR_UNKNOWN''),
     (''MD_EXCEPTION_CODE_PS3_COPRO_MEMORY_ACCESS'', ''COPRO_MEMORY_ACCESS''),
     (''MD_EXCEPTION_CODE_PS3_GRAPHIC'', ''GRAPHIC'')]"

section \<open>GetCrashReason\<close>

text \<open>
  \<open>exception\<close> is the minidump's exception stream and its raw data, \<open>raw\<close> its raw system
  info; \<open>address\<close> is what the pointer points to, if it is not null.
\<close>

definition default_reason :: "exception_record \<Rightarrow> string" where
  "default_reason er = snprintf 24 (hex_padded 8 (er_code er) @ '' / '' @ hex_padded 8 (er_flags er))"

definition platform_reason :: "md_constants \<Rightarrow> (32 word \<Rightarrow> string) \<Rightarrow> raw_system_info \<Rightarrow> exception_record \<Rightarrow> 64 word option
    \<Rightarrow> (string \<times> 64 word option) option" where
  "platform_reason md ntstatus raw er address =
     (let named = map_option (\<lambda>s. (s, address)); code = er_code er; platform_id = rs_platform_id raw in
      if is_one_of md [''MD_OS_MAC_OS_X'', ''MD_OS_IOS''] platform_id then named (mac_reason md raw code (er_flags er))
      else if is_one_of md [''MD_OS_WIN32_NT'', ''MD_OS_WIN32_WINDOWS''] platform_id then win_reason md ntstatus er address
      else if is_one_of md [''MD_OS_ANDROID'', ''MD_OS_LINUX''] platform_id then named (switch_case md linux_cases code)
      else if is_one_of md [''MD_OS_SOLARIS''] platform_id then named (switch_case md solaris_cases code)
      else if is_one_of md [''MD_OS_PS3''] platform_id then named (switch_case md ps3_cases code)
      else None)"

definition GetCrashReason :: "md_constants \<Rightarrow> (32 word \<Rightarrow> string) \<Rightarrow> exception_record option option \<Rightarrow> raw_system_info option
    \<Rightarrow> 64 word option \<Rightarrow> string \<times> 64 word option" where
  "GetCrashReason md ntstatus exception raw address = (case exception of
     None \<Rightarrow> ([], address)
   | Some None \<Rightarrow> ([], address)
   | Some (Some er) \<Rightarrow>
       let address1 = map_option (\<lambda>_. er_address er) address;
           reason = default_reason er
       in (case raw of
             None \<Rightarrow> (reason, address1)
           | Some r \<Rightarrow> (case platform_reason md ntstatus r er address1 of Some x \<Rightarrow> x | None \<Rightarrow> (reason, address1))))"

section \<open>The CPU\<close>

definition arm_vendors :: "(32 word \<times> string) list" where
  "arm_vendors =
    [(0x41, ''ARM''), (0x51, ''Qualcomm''), (0x56, ''Marvell''), (0x69, ''Intel/Marvell'')]"

definition arm_parts :: "(32 word \<times> string) list" where
  "arm_parts =
    [(0x4100c050, ''Cortex-A5''), (0x4100c080, ''Cortex-A8''), (0x4100c090, ''Cortex-A9''),
     (0x4100c0f0, ''Cortex-A15''), (0x4100c140, ''Cortex-R4''), (0x4100c150, ''Cortex-R5''),
     (0x4100b360, ''ARM1136''), (0x4100b560, ''ARM1156''), (0x4100b760, ''ARM1176''),
     (0x4100b020, ''ARM11-MPCore''), (0x41009260, ''ARM926''), (0x41009460, ''ARM946''),
     (0x41009660, ''ARM966''), (0x510006f0, ''Krait''), (0x510000f0, ''Scorpion'')]"

definition arm_features :: "(string \<times> string) list" where
  "arm_features =
    [(''MD_CPU_ARM_ELF_HWCAP_SWP'', ''swp''), (''MD_CPU_ARM_ELF_HWCAP_HALF'', ''half''),
     (''MD_CPU_ARM_ELF_HWCAP_THUMB'', ''thumb''), (''MD_CPU_ARM_ELF_HWCAP_26BIT'', ''26bit''),
     (''MD_CPU_ARM_ELF_HWCAP_FAST_MULT'', ''fastmult''), (''MD_CPU_ARM_ELF_HWCAP_FPA'', ''fpa''),
     (''MD_CPU_ARM_ELF_HWCAP_VFP'', ''vfpv2''), (''MD_CPU_ARM_ELF_HWCAP_EDSP'', ''edsp''),
     (''MD_CPU_ARM_ELF_HWCAP_JAVA'', ''java''), (''MD_CPU_ARM_ELF_HWCAP_IWMMXT'', ''iwmmxt''),
     (''MD_CPU_ARM_ELF_HWCAP_CRUNCH'', ''crunch''), (''MD_CPU_ARM_ELF_HWCAP_THUMBEE'', ''thumbee''),
     (''MD_CPU_ARM_ELF_HWCAP_NEON'', ''neon''), (''MD_CPU_ARM_ELF_HWCAP_VFPv3'', ''vfpv3''),
     (''MD_CPU_ARM_ELF_HWCAP_VFPv3D16'', ''vfpv3d16''), (''MD_CPU_ARM_ELF_HWCAP_TLS'', ''tls''),
     (''MD_CPU_ARM_ELF_HWCAP_VFPv4'', ''vfpv4''), (''MD_CPU_ARM_ELF_HWCAP_IDIVA'', ''idiva''),
     (''MD_CPU_ARM_ELF_HWCAP_IDIVT'', ''idivt'')]"

text \<open>The names of the features whose flag is set, with commas between them.\<close>

fun append_features :: "md_constants \<Rightarrow> 32 word \<Rightarrow> string \<Rightarrow> (string \<times> string) list \<Rightarrow> string" where
  "append_features md hwcaps comma [] = []"
| "append_features md hwcaps comma ((hwcap, name) # features) =
     (if and hwcaps (md hwcap) \<noteq> 0
      then comma @ name @ append_features md hwcaps '','' features
      else append_features md hwcaps comma features)"

definition GetARMCpuInfo :: "md_constants \<Rightarrow> raw_system_info \<Rightarrow> string \<Rightarrow> string" where
  "GetARMCpuInfo md raw cpu_info =
     (let level = snprintf 32 (''ARMv'' @ show_dec (ucast (rs_processor_level raw)));
          cpuid = rs_arm_cpuid raw;
          vendor_id = and (drop_bit 24 cpuid) 0xff;
          part_id = and cpuid 0xff00fff0;
          vendor = (case List.find (\<lambda>(i, name). i = vendor_id) arm_vendors of
                      Some (i, name) \<Rightarrow> name
                    | None \<Rightarrow> snprintf 32 (''vendor('' @ show_hex vendor_id @ '')''));
          part = (case List.find (\<lambda>(i, name). i = part_id) arm_parts of
                    Some (i, name) \<Rightarrow> name
                  | None \<Rightarrow> snprintf 32 (''part('' @ show_hex part_id @ '')''));
          hwcaps = rs_arm_elf_hwcaps raw
      in cpu_info @ level @ (if cpuid \<noteq> 0 then '' '' @ vendor @ '' '' @ part else []) @
         (if hwcaps \<noteq> 0 then '' features: '' @ append_features md hwcaps [] arm_features else []))"

text \<open>\<open>vendor\<close> is the result of \<open>GetCPUVendor\<close>.\<close>

definition GetCPUInfo :: "md_constants \<Rightarrow> raw_system_info option \<Rightarrow> string option \<Rightarrow> system_info \<Rightarrow> bool \<times> system_info" where
  "GetCPUInfo md raw_system_info cpu_vendor info =
     (let info0 = info\<lparr>si_cpu := [], si_cpu_info := []\<rparr> in
      case raw_system_info of
        None \<Rightarrow> (False, info0)
      | Some raw \<Rightarrow>
          let is = (\<lambda>label. architecture_is md [label] raw);
              info1 =
                (if is ''MD_CPU_ARCHITECTURE_X86'' \<or> is ''MD_CPU_ARCHITECTURE_AMD64''
                 then info0\<lparr>si_cpu := (if is ''MD_CPU_ARCHITECTURE_X86'' then ''x86'' else ''amd64''),
                   si_cpu_info := (case cpu_vendor of Some v \<Rightarrow> v @ '' '' | None \<Rightarrow> []) @
                     snprintf 36 (''family '' @ show_dec (ucast (rs_processor_level raw)) @
                       '' model '' @ show_dec (ucast (drop_bit 8 (rs_processor_revision raw))) @
                       '' stepping '' @ show_dec (ucast (and (rs_processor_revision raw) 0xff)))\<rparr>
                 else if is ''MD_CPU_ARCHITECTURE_PPC'' then info0\<lparr>si_cpu := ''ppc''\<rparr>
                 else if is ''MD_CPU_ARCHITECTURE_PPC64'' then info0\<lparr>si_cpu := ''ppc64''\<rparr>
                 else if is ''MD_CPU_ARCHITECTURE_SPARC'' then info0\<lparr>si_cpu := ''sparc''\<rparr>
                 else if is ''MD_CPU_ARCHITECTURE_ARM''
                 then info0\<lparr>si_cpu := ''arm'', si_cpu_info := GetARMCpuInfo md raw (si_cpu_info info0)\<rparr>
                 else if is ''MD_CPU_ARCHITECTURE_ARM64'' then info0\<lparr>si_cpu := ''arm64''\<rparr>
                 else if is ''MD_CPU_ARCHITECTURE_MIPS'' then info0\<lparr>si_cpu := ''mips''\<rparr>
                 else if is ''MD_CPU_ARCHITECTURE_MIPS64'' then info0\<lparr>si_cpu := ''mips64''\<rparr>
                 else info0\<lparr>si_cpu := snprintf 7 (hex_padded 4 (ucast (rs_processor_architecture raw)))\<rparr>)
          in (True, info1\<lparr>si_cpu_count := ucast (rs_number_of_processors raw)\<rparr>))"

section \<open>The operating system\<close>

definition os_names :: "(string \<times> string) list" where
  "os_names =
    [(''MD_OS_WIN32_NT'', ''Windows NT''), (''MD_OS_WIN32_WINDOWS'', ''Windows''), (''MD_OS_MAC_OS_X'', ''Mac OS X''),
     (''MD_OS_IOS'', ''iOS''), (''MD_OS_LINUX'', ''Linux''), (''MD_OS_SOLARIS'', ''Solaris''),
     (''MD_OS_ANDROID'', ''Android''), (''MD_OS_PS3'', ''PS3''), (''MD_OS_NACL'', ''NaCl'')]"

text \<open>\<open>os_short\<close> and \<open>csd_version\<close> are the results of \<open>GetOS\<close> and \<open>GetCSDVersion\<close>.\<close>

definition GetOSInfo :: "md_constants \<Rightarrow> raw_system_info option \<Rightarrow> string \<Rightarrow> string option \<Rightarrow> system_info \<Rightarrow> bool \<times> system_info" where
  "GetOSInfo md raw_system_info os_short csd_version info =
     (let info0 = info\<lparr>si_os := [], si_os_short := [], si_os_version := []\<rparr> in
      case raw_system_info of
        None \<Rightarrow> (False, info0)
      | Some raw \<Rightarrow>
          (True, info0\<lparr>si_os_short := os_short,
             si_os := (case switch_case md os_names (rs_platform_id raw) of
                         Some name \<Rightarrow> name
                       | None \<Rightarrow> snprintf 11 (hex_padded 8 (rs_platform_id raw))),
             si_os_version :=
               snprintf 33 (show_dec (rs_major_version raw) @ ''.'' @ show_dec (rs_minor_version raw) @ ''.'' @
                 show_dec (rs_build_number raw)) @
               (case csd_version of Some v \<Rightarrow> '' '' @ v | None \<Rightarrow> [])\<rparr>))"

section \<open>Process times and assertions\<close>

text \<open>The raw misc info: its flags and the time of creation.\<close>

definition GetProcessCreateTime :: "md_constants \<Rightarrow> (32 word \<times> 32 word) option option \<Rightarrow> bool \<times> 32 word" where
  "GetProcessCreateTime md misc_info = (case misc_info of
     None \<Rightarrow> (False, 0)
   | Some None \<Rightarrow> (False, 0)
   | Some (Some (flags1, process_create_time)) \<Rightarrow>
       if and flags1 (md ''MD_MISCINFO_FLAGS1_PROCESS_TIMES'') = 0 then (False, 0) else (True, process_create_time))"

record assertion_info =
  as_type :: "32 word"
  as_line :: "32 word"
  as_expression :: string
  as_function :: string
  as_file :: string

definition GetAssertion :: "md_constants \<Rightarrow> assertion_info option option \<Rightarrow> string" where
  "GetAssertion md assertion = (case assertion of
     None \<Rightarrow> []
   | Some None \<Rightarrow> []
   | Some (Some a) \<Rightarrow>
       (case switch_case md
           [(''MD_ASSERTION_INFO_TYPE_INVALID_PARAMETER'', ''Invalid parameter passed to library function''),
            (''MD_ASSERTION_INFO_TYPE_PURE_VIRTUAL_CALL'', ''Pure virtual function called'')] (as_type a) of
          Some s \<Rightarrow> s
        | None \<Rightarrow> ''Unknown assertion type '' @ snprintf 32 (hex_padded 8 (as_type a))) @
       (if as_expression a \<noteq> [] then '' '' @ as_expression a else []) @
       (if as_function a \<noteq> [] then '' in function '' @ as_function a else []) @
       (if as_file a \<noteq> [] then '', in file '' @ as_file a else []) @
       (if as_line a \<noteq> 0 then '' at line '' @ snprintf 32 (show_dec (as_line a)) else []))"

section \<open>Tables\<close>

lemma switch_case_hit:
  "distinct (List.map (\<lambda>c. md (fst c)) cases) \<Longrightarrow> (label, r) \<in> set cases \<Longrightarrow> switch_case md cases (md label) = Some r"
  by (induction cases) (auto simp: switch_case_def rev_image_eqI)

lemma switch_case_miss: "v \<notin> (\<lambda>c. md (fst c)) ` set cases \<Longrightarrow> switch_case md cases v = None"
  by (induction cases) (auto simp: switch_case_def)

lemma is_one_of_simps [simp]:
  "\<not> is_one_of md [] v" "is_one_of md (label # labels) v \<longleftrightarrow> md label = v \<or> is_one_of md labels v"
  by (auto simp: is_one_of_def)

lemma show_hex_length: "n < 16 ^ Suc k \<Longrightarrow> length (show_base 16 n) \<le> Suc k"
proof (induction k arbitrary: n)
  case (Suc k)
  show ?case
  proof (cases "n < 16")
    case False
    have "n div 16 < 16 ^ Suc k" using Suc.prems by (simp add: less_mult_imp_div_less mult.commute)
    with Suc.IH [of "n div 16"] False show ?thesis by (subst show_base.simps) simp
  qed (subst show_base.simps, simp)
qed (subst show_base.simps, simp)

lemma hex_padded_length: "length (hex_padded 8 w) = 10"
proof -
  have "int (unat w) < int (16 ^ Suc 7)" using uint_lt2p [of w] by simp
  then have "unat w < 16 ^ Suc 7" unfolding of_nat_less_iff .
  from show_hex_length [OF this] show ?thesis by (simp add: hex_padded_def pad_zeros_def)
qed

lemma snprintf_hex [simp]: "snprintf 11 (hex_padded 8 w) = hex_padded 8 w"
  using hex_padded_length [of w] by (simp add: snprintf_def)

lemma default_reason_full: "default_reason er = hex_padded 8 (er_code er) @ '' / '' @ hex_padded 8 (er_flags er)"
  using hex_padded_length [of "er_code er"] hex_padded_length [of "er_flags er"]
  by (simp add: default_reason_def snprintf_def)

lemma linux_names: "(label, name) \<in> set linux_cases \<Longrightarrow> label = ''MD_EXCEPTION_CODE_LIN_'' @ name"
proof -
  have "list_all (\<lambda>(label, name). label = ''MD_EXCEPTION_CODE_LIN_'' @ name) linux_cases" by code_simp
  then show "(label, name) \<in> set linux_cases \<Longrightarrow> label = ''MD_EXCEPTION_CODE_LIN_'' @ name"
    by (auto simp: list_all_iff)
qed

section \<open>Properties\<close>

text \<open>
  on Linux and Android every signal is given its own name, the one in the name of its
  constant, and any other code is printed, with the flags, as two padded hexadecimal
  numbers that are not cut by the buffer. The constants of a \<open>switch\<close> are assumed to
  differ, as the compiler requires.
\<close>

theorem linux_crash_reason:
  assumes "distinct (List.map (\<lambda>c. md (fst c)) linux_cases)"
    and "is_one_of md [''MD_OS_ANDROID'', ''MD_OS_LINUX''] (rs_platform_id raw)"
    and "\<not> is_one_of md [''MD_OS_MAC_OS_X'', ''MD_OS_IOS'', ''MD_OS_WIN32_NT'', ''MD_OS_WIN32_WINDOWS''] (rs_platform_id raw)"
    and "reason = fst (GetCrashReason md ntstatus (Some (Some er)) (Some raw) address)"
  shows "(\<forall>c \<in> set linux_cases. er_code er = md (fst c) \<longrightarrow> reason = snd c \<and> fst c = ''MD_EXCEPTION_CODE_LIN_'' @ reason)
    \<and> (er_code er \<notin> (\<lambda>c. md (fst c)) ` set linux_cases \<longrightarrow>
        reason = hex_padded 8 (er_code er) @ '' / '' @ hex_padded 8 (er_flags er) \<and> length reason = 23)"
proof -
  have r: "reason = (case switch_case md linux_cases (er_code er) of Some s \<Rightarrow> s | None \<Rightarrow> default_reason er)"
    using assms(2-4) by (auto simp: GetCrashReason_def platform_reason_def Let_def split: option.split)
  have "reason = snd c \<and> fst c = ''MD_EXCEPTION_CODE_LIN_'' @ reason"
    if "c \<in> set linux_cases" "er_code er = md (fst c)" for c
    using r that switch_case_hit [OF assms(1), of "fst c" "snd c"] linux_names [of "fst c" "snd c"] by simp
  moreover have "reason = default_reason er" if "er_code er \<notin> (\<lambda>c. md (fst c)) ` set linux_cases"
    using r switch_case_miss [OF that] by simp
  moreover have "length (default_reason er) = 23"
    unfolding default_reason_full by (simp add: hex_padded_length)
  ultimately show ?thesis unfolding default_reason_full [symmetric] by (intro conjI ballI impI) (blast, blast, blast, metis)
qed

text \<open>
  the address of a crash is the exception's address, except for the two Windows
  exceptions whose second parameter is the address of the access; no address is written
  when the caller wants none.
\<close>

theorem crash_address:
  "snd (GetCrashReason md ntstatus (Some (Some er)) (Some raw) address) = map_option (\<lambda>_.
    if \<not> is_one_of md [''MD_OS_MAC_OS_X'', ''MD_OS_IOS''] (rs_platform_id raw)
       \<and> is_one_of md [''MD_OS_WIN32_NT'', ''MD_OS_WIN32_WINDOWS''] (rs_platform_id raw)
       \<and> is_one_of md [''MD_EXCEPTION_CODE_WIN_ACCESS_VIOLATION'', ''MD_EXCEPTION_CODE_WIN_IN_PAGE_ERROR''] (er_code er)
       \<and> er_number_parameters er \<ge> 2
    then er_information er 1 else er_address er) address"
proof -
  let ?mac = "is_one_of md [''MD_OS_MAC_OS_X'', ''MD_OS_IOS''] (rs_platform_id raw)"
  let ?win = "is_one_of md [''MD_OS_WIN32_NT'', ''MD_OS_WIN32_WINDOWS''] (rs_platform_id raw)"
  consider "?mac" | "\<not> ?mac" "?win" | "\<not> ?mac" "\<not> ?win" by blast
  then show ?thesis
  proof cases
    case 1
    then show ?thesis
      by (auto simp: GetCrashReason_def platform_reason_def Let_def simp del: is_one_of_simps split: option.split)
  next
    case 2
    let ?av = "is_one_of md [''MD_EXCEPTION_CODE_WIN_ACCESS_VIOLATION'', ''MD_EXCEPTION_CODE_WIN_IN_PAGE_ERROR''] (er_code er)"
    have av: "snd (case win_reason md ntstatus er a of Some x \<Rightarrow> x | None \<Rightarrow> (s, a)) = (if ?av then win_address er a else a)"
      for a s
    proof (cases ?av)
      case True
      then show ?thesis by (auto simp: win_reason_def win_access_violation_def win_in_page_error_def)
    next
      case False
      then show ?thesis by (auto simp: win_reason_def split: option.split)
    qed
    from 2 have "snd (GetCrashReason md ntstatus (Some (Some er)) (Some raw) address) =
        (if ?av then win_address er (map_option (\<lambda>_. er_address er) address) else map_option (\<lambda>_. er_address er) address)"
      by (simp add: GetCrashReason_def platform_reason_def Let_def av del: is_one_of_simps)
    also have "\<dots> = map_option (\<lambda>_. if ?av \<and> er_number_parameters er \<ge> 2 then er_information er 1 else er_address er) address"
      by (cases address) (simp_all add: win_address_def del: is_one_of_simps)
    finally show ?thesis using 2 by (simp del: is_one_of_simps)
  next
    case 3
    then show ?thesis
      by (auto simp: GetCrashReason_def platform_reason_def Let_def simp del: is_one_of_simps split: option.split)
  qed
qed

text \<open>
  the case of the AltiVec assist among the PPC arithmetic exceptions of Mac OS X has no
  \<open>break\<close>: the flags are printed right after its name, as for an unknown code.
\<close>

theorem mac_altivec_fallthrough:
  assumes "distinct (List.map (\<lambda>c. md (fst c)) (ppc_arithmetic_cases md flags))"
    and "md ''MD_EXCEPTION_MAC_ARITHMETIC'' \<notin> {md ''MD_EXCEPTION_MAC_BAD_ACCESS'', md ''MD_EXCEPTION_MAC_BAD_INSTRUCTION''}"
    and "is_one_of md [''MD_OS_MAC_OS_X'', ''MD_OS_IOS''] (rs_platform_id raw)"
    and "architecture_is md [''MD_CPU_ARCHITECTURE_PPC''] raw"
    and "er_code er = md ''MD_EXCEPTION_MAC_ARITHMETIC''" "er_flags er = flags"
    and "flags = md ''MD_EXCEPTION_CODE_MAC_PPC_ALTIVEC_ASSIST''"
  shows "fst (GetCrashReason md ntstatus (Some (Some er)) (Some raw) address) =
    ''EXC_ARITHMETIC / EXC_PPC_ALTIVECASSIST'' @ hex_padded 8 flags"
proof -
  have "(''MD_EXCEPTION_CODE_MAC_PPC_ALTIVEC_ASSIST'', ''EXC_PPC_ALTIVECASSIST'' @ hex_padded 8 flags)
      \<in> set (ppc_arithmetic_cases md flags)" by (simp add: ppc_arithmetic_cases_def)
  from switch_case_hit [OF assms(1) this] assms(7)
  have "flags_or md (ppc_arithmetic_cases md flags) flags = ''EXC_PPC_ALTIVECASSIST'' @ hex_padded 8 flags"
    by (simp add: flags_or_def)
  then have "mac_arithmetic md raw flags = ''EXC_ARITHMETIC / EXC_PPC_ALTIVECASSIST'' @ hex_padded 8 flags"
    using assms(4) by (simp add: mac_arithmetic_def by_architecture_def)
  moreover have "mac_reason md raw (er_code er) flags = Some (mac_arithmetic md raw flags)"
    using assms(2,5) by (auto simp: mac_reason_def switch_case_def)
  ultimately show ?thesis
    using assms(3,6) by (auto simp: GetCrashReason_def platform_reason_def Let_def)
qed

section \<open>Examples\<close>

text \<open>Some values for the constants, different for the labels of each table.\<close>

definition some_md :: md_constants where
  "some_md label = word_of_int (foldl (\<lambda>h c. (h * 31 + of_char c) mod 65521) 0 label)"

definition some_raw :: "string \<Rightarrow> string \<Rightarrow> raw_system_info" where
  "some_raw os cpu = \<lparr>rs_processor_architecture = ucast (some_md cpu), rs_processor_level = 7, rs_processor_revision = 0,
     rs_number_of_processors = 4, rs_platform_id = some_md os, rs_major_version = 0, rs_minor_version = 0,
     rs_build_number = 0, rs_arm_cpuid = 0, rs_arm_elf_hwcaps = 0\<rparr>"

definition some_exception :: "32 word \<Rightarrow> 32 word \<Rightarrow> exception_record" where
  "some_exception code flags = \<lparr>er_code = code, er_flags = flags, er_address = 0x400, er_number_parameters = 0,
     er_information = (\<lambda>_. 0)\<rparr>"

theorem linux_crash_reason_witness:
  "fst (GetCrashReason some_md (\<lambda>_. []) (Some (Some (some_exception (some_md ''MD_EXCEPTION_CODE_LIN_SIGSEGV'') 0)))
     (Some (some_raw ''MD_OS_LINUX'' [])) None) = ''SIGSEGV''"
proof -
  have d: "distinct (List.map (\<lambda>c. some_md (fst c)) linux_cases)" by code_simp
  have p: "is_one_of some_md [''MD_OS_ANDROID'', ''MD_OS_LINUX''] (rs_platform_id (some_raw ''MD_OS_LINUX'' []))"
    by code_simp
  have q: "\<not> is_one_of some_md [''MD_OS_MAC_OS_X'', ''MD_OS_IOS'', ''MD_OS_WIN32_NT'', ''MD_OS_WIN32_WINDOWS'']
      (rs_platform_id (some_raw ''MD_OS_LINUX'' []))"
    by code_simp
  have m: "(''MD_EXCEPTION_CODE_LIN_SIGSEGV'', ''SIGSEGV'') \<in> set linux_cases" by (simp add: linux_cases_def)
  from bspec [OF conjunct1 [OF linux_crash_reason [OF d p q refl]] m] show ?thesis
    by (simp add: some_exception_def)
qed

theorem mac_altivec_fallthrough_witness:
  "\<exists>flags. fst (GetCrashReason some_md (\<lambda>_. []) (Some (Some (some_exception (some_md ''MD_EXCEPTION_MAC_ARITHMETIC'') flags)))
     (Some (some_raw ''MD_OS_MAC_OS_X'' ''MD_CPU_ARCHITECTURE_PPC'')) None) =
    ''EXC_ARITHMETIC / EXC_PPC_ALTIVECASSIST'' @ hex_padded 8 flags"
proof -
  define flags where "flags = some_md ''MD_EXCEPTION_CODE_MAC_PPC_ALTIVEC_ASSIST''"
  have d: "distinct (List.map (\<lambda>c. some_md (fst c)) (ppc_arithmetic_cases some_md 0))" by code_simp
  then have d': "distinct (List.map (\<lambda>c. some_md (fst c)) (ppc_arithmetic_cases some_md flags))"
    by (simp add: ppc_arithmetic_cases_def)
  have "some_md ''MD_EXCEPTION_MAC_ARITHMETIC'' \<noteq> some_md ''MD_EXCEPTION_MAC_BAD_ACCESS'' \<and>
      some_md ''MD_EXCEPTION_MAC_ARITHMETIC'' \<noteq> some_md ''MD_EXCEPTION_MAC_BAD_INSTRUCTION''" by code_simp
  then have n: "some_md ''MD_EXCEPTION_MAC_ARITHMETIC'' \<notin>
      {some_md ''MD_EXCEPTION_MAC_BAD_ACCESS'', some_md ''MD_EXCEPTION_MAC_BAD_INSTRUCTION''}" by blast
  let ?raw = "some_raw ''MD_OS_MAC_OS_X'' ''MD_CPU_ARCHITECTURE_PPC''"
  have o: "is_one_of some_md [''MD_OS_MAC_OS_X'', ''MD_OS_IOS''] (rs_platform_id ?raw)" by code_simp
  have c: "architecture_is some_md [''MD_CPU_ARCHITECTURE_PPC''] ?raw" by code_simp
  show ?thesis
    by (intro exI [of _ flags] mac_altivec_fallthrough [OF d' n o c]) (simp_all add: some_exception_def flags_def)
qed

end
