(* ===== verification/Processor.thy ===== *)
theory Processor
  imports Walk_Facts Crash_Reason
begin

text \<open>
  \<open>minidump_src/minidump_processor.cc\<close>, \<open>minidump_src/process_state.cc\<close>: a minidump is
  turned into the state of the process. The minidump is seen through the results of its
  accessors: every field of \<open>dump\<close> is what a call the processor makes gives, \<open>None\<close> for a
  null pointer or a failed call. The walk of a thread is an argument, since each CPU has
  its own walker and frames; \<open>StackwalkerForCPU\<close> chooses it.
\<close>

section \<open>The process state\<close>

datatype exploitability_rating = EXPLOITABILITY_HIGH | EXPLOITABILITY_INTERESTING
  | EXPLOITABILITY_NONE | EXPLOITABILITY_NOT_ANALYZED
  | EXPLOITABILITY_ERR_NOENGINE | EXPLOITABILITY_ERR_PROCESSING

datatype process_result = PROCESS_OK | PROCESS_ERROR_MINIDUMP_NOT_FOUND | PROCESS_ERROR_NO_MINIDUMP_HEADER
  | PROCESS_ERROR_NO_THREAD_LIST | PROCESS_ERROR_GETTING_THREAD | PROCESS_ERROR_GETTING_THREAD_ID
  | PROCESS_ERROR_DUPLICATE_REQUESTING_THREADS | PROCESS_SYMBOL_SUPPLIER_INTERRUPTED

record call_stack =
  cs_frames :: "stack_frame list"
  cs_tid :: "32 word"

record process_state =
  ps_time_date_stamp :: "32 word"
  ps_process_create_time :: "32 word"
  ps_crashed :: bool
  ps_crash_reason :: string
  ps_crash_address :: "64 word"
  ps_assertion :: string
  ps_requesting_thread :: int
  ps_threads :: "call_stack list"
  ps_thread_memory_regions :: "memory_region option list"
  ps_system_info :: system_info
  ps_modules :: "module_lookup option"
  ps_modules_without_symbols :: "codemodule list"
  ps_modules_with_corrupt_symbols :: "codemodule list"
  ps_exploitability :: exploitability_rating

text \<open>\<open>clear_info\<close> is \<open>SystemInfo::Clear\<close>.\<close>

definition process_state_Clear :: "(system_info \<Rightarrow> system_info) \<Rightarrow> process_state \<Rightarrow> process_state" where
  "process_state_Clear clear_info s = s\<lparr>ps_time_date_stamp := 0, ps_process_create_time := 0, ps_crashed := False,
     ps_crash_reason := [], ps_crash_address := 0, ps_assertion := [], ps_requesting_thread := -1, ps_threads := [],
     ps_system_info := clear_info (ps_system_info s), ps_modules_without_symbols := [],
     ps_modules_with_corrupt_symbols := [], ps_modules := None\<rparr>"

section \<open>The minidump\<close>

record 'ctx dump_thread =
  th_id :: "32 word option"
  th_context :: "'ctx option"
  th_memory :: "memory_region option"
  th_start_of_stack :: "64 word"

record 'ctx dump_exception =
  ex_thread_id :: "32 word option"
  ex_record :: "exception_record option"
  ex_context :: "'ctx option"

record breakpad_info =
  bi_dump_thread_id :: "32 word option"
  bi_requesting_thread_id :: "32 word option"

record 'ctx dump =
  dm_time_date_stamp :: "32 word option"
  dm_misc_info :: "(32 word \<times> 32 word) option option"
  dm_raw_system_info :: "raw_system_info option"
  dm_cpu_vendor :: "string option"
  dm_os :: string
  dm_csd_version :: "string option"
  dm_breakpad_info :: "breakpad_info option"
  dm_exception :: "'ctx dump_exception option"
  dm_assertion :: "assertion_info option option"
  dm_modules :: "module_lookup option"
  dm_memory_list :: "(64 word \<Rightarrow> memory_region option) option"
  dm_threads :: "'ctx dump_thread option list option"

type_synonym ('ctx, 'y) thread_walk =
  "cpu_walker \<Rightarrow> system_info \<Rightarrow> 'ctx \<Rightarrow> memory_region option \<Rightarrow> module_lookup option \<Rightarrow> codemodule list \<Rightarrow> codemodule list \<Rightarrow> 'y
    \<Rightarrow> run_error + (bool \<times> stack_frame list \<times> codemodule list \<times> codemodule list \<times> 'y)"

record ('ctx, 'y) processor_env =
  pe_md :: md_constants
  pe_ntstatus :: "32 word \<Rightarrow> string"
  pe_clear_info :: "system_info \<Rightarrow> system_info"
  pe_cpus :: context_cpus
  pe_GetContextCPU :: "'ctx \<Rightarrow> 32 word"
  pe_walk :: "('ctx, 'y) thread_walk"
  pe_Reset :: "'y \<Rightarrow> 'y"
  pe_enable_exploitability :: bool
  pe_CheckExploitability :: "'ctx dump \<Rightarrow> process_state \<Rightarrow> exploitability_rating option"

section \<open>The threads\<close>

text \<open>The loop's variables: the process state, the two flags and the symbolizer.\<close>

record 'y thread_state =
  ts_process_state :: process_state
  ts_interrupted :: bool
  ts_found_requesting_thread :: bool
  ts_symbolizer :: 'y

definition thread_memory :: "'ctx dump \<Rightarrow> 'ctx dump_thread \<Rightarrow> memory_region option" where
  "thread_memory d thread = (case th_memory thread of
     Some m \<Rightarrow> Some m
   | None \<Rightarrow>
       (case dm_memory_list d of
          None \<Rightarrow> None
        | Some GetMemoryRegionForAddress \<Rightarrow>
            if th_start_of_stack thread \<noteq> 0 then GetMemoryRegionForAddress (th_start_of_stack thread) else None))"

definition push_stack :: "32 word \<Rightarrow> memory_region option \<Rightarrow> stack_frame list \<Rightarrow> process_state \<Rightarrow> process_state" where
  "push_stack thread_id memory frames s =
     s\<lparr>ps_threads := ps_threads s @ [\<lparr>cs_frames = frames, cs_tid = thread_id\<rparr>],
       ps_thread_memory_regions := ps_thread_memory_regions s @ [memory]\<rparr>"

text \<open>One thread that is not the dump's own: the context, the memory, the walk and the new stack.\<close>

definition process_thread :: "('ctx, 'y) processor_env \<Rightarrow> 'ctx dump \<Rightarrow> 'ctx dump_thread \<Rightarrow> 32 word \<Rightarrow> bool \<Rightarrow> 'y thread_state
    \<Rightarrow> run_error + 'y thread_state" where
  "process_thread e d thread thread_id requesting ts =
     (let s = ts_process_state ts;
          s1 = (if requesting then s\<lparr>ps_requesting_thread := int (length (ps_threads s))\<rparr> else s);
          context =
            (if requesting \<and> ps_crashed s1
             then (case Option.bind (dm_exception d) ex_context of Some c \<Rightarrow> Some c | None \<Rightarrow> th_context thread)
             else th_context thread);
          memory = thread_memory d thread;
          ts1 = ts\<lparr>ts_process_state := s1, ts_found_requesting_thread := ts_found_requesting_thread ts \<or> requesting\<rparr>
      in case context of
           None \<Rightarrow> Inr (ts1\<lparr>ts_process_state := push_stack thread_id memory [] s1\<rparr>)
         | Some c \<Rightarrow>
             (case StackwalkerForCPU (pe_cpus e) (si_os_short (ps_system_info s1)) (Some (pe_GetContextCPU e c)) of
                None \<Rightarrow> Inr (ts1\<lparr>ts_process_state := push_stack thread_id memory [] s1\<rparr>)
              | Some walker \<Rightarrow>
                  ebind (pe_walk e walker (ps_system_info s1) c memory (ps_modules s1) (ps_modules_without_symbols s1)
                           (ps_modules_with_corrupt_symbols s1) (ts_symbolizer ts1))
                    (\<lambda>(completed, frames, without, corrupt, sy).
                      Inr (ts1\<lparr>ts_process_state := push_stack thread_id memory frames
                             (s1\<lparr>ps_modules_without_symbols := without, ps_modules_with_corrupt_symbols := corrupt\<rparr>),
                           ts_interrupted := ts_interrupted ts1 \<or> \<not> completed, ts_symbolizer := sy\<rparr>))))"

text \<open>\<open>dump_id\<close> and \<open>requesting_id\<close> are the thread's ids, if there are such threads.\<close>

fun process_threads :: "('ctx, 'y) processor_env \<Rightarrow> 'ctx dump \<Rightarrow> 32 word option \<Rightarrow> 32 word option \<Rightarrow> 'ctx dump_thread option list
    \<Rightarrow> 'y thread_state \<Rightarrow> run_error + (process_result option \<times> 'y thread_state)" where
  "process_threads e d dump_id requesting_id [] ts = Inr (None, ts)"
| "process_threads e d dump_id requesting_id (None # threads) ts = Inr (Some PROCESS_ERROR_GETTING_THREAD, ts)"
| "process_threads e d dump_id requesting_id (Some thread # threads) ts = (case th_id thread of
     None \<Rightarrow> Inr (Some PROCESS_ERROR_GETTING_THREAD_ID, ts)
   | Some thread_id \<Rightarrow>
       if dump_id = Some thread_id then process_threads e d dump_id requesting_id threads ts
       else
         let requesting = (requesting_id = Some thread_id) in
         if requesting \<and> ts_found_requesting_thread ts
         then Inr (Some PROCESS_ERROR_DUPLICATE_REQUESTING_THREADS, ts)
         else
           ebind (process_thread e d thread thread_id requesting ts)
             (\<lambda>ts'. process_threads e d dump_id requesting_id threads ts'))"

section \<open>Process\<close>

text \<open>What is read before the threads: the state after it and the requesting thread.\<close>

definition process_streams :: "('ctx, 'y) processor_env \<Rightarrow> 'ctx dump \<Rightarrow> 32 word \<Rightarrow> process_state
    \<Rightarrow> process_state \<times> 32 word option \<times> 32 word option" where
  "process_streams e d time_date_stamp s =
     (let md = pe_md e;
          create_time = snd (GetProcessCreateTime md (dm_misc_info d));
          info1 = snd (GetCPUInfo md (dm_raw_system_info d) (dm_cpu_vendor d) (ps_system_info s));
          info2 = snd (GetOSInfo md (dm_raw_system_info d) (dm_os d) (dm_csd_version d) info1);
          s1 = s\<lparr>ps_time_date_stamp := time_date_stamp, ps_process_create_time := create_time, ps_system_info := info2\<rparr>;
          dump_id = Option.bind (dm_breakpad_info d) bi_dump_thread_id;
          breakpad_requesting_id = Option.bind (dm_breakpad_info d) bi_requesting_thread_id;
          (s2, requesting_id) =
            (case dm_exception d of
               None \<Rightarrow> (s1, breakpad_requesting_id)
             | Some ex \<Rightarrow>
                 let (reason, address) = GetCrashReason md (pe_ntstatus e) (Some (ex_record ex)) (dm_raw_system_info d)
                                           (Some (ps_crash_address s1))
                 in (s1\<lparr>ps_crashed := True, ps_crash_reason := reason, ps_crash_address := the address\<rparr>, ex_thread_id ex));
          s3 = s2\<lparr>ps_assertion := GetAssertion md (dm_assertion d)\<rparr>;
          s4 = (case dm_modules d of Some modules \<Rightarrow> s3\<lparr>ps_modules := Some modules\<rparr> | None \<Rightarrow> s3)
      in (s4, dump_id, requesting_id))"

text \<open>What follows the threads.\<close>

definition finish_process :: "('ctx, 'y) processor_env \<Rightarrow> 'ctx dump \<Rightarrow> 32 word option \<Rightarrow> 'y thread_state
    \<Rightarrow> process_result \<times> process_state" where
  "finish_process e d requesting_id ts =
     (if ts_interrupted ts then (PROCESS_SYMBOL_SUPPLIER_INTERRUPTED, ts_process_state ts)
      else
        let s = ts_process_state ts;
            s1 = (if requesting_id \<noteq> None \<and> \<not> ts_found_requesting_thread ts then s\<lparr>ps_requesting_thread := -1\<rparr> else s);
            s2 = s1\<lparr>ps_exploitability := EXPLOITABILITY_NOT_ANALYZED\<rparr>;
            s3 =
              (if pe_enable_exploitability e
               then (case pe_CheckExploitability e d s2 of
                       Some rating \<Rightarrow> s2\<lparr>ps_exploitability := rating\<rparr>
                     | None \<Rightarrow> s2\<lparr>ps_exploitability := EXPLOITABILITY_ERR_NOENGINE\<rparr>)
               else s2)
        in (PROCESS_OK, s3))"

definition Process :: "('ctx, 'y) processor_env \<Rightarrow> 'ctx dump \<Rightarrow> process_state \<Rightarrow> 'y
    \<Rightarrow> run_error + (process_result \<times> process_state \<times> 'y)" where
  "Process e d process_state sy =
     (let s = process_state_Clear (pe_clear_info e) process_state in
      case dm_time_date_stamp d of
        None \<Rightarrow> Inr (PROCESS_ERROR_NO_MINIDUMP_HEADER, s, sy)
      | Some time_date_stamp \<Rightarrow>
          let (s1, dump_id, requesting_id) = process_streams e d time_date_stamp s in
          case dm_threads d of
            None \<Rightarrow> Inr (PROCESS_ERROR_NO_THREAD_LIST, s1, sy)
          | Some threads \<Rightarrow>
              ebind (process_threads e d dump_id requesting_id threads
                       \<lparr>ts_process_state = s1, ts_interrupted = False, ts_found_requesting_thread = False,
                        ts_symbolizer = pe_Reset e sy\<rparr>)
                (\<lambda>(error, ts). case error of
                   Some r \<Rightarrow> Inr (r, ts_process_state ts, ts_symbolizer ts)
                 | None \<Rightarrow> (case finish_process e d requesting_id ts of (r, s2) \<Rightarrow> Inr (r, s2, ts_symbolizer ts))))"

text \<open>The file's minidump, if it can be read.\<close>

definition Process_file :: "('ctx, 'y) processor_env \<Rightarrow> (string \<Rightarrow> 'ctx dump option) \<Rightarrow> string \<Rightarrow> process_state \<Rightarrow> 'y
    \<Rightarrow> run_error + (process_result \<times> process_state \<times> 'y)" where
  "Process_file e Read minidump_file process_state sy = (case Read minidump_file of
     None \<Rightarrow> Inr (PROCESS_ERROR_MINIDUMP_NOT_FOUND, process_state, sy)
   | Some d \<Rightarrow> Process e d process_state sy)"

section \<open>The loop over the threads\<close>

definition tids :: "process_state \<Rightarrow> 32 word list" where
  "tids s = List.map cs_tid (ps_threads s)"

lemma push_stack_simps [simp]:
  "tids (push_stack i m f s) = tids s @ [i]"
  "length (ps_threads (push_stack i m f s)) = Suc (length (ps_threads s))"
  "ps_thread_memory_regions (push_stack i m f s) = ps_thread_memory_regions s @ [m]"
  "ps_requesting_thread (push_stack i m f s) = ps_requesting_thread s"
  by (simp_all add: push_stack_def tids_def)

lemma tids_update [simp]:
  "tids (s\<lparr>ps_requesting_thread := r\<rparr>) = tids s"
  "tids (s\<lparr>ps_modules_without_symbols := w, ps_modules_with_corrupt_symbols := c\<rparr>) = tids s"
  "tids (s\<lparr>ps_exploitability := x\<rparr>) = tids s"
  by (simp_all add: tids_def)

lemma process_thread_pushes:
  assumes "process_thread e d thread i requesting ts = Inr ts'"
  shows "tids (ts_process_state ts') = tids (ts_process_state ts) @ [i]"
    "ps_thread_memory_regions (ts_process_state ts') = ps_thread_memory_regions (ts_process_state ts) @ [thread_memory d thread]"
    "ts_found_requesting_thread ts' = (ts_found_requesting_thread ts \<or> requesting)"
    "ps_requesting_thread (ts_process_state ts') =
      (if requesting then int (length (ps_threads (ts_process_state ts))) else ps_requesting_thread (ts_process_state ts))"
  using assms
  by (auto simp: process_thread_def Let_def split: option.splits prod.splits if_splits)

text \<open>The index of the requesting thread is the place of its stack.\<close>

definition requesting_ok :: "32 word option \<Rightarrow> bool \<Rightarrow> process_state \<Rightarrow> bool" where
  "requesting_ok requesting_id found s \<longleftrightarrow>
     (if found then \<exists>i k. requesting_id = Some i \<and> k < length (tids s) \<and> tids s ! k = i \<and> ps_requesting_thread s = int k
      else ps_requesting_thread s = -1 \<and> (\<forall>i. requesting_id = Some i \<longrightarrow> i \<notin> set (tids s)))"

lemma process_thread_requesting:
  assumes "process_thread e d thread i (requesting_id = Some i) ts = Inr ts'"
    and "requesting_ok requesting_id (ts_found_requesting_thread ts) (ts_process_state ts)"
    and "requesting_id = Some i \<Longrightarrow> \<not> ts_found_requesting_thread ts"
  shows "requesting_ok requesting_id (ts_found_requesting_thread ts') (ts_process_state ts')"
proof (cases "requesting_id = Some i")
  case True
  with assms(3) show ?thesis
    unfolding requesting_ok_def process_thread_pushes [OF assms(1)]
    by (auto simp: tids_def nth_append intro!: exI [of _ "length (ps_threads (ts_process_state ts))"])
next
  case False
  show ?thesis
  proof (cases "ts_found_requesting_thread ts")
    case True
    with assms(2) obtain j k where "requesting_id = Some j" "k < length (tids (ts_process_state ts))"
      "tids (ts_process_state ts) ! k = j" "ps_requesting_thread (ts_process_state ts) = int k"
      by (auto simp: requesting_ok_def)
    with False True show ?thesis
      unfolding requesting_ok_def process_thread_pushes [OF assms(1)]
      by (auto simp: nth_append intro!: exI [of _ k])
  next
    case not_found: False
    with assms(2) False show ?thesis
      unfolding requesting_ok_def process_thread_pushes [OF assms(1)] by auto
  qed
qed

text \<open>The ids of the threads that are not the dump's own, in order.\<close>

definition walked_ids :: "32 word option \<Rightarrow> 'ctx dump_thread option list \<Rightarrow> 32 word list" where
  "walked_ids dump_id threads = filter (\<lambda>i. dump_id \<noteq> Some i) (List.map (\<lambda>t. the (th_id (the t))) threads)"

lemma process_threads_pushes:
  assumes "process_threads e d dump_id requesting_id threads ts = Inr (None, ts')"
    and "requesting_ok requesting_id (ts_found_requesting_thread ts) (ts_process_state ts)"
  shows "tids (ts_process_state ts') = tids (ts_process_state ts) @ walked_ids dump_id threads
    \<and> (\<exists>new. ps_thread_memory_regions (ts_process_state ts') = ps_thread_memory_regions (ts_process_state ts) @ new
        \<and> length new = length (walked_ids dump_id threads))
    \<and> requesting_ok requesting_id (ts_found_requesting_thread ts') (ts_process_state ts')
    \<and> (\<forall>t \<in> set threads. \<exists>th i. t = Some th \<and> th_id th = Some i)"
  using assms
proof (induction threads arbitrary: ts)
  case (Cons t threads)
  from Cons.prems(1) obtain th i where t: "t = Some th" "th_id th = Some i"
    by (cases t) (auto split: option.splits)
  show ?case
  proof (cases "dump_id = Some i")
    case True
    with Cons.IH [of ts] Cons.prems t show ?thesis by (auto simp: walked_ids_def)
  next
    case False
    with Cons.prems(1) t obtain ts1 where p: "process_thread e d th i (requesting_id = Some i) ts = Inr ts1"
      and r: "process_threads e d dump_id requesting_id threads ts1 = Inr (None, ts')"
      and n: "requesting_id = Some i \<Longrightarrow> \<not> ts_found_requesting_thread ts"
      by (auto simp: Let_def split: if_splits)
    from Cons.IH [OF r process_thread_requesting [OF p Cons.prems(2) n]] False t show ?thesis
      by (auto simp: walked_ids_def process_thread_pushes [OF p])
  qed
qed (simp add: walked_ids_def)

section \<open>The whole\<close>

definition dump_id_of :: "'ctx dump \<Rightarrow> 32 word option" where
  "dump_id_of d = Option.bind (dm_breakpad_info d) bi_dump_thread_id"

definition requesting_id_of :: "'ctx dump \<Rightarrow> 32 word option" where
  "requesting_id_of d = (case dm_exception d of
     None \<Rightarrow> Option.bind (dm_breakpad_info d) bi_requesting_thread_id | Some ex \<Rightarrow> ex_thread_id ex)"

lemma process_streams_keeps:
  assumes "process_streams e d t s = (s', dump_id, requesting_id)"
  shows "dump_id = dump_id_of d" "requesting_id = requesting_id_of d" "tids s' = tids s"
    "ps_thread_memory_regions s' = ps_thread_memory_regions s" "ps_requesting_thread s' = ps_requesting_thread s"
  using assms
  by (auto simp: process_streams_def Let_def dump_id_of_def requesting_id_of_def tids_def split: option.splits prod.splits)

lemma finish_process_keeps:
  assumes "finish_process e d requesting_id ts = (PROCESS_OK, s)"
    and "requesting_ok requesting_id (ts_found_requesting_thread ts) (ts_process_state ts)"
  shows "tids s = tids (ts_process_state ts)" "ps_thread_memory_regions s = ps_thread_memory_regions (ts_process_state ts)"
    "requesting_ok requesting_id (ts_found_requesting_thread ts) s"
  using assms
  by (auto simp: finish_process_def Let_def requesting_ok_def split: if_splits option.splits)

lemma process_threads_error:
  "process_threads e d a b threads ts = Inr (Some r, ts') \<Longrightarrow> r \<noteq> PROCESS_OK"
proof (induction threads arbitrary: ts)
  case (Cons t threads)
  show ?case
  proof (cases t)
    case (Some th)
    with Cons show ?thesis by (cases "th_id th") (auto simp: Let_def split: if_splits)
  qed (use Cons in auto)
qed simp

lemma Process_ok:
  assumes "Process e d st sy = Inr (PROCESS_OK, st', sy')"
  obtains threads found where "dm_threads d = Some threads"
    "tids st' = walked_ids (dump_id_of d) threads"
    "\<exists>new. ps_thread_memory_regions st' = ps_thread_memory_regions st @ new \<and> length new = length (ps_threads st')"
    "requesting_ok (requesting_id_of d) found st'"
    "\<forall>t \<in> set threads. \<exists>th i. t = Some th \<and> th_id th = Some i"
proof -
  let ?s = "process_state_Clear (pe_clear_info e) st"
  obtain time where time: "dm_time_date_stamp d = Some time" using assms
    by (cases "dm_time_date_stamp d") (auto simp: Process_def Let_def)
  obtain s1 a b where s1: "process_streams e d time ?s = (s1, a, b)" by (metis prod_cases3)
  note k = process_streams_keeps [OF s1]
  from assms time s1 obtain threads where th: "dm_threads d = Some threads"
    by (cases "dm_threads d") (auto simp: Process_def Let_def)
  define ts0 where "ts0 = \<lparr>ts_process_state = s1, ts_interrupted = False, ts_found_requesting_thread = False,
    ts_symbolizer = pe_Reset e sy\<rparr>"
  let ?last = "\<lambda>error ts. case error of Some r \<Rightarrow> Inr (r, ts_process_state ts, ts_symbolizer ts)
       | None \<Rightarrow> (case finish_process e d b ts of (r, s2) \<Rightarrow> Inr (r, s2, ts_symbolizer ts))"
  have "Process e d st sy = ebind (process_threads e d a b threads ts0) (\<lambda>(error, ts). ?last error ts)"
    by (simp add: Process_def time s1 th ts0_def Let_def)
  from trans [OF sym [OF this] assms] obtain x where x: "process_threads e d a b threads ts0 = Inr x"
    "(case x of (error, ts) \<Rightarrow> ?last error ts) = (Inr (PROCESS_OK, st', sy') :: run_error + _)"
    by (rule ebind_InrE)
  obtain error ts where "x = (error, ts)" by fastforce
  with x have ts: "process_threads e d a b threads ts0 = Inr (error, ts)"
    and r: "?last error ts = (Inr (PROCESS_OK, st', sy') :: run_error + _)" by simp_all
  have "error \<noteq> Some PROCESS_OK" using ts process_threads_error by metis
  with r have e0: "error = None" and f: "finish_process e d b ts = (PROCESS_OK, st')"
    by (auto split: option.splits prod.splits)
  have ok0: "requesting_ok b (ts_found_requesting_thread ts0) (ts_process_state ts0)"
    using k by (simp add: requesting_ok_def ts0_def process_state_Clear_def tids_def)
  note p = process_threads_pushes [OF ts [unfolded e0] ok0]
  note q = finish_process_keeps [OF f conjunct1 [OF conjunct2 [OF conjunct2 [OF p]]]]
  have t0: "tids s1 = []" "ps_thread_memory_regions s1 = ps_thread_memory_regions st"
    using k by (simp_all add: tids_def process_state_Clear_def)
  have tids: "tids st' = walked_ids (dump_id_of d) threads" using p q(1) k(1) t0 by (simp add: ts0_def)
  from arg_cong [OF this, of length] have "length (ps_threads st') = length (walked_ids a threads)"
    by (simp add: tids_def k(1))
  with p q(2,3) k(2) t0(2) th tids that show ?thesis by (auto simp: ts0_def)
qed

section \<open>Properties\<close>

text \<open>
  C1: a successful processing gives one stack for every thread of the dump but the one
  that wrote it, in the order of the dump, and the index of the requesting thread is that
  of its stack, or -1 if there is none.
\<close>

theorem Process_threads:
  assumes "Process e d st sy = Inr (PROCESS_OK, st', sy')"
  shows "\<exists>threads ids. dm_threads d = Some threads \<and> List.map (\<lambda>t. Option.bind t th_id) threads = List.map Some ids
    \<and> List.map cs_tid (ps_threads st') = filter (\<lambda>i. dump_id_of d \<noteq> Some i) ids
    \<and> ((\<exists>i k. requesting_id_of d = Some i \<and> k < length (ps_threads st') \<and> cs_tid (ps_threads st' ! k) = i
           \<and> ps_requesting_thread st' = int k)
       \<or> ps_requesting_thread st' = -1 \<and> requesting_id_of d \<notin> Some ` cs_tid ` set (ps_threads st'))"
  using assms
proof (rule Process_ok)
  fix threads found
  assume th: "dm_threads d = Some threads" and w: "tids st' = walked_ids (dump_id_of d) threads"
    and r: "requesting_ok (requesting_id_of d) found st'"
    and all: "\<forall>t \<in> set threads. \<exists>th i. t = Some th \<and> th_id th = Some i"
  have "List.map (\<lambda>t. Option.bind t th_id) threads = List.map Some (List.map (\<lambda>t. the (th_id (the t))) threads)"
    using all by fastforce
  moreover have "List.map cs_tid (ps_threads st') = filter (\<lambda>i. dump_id_of d \<noteq> Some i) (List.map (\<lambda>t. the (th_id (the t))) threads)"
    using w by (simp add: tids_def walked_ids_def)
  moreover have "(\<exists>i k. requesting_id_of d = Some i \<and> k < length (ps_threads st') \<and> cs_tid (ps_threads st' ! k) = i
           \<and> ps_requesting_thread st' = int k)
       \<or> ps_requesting_thread st' = -1 \<and> requesting_id_of d \<notin> Some ` cs_tid ` set (ps_threads st')"
    using r by (cases found) (auto simp: requesting_ok_def tids_def)
  ultimately show ?thesis using th by blast
qed

text \<open>
  \<open>Clear\<close> forgets the memory regions of the threads: a state that is processed into a
  second time keeps those of the first dump, in front of the new ones, while its stacks are
  only the new ones. A region then no longer has the index of its thread.
\<close>

theorem Process_keeps_old_regions:
  assumes "Process e d st sy = Inr (PROCESS_OK, st', sy')"
  shows "\<exists>new. ps_thread_memory_regions st' = ps_thread_memory_regions st @ new \<and> length new = length (ps_threads st')"
  using assms by (rule Process_ok)

section \<open>An example\<close>

definition example_env :: "(unit, unit) processor_env" where
  "example_env = \<lparr>pe_md = (\<lambda>_. 1), pe_ntstatus = (\<lambda>_. []), pe_clear_info = (\<lambda>i. i\<lparr>si_cpu_count := 0\<rparr>),
     pe_cpus = \<lparr>MD_CONTEXT_X86 = 1, MD_CONTEXT_PPC = 2, MD_CONTEXT_PPC64 = 3, MD_CONTEXT_AMD64 = 4, MD_CONTEXT_SPARC = 5,
       MD_CONTEXT_MIPS = 6, MD_CONTEXT_MIPS64 = 7, MD_CONTEXT_ARM = 8, MD_CONTEXT_ARM64 = 9, MD_CONTEXT_ARM_REG_IOS_FP = 7\<rparr>,
     pe_GetContextCPU = (\<lambda>_. 4), pe_walk = (\<lambda>_ _ _ _ _ w c y. Inr (True, [], w, c, y)), pe_Reset = id,
     pe_enable_exploitability = False, pe_CheckExploitability = (\<lambda>_ _. None)\<rparr>"

definition example_thread :: "32 word \<Rightarrow> unit dump_thread option" where
  "example_thread i = Some \<lparr>th_id = Some i, th_context = Some (), th_memory = None, th_start_of_stack = 0\<rparr>"

definition example_dump :: "unit dump" where
  "example_dump = \<lparr>dm_time_date_stamp = Some 0, dm_misc_info = None, dm_raw_system_info = None, dm_cpu_vendor = None,
     dm_os = [], dm_csd_version = None,
     dm_breakpad_info = Some \<lparr>bi_dump_thread_id = Some 7, bi_requesting_thread_id = Some 9\<rparr>,
     dm_exception = None, dm_assertion = None, dm_modules = None, dm_memory_list = None,
     dm_threads = Some [example_thread 7, example_thread 8, example_thread 9]\<rparr>"

definition example_state :: process_state where
  "example_state = \<lparr>ps_time_date_stamp = 0, ps_process_create_time = 0, ps_crashed = False, ps_crash_reason = [],
     ps_crash_address = 0, ps_assertion = [], ps_requesting_thread = -1, ps_threads = [],
     ps_thread_memory_regions = [None], ps_system_info = \<lparr>si_os = [], si_os_short = [], si_os_version = [], si_cpu = [],
       si_cpu_info = [], si_cpu_count = 0\<rparr>, ps_modules = None, ps_modules_without_symbols = [],
     ps_modules_with_corrupt_symbols = [], ps_exploitability = EXPLOITABILITY_NOT_ANALYZED\<rparr>"

definition example_run :: "run_error + (process_result \<times> process_state \<times> unit)" where
  "example_run = Process example_env example_dump example_state ()"

lemma example_run_ok:
  "\<exists>x. example_run = Inr (PROCESS_OK, x) \<and>
    (List.map cs_tid (ps_threads (fst x)), ps_requesting_thread (fst x), length (ps_thread_memory_regions (fst x))) = ([8, 9], 1, 3)"
proof -
  have "map_sum id (\<lambda>(r, x). (r, List.map cs_tid (ps_threads (fst x)), ps_requesting_thread (fst x),
      length (ps_thread_memory_regions (fst x)))) example_run = Inr (PROCESS_OK, [8, 9], 1, 3)" by code_simp
  from map_sum_pair_Inr [OF this] show ?thesis .
qed

theorem Process_threads_witness:
  "\<exists>x. example_run = Inr (PROCESS_OK, x) \<and> ps_requesting_thread (fst x) = 1
    \<and> cs_tid (ps_threads (fst x) ! 1) = 9"
proof -
  obtain x where x: "example_run = Inr (PROCESS_OK, x)" "List.map cs_tid (ps_threads (fst x)) = [8, 9]"
    "ps_requesting_thread (fst x) = 1"
    using example_run_ok by auto
  from Process_threads [of example_env example_dump example_state "()" "fst x" "snd x"] x(1)
  have "\<exists>k. cs_tid (ps_threads (fst x) ! k) = 9 \<and> ps_requesting_thread (fst x) = int k"
    using x(2,3) by (auto simp: example_run_def requesting_id_of_def example_dump_def)
  then have "cs_tid (ps_threads (fst x) ! 1) = 9" using x(3) by auto
  with x show ?thesis by blast
qed

theorem Process_keeps_old_regions_witness:
  "\<exists>x. example_run = Inr (PROCESS_OK, x) \<and> length (ps_thread_memory_regions (fst x)) = Suc (length (ps_threads (fst x)))"
proof -
  obtain x where x: "example_run = Inr (PROCESS_OK, x)" using example_run_ok by auto
  then have "Process example_env example_dump example_state () = Inr (PROCESS_OK, fst x, snd x)"
    by (cases x) (simp add: example_run_def)
  from Process_keeps_old_regions [OF this] obtain new
    where new: "ps_thread_memory_regions (fst x) = ps_thread_memory_regions example_state @ new" "length new = length (ps_threads (fst x))"
    by (elim exE conjE)
  have "length (ps_thread_memory_regions (fst x)) = Suc (length (ps_threads (fst x)))"
    unfolding new(1) by (simp add: example_state_def new(2))
  with x show ?thesis by blast
qed

end
