(* ===== verification/Minidump_Bytes.thy ===== *)
theory Minidump_Bytes
  imports Prelude
begin

text \<open>
  The conversions at the head of \<open>minidump_src/minidump.cc\<close>: the swapping of values of a
  dump of the other byte order, and of its UTF-16 strings into UTF-8. A string is the list of
  its bytes or of its 16-bit units.
\<close>

unbundle bit_operations_syntax

section \<open>Swapping\<close>

definition Swap8 :: "8 word \<Rightarrow> 8 word" where
  "Swap8 value = value"

definition Swap16 :: "16 word \<Rightarrow> 16 word" where
  "Swap16 value = drop_bit 8 value OR push_bit 8 value"

definition Swap32 :: "32 word \<Rightarrow> 32 word" where
  "Swap32 value = drop_bit 24 value OR (drop_bit 8 value AND 0x0000ff00) OR
     (push_bit 8 value AND 0x00ff0000) OR push_bit 24 value"

text \<open>The two halves are swapped in place and exchanged; the result does not depend on the
  half the host keeps first.\<close>

definition Swap64 :: "64 word \<Rightarrow> 64 word" where
  "Swap64 value =
     (let value32_0 = ucast value :: 32 word; value32_1 = ucast (drop_bit 32 value) :: 32 word;
          temp = Swap32 value32_0; value32_0 = Swap32 value32_1; value32_1 = temp
      in push_bit 32 (ucast value32_1) OR ucast value32_0)"

record uint128_struct =
  u_high :: "64 word"
  u_low :: "64 word"

definition Normalize128 :: "uint128_struct \<Rightarrow> bool \<Rightarrow> uint128_struct" where
  "Normalize128 value is_big_endian =
     (if \<not> is_big_endian then value\<lparr>u_low := u_high value, u_high := u_low value\<rparr> else value)"

definition Swap128 :: "uint128_struct \<Rightarrow> uint128_struct" where
  "Swap128 value = value\<lparr>u_low := Swap64 (u_low value), u_high := Swap64 (u_high value)\<rparr>"

text \<open>The signed overload swaps the unsigned value.\<close>

definition Swap_int32 :: "32 word \<Rightarrow> 32 word" where
  "Swap_int32 value = Swap32 value"

record location_descriptor =
  ld_data_size :: "32 word"
  ld_rva :: "32 word"

record memory_descriptor =
  dd_start_of_memory_range :: "64 word"
  dd_memory :: location_descriptor

record md_guid =
  g_data1 :: "32 word"
  g_data2 :: "16 word"
  g_data3 :: "16 word"
  g_data4 :: "8 word list"

record md_system_time =
  st_year :: "16 word"
  st_month :: "16 word"
  st_day_of_week :: "16 word"
  st_day :: "16 word"
  st_hour :: "16 word"
  st_minute :: "16 word"
  st_second :: "16 word"
  st_milliseconds :: "16 word"

record md_time_zone =
  tz_bias :: "32 word"
  tz_standard_name :: "16 word list"
  tz_standard_date :: md_system_time
  tz_standard_bias :: "32 word"
  tz_daylight_name :: "16 word list"
  tz_daylight_date :: md_system_time
  tz_daylight_bias :: "32 word"

definition Swap_location :: "location_descriptor \<Rightarrow> location_descriptor" where
  "Swap_location l = l\<lparr>ld_data_size := Swap32 (ld_data_size l), ld_rva := Swap32 (ld_rva l)\<rparr>"

definition Swap_memory :: "memory_descriptor \<Rightarrow> memory_descriptor" where
  "Swap_memory d = d\<lparr>dd_start_of_memory_range := Swap64 (dd_start_of_memory_range d),
     dd_memory := Swap_location (dd_memory d)\<rparr>"

definition Swap_guid :: "md_guid \<Rightarrow> md_guid" where
  "Swap_guid g = g\<lparr>g_data1 := Swap32 (g_data1 g), g_data2 := Swap16 (g_data2 g), g_data3 := Swap16 (g_data3 g)\<rparr>"

definition Swap_system_time :: "md_system_time \<Rightarrow> md_system_time" where
  "Swap_system_time t = t\<lparr>st_year := Swap16 (st_year t), st_month := Swap16 (st_month t),
     st_day_of_week := Swap16 (st_day_of_week t), st_day := Swap16 (st_day t), st_hour := Swap16 (st_hour t),
     st_minute := Swap16 (st_minute t), st_second := Swap16 (st_second t), st_milliseconds := Swap16 (st_milliseconds t)\<rparr>"

definition Swap_time_zone :: "md_time_zone \<Rightarrow> md_time_zone" where
  "Swap_time_zone t = t\<lparr>tz_bias := Swap_int32 (tz_bias t), tz_standard_date := Swap_system_time (tz_standard_date t),
     tz_standard_bias := Swap_int32 (tz_standard_bias t), tz_daylight_date := Swap_system_time (tz_daylight_date t),
     tz_daylight_bias := Swap_int32 (tz_daylight_bias t)\<rparr>"

text \<open>An array of 16-bit units given with its size in bytes; the list is the array, at least
  as long as that.\<close>

definition Swap_array :: "16 word list \<Rightarrow> nat \<Rightarrow> 16 word list" where
  "Swap_array data size_in_bytes =
     (let data_length = size_in_bytes div 2 in map Swap16 (take data_length data) @ drop data_length data)"

section \<open>Strings\<close>

text \<open>The bytes of a code point; \<open>None\<close> for one that four bytes cannot hold.\<close>

definition utf8_bytes :: "32 word \<Rightarrow> 8 word list option" where
  "utf8_bytes unichar =
     (let b = (\<lambda>n. ucast (drop_bit n unichar AND 0x3f) :: 8 word) in
      if unichar < 0x80 then Some [ucast unichar]
      else if unichar < 0x800 then Some [0xc0 OR ucast (drop_bit 6 unichar), 0x80 OR b 0]
      else if unichar < 0x10000 then Some [0xe0 OR ucast (drop_bit 12 unichar), 0x80 OR b 6, 0x80 OR b 0]
      else if unichar < 0x200000 then
        Some [0xf0 OR ucast (drop_bit 18 unichar), 0x80 OR b 12, 0x80 OR b 6, 0x80 OR b 0]
      else None)"

fun UTF16ToUTF8 :: "16 word list \<Rightarrow> bool \<Rightarrow> 8 word list option" where
  "UTF16ToUTF8 [] swap = Some []"
| "UTF16ToUTF8 (w # ws) swap =
     (let in_word = (if swap then Swap16 w else w) in
      if 0xdc00 \<le> in_word \<and> in_word \<le> 0xdcff then None
      else if 0xd800 \<le> in_word \<and> in_word \<le> 0xdbff then
        (case ws of
           [] \<Rightarrow> None
         | low # rest \<Rightarrow>
             if low < 0xdc00 \<or> low > 0xdcff then None
             else let unichar = push_bit 10 (ucast in_word - 0xd7c0) OR (ucast low AND 0x03ff) :: 32 word in
               (case utf8_bytes unichar of
                  None \<Rightarrow> None
                | Some bytes \<Rightarrow> map_option (append bytes) (UTF16ToUTF8 rest swap)))
      else (case utf8_bytes (ucast in_word) of
              None \<Rightarrow> None
            | Some bytes \<Rightarrow> map_option (append bytes) (UTF16ToUTF8 ws swap)))"

text \<open>The units before the terminating null, at most \<open>maxlen\<close>; \<open>None\<close> is a read past the
  end of the array.\<close>

fun UTF16codeunits :: "16 word list \<Rightarrow> nat \<Rightarrow> nat option" where
  "UTF16codeunits s 0 = Some 0"
| "UTF16codeunits [] (Suc maxlen) = None"
| "UTF16codeunits (c # s) (Suc maxlen) = (if c \<noteq> 0 then map_option Suc (UTF16codeunits s maxlen) else Some 0)"

definition ConvertUTF16BufferToUTF8String :: "16 word list \<Rightarrow> nat \<Rightarrow> bool \<Rightarrow> 8 word list \<Rightarrow> 8 word list option" where
  "ConvertUTF16BufferToUTF8String utf16_data max_length_in_bytes swap utf8_result =
     map_option (\<lambda>word_length.
       if 0 < word_length
       then (case UTF16ToUTF8 (take word_length utf16_data) swap of Some s \<Rightarrow> s | None \<Rightarrow> utf8_result)
       else []) (UTF16codeunits utf16_data (max_length_in_bytes div 2))"

definition IsContextSizeUnique :: "32 word list \<Rightarrow> 32 word \<Rightarrow> bool" where
  "IsContextSizeUnique context_sizes context_size = (length (filter (\<lambda>s. context_size = s) context_sizes) = 1)"

section \<open>What the swaps do\<close>

text \<open>The \<open>n\<close> lowest bytes of a value, the least significant first.\<close>

definition bytes_of :: "nat \<Rightarrow> 'a::len word \<Rightarrow> 8 word list" where
  "bytes_of n w = map (\<lambda>i. ucast (drop_bit (8 * i) w)) [0..<n]"

lemma Swap16_bytes: "bytes_of 2 (Swap16 w) = rev (bytes_of 2 w)"
proof -
  have "bytes_of 2 v = [ucast v, ucast (drop_bit 8 v)]" for v :: "16 word"
    by (simp add: bytes_of_def upt_rec numeral_2_eq_2)
  then show ?thesis
    by (auto simp: Swap16_def intro!: bit_word_eqI simp: bit_simps)
qed

lemma bytes_of_4: "bytes_of 4 v = [ucast v, ucast (drop_bit 8 v), ucast (drop_bit 16 v), ucast (drop_bit 24 v)]"
  by (simp add: bytes_of_def upt_rec)

lemma bytes_of_8: "bytes_of 8 v = bytes_of 4 v @ bytes_of 4 (drop_bit 32 v)"
  by (simp add: bytes_of_def upt_rec)

lemma Swap32_bit: "bit (Swap32 w) n \<longleftrightarrow>
    (n < 8 \<and> bit w (24 + n)) \<or> (8 \<le> n \<and> n < 16 \<and> bit w (8 + n)) \<or>
    (16 \<le> n \<and> n < 24 \<and> bit w (n - 8)) \<or> (24 \<le> n \<and> n < 32 \<and> bit w (n - 24))"
proof -
  have m: "(0xff00 :: 32 word) = push_bit 8 (mask 8)" "(0xff0000 :: 32 word) = push_bit 16 (mask 8)"
    by (simp_all add: mask_eq_exp_minus_1)
  have k: "bit w k \<Longrightarrow> k < 32" for k
    using bit_imp_le_length [of w k] by simp
  have "bit w (24 + n) \<Longrightarrow> n < 8" "bit w (8 + n) \<Longrightarrow> n < 24"
    using k [of "24 + n"] k [of "8 + n"] by simp_all
  then show ?thesis
    unfolding Swap32_def m by (auto simp: bit_simps)
qed

lemma Swap32_bytes: "bytes_of 4 (Swap32 w) = rev (bytes_of 4 w)"
  by (simp add: bytes_of_4) (intro conjI bit_word_eqI; auto simp: Swap32_bit bit_simps ac_simps)

lemma Swap64_bit: "bit (Swap64 w) n \<longleftrightarrow>
    (if n < 32 then bit (Swap32 (ucast (drop_bit 32 w))) n else n < 64 \<and> bit (Swap32 (ucast w)) (n - 32))"
  using bit_imp_le_length [of "Swap32 (ucast w)" "n - 32"] bit_imp_le_length [of "Swap32 (ucast (drop_bit 32 w))" n]
  by (auto simp: Swap64_def Let_def bit_simps)

lemma Swap64_halves: "ucast (Swap64 w) = Swap32 (ucast (drop_bit 32 w))"
    "ucast (drop_bit 32 (Swap64 w)) = Swap32 (ucast w)"
  by (auto intro!: bit_word_eqI simp: bit_simps Swap64_bit)

lemma bytes_of_4_ucast: "bytes_of 4 (ucast w :: 32 word) = bytes_of 4 (w :: 64 word)"
  by (simp add: bytes_of_4) (intro conjI bit_word_eqI; simp add: bit_simps)

lemma Swap64_bytes: "bytes_of 8 (Swap64 w) = rev (bytes_of 8 w)"
  by (simp add: bytes_of_8 Swap64_halves Swap32_bytes flip: bytes_of_4_ucast)

lemma bytes_of_inj:
  assumes "bytes_of n v = bytes_of n w" "LENGTH('a) \<le> 8 * n"
  shows "v = (w :: 'a::len word)"
proof (rule bit_word_eqI)
  fix k assume k: "k < LENGTH('a)"
  then have "k div 8 < n" using assms by simp
  then have "ucast (drop_bit (8 * (k div 8)) v) = (ucast (drop_bit (8 * (k div 8)) w) :: 8 word)"
    using assms(1) by (auto simp: bytes_of_def)
  then have "bit (ucast (drop_bit (8 * (k div 8)) v) :: 8 word) (k mod 8) = bit (ucast (drop_bit (8 * (k div 8)) w) :: 8 word) (k mod 8)"
    by simp
  then show "bit v k = bit w k" by (simp add: bit_simps)
qed

lemma Swap_involution [simp]: "Swap16 (Swap16 v) = v" "Swap32 (Swap32 w) = w" "Swap64 (Swap64 x) = x"
  by (rule bytes_of_inj [of 2] bytes_of_inj [of 4] bytes_of_inj [of 8];
      simp add: Swap16_bytes Swap32_bytes Swap64_bytes)+

lemma Swap_struct_involution [simp]: "Swap_location (Swap_location l) = l" "Swap_memory (Swap_memory d) = d"
    "Swap_guid (Swap_guid g) = g" "Swap_system_time (Swap_system_time t) = t" "Swap_time_zone (Swap_time_zone z) = z"
    "Swap128 (Swap128 u) = u"
  by (simp_all add: Swap_location_def Swap_memory_def Swap_guid_def Swap_system_time_def Swap_time_zone_def
      Swap_int32_def Swap128_def)

section \<open>What the conversion does\<close>

text \<open>The encodings of a code point as the Unicode standard gives them.\<close>

definition utf16 :: "nat \<Rightarrow> 16 word list" where
  "utf16 c = (if c < 0x10000 then [of_nat c]
     else [of_nat (0xd800 + (c - 0x10000) div 0x400), of_nat (0xdc00 + (c - 0x10000) mod 0x400)])"

definition utf8 :: "nat \<Rightarrow> 8 word list" where
  "utf8 c =
     (if c < 0x80 then [of_nat c]
      else if c < 0x800 then [of_nat (0xc0 + c div 64), of_nat (0x80 + c mod 64)]
      else if c < 0x10000 then [of_nat (0xe0 + c div 4096), of_nat (0x80 + c div 64 mod 64), of_nat (0x80 + c mod 64)]
      else [of_nat (0xf0 + c div 262144), of_nat (0x80 + c div 4096 mod 64), of_nat (0x80 + c div 64 mod 64),
            of_nat (0x80 + c mod 64)])"

definition scalar_value :: "nat \<Rightarrow> bool" where
  "scalar_value c \<longleftrightarrow> c < 0xd800 \<or> 0xe000 \<le> c \<and> c < 0x110000"

text \<open>The code points whose low surrogate is at most \<open>0xdcff\<close>.\<close>

definition low_surrogate_accepted :: "nat \<Rightarrow> bool" where
  "low_surrogate_accepted c \<longleftrightarrow> c < 0x10000 \<or> c mod 0x400 < 0x100"

lemma or_eq_plus:
  fixes a b :: "8 word"
  assumes "a AND mask n = 0" "b < 2 ^ n"
  shows "a OR b = a + b"
proof -
  have "b AND mask n = b" using assms(2) by (rule less_mask_eq)
  then have "a AND b = 0" by (metis assms(1) bit.conj_zero_left and.left_commute and.commute)
  then show ?thesis using word_plus_and_or [of a b] by simp
qed

lemma ucast_of_unat: "ucast w = of_nat (unat w)"
  by simp

lemma ucast_drop_of_nat:
  assumes "c < 2 ^ 32"
  shows "(ucast (drop_bit n (of_nat c :: 32 word)) :: 8 word) = of_nat (c div 2 ^ n)"
  using assms by (simp only: ucast_of_unat unat_drop_bit_eq) (simp add: drop_bit_eq_div unat_of_nat)

lemma ucast_drop_and_of_nat:
  assumes "c < 2 ^ 32"
  shows "(ucast (drop_bit n (of_nat c :: 32 word) AND 0x3f) :: 8 word) = of_nat (c div 2 ^ n mod 64)"
proof -
  have "(0x3f :: 32 word) = mask 6" by (simp add: mask_eq_exp_minus_1)
  then have "drop_bit n (of_nat c :: 32 word) AND 0x3f = take_bit 6 (drop_bit n (of_nat c))"
    by (simp add: take_bit_eq_mask)
  moreover have "unat (take_bit 6 (drop_bit n (of_nat c :: 32 word))) = c div 2 ^ n mod 64"
    using assms by (simp add: take_bit_eq_mod unat_mod unat_drop_bit_eq) (simp add: drop_bit_eq_div unat_of_nat)
  ultimately show ?thesis by (simp only: ucast_of_unat)
qed

lemma utf8_bytes_of_nat:
  assumes c: "c < 0x110000"
  shows "utf8_bytes (of_nat c) = Some (utf8 c)"
proof -
  have c32: "c < 2 ^ 32" using c by simp
  have less: "(of_nat c :: 32 word) < of_nat k \<longleftrightarrow> c < k" if "k < 2 ^ 32" for k
    using c32 that by (simp add: word_less_nat_alt unat_of_nat)
  have m: "(0xc0 :: 8 word) AND mask 5 = 0" "(0xe0 :: 8 word) AND mask 4 = 0" "(0xf0 :: 8 word) AND mask 3 = 0"
     "(0x80 :: 8 word) AND mask 6 = 0"
    by (simp_all add: mask_eq_exp_minus_1)
  have b: "(of_nat k :: 8 word) < of_nat l" if "k < l" "l < 256" for k l
    using that by (simp add: word_less_nat_alt unat_of_nat)
  have t: "(0x80 :: 8 word) OR of_nat (k mod 64) = of_nat (0x80 + k mod 64)" for k
    using or_eq_plus [OF m(4), of "of_nat (k mod 64)"] b [of "k mod 64" 64] by simp
  have h: "c < 0x800 \<Longrightarrow> (0xc0 :: 8 word) OR of_nat (c div 64) = of_nat (0xc0 + c div 64)"
          "c < 0x10000 \<Longrightarrow> (0xe0 :: 8 word) OR of_nat (c div 4096) = of_nat (0xe0 + c div 4096)"
          "(0xf0 :: 8 word) OR of_nat (c div 262144) = of_nat (0xf0 + c div 262144)"
    using or_eq_plus [OF m(1), of "of_nat (c div 64)"] b [of "c div 64" 32]
      or_eq_plus [OF m(2), of "of_nat (c div 4096)"] b [of "c div 4096" 16]
      or_eq_plus [OF m(3), of "of_nat (c div 262144)"] b [of "c div 262144" 8] c by simp_all
  show ?thesis
    using less [of "0x80"] less [of "0x800"] less [of "0x10000"] less [of "0x200000"] c h
      ucast_drop_of_nat [OF c32, of 0] ucast_drop_of_nat [OF c32, of 6] ucast_drop_of_nat [OF c32, of 12]
      ucast_drop_of_nat [OF c32, of 18] ucast_drop_and_of_nat [OF c32, of 0] ucast_drop_and_of_nat [OF c32, of 6]
      ucast_drop_and_of_nat [OF c32, of 12]
    unfolding utf8_bytes_def Let_def utf8_def by (auto simp: t simp del: of_nat_add)
qed

lemma of_nat16_less:
  "k < 65536 \<Longrightarrow> l < 65536 \<Longrightarrow> (of_nat k :: 16 word) < of_nat l \<longleftrightarrow> k < l"
  "k < 65536 \<Longrightarrow> l < 65536 \<Longrightarrow> (of_nat k :: 16 word) \<le> of_nat l \<longleftrightarrow> k \<le> l"
  by (simp_all add: word_less_nat_alt word_le_nat_alt unat_of_nat)

lemma surrogates_join:
  assumes "0x10000 \<le> c" "c < 0x110000"
  shows "push_bit 10 (ucast (of_nat (0xd800 + (c - 0x10000) div 0x400) :: 16 word) - 0xd7c0) OR
      (ucast (of_nat (0xdc00 + (c - 0x10000) mod 0x400) :: 16 word) AND 0x03ff) = (of_nat c :: 32 word)"
proof -
  define h l where "h = (c - 0x10000) div 0x400" and "l = (c - 0x10000) mod 0x400"
  have hl: "h < 0x400" "l < 0x400" "c = 0x10000 + 0x400 * h + l" using assms by (simp_all add: h_def l_def)
  have u: "(ucast (of_nat n :: 16 word) :: 32 word) = of_nat n" if "n < 65536" for n
    using that by (simp only: ucast_of_unat) (simp add: unat_of_nat)
  have 1: "(ucast (of_nat (0xd800 + h) :: 16 word) :: 32 word) - 0xd7c0 = of_nat (0x40 + h)"
    using u [of "0xd800 + h"] hl(1) by (simp del: of_nat_add) simp
  have "(ucast (of_nat (0xdc00 + l) :: 16 word) :: 32 word) = of_nat (0xdc00 + l)"
    using hl(2) by (intro u) simp
  moreover have "(of_nat (0xdc00 + l) :: 32 word) AND 0x3ff = of_nat l"
  proof -
    have "(0x3ff :: 32 word) = mask 10" by (simp add: mask_eq_exp_minus_1)
    then have "(of_nat (0xdc00 + l) :: 32 word) AND 0x3ff = take_bit 10 (of_nat (0xdc00 + l))"
      by (simp add: take_bit_eq_mask)
    also have "\<dots> = of_nat (take_bit 10 (0xdc00 + l))" by (simp only: of_nat_take_bit)
    also have "take_bit 10 (0xdc00 + l) = l"
      using hl(2) mod_mult_self3 [of 55 1024 l] by (simp add: take_bit_eq_mod)
    finally show ?thesis .
  qed
  ultimately have 2: "(ucast (of_nat (0xdc00 + l) :: 16 word) :: 32 word) AND 0x3ff = of_nat l" by simp
  have "push_bit 10 (of_nat (0x40 + h) :: 32 word) AND of_nat l = 0"
  proof (rule bit_word_eqI)
    fix n assume "n < LENGTH(32)"
    have "of_nat l AND mask 10 = (of_nat l :: 32 word)"
      using hl by (intro less_mask_eq) (simp add: word_less_nat_alt unat_of_nat)
    then have "bit (of_nat l :: 32 word) n \<Longrightarrow> n < 10" by (metis bit_and_iff bit_mask_iff)
    then show "bit (push_bit 10 (of_nat (0x40 + h) :: 32 word) AND of_nat l) n = bit (0::32 word) n"
      by (auto simp: bit_simps)
  qed
  then have "push_bit 10 (of_nat (0x40 + h) :: 32 word) OR of_nat l = push_bit 10 (of_nat (0x40 + h)) + of_nat l"
    using word_plus_and_or [of "push_bit 10 (of_nat (0x40 + h) :: 32 word)" "of_nat l"] by simp
  also have "\<dots> = of_nat c" by (simp add: hl(3) push_bit_eq_mult)
  finally show ?thesis using 1 2 by (simp only: h_def l_def)
qed

lemma UTF16ToUTF8_unit:
  assumes "scalar_value c" "c < 0x10000"
  shows "UTF16ToUTF8 (of_nat c # ws) False = map_option (append (utf8 c)) (UTF16ToUTF8 ws False)"
    "UTF16ToUTF8 (Swap16 (of_nat c) # ws) True = map_option (append (utf8 c)) (UTF16ToUTF8 ws True)"
proof -
  have c: "c < 0x110000" using assms(2) by simp
  have *: "(0xdc00 :: 16 word) \<le> of_nat c \<longleftrightarrow> 0xdc00 \<le> c" "of_nat c \<le> (0xdcff :: 16 word) \<longleftrightarrow> c \<le> 0xdcff"
     "(0xd800 :: 16 word) \<le> of_nat c \<longleftrightarrow> 0xd800 \<le> c" "of_nat c \<le> (0xdbff :: 16 word) \<longleftrightarrow> c \<le> 0xdbff"
    using assms(2) of_nat16_less(2) [of "0xdc00" c] of_nat16_less(2) [of c "0xdcff"]
      of_nat16_less(2) [of "0xd800" c] of_nat16_less(2) [of c "0xdbff"] by simp_all
  have u: "(ucast (of_nat c :: 16 word) :: 32 word) = of_nat c"
    using assms(2) by (simp only: ucast_of_unat) (simp add: unat_of_nat)
  have sur: "\<not> (0xdc00 \<le> c \<and> c \<le> 0xdcff)" "\<not> (0xd800 \<le> c \<and> c \<le> 0xdbff)"
    using assms(1) by (auto simp: scalar_value_def)
  show "UTF16ToUTF8 (of_nat c # ws) False = map_option (append (utf8 c)) (UTF16ToUTF8 ws False)"
       "UTF16ToUTF8 (Swap16 (of_nat c) # ws) True = map_option (append (utf8 c)) (UTF16ToUTF8 ws True)"
    using sur unfolding UTF16ToUTF8.simps Let_def by (simp_all only: Swap_involution if_True if_False * u utf8_bytes_of_nat [OF c] option.case)
qed

lemma UTF16ToUTF8_pair:
  assumes "c < 0x110000" "0x10000 \<le> c"
  shows "UTF16ToUTF8 (utf16 c @ ws) False =
    (if low_surrogate_accepted c then map_option (append (utf8 c)) (UTF16ToUTF8 ws False) else None)"
proof -
  define h l where "h = 0xd800 + (c - 0x10000) div 0x400" and "l = 0xdc00 + (c - 0x10000) mod 0x400"
  have hl: "0xd800 \<le> h" "h < 0xdc00" "0xdc00 \<le> l" "l < 0xe000"
    using assms unfolding h_def l_def by linarith+
  have j: "push_bit 10 (ucast (of_nat h :: 16 word) - 0xd7c0) OR (ucast (of_nat l :: 16 word) AND 0x03ff) = (of_nat c :: 32 word)"
    unfolding h_def l_def using assms by (intro surrogates_join) simp_all
  have acc: "low_surrogate_accepted c \<longleftrightarrow> l \<le> 0xdcff"
  proof -
    have "(c - 0x10000) mod 0x400 = c mod 0x400" using assms(2) mod_mult_self3 [of 64 "0x400" "c - 0x10000"] by simp
    then show ?thesis using assms(2) by (auto simp: low_surrogate_accepted_def l_def)
  qed
  have n: "(of_nat k :: 16 word) \<le> of_nat m \<longleftrightarrow> k \<le> m" if "k < 65536" "m < 65536" for k m
    using that by (rule of_nat16_less(2))
  have *: "(0xdc00 :: 16 word) \<le> of_nat h \<longleftrightarrow> False" using n [of "0xdc00" h] hl by simp
  have **: "(0xd800 :: 16 word) \<le> of_nat h \<longleftrightarrow> True" using n [of "0xd800" h] hl by simp
  have ***: "of_nat h \<le> (0xdbff :: 16 word) \<longleftrightarrow> True" using n [of h "0xdbff"] hl by simp
  have l1: "of_nat l < (0xdc00 :: 16 word) \<longleftrightarrow> False" using n [of "0xdc00" l] hl by (simp add: not_less)
  have l2: "(0xdcff :: 16 word) < of_nat l \<longleftrightarrow> 0xdcff < l" using n [of l "0xdcff"] hl by (simp add: not_le flip: not_le)
  have u: "utf16 c = [of_nat h, of_nat l]" using assms(2) by (simp add: utf16_def h_def l_def)
  show ?thesis
    unfolding u append.simps UTF16ToUTF8.simps Let_def acc
    by (simp only: * ** *** l1 l2 j if_False if_True simp_thms list.case utf8_bytes_of_nat [OF assms(1)] option.case) (simp add: not_less)
qed

text \<open>
  C30: A string of Unicode scalar values in UTF-16 is converted into its UTF-8 form if the low
  surrogate of each of its pairs is at most \<open>0xdcff\<close>; a single pair with another low
  surrogate, three quarters of all pairs, makes the conversion fail. In a dump of the other byte
  order the strings without pairs are converted all the same.
\<close>

theorem UTF16ToUTF8_spec:
  assumes "\<forall>c \<in> set cps. scalar_value c"
  shows "UTF16ToUTF8 (concat (map utf16 cps)) False =
      (if \<forall>c \<in> set cps. low_surrogate_accepted c then Some (concat (map utf8 cps)) else None) \<and>
    ((\<forall>c \<in> set cps. c < 0x10000) \<longrightarrow>
      UTF16ToUTF8 (map Swap16 (concat (map utf16 cps))) True = Some (concat (map utf8 cps)))"
  using assms
proof (induction cps)
  case (Cons c cps)
  from Cons.prems have c: "scalar_value c" "c < 0x110000" by (auto simp: scalar_value_def)
  show ?case
  proof (cases "c < 0x10000")
    case True
    have "utf16 c = [of_nat c]" "low_surrogate_accepted c" using True by (simp_all add: utf16_def low_surrogate_accepted_def)
    then show ?thesis
      using Cons.IH Cons.prems True by (simp add: UTF16ToUTF8_unit [OF c(1) True] del: UTF16ToUTF8.simps(2))
  next
    case False
    then show ?thesis using Cons.IH Cons.prems UTF16ToUTF8_pair [OF c(2)] by (simp del: UTF16ToUTF8.simps(2))
  qed
qed simp

text \<open>The word with a character outside of the basic plane, and the first one that is refused.\<close>

theorem UTF16ToUTF8_spec_witness:
  "UTF16ToUTF8 (concat (map utf16 [0x41, 0x20ac, 0x10001])) False = Some (concat (map utf8 [0x41, 0x20ac, 0x10001])) \<and>
   UTF16ToUTF8 (concat (map utf16 [0x1f600])) False = None"
  using UTF16ToUTF8_spec [of "[0x41, 0x20ac, 0x10001]"] UTF16ToUTF8_spec [of "[0x1f600]"]
  by (simp add: scalar_value_def low_surrogate_accepted_def)

end
