(* ===== verification/Minidump_File.thy ===== *)
theory Minidump_File
  imports Minidump_Bytes Crash_Reason
begin

text \<open>
  \<open>Minidump\<close> of \<open>minidump_src/minidump.cc\<close>: the file's stream, the header and directory, the
  search of a stream by its type. The C structures of the format are declared outside the
  repository: \<open>md_format\<close> gives their sizes and how their fields are read from the bytes that
  are copied into them, and the constants by name.

  A method takes the \<open>Minidump\<close> object and returns its result with the object changed.
\<close>

section \<open>Input streams\<close>

text \<open>
  The state of an \<open>istream\<close>: its bytes, the position, and whether \<open>good()\<close> holds. A read
  that gets fewer bytes than it asks for sets \<open>eofbit\<close> and \<open>failbit\<close>; \<open>failbit\<close> is never
  cleared, and with it set nothing is read and nothing is sought. A position past the end is
  accepted by a file and refused by a stream over a string.
\<close>

record istream =
  is_bytes :: "8 word list"
  is_position :: nat
  is_good :: bool
  is_seeks_past_end :: bool

definition stream_read :: "nat \<Rightarrow> istream \<Rightarrow> 8 word list \<times> istream" where
  "stream_read count s =
     (if is_good s
      then let got = take count (drop (is_position s) (is_bytes s)) in
        (got, s\<lparr>is_position := is_position s + length got, is_good := (length got = count)\<rparr>)
      else ([], s))"

definition stream_seekg :: "nat \<Rightarrow> istream \<Rightarrow> istream" where
  "stream_seekg offset s =
     (if is_good s
      then if is_seeks_past_end s \<or> offset \<le> length (is_bytes s) then s\<lparr>is_position := offset\<rparr>
        else s\<lparr>is_good := False\<rparr>
      else s)"

definition stream_tellg :: "istream \<Rightarrow> nat option" where
  "stream_tellg s = (if is_good s then Some (is_position s) else None)"

section \<open>Header and directory\<close>

record md_header =
  hd_signature :: "32 word"
  hd_version :: "32 word"
  hd_stream_count :: "32 word"
  hd_stream_directory_rva :: "32 word"
  hd_checksum :: "32 word"
  hd_time_date_stamp :: "32 word"
  hd_flags :: "64 word"

record md_directory =
  de_stream_type :: "32 word"
  de_location :: location_descriptor

record md_format =
  mf_md :: md_constants
  mf_u16 :: "8 word list \<Rightarrow> 16 word"
  mf_u32 :: "8 word list \<Rightarrow> 32 word"
  mf_u64 :: "8 word list \<Rightarrow> 64 word"
  mf_sizeof_header :: nat
  mf_header :: "8 word list \<Rightarrow> md_header"
  mf_sizeof_directory :: nat
  mf_directory :: "8 word list \<Rightarrow> md_directory"

text \<open>A type's entry in the stream map: the directory index and the object once it is read.\<close>

record 's stream_info =
  si_stream_index :: "32 word"
  si_stream :: "'s option"

record 's minidump =
  mh_header :: md_header
  mh_directory :: "md_directory list option"
  mh_stream_map :: "32 word \<Rightarrow> 's stream_info option"
  mh_path :: string
  mh_stream :: "istream option"
  mh_swap :: bool
  mh_valid :: bool

definition max_streams :: "32 word" where
  "max_streams = 128"

definition max_string_length :: "32 word" where
  "max_string_length = 1024"

definition zero_header :: md_header where
  "zero_header = \<lparr>hd_signature = 0, hd_version = 0, hd_stream_count = 0, hd_stream_directory_rva = 0,
     hd_checksum = 0, hd_time_date_stamp = 0, hd_flags = 0\<rparr>"

definition Minidump_path :: "string \<Rightarrow> 's minidump" where
  "Minidump_path path = \<lparr>mh_header = zero_header, mh_directory = None, mh_stream_map = (\<lambda>_. None), mh_path = path,
     mh_stream = None, mh_swap = False, mh_valid = False\<rparr>"

definition Minidump_stream :: "istream \<Rightarrow> 's minidump" where
  "Minidump_stream stream = \<lparr>mh_header = zero_header, mh_directory = None, mh_stream_map = (\<lambda>_. None), mh_path = [],
     mh_stream = Some stream, mh_swap = False, mh_valid = False\<rparr>"

section \<open>Reading and seeking\<close>

text \<open>The bytes read are the result; \<open>None\<close> is the failure, where the target holds the first
  of them and is not used.\<close>

definition ReadBytes :: "nat \<Rightarrow> 's minidump \<Rightarrow> 8 word list option \<times> 's minidump" where
  "ReadBytes count d = (case mh_stream d of
     None \<Rightarrow> (None, d)
   | Some s \<Rightarrow> let (got, s') = stream_read count s in
       (if length got \<noteq> count then None else Some got, d\<lparr>mh_stream := Some s'\<rparr>))"

definition SeekSet :: "nat \<Rightarrow> 's minidump \<Rightarrow> bool \<times> 's minidump" where
  "SeekSet offset d = (case mh_stream d of
     None \<Rightarrow> (False, d)
   | Some s \<Rightarrow> let s' = stream_seekg offset s in (is_good s', d\<lparr>mh_stream := Some s'\<rparr>))"

definition Tell :: "'s minidump \<Rightarrow> nat option" where
  "Tell d = (if mh_valid d then Option.bind (mh_stream d) stream_tellg else None)"

text \<open>\<open>fs\<close> opens a file; \<open>None\<close> is one that cannot be opened, whose stream stays in the object.\<close>

definition closed_stream :: istream where
  "closed_stream = \<lparr>is_bytes = [], is_position = 0, is_good = False, is_seeks_past_end = True\<rparr>"

definition Open :: "(string \<Rightarrow> 8 word list option) \<Rightarrow> 's minidump \<Rightarrow> bool \<times> 's minidump" where
  "Open fs d = (case mh_stream d of
     Some _ \<Rightarrow> SeekSet 0 d
   | None \<Rightarrow> (case fs (mh_path d) of
       None \<Rightarrow> (False, d\<lparr>mh_stream := Some closed_stream\<rparr>)
     | Some bytes \<Rightarrow> (True, d\<lparr>mh_stream := Some \<lparr>is_bytes = bytes, is_position = 0, is_good = True,
         is_seeks_past_end = True\<rparr>\<rparr>)))"

section \<open>Read\<close>

definition Swap_header :: "md_header \<Rightarrow> md_header" where
  "Swap_header h = h\<lparr>hd_signature := Swap32 (hd_signature h), hd_version := Swap32 (hd_version h),
     hd_stream_count := Swap32 (hd_stream_count h), hd_stream_directory_rva := Swap32 (hd_stream_directory_rva h),
     hd_checksum := Swap32 (hd_checksum h), hd_time_date_stamp := Swap32 (hd_time_date_stamp h),
     hd_flags := Swap64 (hd_flags h)\<rparr>"

definition Swap_directory :: "md_directory \<Rightarrow> md_directory" where
  "Swap_directory e = e\<lparr>de_stream_type := Swap32 (de_stream_type e), de_location := Swap_location (de_location e)\<rparr>"

text \<open>The stream types of which a dump has at most one.\<close>

definition unique_streams :: "string list" where
  "unique_streams = [''MD_THREAD_LIST_STREAM'', ''MD_MODULE_LIST_STREAM'', ''MD_MEMORY_LIST_STREAM'',
     ''MD_EXCEPTION_STREAM'', ''MD_SYSTEM_INFO_STREAM'', ''MD_MISC_INFO_STREAM'', ''MD_BREAKPAD_INFO_STREAM'']"

text \<open>\<open>operator[]\<close> inserts an entry without an object; an entry found keeps its own.\<close>

definition set_stream_index :: "32 word \<Rightarrow> 32 word \<Rightarrow> (32 word \<Rightarrow> 's stream_info option) \<Rightarrow> (32 word \<Rightarrow> 's stream_info option)" where
  "set_stream_index stream_type stream_index m = m(stream_type \<mapsto> (case m stream_type of
     None \<Rightarrow> \<lparr>si_stream_index = stream_index, si_stream = None\<rparr>
   | Some info \<Rightarrow> info\<lparr>si_stream_index := stream_index\<rparr>))"

text \<open>The loop over the entries: whether it ran to the end, the entries so far, the map.\<close>

fun read_entries :: "md_constants \<Rightarrow> bool \<Rightarrow> 32 word \<Rightarrow> md_directory list \<Rightarrow> (32 word \<Rightarrow> 's stream_info option)
    \<Rightarrow> bool \<times> md_directory list \<times> (32 word \<Rightarrow> 's stream_info option)" where
  "read_entries md swap stream_index [] stream_map = (True, [], stream_map)"
| "read_entries md swap stream_index (entry # entries) stream_map =
     (let entry = (if swap then Swap_directory entry else entry); stream_type = de_stream_type entry in
      if is_one_of md unique_streams stream_type \<and> stream_map stream_type \<noteq> None then (False, [entry], stream_map)
      else let (ok, read, stream_map) =
             read_entries md swap (stream_index + 1) entries (set_stream_index stream_type stream_index stream_map)
           in (ok, entry # read, stream_map))"

fun split_every :: "nat \<Rightarrow> nat \<Rightarrow> 'a list \<Rightarrow> 'a list list" where
  "split_every size_of 0 bytes = []"
| "split_every size_of (Suc n) bytes = take size_of bytes # split_every size_of n (drop size_of bytes)"

definition read_directory :: "md_format \<Rightarrow> 's minidump \<Rightarrow> bool \<times> 's minidump" where
  "read_directory mf d =
     (let count = hd_stream_count (mh_header d) in
      if count = 0 then (True, d\<lparr>mh_valid := True\<rparr>)
      else case ReadBytes (mf_sizeof_directory mf * unat count) d of
        (None, d) \<Rightarrow> (False, d)
      | (Some bytes, d) \<Rightarrow>
          let (ok, entries, stream_map) = read_entries (mf_md mf) (mh_swap d) 0
                (map (mf_directory mf) (split_every (mf_sizeof_directory mf) (unat count) bytes)) (mh_stream_map d)
          in if ok then (True, d\<lparr>mh_directory := Some entries, mh_stream_map := stream_map, mh_valid := True\<rparr>)
             else (False, d\<lparr>mh_stream_map := stream_map\<rparr>))"

text \<open>The test of the signature decides on swapping; then the rest of the header.\<close>

definition header_known :: "md_format \<Rightarrow> md_header \<Rightarrow> 's minidump \<Rightarrow> 's minidump" where
  "header_known mf header d =
     (let swap = (hd_signature header \<noteq> mf_md mf ''MD_HEADER_SIGNATURE'')
      in d\<lparr>mh_header := (if swap then Swap_header header else header), mh_swap := swap\<rparr>)"

definition read_header :: "md_format \<Rightarrow> md_header \<Rightarrow> 's minidump \<Rightarrow> bool \<times> 's minidump" where
  "read_header mf header d =
     (let signature = mf_md mf ''MD_HEADER_SIGNATURE'' in
      if hd_signature header \<noteq> signature \<and> Swap32 (hd_signature header) \<noteq> signature
      then (False, d\<lparr>mh_header := header\<rparr>)
      else let d = header_known mf header d in
        if and (hd_version (mh_header d)) 0x0000ffff \<noteq> mf_md mf ''MD_HEADER_VERSION'' then (False, d)
        else case SeekSet (unat (hd_stream_directory_rva (mh_header d))) d of
          (False, d) \<Rightarrow> (False, d)
        | (True, d) \<Rightarrow> if hd_stream_count (mh_header d) > max_streams then (False, d) else read_directory mf d)"

definition Minidump_Read :: "md_format \<Rightarrow> (string \<Rightarrow> 8 word list option) \<Rightarrow> 's minidump \<Rightarrow> bool \<times> 's minidump" where
  "Minidump_Read mf fs d =
     (case Open fs (d\<lparr>mh_directory := None, mh_stream_map := (\<lambda>_. None), mh_valid := False\<rparr>) of
        (False, d) \<Rightarrow> (False, d)
      | (True, d) \<Rightarrow>
          (case ReadBytes (mf_sizeof_header mf) d of
             (None, d) \<Rightarrow> (False, d)
           | (Some bytes, d) \<Rightarrow> read_header mf (mf_header mf bytes) d))"

section \<open>Access\<close>

definition GetDirectoryEntryAtIndex :: "32 word \<Rightarrow> 's minidump \<Rightarrow> md_directory option" where
  "GetDirectoryEntryAtIndex index d =
     (if \<not> mh_valid d then None
      else if index \<ge> hd_stream_count (mh_header d) then None
      else map_option (\<lambda>directory. directory ! unat index) (mh_directory d))"

definition SeekToStreamType :: "32 word \<Rightarrow> 's minidump \<Rightarrow> 32 word option \<times> 's minidump" where
  "SeekToStreamType stream_type d =
     (if \<not> mh_valid d then (None, d)
      else case mh_stream_map d stream_type of
        None \<Rightarrow> (None, d)
      | Some info \<Rightarrow>
          (case GetDirectoryEntryAtIndex (si_stream_index info) d of
             None \<Rightarrow> (None, d)
           | Some entry \<Rightarrow>
               let (ok, d) = SeekSet (unat (ld_rva (de_location entry))) d in
               (if ok then Some (ld_data_size (de_location entry)) else None, d)))"

text \<open>\<open>read\<close> is the stream class's \<open>Read\<close> on a new object: the object if it succeeded.\<close>

definition GetStream :: "32 word \<Rightarrow> (32 word \<Rightarrow> 's minidump \<Rightarrow> 's option \<times> 's minidump) \<Rightarrow> 's minidump
    \<Rightarrow> 's option \<times> 's minidump" where
  "GetStream stream_type read d =
     (if \<not> mh_valid d then (None, d)
      else case mh_stream_map d stream_type of
        None \<Rightarrow> (None, d)
      | Some info \<Rightarrow>
          (case si_stream info of
             Some stream \<Rightarrow> (Some stream, d)
           | None \<Rightarrow>
               (case SeekToStreamType stream_type d of
                  (None, d) \<Rightarrow> (None, d)
                | (Some stream_length, d) \<Rightarrow>
                    (case read stream_length d of
                       (None, d) \<Rightarrow> (None, d)
                     | (Some stream, d) \<Rightarrow>
                         (Some stream, d\<lparr>mh_stream_map := (mh_stream_map d)(stream_type \<mapsto> info\<lparr>si_stream := Some stream\<rparr>)\<rparr>)))))"

definition ReadString :: "md_format \<Rightarrow> nat \<Rightarrow> 's minidump \<Rightarrow> 8 word list option \<times> 's minidump" where
  "ReadString mf offset d =
     (if \<not> mh_valid d then (None, d)
      else case SeekSet offset d of
        (False, d) \<Rightarrow> (None, d)
      | (True, d) \<Rightarrow>
          (case ReadBytes 4 d of
             (None, d) \<Rightarrow> (None, d)
           | (Some b, d) \<Rightarrow>
               let bytes = (if mh_swap d then Swap32 (mf_u32 mf b) else mf_u32 mf b); utf16_words = bytes div 2 in
               if bytes mod 2 \<noteq> 0 then (None, d)
               else if utf16_words > max_string_length then (None, d)
               else if utf16_words = 0 then (UTF16ToUTF8 [] (mh_swap d), d)
               else case ReadBytes (unat bytes) d of
                 (None, d) \<Rightarrow> (None, d)
               | (Some s, d) \<Rightarrow> (UTF16ToUTF8 (map (mf_u16 mf) (split_every 2 (unat utf16_words) s)) (mh_swap d), d)))"

text \<open>The CPU flags of a context for the processor that the system info names; \<open>get_system_info\<close>
  is \<open>GetSystemInfo\<close> with its \<open>system_info\<close>.\<close>

definition context_flags_of :: "(string \<times> string option) list" where
  "context_flags_of =
    [(''MD_CPU_ARCHITECTURE_X86'', Some ''MD_CONTEXT_X86''), (''MD_CPU_ARCHITECTURE_MIPS'', Some ''MD_CONTEXT_MIPS''),
     (''MD_CPU_ARCHITECTURE_MIPS64'', Some ''MD_CONTEXT_MIPS64''), (''MD_CPU_ARCHITECTURE_ALPHA'', Some ''MD_CONTEXT_ALPHA''),
     (''MD_CPU_ARCHITECTURE_PPC'', Some ''MD_CONTEXT_PPC''), (''MD_CPU_ARCHITECTURE_PPC64'', Some ''MD_CONTEXT_PPC64''),
     (''MD_CPU_ARCHITECTURE_SHX'', Some ''MD_CONTEXT_SHX''), (''MD_CPU_ARCHITECTURE_ARM'', Some ''MD_CONTEXT_ARM''),
     (''MD_CPU_ARCHITECTURE_ARM64'', Some ''MD_CONTEXT_ARM64''), (''MD_CPU_ARCHITECTURE_IA64'', Some ''MD_CONTEXT_IA64''),
     (''MD_CPU_ARCHITECTURE_ALPHA64'', None), (''MD_CPU_ARCHITECTURE_MSIL'', None),
     (''MD_CPU_ARCHITECTURE_AMD64'', Some ''MD_CONTEXT_AMD64''), (''MD_CPU_ARCHITECTURE_X86_WIN64'', None),
     (''MD_CPU_ARCHITECTURE_SPARC'', Some ''MD_CONTEXT_SPARC''), (''MD_CPU_ARCHITECTURE_UNKNOWN'', None)]"

definition GetContextCPUFlagsFromSystemInfo :: "md_constants \<Rightarrow> ('s minidump \<Rightarrow> raw_system_info option \<times> 's minidump)
    \<Rightarrow> 's minidump \<Rightarrow> bool \<times> 32 word \<times> 's minidump" where
  "GetContextCPUFlagsFromSystemInfo md get_system_info d = (case Tell d of
     None \<Rightarrow> (True, 0, d)
   | Some saved_position \<Rightarrow>
       let (system_info, d) = get_system_info d;
           flags = (case system_info of
             None \<Rightarrow> 0
           | Some raw \<Rightarrow>
               (case switch_case md context_flags_of (ucast (rs_processor_architecture raw)) of
                  Some (Some flag) \<Rightarrow> md flag
                | _ \<Rightarrow> 0));
           (ok, d) = SeekSet saved_position d
       in (ok, flags, d))"

section \<open>Names\<close>

definition stream_names :: "string list" where
  "stream_names =
   [''MD_UNUSED_STREAM'', ''MD_RESERVED_STREAM_0'', ''MD_RESERVED_STREAM_1'', ''MD_THREAD_LIST_STREAM'',
    ''MD_MODULE_LIST_STREAM'', ''MD_MEMORY_LIST_STREAM'', ''MD_EXCEPTION_STREAM'',
    ''MD_SYSTEM_INFO_STREAM'', ''MD_THREAD_EX_LIST_STREAM'', ''MD_MEMORY_64_LIST_STREAM'',
    ''MD_COMMENT_STREAM_A'', ''MD_COMMENT_STREAM_W'', ''MD_HANDLE_DATA_STREAM'',
    ''MD_FUNCTION_TABLE_STREAM'', ''MD_UNLOADED_MODULE_LIST_STREAM'', ''MD_MISC_INFO_STREAM'',
    ''MD_MEMORY_INFO_LIST_STREAM'', ''MD_THREAD_INFO_LIST_STREAM'', ''MD_HANDLE_OPERATION_LIST_STREAM'',
    ''MD_TOKEN_STREAM'', ''MD_JAVASCRIPT_DATA_STREAM'', ''MD_SYSTEM_MEMORY_INFO_STREAM'',
    ''MD_PROCESS_VM_COUNTERS_STREAM'', ''MD_LAST_RESERVED_STREAM'', ''MD_BREAKPAD_INFO_STREAM'',
    ''MD_ASSERTION_INFO_STREAM'', ''MD_LINUX_CPU_INFO'', ''MD_LINUX_PROC_STATUS'',
    ''MD_LINUX_LSB_RELEASE'', ''MD_LINUX_CMD_LINE'', ''MD_LINUX_ENVIRON'', ''MD_LINUX_AUXV'',
    ''MD_LINUX_MAPS'', ''MD_LINUX_DSO_DEBUG'']"

definition get_stream_name :: "md_constants \<Rightarrow> 32 word \<Rightarrow> string" where
  "get_stream_name md stream_type = (case switch_case md (map (\<lambda>name. (name, name)) stream_names) stream_type of
     Some name \<Rightarrow> name
   | None \<Rightarrow> ''unknown'')"

end
