(* ===== verification/Minidump_Facts.thy ===== *)
theory Minidump_Facts
  imports Minidump_File
begin

text \<open>
  What reading a dump gives: the directory and the stream map, the independence of the byte
  order, and what a read past the end of the file does to everything after it.
\<close>

section \<open>The directory and the stream map\<close>


definition last_entry :: "md_directory list \<Rightarrow> 32 word \<Rightarrow> nat \<Rightarrow> bool" where
  "last_entry es t i \<longleftrightarrow> i < length es \<and> de_stream_type (es ! i) = t \<and>
     (\<forall>j < length es. i < j \<longrightarrow> de_stream_type (es ! j) \<noteq> t)"

lemma last_entry_Cons:
  "last_entry (e # es) t (Suc i) \<longleftrightarrow> last_entry es t i"
  "last_entry (e # es) t 0 \<longleftrightarrow> de_stream_type e = t \<and> (\<forall>e' \<in> set es. de_stream_type e' \<noteq> t)"
  by (auto simp: last_entry_def All_less_Suc2 all_set_conv_all_nth)

lemma read_entries_map:
  assumes "read_entries md swap k es m = (True, es', m')" "\<And>t info. m t = Some info \<Longrightarrow> si_stream info = None"
  shows "es' = map (\<lambda>e. if swap then Swap_directory e else e) es"
    "last_entry es' t i \<Longrightarrow> m' t = Some \<lparr>si_stream_index = k + of_nat i, si_stream = None\<rparr>"
    "\<forall>e \<in> set es'. de_stream_type e \<noteq> t \<Longrightarrow> m' t = m t"
    "m t \<noteq> None \<Longrightarrow> m' t \<noteq> None"
    "is_one_of md unique_streams t \<Longrightarrow> length (filter (\<lambda>e. de_stream_type e = t) es') + (if m t = None then 0 else 1) \<le> 1"
  using assms
proof (induction es arbitrary: k m es' i)
  case Nil
  { case 1 then show ?case by simp }
  { case 2 then show ?case by (simp add: last_entry_def) }
  { case 3 then show ?case by simp }
  { case 4 then show ?case by simp }
  { case 5 then show ?case by simp }
next
  case (Cons e es)
  let ?e = "if swap then Swap_directory e else e"
  have step: "\<exists>es''. es' = ?e # es'' \<and> read_entries md swap (k + 1) es (set_stream_index (de_stream_type ?e) k m) = (True, es'', m')
      \<and> (is_one_of md unique_streams (de_stream_type ?e) \<longrightarrow> m (de_stream_type ?e) = None)"
    if "read_entries md swap k (e # es) m = (True, es', m')" for m k es'
    using that by (auto simp: Let_def split: if_splits prod.splits)
  have keep: "set_stream_index (de_stream_type ?e) k m t = Some info \<Longrightarrow> si_stream info = None"
    if "\<And>t info. m t = Some info \<Longrightarrow> si_stream info = None" for m :: "32 word \<Rightarrow> 'a stream_info option" and k t info
    using that by (fastforce simp: set_stream_index_def split: if_splits option.splits)
  { case 1
    with step [OF 1(1)] Cons.IH(1) keep [OF 1(2)] show ?case by fastforce }
  { case 2
    from step [OF 2(2)] obtain es'' where s: "es' = ?e # es''"
      "read_entries md swap (k + 1) es (set_stream_index (de_stream_type ?e) k m) = (True, es'', m')" by blast
    show ?case
    proof (cases i)
      case 0
      with 2(1) s(1) have "de_stream_type ?e = t" "\<forall>e' \<in> set es''. de_stream_type e' \<noteq> t"
        by (simp_all add: last_entry_Cons)
      then show ?thesis using Cons.IH(3) [OF _ s(2) keep [OF 2(3)]] 0 2(3)
        by (auto simp: set_stream_index_def split: option.splits)
    next
      case (Suc j)
      then show ?thesis using Cons.IH(2) [OF _ s(2) keep [OF 2(3)], of j] 2(1) s(1)
        by (simp add: last_entry_Cons algebra_simps)
    qed }
  { case 3
    from step [OF 3(2)] obtain es'' where s: "es' = ?e # es''"
      "read_entries md swap (k + 1) es (set_stream_index (de_stream_type ?e) k m) = (True, es'', m')" by blast
    then show ?case using Cons.IH(3) [OF _ s(2) keep [OF 3(3)]] 3(1) by (auto simp: set_stream_index_def) }
  { case 4
    from step [OF 4(2)] obtain es'' where s: "es' = ?e # es''"
      "read_entries md swap (k + 1) es (set_stream_index (de_stream_type ?e) k m) = (True, es'', m')" by blast
    then show ?case using Cons.IH(4) [OF _ s(2) keep [OF 4(3)]] 4(1) by (auto simp: set_stream_index_def) }
  { case 5
    from step [OF 5(2)] obtain es'' where s: "es' = ?e # es''"
      "read_entries md swap (k + 1) es (set_stream_index (de_stream_type ?e) k m) = (True, es'', m')"
      "is_one_of md unique_streams (de_stream_type ?e) \<longrightarrow> m (de_stream_type ?e) = None" by blast
    then show ?case using Cons.IH(5) [OF 5(1) s(2) keep [OF 5(3)]] 5(1)
      by (auto simp: set_stream_index_def split: if_splits) }
qed

lemma split_every_length [simp]: "length (split_every k n bytes) = n"
  by (induction n arbitrary: bytes) simp_all

lemma ReadBytes_keeps: "ReadBytes n d = (b, d') \<Longrightarrow> \<exists>s. d' = d\<lparr>mh_stream := s\<rparr>"
  by (auto simp: ReadBytes_def Let_def split: option.splits prod.splits intro: exI [of _ "mh_stream d"])

lemma SeekSet_keeps: "SeekSet n d = (b, d') \<Longrightarrow> \<exists>s. d' = d\<lparr>mh_stream := s\<rparr>"
  by (auto simp: SeekSet_def Let_def split: option.splits intro: exI [of _ "mh_stream d"])

lemma Open_keeps: "Open fs d = (b, d') \<Longrightarrow> \<exists>s. d' = d\<lparr>mh_stream := s\<rparr>"
  by (auto simp: Open_def dest: SeekSet_keeps split: option.splits)

lemma read_directory_ok:
  assumes "read_directory mf d = (True, r)" "mh_stream_map d = (\<lambda>_. None)" "mh_directory d = None"
  obtains es where "length es = unat (hd_stream_count (mh_header d))" "mh_header r = mh_header d" "mh_swap r = mh_swap d"
    "mh_valid r" "mh_directory r = (if es = [] then None else Some es)"
    "\<And>t info. mh_stream_map r t = Some info \<longleftrightarrow> (\<exists>i. last_entry es t i \<and> info = \<lparr>si_stream_index = of_nat i, si_stream = None\<rparr>)"
    "\<And>t. is_one_of (mf_md mf) unique_streams t \<Longrightarrow> length (filter (\<lambda>e. de_stream_type e = t) es) \<le> 1"
proof (cases "hd_stream_count (mh_header d) = 0")
  case True
  then show ?thesis using assms by (intro that [of "[]"]) (auto simp: read_directory_def last_entry_def)
next
  case False
  then obtain bytes d' es m where
    b: "ReadBytes (mf_sizeof_directory mf * unat (hd_stream_count (mh_header d))) d = (Some bytes, d')" and
    e: "read_entries (mf_md mf) (mh_swap d') 0
         (map (mf_directory mf) (split_every (mf_sizeof_directory mf) (unat (hd_stream_count (mh_header d))) bytes))
         (mh_stream_map d') = (True, es, m)" and
    r: "r = d'\<lparr>mh_directory := Some es, mh_stream_map := m, mh_valid := True\<rparr>"
    using assms(1) by (auto simp: read_directory_def Let_def split: prod.splits option.splits if_splits)
  obtain s where d': "d' = d\<lparr>mh_stream := s\<rparr>" using ReadBytes_keeps [OF b] by blast
  have none: "mh_stream_map d' t = Some info \<Longrightarrow> si_stream info = None" for t info using assms(2) d' by simp
  note E = read_entries_map [OF e]
  have m_last: "m t = Some \<lparr>si_stream_index = of_nat i, si_stream = None\<rparr>" if "last_entry es t i" for t i
    using E(2) [OF _ that] none by simp
  have m_none: "m t = None" if "\<forall>e \<in> set es. de_stream_type e \<noteq> t" for t
    using E(3) [OF _ that] none assms(2) d' by simp
  have one: "is_one_of (mf_md mf) unique_streams t \<Longrightarrow> length (filter (\<lambda>e. de_stream_type e = t) es) \<le> 1" for t
    using E(5) [of t] none assms(2) d' by simp
  have len: "length es = unat (hd_stream_count (mh_header d))" using E(1) none by simp
  then have "es \<noteq> []" using False by (auto simp: unat_eq_zero)
  moreover have "m t = Some info \<longleftrightarrow> (\<exists>i. last_entry es t i \<and> info = \<lparr>si_stream_index = of_nat i, si_stream = None\<rparr>)" for t info
  proof (cases "\<exists>i. last_entry es t i")
    case True
    then obtain i where i: "last_entry es t i" ..
    then show ?thesis using m_last by (metis option.inject)
  next
    case False
    have "\<forall>e \<in> set es. de_stream_type e \<noteq> t"
    proof (rule ccontr)
      assume "\<not> ?thesis"
      then have "\<exists>i. i < length es \<and> de_stream_type (es ! i) = t" by (auto simp: in_set_conv_nth)
      then have "last_entry es t (GREATEST i. i < length es \<and> de_stream_type (es ! i) = t)"
        unfolding last_entry_def by (smt (verit) GreatestI_ex_nat Greatest_le_nat less_imp_le not_less)
      with False show False by blast
    qed
    then show ?thesis using m_none [of t] False by simp
  qed
  ultimately show ?thesis
    using len one d' r by (intro that [of es]) simp_all
qed

lemma Swap_header_simps [simp]: "Swap_header (Swap_header h) = h"
  by (simp add: Swap_header_def)

text \<open>
  C11: A dump that was read has at most 128 streams, the directory has one entry for each, of
  the types that occur once there is at most one entry, and a type is found in the stream map
  exactly at the index of its last entry, with no object read yet.
\<close>

theorem Minidump_Read_streams:
  assumes "Minidump_Read mf fs d = (True, r)"
  shows "mh_valid r \<and> hd_stream_count (mh_header r) \<le> 128 \<and>
    (\<exists>es. length es = unat (hd_stream_count (mh_header r)) \<and> mh_directory r = (if es = [] then None else Some es) \<and>
      (\<forall>t info. mh_stream_map r t = Some info \<longleftrightarrow>
        (\<exists>i. last_entry es t i \<and> info = \<lparr>si_stream_index = of_nat i, si_stream = None\<rparr>)) \<and>
      (\<forall>t. is_one_of (mf_md mf) unique_streams t \<longrightarrow> length (filter (\<lambda>e. de_stream_type e = t) es) \<le> 1))"
proof -
  let ?d = "d\<lparr>mh_directory := None, mh_stream_map := (\<lambda>_. None), mh_valid := False\<rparr>"
  obtain d1 d2 bytes where o: "Open fs ?d = (True, d1)" "ReadBytes (mf_sizeof_header mf) d1 = (Some bytes, d2)"
      "read_header mf (mf_header mf bytes) d2 = (True, r)"
    using assms by (auto simp: Minidump_Read_def split: prod.splits bool.splits option.splits)
  have d2: "mh_stream_map d2 = (\<lambda>_. None)" "mh_directory d2 = None"
    using Open_keeps [OF o(1)] ReadBytes_keeps [OF o(2)] by auto
  obtain d4 where d3: "SeekSet (unat (hd_stream_directory_rva (mh_header (header_known mf (mf_header mf bytes) d2))))
        (header_known mf (mf_header mf bytes) d2) = (True, d4)"
      "hd_stream_count (mh_header d4) \<le> max_streams" "read_directory mf d4 = (True, r)"
    using o(3) by (auto simp: read_header_def Let_def not_less split: if_splits prod.splits bool.splits)
  have "mh_stream_map d4 = (\<lambda>_. None)" "mh_directory d4 = None"
    using SeekSet_keeps [OF d3(1)] d2 by (auto simp: header_known_def Let_def)
  then obtain es where es: "length es = unat (hd_stream_count (mh_header d4))" "mh_header r = mh_header d4"
    "mh_swap r = mh_swap d4"
    "mh_valid r" "mh_directory r = (if es = [] then None else Some es)"
    "\<And>t info. mh_stream_map r t = Some info \<longleftrightarrow> (\<exists>i. last_entry es t i \<and> info = \<lparr>si_stream_index = of_nat i, si_stream = None\<rparr>)"
    "\<And>t. is_one_of (mf_md mf) unique_streams t \<Longrightarrow> length (filter (\<lambda>e. de_stream_type e = t) es) \<le> 1"
    by (rule read_directory_ok [OF d3(3)]) (rule that)
  show ?thesis
    using d3(2) es(4) unfolding max_streams_def es(2)
    by (intro conjI exI [of _ es] allI impI es(1,4,5,6,7)) simp_all
qed
section \<open>Dumps of the other byte order\<close>

text \<open>\<open>b'\<close> is the dump \<open>b\<close> with its header and directory in the other byte order.\<close>

definition other_order :: "md_format \<Rightarrow> 8 word list \<Rightarrow> 8 word list \<Rightarrow> bool" where
  "other_order mf b b' \<longleftrightarrow>
     (let hs = mf_sizeof_header mf; header = mf_header mf (take hs b); ds = mf_sizeof_directory mf;
          entry = (\<lambda>b i. mf_directory mf (take ds (drop (unat (hd_stream_directory_rva header) + ds * i) b)))
      in hs \<le> length b \<and> length b' = length b \<and> mf_header mf (take hs b') = Swap_header header \<and>
         (\<forall>i < unat (hd_stream_count header). entry b' i = Swap_directory (entry b i)))"

lemma Swap_directory_twice [simp]: "Swap_directory (Swap_directory e) = e"
  by (simp add: Swap_directory_def)

lemma read_entries_other_order:
  "read_entries md True k (map Swap_directory es) m = read_entries md False k es m"
  by (induction es arbitrary: k m) (auto simp: Let_def)

lemmas read_entries_other_order' = read_entries_other_order [of _ _ "map f es" for f es, unfolded map_map]

lemma split_every_nth: "split_every k n (take (k * n) b) = map (\<lambda>i. take k (drop (k * i) b)) [0..<n]"
proof (induction n arbitrary: b)
  case (Suc n)
  have "take k (take (k * Suc n) b) = take k b" "drop k (take (k * Suc n) b) = take (k * n) (drop k b)"
    by (simp_all add: drop_take min_def)
  moreover have "[0..<Suc n] = 0 # map Suc [0..<n]" by (simp add: map_Suc_upt upt_conv_Cons del: upt_Suc)
  ultimately show ?case using Suc [of "drop k b"] by (simp add: comp_def ac_simps del: upt_Suc)
qed simp

text \<open>The object whose stream is over \<open>b'\<close> and which swaps.\<close>

definition over :: "8 word list \<Rightarrow> 's minidump \<Rightarrow> 's minidump" where
  "over b' d = d\<lparr>mh_swap := True, mh_stream := map_option (\<lambda>s. s\<lparr>is_bytes := b'\<rparr>) (mh_stream d)\<rparr>"

lemma over_simps [simp]: "mh_header (over b' d) = mh_header d" "mh_swap (over b' d)"
  "mh_stream_map (over b' d) = mh_stream_map d"
  by (simp_all add: over_def)

lemma over_SeekSet:
  assumes "mh_stream d = Some s" "length (is_bytes s) = length b'"
  shows "SeekSet n (over b' d) = (case SeekSet n d of (ok, d) \<Rightarrow> (ok, over b' d))"
  using assms by (simp add: SeekSet_def over_def stream_seekg_def Let_def)

lemma over_read_directory:
  assumes "mh_stream d = Some s" "length (is_bytes s) = length b'" "\<not> mh_swap d" "is_good s" "mf_sizeof_directory mf = ds"
    and "\<And>i. i < unat (hd_stream_count (mh_header d)) \<Longrightarrow>
      mf_directory mf (take ds (drop (is_position s + ds * i) b')) =
      Swap_directory (mf_directory mf (take ds (drop (is_position s + ds * i) (is_bytes s))))"
  shows "read_directory mf (over b' d) = (case read_directory mf d of (ok, d) \<Rightarrow> (ok, over b' d))"
proof (cases "hd_stream_count (mh_header d) = 0")
  case True
  then show ?thesis by (simp add: read_directory_def over_def)
next
  case False
  let ?n = "unat (hd_stream_count (mh_header d))"
  let ?got = "\<lambda>b. take (ds * ?n) (drop (is_position s) b)"
  let ?s = "s\<lparr>is_position := is_position s + length (?got (is_bytes s)), is_good := (length (?got (is_bytes s)) = ds * ?n)\<rparr>"
  have len: "length (?got b') = length (?got (is_bytes s))" using assms(2) by simp
  have entries: "map (mf_directory mf) (split_every ds ?n (?got b')) =
      map Swap_directory (map (mf_directory mf) (split_every ds ?n (?got (is_bytes s))))"
    using assms(6) by (simp add: split_every_nth ac_simps)
  show ?thesis
  proof -
    have r: "ReadBytes (ds * ?n) d = (if length (?got (is_bytes s)) \<noteq> ds * ?n then None else Some (?got (is_bytes s)),
        d\<lparr>mh_stream := Some ?s\<rparr>)"
      using assms(1,4) by (simp add: ReadBytes_def stream_read_def Let_def)
    have r': "ReadBytes (ds * ?n) (over b' d) = (if length (?got (is_bytes s)) \<noteq> ds * ?n then None else Some (?got b'),
        over b' (d\<lparr>mh_stream := Some ?s\<rparr>))"
      using assms(1,4) len by (simp add: ReadBytes_def stream_read_def Let_def over_def)
    show ?thesis
    proof (cases "length (?got (is_bytes s)) = ds * ?n")
      case True
      then show ?thesis
        using False r r' assms(3)
        by (auto simp: read_directory_def Let_def assms(5) entries read_entries_other_order' over_def
            intro!: minidump.equality split: prod.split)
    next
      case short: False
      then obtain e where "ReadBytes (ds * ?n) d = (None, e)" "ReadBytes (ds * ?n) (over b' d) = (None, over b' e)"
        unfolding r r' by (simp only: if_P not_False_eq_True)
      then show ?thesis using False by (simp add: read_directory_def assms(5) Let_def)
    qed
  qed
qed


text \<open>
  C12: Reading a dump does not depend on its byte order: where the header and the directory
  of a second file are those of the first in the other byte order, reading it has the same
  result, header, directory and stream map, and only decides to swap.
\<close>

theorem Minidump_Read_other_order:
  assumes "other_order mf b b'" "fs path = Some b" "fs' path = Some b'"
    and "hd_signature (mf_header mf (take (mf_sizeof_header mf) b)) = mf_md mf ''MD_HEADER_SIGNATURE''"
    and "Swap32 (mf_md mf ''MD_HEADER_SIGNATURE'') \<noteq> mf_md mf ''MD_HEADER_SIGNATURE''"
    and "Minidump_Read mf fs (Minidump_path path) = (ok, d)"
  shows "\<not> mh_swap d \<and> Minidump_Read mf fs' (Minidump_path path) = (ok, over b' d)"
proof -
  let ?hs = "mf_sizeof_header mf" and ?ds = "mf_sizeof_directory mf"
  let ?h = "mf_header mf (take ?hs b)"
  have oo: "?hs \<le> length b" "length b' = length b" "mf_header mf (take ?hs b') = Swap_header ?h"
    "\<And>i. i < unat (hd_stream_count ?h) \<Longrightarrow>
       mf_directory mf (take ?ds (drop (unat (hd_stream_directory_rva ?h) + ?ds * i) b')) =
       Swap_directory (mf_directory mf (take ?ds (drop (unat (hd_stream_directory_rva ?h) + ?ds * i) b)))"
    using assms(1) by (auto simp: other_order_def Let_def)
  let ?st = "\<lambda>b p. \<lparr>is_bytes = b, is_position = p, is_good = True, is_seeks_past_end = True\<rparr>"
  let ?d = "\<lambda>b. (Minidump_path path)\<lparr>mh_stream := Some (?st b ?hs)\<rparr> :: 'a minidump"
  have read: "Minidump_Read mf fs (Minidump_path path) = read_header mf (mf_header mf (take ?hs b)) (?d b)"
    if "fs path = Some b" "?hs \<le> length b" for fs b
    using that by (simp add: Minidump_Read_def Minidump_path_def Open_def ReadBytes_def stream_read_def Let_def)
  let ?k = "(?d b)\<lparr>mh_header := ?h, mh_swap := False\<rparr>"
  have k: "header_known mf ?h (?d b) = ?k" "header_known mf (Swap_header ?h) (?d b') = over b' ?k"
    using assms(4,5) by (simp_all add: header_known_def Let_def over_def) (simp_all add: Swap_header_def)
  let ?p = "unat (hd_stream_directory_rva ?h)"
  let ?k' = "?k\<lparr>mh_stream := Some (?st b ?p)\<rparr>"
  have seek: "SeekSet ?p ?k = (True, ?k')" "SeekSet ?p (over b' ?k) = (True, over b' ?k')"
    by (simp_all add: SeekSet_def stream_seekg_def Let_def over_def)
  have dir: "read_directory mf (over b' ?k') = (case read_directory mf ?k' of (ok, d) \<Rightarrow> (ok, over b' d))"
    using oo by (intro over_read_directory [where s = "?st b ?p" and ds = ?ds]) simp_all
  have swap: "read_directory mf ?k' = (ok', d') \<Longrightarrow> \<not> mh_swap d'" for ok' d'
    by (auto simp: read_directory_def Let_def dest!: ReadBytes_keeps split: if_splits option.splits prod.splits)
  have sig: "Swap32 (hd_signature (Swap_header ?h)) = mf_md mf ''MD_HEADER_SIGNATURE''"
    using assms(4) by (simp add: Swap_header_def)
  let ?bad = "and (hd_version ?h) 0x0000ffff \<noteq> mf_md mf ''MD_HEADER_VERSION''"
  have R: "Minidump_Read mf fs (Minidump_path path) =
      (if ?bad then (False, ?k) else if hd_stream_count ?h > max_streams then (False, ?k') else read_directory mf ?k')"
    unfolding read [of fs b, OF assms(2) oo(1)] read_header_def Let_def k(1) using assms(4) seek(1) by simp
  have R': "Minidump_Read mf fs' (Minidump_path path) =
      (if ?bad then (False, over b' ?k) else if hd_stream_count ?h > max_streams then (False, over b' ?k')
       else read_directory mf (over b' ?k'))"
  proof -
    have "?hs \<le> length b'" using oo(1,2) by simp
    from read [of fs' b', OF assms(3) this] show ?thesis
      unfolding oo(3) read_header_def Let_def k(2) using sig seek(2) by simp
  qed
  show ?thesis using assms(6) swap unfolding R R' dir by (auto split: if_splits prod.splits)
qed
section \<open>A read past the end\<close>

text \<open>
  After a read that got fewer bytes than it asked for, nothing can be read from the dump
  any more, in any part of the file: no position is reached, no string and no further stream is
  read, and \<open>Read\<close> itself fails, since \<open>Open\<close> seeks to the start without clearing the
  state of the stream.
\<close>

theorem short_read_is_final:
  assumes "ReadBytes count d = (None, d')" "mh_stream d \<noteq> None"
  shows "SeekSet offset d' = (False, d') \<and> (0 < n \<longrightarrow> ReadBytes n d' = (None, d')) \<and>
    ReadString mf offset d' = (None, d') \<and> fst (Minidump_Read mf fs d') = False \<and>
    (\<forall>info. mh_stream_map d' t = Some info \<longrightarrow> si_stream info = None \<longrightarrow> fst (GetStream t read d') = None)"
proof -
  obtain s where s: "mh_stream d' = Some s" "\<not> is_good s"
    using assms by (auto simp: ReadBytes_def stream_read_def Let_def split: if_splits)
  have same: "d'\<lparr>mh_stream := Some s\<rparr> = d'" using s(1) by simp
  have seek: "SeekSet k d' = (False, d')" for k
    using s by (simp add: SeekSet_def stream_seekg_def same)
  have "fst (Minidump_Read mf fs d') = False"
    using s by (simp add: Minidump_Read_def Open_def SeekSet_def stream_seekg_def)
  moreover have "0 < n \<longrightarrow> ReadBytes n d' = (None, d')"
    using s by (simp add: ReadBytes_def stream_read_def same)
  moreover have "ReadString mf offset d' = (None, d')" by (simp add: ReadString_def seek)
  moreover have "fst (GetStream t read d') = None" if "mh_stream_map d' t = Some info" "si_stream info = None" for info
    using that seek by (auto simp: GetStream_def SeekToStreamType_def split: option.split)
  ultimately show ?thesis using seek by blast
qed

text \<open>
  Asking for the CPU of the system info leaves the stream of the dump where it was, whatever
  the reading of the system info does to it, unless it reads past the end; then the caller is
  told.
\<close>

theorem context_flags_keep_position:
  assumes "GetContextCPUFlagsFromSystemInfo md get_system_info d = (ok, flags, d')" "Tell d = Some p"
    and "mh_valid (snd (get_system_info d))"
    and "\<And>s. mh_stream d = Some s \<Longrightarrow> \<exists>s'. mh_stream (snd (get_system_info d)) = Some s' \<and>
       is_bytes s' = is_bytes s \<and> is_seeks_past_end s' = is_seeks_past_end s"
    and "p \<le> length (is_bytes (the (mh_stream d)))"
  shows "(ok \<longrightarrow> Tell d' = Some p) \<and> (\<not> ok \<longrightarrow> Tell d' = None)"
proof -
  obtain raw d1 where g: "get_system_info d = (raw, d1)" by (cases "get_system_info d")
  obtain s where s: "mh_stream d = Some s" "is_good s" "is_position s = p"
    using assms(2) by (auto simp: Tell_def stream_tellg_def split: if_splits Option.bind_splits)
  with assms(4) [OF s(1)] g obtain s' where s': "mh_stream d1 = Some s'" "is_bytes s' = is_bytes s"
    "is_seeks_past_end s' = is_seeks_past_end s" by auto
  have "p \<le> length (is_bytes s')" using assms(5) s s' by simp
  then show ?thesis
    using assms(1-3) g s' by (auto simp: GetContextCPUFlagsFromSystemInfo_def SeekSet_def stream_seekg_def Tell_def
        stream_tellg_def Let_def split: if_splits)
qed

section \<open>A small dump\<close>

text \<open>Little-endian fields and the constants' documented values, and a file with one stream.\<close>

fun le_word :: "8 word list \<Rightarrow> 'a::len word" where
  "le_word [] = 0"
| "le_word (b # bs) = ucast b + 256 * le_word bs"

definition le_field :: "nat \<Rightarrow> nat \<Rightarrow> 8 word list \<Rightarrow> 'a::len word" where
  "le_field offset size_of bytes = le_word (take size_of (drop offset bytes))"

definition example_constants :: md_constants where
  "example_constants name = (case map_of
     [(''MD_HEADER_SIGNATURE'', 0x504d444d), (''MD_HEADER_VERSION'', 0xa793), (''MD_THREAD_LIST_STREAM'', 3),
      (''MD_MODULE_LIST_STREAM'', 4), (''MD_MEMORY_LIST_STREAM'', 5), (''MD_EXCEPTION_STREAM'', 6),
      (''MD_SYSTEM_INFO_STREAM'', 7), (''MD_MISC_INFO_STREAM'', 15), (''MD_BREAKPAD_INFO_STREAM'', 0x47670001),
      (''MD_CONTEXT_CPU_MASK'', 0xffffff00), (''MD_CONTEXT_X86'', 0x10000), (''MD_CONTEXT_PPC'', 0x20000000),
      (''MD_CONTEXT_PPC64'', 0x1000000), (''MD_CONTEXT_AMD64'', 0x100000), (''MD_CONTEXT_SPARC'', 0x10000000),
      (''MD_CONTEXT_ARM'', 0x40000000), (''MD_CONTEXT_ARM_OLD'', 0x40), (''MD_CONTEXT_ARM64'', 0x80000000),
      (''MD_CONTEXT_MIPS'', 0x40000), (''MD_CONTEXT_MIPS64'', 0x80000), (''MD_CPU_ARCHITECTURE_ARM64'', 0x8003)] name of
     Some v \<Rightarrow> v | None \<Rightarrow> 0)"

definition example_format :: md_format where
  "example_format = \<lparr>mf_md = example_constants,
     mf_u16 = (\<lambda>b. le_field 0 2 b), mf_u32 = (\<lambda>b. le_field 0 4 b), mf_u64 = (\<lambda>b. le_field 0 8 b),
     mf_sizeof_header = 32,
     mf_header = (\<lambda>b. \<lparr>hd_signature = le_field 0 4 b, hd_version = le_field 4 4 b,
       hd_stream_count = le_field 8 4 b, hd_stream_directory_rva = le_field 12 4 b,
       hd_checksum = le_field 16 4 b, hd_time_date_stamp = le_field 20 4 b,
       hd_flags = le_field 24 8 b\<rparr>),
     mf_sizeof_directory = 12,
     mf_directory = (\<lambda>b. \<lparr>de_stream_type = le_field 0 4 b,
       de_location = \<lparr>ld_data_size = le_field 4 4 b, ld_rva = le_field 8 4 b\<rparr>\<rparr>)\<rparr>"

definition example_file :: "8 word list" where
  "example_file = [0x4d, 0x44, 0x4d, 0x50,  0x93, 0xa7, 0, 0,  1, 0, 0, 0,  32, 0, 0, 0,
     0, 0, 0, 0,  0, 0, 0, 0,  0, 0, 0, 0, 0, 0, 0, 0,  3, 0, 0, 0,  4, 0, 0, 0,  44, 0, 0, 0,  0, 0, 0, 0]"

definition example_file_swapped :: "8 word list" where
  "example_file_swapped = [0x50, 0x4d, 0x44, 0x4d,  0, 0, 0xa7, 0x93,  0, 0, 0, 1,  0, 0, 0, 32,
     0, 0, 0, 0,  0, 0, 0, 0,  0, 0, 0, 0, 0, 0, 0, 0,  0, 0, 0, 3,  0, 0, 0, 4,  0, 0, 0, 44,  0, 0, 0, 0]"

definition example_read :: "bool \<times> unit minidump" where
  "example_read = Minidump_Read example_format (\<lambda>_. Some example_file) (Minidump_path ''dump'')"

lemma example_read_ok: "fst example_read" "hd_stream_count (mh_header (snd example_read)) = 1"
    "mh_stream (snd example_read) \<noteq> None" "fst (ReadBytes 100 (snd example_read)) = None"
    "Tell (snd example_read) = Some 44" "map_option is_bytes (mh_stream (snd example_read)) = Some example_file"
  by code_simp+

theorem Minidump_Read_streams_witness:
  "\<exists>es. length es = 1 \<and> mh_directory (snd example_read) = Some es"
proof -
  have "Minidump_Read example_format (\<lambda>_. Some example_file) (Minidump_path ''dump'') = (True, snd example_read)"
    using example_read_ok(1) by (simp add: example_read_def prod_eq_iff)
  from Minidump_Read_streams [OF this] example_read_ok(2) show ?thesis by auto
qed

lemma example_other_order: "other_order example_format example_file example_file_swapped"
proof -
  have h: "hd_stream_count (mf_header example_format (take (mf_sizeof_header example_format) example_file)) = 1"
    by code_simp
  have e: "mf_directory example_format (take (mf_sizeof_directory example_format) (drop (unat
       (hd_stream_directory_rva (mf_header example_format (take (mf_sizeof_header example_format) example_file))) +
       mf_sizeof_directory example_format * 0) example_file_swapped)) =
     Swap_directory (mf_directory example_format (take (mf_sizeof_directory example_format) (drop (unat
       (hd_stream_directory_rva (mf_header example_format (take (mf_sizeof_header example_format) example_file))) +
       mf_sizeof_directory example_format * 0) example_file)))"
    by code_simp
  have "mf_sizeof_header example_format \<le> length example_file" "length example_file_swapped = length example_file"
     "mf_header example_format (take (mf_sizeof_header example_format) example_file_swapped) =
      Swap_header (mf_header example_format (take (mf_sizeof_header example_format) example_file))"
    by code_simp+
  then show ?thesis using e unfolding other_order_def Let_def h by simp
qed

theorem Minidump_Read_other_order_witness:
  "Minidump_Read example_format (\<lambda>_. Some example_file_swapped) (Minidump_path ''dump'') =
     (fst example_read, over example_file_swapped (snd example_read))"
proof -
  have "hd_signature (mf_header example_format (take (mf_sizeof_header example_format) example_file)) =
      mf_md example_format ''MD_HEADER_SIGNATURE''"
    "Swap32 (mf_md example_format ''MD_HEADER_SIGNATURE'') \<noteq> mf_md example_format ''MD_HEADER_SIGNATURE''"
    by code_simp+
  from Minidump_Read_other_order [OF example_other_order _ _ this, of "\<lambda>_. Some example_file" "''dump''"
      "\<lambda>_. Some example_file_swapped" "fst example_read" "snd example_read"]
  show ?thesis by (simp add: example_read_def)
qed

theorem short_read_is_final_witness:
  "fst (Minidump_Read example_format (\<lambda>_. Some example_file) (snd (ReadBytes 100 (snd example_read)))) = False"
proof -
  have "ReadBytes 100 (snd example_read) = (None, snd (ReadBytes 100 (snd example_read)))"
    using example_read_ok(4) by (simp add: prod_eq_iff)
  from short_read_is_final [OF this example_read_ok(3)] show ?thesis by blast
qed

theorem context_flags_keep_position_witness:
  "Tell (snd (snd (GetContextCPUFlagsFromSystemInfo example_constants (\<lambda>d. (None, snd (ReadBytes 2 d))) (snd example_read)))) =
    Some 44"
proof -
  let ?g = "\<lambda>d :: unit minidump. (None :: raw_system_info option, snd (ReadBytes 2 d))"
  obtain ok flags d' where r: "GetContextCPUFlagsFromSystemInfo example_constants ?g (snd example_read) = (ok, flags, d')"
    by (cases "GetContextCPUFlagsFromSystemInfo example_constants ?g (snd example_read)")
  have ok: "fst (GetContextCPUFlagsFromSystemInfo example_constants ?g (snd example_read))" by code_simp
  have valid: "mh_valid (snd (?g (snd example_read)))" by code_simp
  have keeps: "\<exists>s'. mh_stream (snd (?g (snd example_read))) = Some s' \<and>
       is_bytes s' = is_bytes s \<and> is_seeks_past_end s' = is_seeks_past_end s" if "mh_stream (snd example_read) = Some s" for s
    using that by (simp add: ReadBytes_def stream_read_def Let_def)
  have "44 \<le> length (is_bytes (the (mh_stream (snd example_read))))"
    using example_read_ok(6) by (auto simp: example_file_def)
  from context_flags_keep_position [OF r example_read_ok(5) valid keeps this] r ok show ?thesis by auto
qed

end
