(* ===== verification/Minidump_Reader.thy ===== *)
theory Minidump_Reader
  imports Minidump_Facts
begin

text \<open>
  The sequencing of the \<open>Read\<close> methods of \<open>minidump_src/minidump.cc\<close>: each reads and seeks in
  the dump and returns false at the first failure. A reader takes the dump and gives its result,
  \<open>None\<close> for the failure, with the dump after it.
\<close>

type_synonym ('s, 'a) reader = "'s minidump \<Rightarrow> 'a option \<times> 's minidump"

definition rd_return :: "'a \<Rightarrow> ('s, 'a) reader" where
  "rd_return x d = (Some x, d)"

definition rd_fail :: "('s, 'a) reader" where
  "rd_fail d = (None, d)"

definition rd_bind :: "('s, 'a) reader \<Rightarrow> ('a \<Rightarrow> ('s, 'b) reader) \<Rightarrow> ('s, 'b) reader" where
  "rd_bind m f d = (case m d of (None, d) \<Rightarrow> (None, d) | (Some x, d) \<Rightarrow> f x d)"

definition rd_require :: "bool \<Rightarrow> ('s, unit) reader" where
  "rd_require P d = (if P then Some () else None, d)"

definition rd_seek :: "nat \<Rightarrow> ('s, unit) reader" where
  "rd_seek offset d = (case SeekSet offset d of (ok, d) \<Rightarrow> (if ok then Some () else None, d))"

text \<open>Whether the dump's values are swapped, and a 32-bit value in the dump's byte order.\<close>

definition rd_swap :: "('s, bool) reader" where
  "rd_swap d = (Some (mh_swap d), d)"

definition ReadU32 :: "md_format \<Rightarrow> ('s, 32 word) reader" where
  "ReadU32 mf = rd_bind (ReadBytes 4) (\<lambda>b. rd_bind rd_swap (\<lambda>swap.
     rd_return (if swap then Swap32 (mf_u32 mf b) else mf_u32 mf b)))"

section \<open>When a reader succeeds\<close>

named_theorems rd_iff \<open>when a reader succeeds\<close>

lemma rd_return_iff [rd_iff]: "rd_return x d = (Some y, d') \<longleftrightarrow> y = x \<and> d' = d"
  by (auto simp: rd_return_def)

lemma rd_fail_iff [rd_iff]: "rd_fail d = (Some y, d') \<longleftrightarrow> False"
  by (simp add: rd_fail_def)

lemma rd_bind_iff [rd_iff]: "rd_bind m f d = (Some y, d') \<longleftrightarrow> (\<exists>x d''. m d = (Some x, d'') \<and> f x d'' = (Some y, d'))"
  by (auto simp: rd_bind_def split: prod.splits option.splits)

lemma rd_require_iff [rd_iff]: "rd_require P d = (Some y, d') \<longleftrightarrow> P \<and> d' = d"
  by (auto simp: rd_require_def)

lemma rd_swap_iff [rd_iff]: "rd_swap d = (Some y, d') \<longleftrightarrow> y = mh_swap d \<and> d' = d"
  by (auto simp: rd_swap_def)

lemma rd_seek_iff [rd_iff]: "rd_seek offset d = (Some y, d') \<longleftrightarrow> SeekSet offset d = (True, d')"
  by (auto simp: rd_seek_def split: prod.splits)

section \<open>What a reader keeps\<close>

text \<open>Reading changes nothing of the dump but the stream's position and state.\<close>

definition only_stream :: "('s, 'a) reader \<Rightarrow> bool" where
  "only_stream m \<longleftrightarrow> (\<forall>d. \<exists>s. snd (m d) = d\<lparr>mh_stream := s\<rparr>)"

named_theorems reads \<open>readers that change the stream only\<close>

lemma only_streamD: "only_stream m \<Longrightarrow> m d = (x, d') \<Longrightarrow> \<exists>s. d' = d\<lparr>mh_stream := s\<rparr>"
  unfolding only_stream_def by (metis snd_conv)

lemma unchanged [simp]: "\<exists>s. d = d\<lparr>mh_stream := s\<rparr>"
  by (rule exI [of _ "mh_stream d"]) simp

lemma only_stream_plain [reads, simp, intro]: "only_stream (rd_return x)" "only_stream rd_fail" "only_stream (rd_require P)"
    "only_stream rd_swap"
  by (simp_all add: only_stream_def rd_return_def rd_fail_def rd_require_def rd_swap_def)

lemma only_stream_ReadBytes [reads, simp, intro]: "only_stream (ReadBytes n)"
  unfolding only_stream_def using ReadBytes_keeps surj_pair by (metis snd_conv)

lemma only_stream_seek [reads, simp, intro]: "only_stream (rd_seek k)"
  unfolding only_stream_def
proof
  fix d
  obtain ok d' where s: "SeekSet k d = (ok, d')" by (cases "SeekSet k d")
  then show "\<exists>s. snd (rd_seek k d) = d\<lparr>mh_stream := s\<rparr>"
    using SeekSet_keeps [OF s] by (auto simp: rd_seek_def)
qed

lemma only_stream_bind [reads, intro]:
  assumes "only_stream m" "\<And>x. only_stream (f x)"
  shows "only_stream (rd_bind m f)"
  unfolding only_stream_def
proof
  fix d
  obtain x d' where m: "m d = (x, d')" by (cases "m d")
  obtain s where d': "d' = d\<lparr>mh_stream := s\<rparr>" using only_streamD [OF assms(1) m] by blast
  show "\<exists>s. snd (rd_bind m f d) = d\<lparr>mh_stream := s\<rparr>"
  proof (cases x)
    case None
    then show ?thesis using m d' by (auto simp: rd_bind_def)
  next
    case (Some y)
    obtain z d'' where f: "f y d' = (z, d'')" by (cases "f y d'")
    then obtain s' where "d'' = d'\<lparr>mh_stream := s'\<rparr>" using only_streamD [OF assms(2) f] by blast
    then show ?thesis using m d' f Some by (auto simp: rd_bind_def)
  qed
qed

lemma only_stream_ReadU32 [reads, simp, intro]: "only_stream (ReadU32 mf)"
  by (auto simp: ReadU32_def intro!: reads)

end
