(* ===== verification/Minidump_Context.thy ===== *)
theory Minidump_Context
  imports Minidump_Reader
begin

text \<open>
  \<open>MinidumpContext\<close> of \<open>minidump_src/minidump.cc\<close> and \<open>DumpContext\<close> of
  \<open>minidump_src/dump_context.cc\<close>: the registers of a thread, in a structure for each CPU. The
  structures are declared outside the repository: \<open>context_format\<close> gives their sizes, the offset
  and width of a member, the counts and the numbers of registers, by the names the code uses.
  A structure is kept as the bytes it was read from, with the member \<open>context_flags\<close> apart.
\<close>

section \<open>Structures\<close>

record context_format =
  cf_sizeof :: "string \<Rightarrow> nat"
  cf_offset :: "string \<Rightarrow> string \<Rightarrow> nat"
  cf_width :: "string \<Rightarrow> string \<Rightarrow> nat"
  cf_number :: "string \<Rightarrow> nat"

record raw_context =
  rc_struct :: string
  rc_context_flags :: "64 word"
  rc_bytes :: "8 word list"

text \<open>
  \<open>Swap\<close> of a member or of the elements of an array member, and \<open>Normalize128\<close> of the
  elements. Swapping reverses the bytes; a 128-bit value is swapped in its two halves.
\<close>

datatype context_step = SwapField string | SwapArray string string | NormalizeArray string string bool

definition swap_at :: "nat \<Rightarrow> nat \<Rightarrow> 8 word list \<Rightarrow> 8 word list" where
  "swap_at offset width bytes = take offset bytes @ rev (take width (drop offset bytes)) @ drop (offset + width) bytes"

definition swap_value_at :: "nat \<Rightarrow> nat \<Rightarrow> 8 word list \<Rightarrow> 8 word list" where
  "swap_value_at offset width bytes =
     (if width = 16 then swap_at (offset + 8) 8 (swap_at offset 8 bytes) else swap_at offset width bytes)"

definition exchange_at :: "nat \<Rightarrow> 8 word list \<Rightarrow> 8 word list" where
  "exchange_at offset bytes =
     take offset bytes @ take 8 (drop (offset + 8) bytes) @ take 8 (drop offset bytes) @ drop (offset + 16) bytes"

fun run_step :: "context_format \<Rightarrow> string \<Rightarrow> context_step \<Rightarrow> 8 word list \<Rightarrow> 8 word list" where
  "run_step cf struct (SwapField name) bytes = swap_value_at (cf_offset cf struct name) (cf_width cf struct name) bytes"
| "run_step cf struct (SwapArray name count) bytes =
     fold (\<lambda>i. swap_value_at (cf_offset cf struct name + i * cf_width cf struct name) (cf_width cf struct name))
       [0..<cf_number cf count] bytes"
| "run_step cf struct (NormalizeArray name count is_big_endian) bytes =
     (if is_big_endian then bytes
      else fold (\<lambda>i. exchange_at (cf_offset cf struct name + i * 16)) [0..<cf_number cf count] bytes)"

definition run_steps :: "context_format \<Rightarrow> string \<Rightarrow> context_step list \<Rightarrow> 8 word list \<Rightarrow> 8 word list" where
  "run_steps cf struct steps = fold (run_step cf struct) steps"

text \<open>The members that are swapped and normalized for each CPU, in the order of the code.\<close>

definition amd64_normalize :: "context_step list" where
  "amd64_normalize =
   [NormalizeArray ''vector_register'' ''MD_CONTEXT_AMD64_VR_COUNT'' False]"

definition amd64_swap :: "context_step list" where
  "amd64_swap =
   [SwapField ''p1_home'', SwapField ''p2_home'', SwapField ''p3_home'', SwapField ''p4_home'',
    SwapField ''p5_home'', SwapField ''p6_home'', SwapField ''mx_csr'', SwapField ''cs'', SwapField ''ds'',
    SwapField ''es'', SwapField ''fs'', SwapField ''ss'', SwapField ''eflags'', SwapField ''dr0'',
    SwapField ''dr1'', SwapField ''dr2'', SwapField ''dr3'', SwapField ''dr6'', SwapField ''dr7'',
    SwapField ''rax'', SwapField ''rcx'', SwapField ''rdx'', SwapField ''rbx'', SwapField ''rsp'',
    SwapField ''rbp'', SwapField ''rsi'', SwapField ''rdi'', SwapField ''r8'', SwapField ''r9'',
    SwapField ''r10'', SwapField ''r11'', SwapField ''r12'', SwapField ''r13'', SwapField ''r14'',
    SwapField ''r15'', SwapField ''rip'', SwapArray ''vector_register'' ''MD_CONTEXT_AMD64_VR_COUNT'',
    SwapField ''vector_control'', SwapField ''debug_control'', SwapField ''last_branch_to_rip'',
    SwapField ''last_branch_from_rip'', SwapField ''last_exception_to_rip'',
    SwapField ''last_exception_from_rip'']"

definition ppc64_swap :: "context_step list" where
  "ppc64_swap =
   [SwapField ''srr0'', SwapField ''srr1'', SwapArray ''gpr'' ''MD_CONTEXT_PPC64_GPR_COUNT'',
    SwapField ''cr'', SwapField ''xer'', SwapField ''lr'', SwapField ''ctr'', SwapField ''vrsave'',
    SwapArray ''float_save.fpregs'' ''MD_FLOATINGSAVEAREA_PPC_FPR_COUNT'', SwapField ''float_save.fpscr'',
    NormalizeArray ''vector_save.save_vr'' ''MD_VECTORSAVEAREA_PPC_VR_COUNT'' True,
    SwapArray ''vector_save.save_vr'' ''MD_VECTORSAVEAREA_PPC_VR_COUNT'',
    SwapField ''vector_save.save_vscr'', SwapField ''vector_save.save_vrvalid'']"

definition arm64_swap :: "context_step list" where
  "arm64_swap =
   [SwapArray ''iregs'' ''MD_CONTEXT_ARM64_GPR_COUNT'', SwapField ''cpsr'', SwapField ''float_save.fpsr'',
    SwapField ''float_save.fpcr'',
    NormalizeArray ''float_save.regs'' ''MD_FLOATINGSAVEAREA_ARM64_FPR_COUNT'' False,
    SwapArray ''float_save.regs'' ''MD_FLOATINGSAVEAREA_ARM64_FPR_COUNT'']"

definition x86_swap :: "context_step list" where
  "x86_swap =
   [SwapField ''dr0'', SwapField ''dr1'', SwapField ''dr2'', SwapField ''dr3'', SwapField ''dr6'',
    SwapField ''dr7'', SwapField ''float_save.control_word'', SwapField ''float_save.status_word'',
    SwapField ''float_save.tag_word'', SwapField ''float_save.error_offset'',
    SwapField ''float_save.error_selector'', SwapField ''float_save.data_offset'',
    SwapField ''float_save.data_selector'', SwapField ''float_save.cr0_npx_state'', SwapField ''gs'',
    SwapField ''fs'', SwapField ''es'', SwapField ''ds'', SwapField ''edi'', SwapField ''esi'',
    SwapField ''ebx'', SwapField ''edx'', SwapField ''ecx'', SwapField ''eax'', SwapField ''ebp'',
    SwapField ''eip'', SwapField ''cs'', SwapField ''eflags'', SwapField ''esp'', SwapField ''ss'']"

definition ppc_normalize :: "context_step list" where
  "ppc_normalize =
   [NormalizeArray ''vector_save.save_vr'' ''MD_VECTORSAVEAREA_PPC_VR_COUNT'' True]"

definition ppc_swap :: "context_step list" where
  "ppc_swap =
   [SwapField ''srr0'', SwapField ''srr1'', SwapArray ''gpr'' ''MD_CONTEXT_PPC_GPR_COUNT'',
    SwapField ''cr'', SwapField ''xer'', SwapField ''lr'', SwapField ''ctr'', SwapField ''mq'',
    SwapField ''vrsave'', SwapArray ''float_save.fpregs'' ''MD_FLOATINGSAVEAREA_PPC_FPR_COUNT'',
    SwapField ''float_save.fpscr'', SwapArray ''vector_save.save_vr'' ''MD_VECTORSAVEAREA_PPC_VR_COUNT'',
    SwapField ''vector_save.save_vscr'', SwapField ''vector_save.save_vrvalid'']"

definition sparc_swap :: "context_step list" where
  "sparc_swap =
   [SwapArray ''g_r'' ''MD_CONTEXT_SPARC_GPR_COUNT'', SwapField ''ccr'', SwapField ''pc'',
    SwapField ''npc'', SwapField ''y'', SwapField ''asi'', SwapField ''fprs'',
    SwapArray ''float_save.regs'' ''MD_FLOATINGSAVEAREA_SPARC_FPR_COUNT'', SwapField ''float_save.filler'',
    SwapField ''float_save.fsr'']"

definition arm_swap :: "context_step list" where
  "arm_swap =
   [SwapArray ''iregs'' ''MD_CONTEXT_ARM_GPR_COUNT'', SwapField ''cpsr'', SwapField ''float_save.fpscr'',
    SwapArray ''float_save.regs'' ''MD_FLOATINGSAVEAREA_ARM_FPR_COUNT'',
    SwapArray ''float_save.extra'' ''MD_FLOATINGSAVEAREA_ARM_FPEXTRA_COUNT'']"

definition mips_swap :: "context_step list" where
  "mips_swap =
   [SwapArray ''iregs'' ''MD_CONTEXT_MIPS_GPR_COUNT'', SwapField ''mdhi'', SwapField ''mdlo'',
    SwapArray ''hi'' ''MD_CONTEXT_MIPS_DSP_COUNT'', SwapArray ''lo'' ''MD_CONTEXT_MIPS_DSP_COUNT'',
    SwapField ''dsp_control'', SwapField ''epc'', SwapField ''badvaddr'', SwapField ''status'',
    SwapField ''cause'', SwapArray ''float_save.regs'' ''MD_FLOATINGSAVEAREA_MIPS_FPR_COUNT'',
    SwapField ''float_save.fpcsr'', SwapField ''float_save.fir'']"

text \<open>A member's value, widened to 64 bits, and an array's element.\<close>

definition read_element :: "md_format \<Rightarrow> context_format \<Rightarrow> raw_context \<Rightarrow> string \<Rightarrow> nat \<Rightarrow> 64 word" where
  "read_element mf cf raw name i =
     (let width = cf_width cf (rc_struct raw) name;
          bytes = take width (drop (cf_offset cf (rc_struct raw) name + i * width) (rc_bytes raw))
      in if width = 8 then mf_u64 mf bytes else ucast (mf_u32 mf bytes))"

definition read_field :: "md_format \<Rightarrow> context_format \<Rightarrow> raw_context \<Rightarrow> string \<Rightarrow> 64 word" where
  "read_field mf cf raw name = read_element mf cf raw name 0"

section \<open>DumpContext\<close>

record dump_context =
  dc_valid :: bool
  dc_context_flags :: "32 word"
  dc_context :: "raw_context option"

definition new_DumpContext :: dump_context where
  "new_DumpContext = \<lparr>dc_valid = False, dc_context_flags = 0, dc_context = None\<rparr>"

definition GetContextCPU :: "md_constants \<Rightarrow> dump_context \<Rightarrow> 32 word" where
  "GetContextCPU md c = (if \<not> dc_valid c then 0 else and (dc_context_flags c) (md ''MD_CONTEXT_CPU_MASK''))"

definition GetContextFlags :: "dump_context \<Rightarrow> 32 word" where
  "GetContextFlags c = dc_context_flags c"

text \<open>The eight accessors differ in the CPU they ask for; the union's member is then that CPU's.\<close>

definition get_context :: "md_constants \<Rightarrow> string list \<Rightarrow> dump_context \<Rightarrow> raw_context option" where
  "get_context md cpus c = (if is_one_of md cpus (GetContextCPU md c) then dc_context c else None)"

definition GetContextX86 :: "md_constants \<Rightarrow> dump_context \<Rightarrow> raw_context option" where
  "GetContextX86 md = get_context md [''MD_CONTEXT_X86'']"

definition GetContextPPC :: "md_constants \<Rightarrow> dump_context \<Rightarrow> raw_context option" where
  "GetContextPPC md = get_context md [''MD_CONTEXT_PPC'']"

definition GetContextPPC64 :: "md_constants \<Rightarrow> dump_context \<Rightarrow> raw_context option" where
  "GetContextPPC64 md = get_context md [''MD_CONTEXT_PPC64'']"

definition GetContextAMD64 :: "md_constants \<Rightarrow> dump_context \<Rightarrow> raw_context option" where
  "GetContextAMD64 md = get_context md [''MD_CONTEXT_AMD64'']"

definition GetContextSPARC :: "md_constants \<Rightarrow> dump_context \<Rightarrow> raw_context option" where
  "GetContextSPARC md = get_context md [''MD_CONTEXT_SPARC'']"

definition GetContextARM :: "md_constants \<Rightarrow> dump_context \<Rightarrow> raw_context option" where
  "GetContextARM md = get_context md [''MD_CONTEXT_ARM'']"

definition GetContextARM64 :: "md_constants \<Rightarrow> dump_context \<Rightarrow> raw_context option" where
  "GetContextARM64 md = get_context md [''MD_CONTEXT_ARM64'']"

definition GetContextMIPS :: "md_constants \<Rightarrow> dump_context \<Rightarrow> raw_context option" where
  "GetContextMIPS md = get_context md [''MD_CONTEXT_MIPS'', ''MD_CONTEXT_MIPS64'']"

text \<open>
  The member a pointer is read from, for each CPU: its accessor, its name and the register's
  number for an array. \<open>NullContext\<close> is the access through a null pointer.
\<close>

datatype context_error = NullContext

type_synonym pointer_member = "(md_constants \<Rightarrow> dump_context \<Rightarrow> raw_context option) \<times> string \<times> string option"

definition ip_members :: "(string \<times> pointer_member) list" where
  "ip_members =
    [(''MD_CONTEXT_AMD64'', GetContextAMD64, ''rip'', None),
     (''MD_CONTEXT_ARM'', GetContextARM, ''iregs'', Some ''MD_CONTEXT_ARM_REG_PC''),
     (''MD_CONTEXT_ARM64'', GetContextARM64, ''iregs'', Some ''MD_CONTEXT_ARM64_REG_PC''),
     (''MD_CONTEXT_PPC'', GetContextPPC, ''srr0'', None),
     (''MD_CONTEXT_PPC64'', GetContextPPC64, ''srr0'', None),
     (''MD_CONTEXT_SPARC'', GetContextSPARC, ''pc'', None),
     (''MD_CONTEXT_X86'', GetContextX86, ''eip'', None),
     (''MD_CONTEXT_MIPS'', GetContextMIPS, ''epc'', None),
     (''MD_CONTEXT_MIPS64'', GetContextMIPS, ''epc'', None)]"

definition sp_members :: "(string \<times> pointer_member) list" where
  "sp_members =
    [(''MD_CONTEXT_AMD64'', GetContextAMD64, ''rsp'', None),
     (''MD_CONTEXT_ARM'', GetContextARM, ''iregs'', Some ''MD_CONTEXT_ARM_REG_SP''),
     (''MD_CONTEXT_ARM64'', GetContextARM64, ''iregs'', Some ''MD_CONTEXT_ARM64_REG_SP''),
     (''MD_CONTEXT_PPC'', GetContextPPC, ''gpr'', Some ''MD_CONTEXT_PPC_REG_SP''),
     (''MD_CONTEXT_PPC64'', GetContextPPC64, ''gpr'', Some ''MD_CONTEXT_PPC64_REG_SP''),
     (''MD_CONTEXT_SPARC'', GetContextSPARC, ''g_r'', Some ''MD_CONTEXT_SPARC_REG_SP''),
     (''MD_CONTEXT_X86'', GetContextX86, ''esp'', None),
     (''MD_CONTEXT_MIPS'', GetContextMIPS, ''iregs'', Some ''MD_CONTEXT_MIPS_REG_SP''),
     (''MD_CONTEXT_MIPS64'', GetContextMIPS, ''iregs'', Some ''MD_CONTEXT_MIPS_REG_SP'')]"

text \<open>The result is the return value with the pointer, which is 0 after a failure.\<close>

definition get_pointer :: "md_format \<Rightarrow> context_format \<Rightarrow> (string \<times> pointer_member) list \<Rightarrow> dump_context
    \<Rightarrow> context_error + (bool \<times> 64 word)" where
  "get_pointer mf cf members c =
     (if \<not> dc_valid c then Inr (False, 0)
      else case switch_case (mf_md mf) members (GetContextCPU (mf_md mf) c) of
        None \<Rightarrow> Inr (False, 0)
      | Some (accessor, name, register) \<Rightarrow>
          (case accessor (mf_md mf) c of
             None \<Rightarrow> Inl NullContext
           | Some raw \<Rightarrow> Inr (True, read_element mf cf raw name (case register of None \<Rightarrow> 0 | Some r \<Rightarrow> cf_number cf r))))"

definition GetInstructionPointer :: "md_format \<Rightarrow> context_format \<Rightarrow> dump_context \<Rightarrow> context_error + (bool \<times> 64 word)" where
  "GetInstructionPointer mf cf = get_pointer mf cf ip_members"

definition GetStackPointer :: "md_format \<Rightarrow> context_format \<Rightarrow> dump_context \<Rightarrow> context_error + (bool \<times> 64 word)" where
  "GetStackPointer mf cf = get_pointer mf cf sp_members"

definition SetContextFlags :: "32 word \<Rightarrow> dump_context \<Rightarrow> dump_context" where
  "SetContextFlags context_flags c = c\<lparr>dc_context_flags := context_flags\<rparr>"

text \<open>\<open>SetContextX86\<close> and the seven others store their argument in the union.\<close>

definition SetContext :: "raw_context \<Rightarrow> dump_context \<Rightarrow> dump_context" where
  "SetContext raw c = c\<lparr>dc_context := Some raw\<rparr>"

text \<open>The structure that is deleted is the first result: that of the union's member for the
  flags' CPU, if there is one.\<close>

definition known_cpus :: "string list" where
  "known_cpus = [''MD_CONTEXT_X86'', ''MD_CONTEXT_PPC'', ''MD_CONTEXT_PPC64'', ''MD_CONTEXT_AMD64'', ''MD_CONTEXT_SPARC'',
     ''MD_CONTEXT_ARM'', ''MD_CONTEXT_ARM64'', ''MD_CONTEXT_MIPS'', ''MD_CONTEXT_MIPS64'']"

definition FreeContext :: "md_constants \<Rightarrow> dump_context \<Rightarrow> raw_context option \<times> dump_context" where
  "FreeContext md c = (if is_one_of md known_cpus (GetContextCPU md c) then dc_context c else None,
     c\<lparr>dc_context_flags := 0, dc_context := None\<rparr>)"

section \<open>Read\<close>

text \<open>\<open>GetSystemInfo\<close> gives the object and its \<open>system_info\<close>, either of which may be null.\<close>

type_synonym 's system_info_reader = "'s minidump \<Rightarrow> raw_system_info option option \<times> 's minidump"

definition cpu_architectures :: "(string \<times> string list) list" where
  "cpu_architectures =
    [(''MD_CONTEXT_X86'', [''MD_CPU_ARCHITECTURE_X86'', ''MD_CPU_ARCHITECTURE_X86_WIN64'', ''MD_CPU_ARCHITECTURE_AMD64'']),
     (''MD_CONTEXT_PPC'', [''MD_CPU_ARCHITECTURE_PPC'']), (''MD_CONTEXT_PPC64'', [''MD_CPU_ARCHITECTURE_PPC64'']),
     (''MD_CONTEXT_AMD64'', [''MD_CPU_ARCHITECTURE_AMD64'']), (''MD_CONTEXT_SPARC'', [''MD_CPU_ARCHITECTURE_SPARC'']),
     (''MD_CONTEXT_ARM'', [''MD_CPU_ARCHITECTURE_ARM'']), (''MD_CONTEXT_ARM64'', [''MD_CPU_ARCHITECTURE_ARM64'']),
     (''MD_CONTEXT_MIPS'', [''MD_CPU_ARCHITECTURE_MIPS'']), (''MD_CONTEXT_MIPS64'', [''MD_CPU_ARCHITECTURE_MIPS64''])]"

definition CheckAgainstSystemInfo :: "md_constants \<Rightarrow> 's system_info_reader \<Rightarrow> 32 word \<Rightarrow> ('s, unit) reader" where
  "CheckAgainstSystemInfo md get_system_info context_cpu_type d = (case get_system_info d of
     (None, d) \<Rightarrow> (Some (), d)
   | (Some None, d) \<Rightarrow> (None, d)
   | (Some (Some raw), d) \<Rightarrow>
       (case switch_case md cpu_architectures context_cpu_type of
          None \<Rightarrow> (None, d)
        | Some architectures \<Rightarrow> (if architecture_is md architectures raw then Some () else None, d)))"

definition cpu_from_system_info :: "md_constants \<Rightarrow> 's system_info_reader \<Rightarrow> ('s, 32 word) reader" where
  "cpu_from_system_info md get_system_info d =
     (case GetContextCPUFlagsFromSystemInfo md (\<lambda>d. case get_system_info d of (info, d) \<Rightarrow> (Option.bind info id, d)) d of
        (ok, cpu_type, d) \<Rightarrow> (if ok then Some cpu_type else None, d))"

text \<open>Each of the next three reads a structure and gives the flags to be stored with it.\<close>

definition read_amd64 :: "md_format \<Rightarrow> context_format \<Rightarrow> 's system_info_reader \<Rightarrow> ('s, 64 word \<times> raw_context) reader" where
  "read_amd64 mf cf get_system_info =
     (let md = mf_md mf; struct = ''MDRawContextAMD64'' in
      rd_bind (ReadBytes (cf_sizeof cf struct)) (\<lambda>bytes. rd_bind rd_swap (\<lambda>swap.
      let flags = mf_u32 mf (take 4 (drop (cf_offset cf struct ''context_flags'') bytes));
          flags = (if swap then Swap32 flags else flags);
          cpu_type = and flags (md ''MD_CONTEXT_CPU_MASK'') in
      rd_bind (if cpu_type = 0 then cpu_from_system_info md get_system_info else rd_return cpu_type) (\<lambda>cpu_type'.
      let flags = (if cpu_type = 0 then or flags cpu_type' else flags) in
      rd_bind (rd_require (cpu_type' = md ''MD_CONTEXT_AMD64'')) (\<lambda>_.
      rd_bind (CheckAgainstSystemInfo md get_system_info cpu_type') (\<lambda>_.
      let bytes = run_steps cf struct amd64_normalize bytes;
          bytes = (if swap then run_steps cf struct amd64_swap bytes else bytes) in
      rd_return (ucast flags, \<lparr>rc_struct = struct, rc_context_flags = ucast flags, rc_bytes = bytes\<rparr>)))))))"

text \<open>The structures with flags of 64 bits. Flags from the system info are put into the new
  structure and then overwritten by the flags that were read.\<close>

definition read_wide :: "md_format \<Rightarrow> context_format \<Rightarrow> 's system_info_reader \<Rightarrow> string \<Rightarrow> string \<Rightarrow> context_step list
    \<Rightarrow> ('s, 64 word \<times> raw_context) reader" where
  "read_wide mf cf get_system_info struct label swap_steps =
     (let md = mf_md mf in
      rd_bind (ReadBytes 8) (\<lambda>flag_bytes. rd_bind rd_swap (\<lambda>swap.
      let flags = (if swap then Swap64 (mf_u64 mf flag_bytes) else mf_u64 mf flag_bytes);
          cpu_type = ucast (and flags (ucast (md ''MD_CONTEXT_CPU_MASK''))) in
      rd_bind (if cpu_type = 0 then cpu_from_system_info md get_system_info else rd_return cpu_type) (\<lambda>cpu_type'.
      rd_bind (rd_require (cpu_type' = md label)) (\<lambda>_.
      rd_bind (ReadBytes (cf_sizeof cf struct - 8)) (\<lambda>rest.
      rd_bind (CheckAgainstSystemInfo md get_system_info cpu_type') (\<lambda>_.
      let bytes = (if swap then run_steps cf struct swap_steps (flag_bytes @ rest) else flag_bytes @ rest) in
      rd_return (flags, \<lparr>rc_struct = struct, rc_context_flags = flags, rc_bytes = bytes\<rparr>))))))))"

definition narrow_contexts :: "(string \<times> string \<times> context_step list \<times> context_step list) list" where
  "narrow_contexts =
    [(''MD_CONTEXT_X86'', ''MDRawContextX86'', [], x86_swap),
     (''MD_CONTEXT_PPC'', ''MDRawContextPPC'', ppc_normalize, ppc_swap),
     (''MD_CONTEXT_SPARC'', ''MDRawContextSPARC'', [], sparc_swap),
     (''MD_CONTEXT_ARM'', ''MDRawContextARM'', [], arm_swap),
     (''MD_CONTEXT_MIPS'', ''MDRawContextMIPS'', [], mips_swap),
     (''MD_CONTEXT_MIPS64'', ''MDRawContextMIPS'', [], mips_swap)]"

text \<open>
  The flag of ARM was renumbered; the old one is replaced where no CPU is named. The results are
  the flags and their CPU.
\<close>

definition replace_old_arm :: "md_constants \<Rightarrow> 32 word \<Rightarrow> 32 word \<times> 32 word" where
  "replace_old_arm md flags =
     (let cpu_type = and flags (md ''MD_CONTEXT_CPU_MASK'') in
      if cpu_type = 0 \<and> and flags (md ''MD_CONTEXT_ARM_OLD'') \<noteq> 0
      then (and (or flags (md ''MD_CONTEXT_ARM'')) (not (md ''MD_CONTEXT_ARM_OLD'')), md ''MD_CONTEXT_ARM'')
      else (flags, cpu_type))"

definition read_narrow :: "md_format \<Rightarrow> context_format \<Rightarrow> 's system_info_reader \<Rightarrow> nat \<Rightarrow> ('s, 64 word \<times> raw_context) reader" where
  "read_narrow mf cf get_system_info expected_size =
     (let md = mf_md mf in
      rd_bind (ReadBytes 4) (\<lambda>flag_bytes. rd_bind rd_swap (\<lambda>swap.
      let flags = (if swap then Swap32 (mf_u32 mf flag_bytes) else mf_u32 mf flag_bytes);
          (flags, cpu_type) = replace_old_arm md flags in
      rd_bind (if cpu_type = 0 then cpu_from_system_info md get_system_info else rd_return cpu_type) (\<lambda>cpu_type'.
      let flags = (if cpu_type = 0 then or flags cpu_type' else flags) in
      (case switch_case md narrow_contexts cpu_type' of
         None \<Rightarrow> rd_fail
       | Some (struct, normalize_steps, swap_steps) \<Rightarrow>
           rd_bind (rd_require (expected_size = cf_sizeof cf struct)) (\<lambda>_.
           rd_bind (ReadBytes (cf_sizeof cf struct - 4)) (\<lambda>rest.
           rd_bind (CheckAgainstSystemInfo md get_system_info cpu_type') (\<lambda>_.
           let bytes = run_steps cf struct normalize_steps (flag_bytes @ rest);
               bytes = (if swap then run_steps cf struct swap_steps bytes else bytes) in
           rd_return (ucast flags, \<lparr>rc_struct = struct, rc_context_flags = ucast flags, rc_bytes = bytes\<rparr>)))))))))"

text \<open>The sizes \<open>IsContextSizeUnique\<close> compares with.\<close>

definition context_structs :: "string list" where
  "context_structs = [''MDRawContextX86'', ''MDRawContextPPC'', ''MDRawContextPPC64'', ''MDRawContextAMD64'',
     ''MDRawContextSPARC'', ''MDRawContextARM'', ''MDRawContextARM64'', ''MDRawContextMIPS'']"

definition size_unique :: "context_format \<Rightarrow> string \<Rightarrow> bool" where
  "size_unique cf struct = IsContextSizeUnique (map (\<lambda>s. of_nat (cf_sizeof cf s)) context_structs) (of_nat (cf_sizeof cf struct))"

definition read_context :: "md_format \<Rightarrow> context_format \<Rightarrow> 's system_info_reader \<Rightarrow> nat \<Rightarrow> ('s, 64 word \<times> raw_context) reader" where
  "read_context mf cf get_system_info expected_size =
     (if expected_size = cf_sizeof cf ''MDRawContextAMD64'' then read_amd64 mf cf get_system_info
      else if expected_size = cf_sizeof cf ''MDRawContextPPC64''
      then read_wide mf cf get_system_info ''MDRawContextPPC64'' ''MD_CONTEXT_PPC64'' ppc64_swap
      else if expected_size = cf_sizeof cf ''MDRawContextARM64''
      then read_wide mf cf get_system_info ''MDRawContextARM64'' ''MD_CONTEXT_ARM64'' arm64_swap
      else read_narrow mf cf get_system_info expected_size)"

text \<open>The flags are stored in 32 bits and compared with those of the structure.\<close>

definition MinidumpContext_Read :: "md_format \<Rightarrow> context_format \<Rightarrow> 's system_info_reader \<Rightarrow> 32 word \<Rightarrow> dump_context
    \<Rightarrow> 's minidump \<Rightarrow> bool \<times> dump_context \<times> 's minidump" where
  "MinidumpContext_Read mf cf get_system_info expected_size c d =
     (let c = c\<lparr>dc_valid := False\<rparr> in
      if \<not> (size_unique cf ''MDRawContextAMD64'' \<and> size_unique cf ''MDRawContextPPC64'' \<and>
            size_unique cf ''MDRawContextARM64'') then (False, c, d)
      else
        let c = snd (FreeContext (mf_md mf) c) in
        case read_context mf cf get_system_info (unat expected_size) d of
          (None, d) \<Rightarrow> (False, c, d)
        | (Some (flags, raw), d) \<Rightarrow>
            let c = SetContextFlags (ucast flags) c in
            if ucast (GetContextFlags c) \<noteq> flags then (False, c, d)
            else (True, (SetContext raw c)\<lparr>dc_valid := True\<rparr>, d))"

end
