(* ===== verification/Context_Facts.thy ===== *)
theory Context_Facts
  imports Minidump_Context
begin

text \<open>
  What reading a context gives: the structure stored is the one its CPU's accessor returns, and
  the swapping of a structure's members is undone by swapping them again.
\<close>

section \<open>The CPU of a context\<close>

text \<open>The documented values: distinct, nonzero, inside the mask; the old ARM flag outside of it.\<close>

definition cpu_constants :: "md_constants \<Rightarrow> bool" where
  "cpu_constants md \<longleftrightarrow> distinct (map md known_cpus) \<and>
     (\<forall>cpu \<in> set known_cpus. md cpu \<noteq> 0 \<and> and (md cpu) (md ''MD_CONTEXT_CPU_MASK'') = md cpu) \<and>
     and (md ''MD_CONTEXT_ARM_OLD'') (md ''MD_CONTEXT_CPU_MASK'') = 0"

definition struct_of :: "(string \<times> string) list" where
  "struct_of = [(''MD_CONTEXT_X86'', ''MDRawContextX86''), (''MD_CONTEXT_PPC'', ''MDRawContextPPC''),
     (''MD_CONTEXT_PPC64'', ''MDRawContextPPC64''), (''MD_CONTEXT_AMD64'', ''MDRawContextAMD64''),
     (''MD_CONTEXT_SPARC'', ''MDRawContextSPARC''), (''MD_CONTEXT_ARM'', ''MDRawContextARM''),
     (''MD_CONTEXT_ARM64'', ''MDRawContextARM64''), (''MD_CONTEXT_MIPS'', ''MDRawContextMIPS''),
     (''MD_CONTEXT_MIPS64'', ''MDRawContextMIPS'')]"

lemma and_or_mask: "and (or a b) m = or (and a m) (and b m)" for a b m :: "32 word"
  by (rule bit_word_eqI) (auto simp: bit_simps)

lemma mask_out_old: "and old m = 0 \<Longrightarrow> and (and a (not old)) m = and a m" for a m old :: "32 word"
  by (rule bit_word_eqI) (auto simp: bit_simps dest: arg_cong [of _ _ "\<lambda>w. bit w _"])

lemma and_mask_left: "and (and a m) m = and a m" for a m :: "32 word"
  by (simp add: and.assoc)

lemma switch_case_Some: "switch_case md cases v = Some r \<Longrightarrow> \<exists>label. (label, r) \<in> set cases \<and> md label = v"
  unfolding switch_case_def by (fastforce simp: find_Some_iff set_conv_nth)

lemma narrow_struct: "(label, s, n, w) \<in> set narrow_contexts \<Longrightarrow> label \<in> set known_cpus \<and> (label, s) \<in> set struct_of"
  by (auto simp: narrow_contexts_def known_cpus_def struct_of_def)

lemma replace_old_arm_cpu:
  assumes "cpu_constants md" "replace_old_arm md f = (f', cpu)"
  shows "and f' (md ''MD_CONTEXT_CPU_MASK'') = cpu"
proof -
  have "and (md ''MD_CONTEXT_ARM'') (md ''MD_CONTEXT_CPU_MASK'') = md ''MD_CONTEXT_ARM''"
    "and (md ''MD_CONTEXT_ARM_OLD'') (md ''MD_CONTEXT_CPU_MASK'') = 0"
    using assms(1) by (auto simp: cpu_constants_def known_cpus_def)
  then show ?thesis
    using assms(2) by (auto simp: replace_old_arm_def Let_def and_or_mask mask_out_old split: if_splits)
qed

text \<open>The flags after the CPU is known: the CPU they name is the one that was found.\<close>

lemma flags_name_cpu:
  assumes "and f m = cpu" "cpu \<noteq> 0 \<longrightarrow> cpu' = cpu" "and cpu' m = cpu'"
  shows "and (if cpu = 0 then or f cpu' else f) m = (cpu' :: 32 word)"
  using assms by (auto simp: and_or_mask)

lemma rd_cpu: "(if cpu = 0 then m else rd_return cpu) d = (Some cpu', d') \<Longrightarrow> cpu \<noteq> 0 \<longrightarrow> cpu' = cpu"
  by (auto simp: rd_iff split: if_splits)

lemma read_narrow_cpu:
  assumes "cpu_constants (mf_md mf)" "read_narrow mf cf gsi size_of d = (Some (flags, raw), d')"
  shows "\<exists>label w. flags = ucast (w :: 32 word) \<and> (label, rc_struct raw) \<in> set struct_of \<and> label \<in> set known_cpus \<and>
    and w (mf_md mf ''MD_CONTEXT_CPU_MASK'') = mf_md mf label"
proof -
  let ?md = "mf_md mf" and ?m = "mf_md mf ''MD_CONTEXT_CPU_MASK''"
  from assms(2) obtain b d1 where "ReadBytes 4 d = (Some b, d1)" and
    1: "(case replace_old_arm ?md (if mh_swap d1 then Swap32 (mf_u32 mf b) else mf_u32 mf b) of (flags, cpu) \<Rightarrow>
      rd_bind (if cpu = 0 then cpu_from_system_info ?md gsi else rd_return cpu) (\<lambda>cpu'.
        case switch_case ?md narrow_contexts cpu' of None \<Rightarrow> rd_fail | Some (s, n, w) \<Rightarrow>
          rd_bind (rd_require (size_of = cf_sizeof cf s)) (\<lambda>_. rd_bind (ReadBytes (cf_sizeof cf s - 4)) (\<lambda>rest.
            rd_bind (CheckAgainstSystemInfo ?md gsi cpu') (\<lambda>_.
              rd_return (ucast (if cpu = 0 then or flags cpu' else flags),
                \<lparr>rc_struct = s, rc_context_flags = ucast (if cpu = 0 then or flags cpu' else flags),
                 rc_bytes = (if mh_swap d1 then run_steps cf s w (run_steps cf s n (b @ rest))
                   else run_steps cf s n (b @ rest))\<rparr>))))))
      d1 = (Some (flags, raw), d')"
    unfolding read_narrow_def Let_def rd_bind_iff rd_swap_iff by blast
  obtain f1 cpu where f: "replace_old_arm ?md (if mh_swap d1 then Swap32 (mf_u32 mf b) else mf_u32 mf b) = (f1, cpu)"
    by (cases "replace_old_arm ?md (if mh_swap d1 then Swap32 (mf_u32 mf b) else mf_u32 mf b)")
  with 1 obtain cpu' d2 s n w where *: "(if cpu = 0 then cpu_from_system_info ?md gsi else rd_return cpu) d1 = (Some cpu', d2)"
    "switch_case ?md narrow_contexts cpu' = Some (s, n, w)" "rc_struct raw = s"
    "flags = ucast (if cpu = 0 then or f1 cpu' else f1)"
    by (auto simp: rd_iff split: option.splits prod.splits)
  obtain label where l: "(label, s, n, w) \<in> set narrow_contexts" "?md label = cpu'"
    using switch_case_Some [OF *(2)] by blast
  note ls = narrow_struct [OF l(1)]
  have "and cpu' ?m = cpu'" using assms(1) ls l(2) by (auto simp: cpu_constants_def)
  from flags_name_cpu [OF replace_old_arm_cpu [OF assms(1) f] rd_cpu [OF *(1)] this]
  show ?thesis using ls l(2) *(3,4) by blast
qed
lemma read_amd64_cpu:
  assumes "cpu_constants (mf_md mf)" "read_amd64 mf cf gsi d = (Some (flags, raw), d')"
  shows "\<exists>w. flags = ucast (w :: 32 word) \<and> rc_struct raw = ''MDRawContextAMD64'' \<and>
    and w (mf_md mf ''MD_CONTEXT_CPU_MASK'') = mf_md mf ''MD_CONTEXT_AMD64''"
proof -
  let ?md = "mf_md mf" and ?m = "mf_md mf ''MD_CONTEXT_CPU_MASK''"
  from assms(2) obtain f d1 d2 cpu' where *:
    "(if and f ?m = 0 then cpu_from_system_info ?md gsi else rd_return (and f ?m)) d1 = (Some cpu', d2)"
    "cpu' = ?md ''MD_CONTEXT_AMD64''" "flags = ucast (if and f ?m = 0 then or f cpu' else f)"
    "rc_struct raw = ''MDRawContextAMD64''"
    unfolding read_amd64_def Let_def rd_bind_iff rd_swap_iff rd_require_iff rd_return_iff by force
  have "and cpu' ?m = cpu'" using assms(1) *(2) by (auto simp: cpu_constants_def known_cpus_def)
  from flags_name_cpu [OF refl rd_cpu [OF *(1)] this] show ?thesis using * by blast
qed

lemma read_wide_struct:
  "read_wide mf cf gsi struct label w d = (Some (flags, raw), d') \<Longrightarrow> rc_struct raw = struct \<and>
    (ucast (and flags (ucast (mf_md mf ''MD_CONTEXT_CPU_MASK''))) = (0 :: 32 word) \<or>
     ucast (and flags (ucast (mf_md mf ''MD_CONTEXT_CPU_MASK''))) = mf_md mf label)"
  unfolding read_wide_def Let_def rd_bind_iff rd_swap_iff rd_require_iff rd_return_iff
  by (auto simp: rd_iff split: if_splits)

text \<open>Each accessor with the structure it returns.\<close>

definition context_accessors :: "((md_constants \<Rightarrow> dump_context \<Rightarrow> raw_context option) \<times> string list \<times> string) list" where
  "context_accessors =
    [(GetContextX86, [''MD_CONTEXT_X86''], ''MDRawContextX86''), (GetContextPPC, [''MD_CONTEXT_PPC''], ''MDRawContextPPC''),
     (GetContextPPC64, [''MD_CONTEXT_PPC64''], ''MDRawContextPPC64''),
     (GetContextAMD64, [''MD_CONTEXT_AMD64''], ''MDRawContextAMD64''),
     (GetContextSPARC, [''MD_CONTEXT_SPARC''], ''MDRawContextSPARC''), (GetContextARM, [''MD_CONTEXT_ARM''], ''MDRawContextARM''),
     (GetContextARM64, [''MD_CONTEXT_ARM64''], ''MDRawContextARM64''),
     (GetContextMIPS, [''MD_CONTEXT_MIPS'', ''MD_CONTEXT_MIPS64''], ''MDRawContextMIPS'')]"

text \<open>The context is of the CPU \<open>label\<close>, its flags name it or, for two CPUs, none.\<close>

definition context_of :: "md_constants \<Rightarrow> string \<Rightarrow> raw_context \<Rightarrow> dump_context \<Rightarrow> bool" where
  "context_of md label raw c \<longleftrightarrow> dc_valid c \<and> dc_context c = Some raw \<and> (label, rc_struct raw) \<in> set struct_of \<and>
     (GetContextCPU md c = md label \<or> GetContextCPU md c = 0 \<and> label \<in> {''MD_CONTEXT_PPC64'', ''MD_CONTEXT_ARM64''})"

lemma ucast_and: "ucast (and a (ucast m :: 64 word)) = and (ucast a) (m :: 32 word)" for a :: "64 word"
  by (rule bit_word_eqI) (auto simp: bit_simps)

lemma ucast_widen [simp]: "ucast (ucast w :: 64 word) = w" for w :: "32 word"
  by (rule bit_word_eqI) (auto simp: bit_simps)

lemma MinidumpContext_Read_context_of:
  assumes "cpu_constants (mf_md mf)" "MinidumpContext_Read mf cf gsi size_of c d = (True, c', d')"
  shows "\<exists>label raw. label \<in> set known_cpus \<and> context_of (mf_md mf) label raw c'"
proof -
  let ?md = "mf_md mf" and ?m = "mf_md mf ''MD_CONTEXT_CPU_MASK''"
  obtain flags raw where r: "read_context mf cf gsi (unat size_of) d = (Some (flags, raw), d')"
    and c': "dc_valid c'" "dc_context c' = Some raw" "dc_context_flags c' = ucast flags" "ucast (ucast flags :: 32 word) = flags"
    using assms(2) unfolding MinidumpContext_Read_def Let_def
    by (auto simp: SetContextFlags_def SetContext_def GetContextFlags_def split: if_splits prod.splits option.splits)
  have cpu: "GetContextCPU ?md c' = and (ucast flags) ?m" using c' by (simp add: GetContextCPU_def)
  have wide: ?thesis if "read_wide mf cf gsi struct label w d = (Some (flags, raw), d')" "label \<in> set known_cpus"
      "(label, struct) \<in> set struct_of" "label \<in> {''MD_CONTEXT_PPC64'', ''MD_CONTEXT_ARM64''}" for struct label w
    using read_wide_struct [OF that(1)] that(2-4) c' cpu
    by (intro exI [of _ label] exI [of _ raw]) (auto simp: context_of_def ucast_and)
  from r consider "read_amd64 mf cf gsi d = (Some (flags, raw), d')"
    | "read_wide mf cf gsi ''MDRawContextPPC64'' ''MD_CONTEXT_PPC64'' ppc64_swap d = (Some (flags, raw), d')"
    | "read_wide mf cf gsi ''MDRawContextARM64'' ''MD_CONTEXT_ARM64'' arm64_swap d = (Some (flags, raw), d')"
    | "read_narrow mf cf gsi (unat size_of) d = (Some (flags, raw), d')"
    by (auto simp: read_context_def split: if_splits)
  then show ?thesis
  proof cases
    case 1
    then obtain w where "flags = ucast (w :: 32 word)" "rc_struct raw = ''MDRawContextAMD64''" "and w ?m = ?md ''MD_CONTEXT_AMD64''"
      using read_amd64_cpu [OF assms(1)] by blast
    then show ?thesis using c' cpu
      by (intro exI [of _ "''MD_CONTEXT_AMD64''"] exI [of _ raw]) (simp add: context_of_def known_cpus_def struct_of_def)
  next
    case 2
    then show ?thesis by (rule wide) (simp_all add: known_cpus_def struct_of_def)
  next
    case 3
    then show ?thesis by (rule wide) (simp_all add: known_cpus_def struct_of_def)
  next
    case 4
    then obtain label w where "flags = ucast (w :: 32 word)" "(label, rc_struct raw) \<in> set struct_of" "label \<in> set known_cpus"
        "and w ?m = ?md label"
      using read_narrow_cpu [OF assms(1)] by blast
    then show ?thesis using c' cpu by (intro exI [of _ label] exI [of _ raw]) (simp add: context_of_def)
  qed
qed

text \<open>The labels' positions decide on equality of the constants.\<close>

lemma cpu_constants_eq:
  "cpu_constants md \<Longrightarrow> a \<in> set known_cpus \<Longrightarrow> b \<in> set known_cpus \<Longrightarrow> md a = md b \<longleftrightarrow> a = b"
  by (auto simp: cpu_constants_def distinct_map dest: inj_onD)

lemma cpu_constants_nonzero: "cpu_constants md \<Longrightarrow> a \<in> set known_cpus \<Longrightarrow> md a \<noteq> 0"
  by (auto simp: cpu_constants_def)

lemma accessors_are: "(acc, cpus, struct) \<in> set context_accessors \<Longrightarrow> acc = (\<lambda>md. get_context md cpus)"
  unfolding context_accessors_def list.set insert_iff empty_iff prod.inject
  by (elim disjE conjE; simp add: GetContextX86_def GetContextPPC_def GetContextPPC64_def
      GetContextAMD64_def GetContextSPARC_def GetContextARM_def GetContextARM64_def GetContextMIPS_def fun_eq_iff)

lemma accessors_table:
  "\<forall>(cpus, struct) \<in> set (map snd context_accessors). set cpus \<subseteq> set known_cpus \<and>
    (\<forall>(label, s) \<in> set struct_of. label \<in> set cpus \<longleftrightarrow> s = struct)"
  by code_simp

lemma accessors_known: "(acc, cpus, struct) \<in> set context_accessors \<Longrightarrow>
    acc = (\<lambda>md. get_context md cpus) \<and> set cpus \<subseteq> set known_cpus \<and>
    (\<forall>label s. (label, s) \<in> set struct_of \<longrightarrow> (label \<in> set cpus \<longleftrightarrow> s = struct))"
  using accessors_are accessors_table by fastforce

text \<open>
  C29: A context that was read holds a structure, which the accessor of that structure returns
  and no other accessor; only a PowerPC 64 or ARM64 context can be without one, whose flags name
  no CPU.
\<close>

theorem context_accessors_typed:
  assumes "cpu_constants (mf_md mf)" "MinidumpContext_Read mf cf get_system_info expected_size c d = (True, c', d')"
  shows "\<exists>raw. dc_context c' = Some raw \<and>
    (\<forall>(accessor, cpus, struct) \<in> set context_accessors. accessor (mf_md mf) c' =
      (if struct = rc_struct raw \<and> GetContextCPU (mf_md mf) c' \<noteq> 0 then Some raw else None)) \<and>
    (GetContextCPU (mf_md mf) c' = 0 \<longrightarrow> rc_struct raw \<in> {''MDRawContextPPC64'', ''MDRawContextARM64''})"
proof -
  obtain label raw where l: "label \<in> set known_cpus" "context_of (mf_md mf) label raw c'"
    using MinidumpContext_Read_context_of [OF assms(1,2)] by blast
  then have ctx: "dc_context c' = Some raw" "(label, rc_struct raw) \<in> set struct_of"
    "GetContextCPU (mf_md mf) c' = mf_md mf label \<or> GetContextCPU (mf_md mf) c' = 0 \<and> label \<in> {''MD_CONTEXT_PPC64'', ''MD_CONTEXT_ARM64''}"
    by (auto simp: context_of_def)
  have "accessor (mf_md mf) c' = (if struct = rc_struct raw \<and> GetContextCPU (mf_md mf) c' \<noteq> 0 then Some raw else None)"
    if a: "(accessor, cpus, struct) \<in> set context_accessors" for accessor cpus struct
  proof -
    note A = accessors_known [OF a]
    have cpus: "label \<in> set cpus \<longleftrightarrow> rc_struct raw = struct" using A ctx(2) by blast
    have "is_one_of (mf_md mf) cpus (mf_md mf label) \<longleftrightarrow> label \<in> set cpus"
      using A l(1) cpu_constants_eq [OF assms(1)] unfolding is_one_of_def by blast
    moreover have "\<not> is_one_of (mf_md mf) cpus 0" using A cpu_constants_nonzero [OF assms(1)] unfolding is_one_of_def by blast
    ultimately show ?thesis
      using A ctx(1,3) cpus cpu_constants_nonzero [OF assms(1) l(1)] by (auto simp: get_context_def)
  qed
  moreover have "GetContextCPU (mf_md mf) c' = 0 \<longrightarrow> rc_struct raw \<in> {''MDRawContextPPC64'', ''MDRawContextARM64''}"
    using ctx(2,3) cpu_constants_nonzero [OF assms(1) l(1)] by (auto simp: struct_of_def)
  ultimately show ?thesis using ctx(1) by blast
qed

text \<open>
  An ARM64 context whose flags name no CPU, in a dump whose system info names ARM64: it is read,
  and then no accessor returns it.
\<close>

definition example_context_format :: context_format where
  "example_context_format = \<lparr>cf_sizeof = (\<lambda>s. case map_of (zip context_structs [24, 28, 32, 36, 40, 44, 16, 48]) s of
       Some n \<Rightarrow> n | None \<Rightarrow> 0),
     cf_offset = (\<lambda>s f. 8), cf_width = (\<lambda>s f. 4), cf_number = (\<lambda>c. 0)\<rparr>"

definition example_system_info :: raw_system_info where
  "example_system_info = \<lparr>rs_processor_architecture = 0x8003, rs_processor_level = 0, rs_processor_revision = 0,
     rs_number_of_processors = 1, rs_platform_id = 0, rs_major_version = 0, rs_minor_version = 0, rs_build_number = 0,
     rs_arm_cpuid = 0, rs_arm_elf_hwcaps = 0\<rparr>"

definition example_context :: "bool \<times> dump_context \<times> unit minidump" where
  "example_context = MinidumpContext_Read example_format example_context_format
     (\<lambda>d. (Some (Some example_system_info), d)) 16 new_DumpContext
     ((Minidump_stream \<lparr>is_bytes = 2 # replicate 15 0, is_position = 0, is_good = True, is_seeks_past_end = True\<rparr>)
       \<lparr>mh_valid := True\<rparr>)"

lemma example_context_read: "fst example_context" "cpu_constants example_constants"
    "GetContextCPU example_constants (fst (snd example_context)) = 0"
  unfolding cpu_constants_def by code_simp+

theorem context_accessors_typed_witness:
  "dc_context (fst (snd example_context)) \<noteq> None \<and> GetContextARM64 example_constants (fst (snd example_context)) = None"
proof -
  have c: "cpu_constants (mf_md example_format)"
    using example_context_read(2) by (simp add: example_format_def)
  have "example_context = (True, fst (snd example_context), snd (snd example_context))"
    using example_context_read(1) by (simp add: prod_eq_iff)
  from context_accessors_typed [OF c this [unfolded example_context_def]] obtain raw where
    r: "dc_context (fst (snd example_context)) = Some raw"
    "\<forall>(accessor, cpus, struct) \<in> set context_accessors. accessor (mf_md example_format) (fst (snd example_context)) =
      (if struct = rc_struct raw \<and> GetContextCPU (mf_md example_format) (fst (snd example_context)) \<noteq> 0 then Some raw else None)"
    unfolding example_context_def by blast
  have "(GetContextARM64, [''MD_CONTEXT_ARM64''], ''MDRawContextARM64'') \<in> set context_accessors"
    by (simp add: context_accessors_def)
  from bspec [OF r(2) this] have "GetContextARM64 (mf_md example_format) (fst (snd example_context)) = None"
    using example_context_read(3) by (simp add: example_format_def)
  then show ?thesis using r(1) by (simp add: example_format_def)
qed

end
