(* ===== verification/Minidump_Memory.thy ===== *)
theory Minidump_Memory
  imports Minidump_Context Frames
begin

text \<open>
  \<open>MinidumpMemoryRegion\<close>, \<open>MinidumpThread\<close> and \<open>MinidumpThreadList\<close>, \<open>MinidumpMemoryList\<close> of
  \<open>minidump_src/minidump.cc\<close>. A region reads its bytes from the dump at the first access and
  keeps them; a thread does so with its context. The range map of the memory list is the
  parameter \<open>rm\<close>.
\<close>

section \<open>Memory regions\<close>

record mem_region =
  mg_valid :: bool
  mg_descriptor :: "memory_descriptor option"
  mg_memory :: "8 word list option"

definition new_region :: mem_region where
  "new_region = \<lparr>mg_valid = False, mg_descriptor = None, mg_memory = None\<rparr>"

definition max_bytes :: "32 word" where
  "max_bytes = 2 * 1024 * 1024"

definition SetDescriptor :: "memory_descriptor option \<Rightarrow> mem_region \<Rightarrow> mem_region" where
  "SetDescriptor descriptor r = r\<lparr>mg_descriptor := descriptor, mg_valid := (case descriptor of
     None \<Rightarrow> False
   | Some m \<Rightarrow> ucast (ld_data_size (dd_memory m)) \<le> - 1 - dd_start_of_memory_range m)\<rparr>"

text \<open>A valid region has a descriptor; its fields.\<close>

definition region_start :: "mem_region \<Rightarrow> 64 word" where
  "region_start r = dd_start_of_memory_range (the (mg_descriptor r))"

definition region_data_size :: "mem_region \<Rightarrow> 32 word" where
  "region_data_size r = ld_data_size (dd_memory (the (mg_descriptor r)))"

definition region_rva :: "mem_region \<Rightarrow> 32 word" where
  "region_rva r = ld_rva (dd_memory (the (mg_descriptor r)))"

definition region_GetMemory :: "mem_region \<Rightarrow> 's minidump \<Rightarrow> 8 word list option \<times> mem_region \<times> 's minidump" where
  "region_GetMemory r d =
     (if \<not> mg_valid r then (None, r, d)
      else case mg_memory r of
        Some memory \<Rightarrow> (Some memory, r, d)
      | None \<Rightarrow>
          if region_data_size r = 0 then (None, r, d)
          else case SeekSet (unat (region_rva r)) d of
            (False, d) \<Rightarrow> (None, r, d)
          | (True, d) \<Rightarrow>
              if region_data_size r > max_bytes then (None, r, d)
              else case ReadBytes (unat (region_data_size r)) d of
                (None, d) \<Rightarrow> (None, r, d)
              | (Some memory, d) \<Rightarrow> (Some memory, r\<lparr>mg_memory := Some memory\<rparr>, d))"

definition GetBase :: "mem_region \<Rightarrow> 64 word" where
  "GetBase r = (if \<not> mg_valid r then - 1 else region_start r)"

definition GetSize :: "mem_region \<Rightarrow> 32 word" where
  "GetSize r = (if \<not> mg_valid r then 0 else region_data_size r)"

definition FreeMemory :: "mem_region \<Rightarrow> mem_region" where
  "FreeMemory r = r\<lparr>mg_memory := None\<rparr>"

text \<open>The template at a type of \<open>size_of\<close> bytes, with its decoding and its \<open>Swap\<close>.\<close>

definition GetMemoryAtAddressInternal :: "nat \<Rightarrow> (8 word list \<Rightarrow> 'w) \<Rightarrow> ('w \<Rightarrow> 'w) \<Rightarrow> 64 word \<Rightarrow> mem_region \<Rightarrow> 's minidump
    \<Rightarrow> 'w option \<times> mem_region \<times> 's minidump" where
  "GetMemoryAtAddressInternal size_of decode swap address r d =
     (if \<not> mg_valid r then (None, r, d)
      else if address < region_start r \<or> of_nat size_of > - 1 - address \<or>
        address + of_nat size_of > region_start r + ucast (region_data_size r) then (None, r, d)
      else case region_GetMemory r d of
        (None, r, d) \<Rightarrow> (None, r, d)
      | (Some memory, r, d) \<Rightarrow>
          let value = decode (take size_of (drop (unat (address - region_start r)) memory)) in
          (Some (if mh_swap d then swap value else value), r, d))"

definition GetMemoryAtAddress8 :: "64 word \<Rightarrow> mem_region \<Rightarrow> 's minidump \<Rightarrow> 8 word option \<times> mem_region \<times> 's minidump" where
  "GetMemoryAtAddress8 = GetMemoryAtAddressInternal 1 hd Swap8"

definition GetMemoryAtAddress16 :: "md_format \<Rightarrow> 64 word \<Rightarrow> mem_region \<Rightarrow> 's minidump
    \<Rightarrow> 16 word option \<times> mem_region \<times> 's minidump" where
  "GetMemoryAtAddress16 mf = GetMemoryAtAddressInternal 2 (mf_u16 mf) Swap16"

definition GetMemoryAtAddress32 :: "md_format \<Rightarrow> 64 word \<Rightarrow> mem_region \<Rightarrow> 's minidump
    \<Rightarrow> 32 word option \<times> mem_region \<times> 's minidump" where
  "GetMemoryAtAddress32 mf = GetMemoryAtAddressInternal 4 (mf_u32 mf) Swap32"

definition GetMemoryAtAddress64 :: "md_format \<Rightarrow> 64 word \<Rightarrow> mem_region \<Rightarrow> 's minidump
    \<Rightarrow> 64 word option \<times> mem_region \<times> 's minidump" where
  "GetMemoryAtAddress64 mf = GetMemoryAtAddressInternal 8 (mf_u64 mf) Swap64"

section \<open>Threads\<close>

record md_thread =
  mt_thread_id :: "32 word"
  mt_suspend_count :: "32 word"
  mt_priority_class :: "32 word"
  mt_priority :: "32 word"
  mt_teb :: "64 word"
  mt_stack :: memory_descriptor
  mt_thread_context :: location_descriptor

record minidump_thread =
  tm_valid :: bool
  tm_thread :: md_thread
  tm_memory :: "mem_region option"
  tm_context :: "dump_context option"

text \<open>Sizes and decoding of the structures of the lists; \<open>cf\<close> is that of the contexts.\<close>

record list_format =
  lf_mf :: md_format
  lf_sizeof_thread :: nat
  lf_thread :: "8 word list \<Rightarrow> md_thread"
  lf_sizeof_memory_descriptor :: nat
  lf_memory_descriptor :: "8 word list \<Rightarrow> memory_descriptor"

definition Swap_thread :: "md_thread \<Rightarrow> md_thread" where
  "Swap_thread t = t\<lparr>mt_thread_id := Swap32 (mt_thread_id t), mt_suspend_count := Swap32 (mt_suspend_count t),
     mt_priority_class := Swap32 (mt_priority_class t), mt_priority := Swap32 (mt_priority t),
     mt_teb := Swap64 (mt_teb t), mt_stack := Swap_memory (mt_stack t),
     mt_thread_context := Swap_location (mt_thread_context t)\<rparr>"

text \<open>A new thread is read; the result is the object, as \<open>Read\<close> starts by clearing it.\<close>

definition MinidumpThread_Read :: "list_format \<Rightarrow> ('s, minidump_thread) reader" where
  "MinidumpThread_Read lf =
     rd_bind (ReadBytes (lf_sizeof_thread lf)) (\<lambda>bytes. rd_bind rd_swap (\<lambda>swap.
       let thread = (if swap then Swap_thread (lf_thread lf bytes) else lf_thread lf bytes);
           memory = dd_memory (mt_stack thread)
       in rd_return \<lparr>tm_valid = True, tm_thread = thread,
            tm_memory = (if ld_rva memory = 0 \<or> ld_data_size memory = 0 \<or>
                ucast (ld_data_size memory) > - 1 - dd_start_of_memory_range (mt_stack thread)
              then None else Some (SetDescriptor (Some (mt_stack thread)) new_region)),
            tm_context = None\<rparr>))"

definition GetStartOfStackMemoryRange :: "minidump_thread \<Rightarrow> 64 word" where
  "GetStartOfStackMemoryRange t = (if \<not> tm_valid t then 0 else dd_start_of_memory_range (mt_stack (tm_thread t)))"

definition thread_GetMemory :: "minidump_thread \<Rightarrow> mem_region option" where
  "thread_GetMemory t = (if \<not> tm_valid t then None else tm_memory t)"

definition thread_GetContext :: "list_format \<Rightarrow> context_format \<Rightarrow> 's system_info_reader \<Rightarrow> minidump_thread \<Rightarrow> 's minidump
    \<Rightarrow> dump_context option \<times> minidump_thread \<times> 's minidump" where
  "thread_GetContext lf cf get_system_info t d =
     (if \<not> tm_valid t then (None, t, d)
      else case tm_context t of
        Some context \<Rightarrow> (Some context, t, d)
      | None \<Rightarrow>
          (case SeekSet (unat (ld_rva (mt_thread_context (tm_thread t)))) d of
             (False, d) \<Rightarrow> (None, t, d)
           | (True, d) \<Rightarrow>
               (case MinidumpContext_Read (lf_mf lf) cf get_system_info
                       (ld_data_size (mt_thread_context (tm_thread t))) new_DumpContext d of
                  (False, _, d) \<Rightarrow> (None, t, d)
                | (True, context, d) \<Rightarrow> (Some context, t\<lparr>tm_context := Some context\<rparr>, d))))"

definition GetThreadID :: "minidump_thread \<Rightarrow> 32 word option" where
  "GetThreadID t = (if \<not> tm_valid t then None else Some (mt_thread_id (tm_thread t)))"

section \<open>The head of a list\<close>

text \<open>
  The three lists start alike: the number of their entries, a test of the stream's size, which
  may include four bytes of padding, and a limit on the number.
\<close>

definition read_list_count :: "md_format \<Rightarrow> nat \<Rightarrow> nat \<Rightarrow> 32 word \<Rightarrow> ('s, nat) reader" where
  "read_list_count mf expected_size sizeof_entry maximum =
     rd_bind (rd_require (4 \<le> expected_size)) (\<lambda>_.
     rd_bind (ReadU32 mf) (\<lambda>count.
     rd_bind (rd_require ((ucast count :: 64 word) \<le> 0xffffffff div of_nat sizeof_entry)) (\<lambda>_.
     rd_bind (if expected_size = 4 + unat count * sizeof_entry then rd_return []
              else if expected_size = 8 + unat count * sizeof_entry then ReadBytes 4
              else rd_fail) (\<lambda>_.
     rd_bind (rd_require (count \<le> maximum)) (\<lambda>_.
     rd_return (unat count))))))"

section \<open>Thread list\<close>

definition max_threads :: "32 word" where
  "max_threads = 4096"

text \<open>\<open>id_to_thread_map_\<close> points into the vector; an entry is the thread's index.\<close>

record thread_list =
  tl_threads :: "minidump_thread list"
  tl_id_to_thread_map :: "32 word \<Rightarrow> nat option"

fun read_threads :: "list_format \<Rightarrow> nat \<Rightarrow> nat \<Rightarrow> (32 word \<Rightarrow> nat option) \<Rightarrow> ('s, thread_list) reader" where
  "read_threads lf thread_index 0 ids = rd_return \<lparr>tl_threads = [], tl_id_to_thread_map = ids\<rparr>"
| "read_threads lf thread_index (Suc n) ids =
     rd_bind (MinidumpThread_Read lf) (\<lambda>thread.
       case GetThreadID thread of
         None \<Rightarrow> rd_fail
       | Some thread_id \<Rightarrow>
           if ids thread_id \<noteq> None then rd_fail
           else rd_bind (read_threads lf (Suc thread_index) n (ids(thread_id \<mapsto> thread_index)))
                  (\<lambda>l. rd_return (l\<lparr>tl_threads := thread # tl_threads l\<rparr>)))"

text \<open>A list object is given out only after a successful \<open>Read\<close>, so it is valid.\<close>

definition MinidumpThreadList_Read :: "list_format \<Rightarrow> 32 word \<Rightarrow> ('s, thread_list) reader" where
  "MinidumpThreadList_Read lf expected_size =
     rd_bind (read_list_count (lf_mf lf) (unat expected_size) (lf_sizeof_thread lf) max_threads) (\<lambda>thread_count.
       read_threads lf 0 thread_count (\<lambda>_. None))"

definition thread_count :: "thread_list \<Rightarrow> nat" where
  "thread_count l = length (tl_threads l)"

definition GetThreadAtIndex :: "32 word \<Rightarrow> thread_list \<Rightarrow> minidump_thread option" where
  "GetThreadAtIndex index l = (if unat index \<ge> thread_count l then None else Some (tl_threads l ! unat index))"

definition GetThreadByID :: "32 word \<Rightarrow> thread_list \<Rightarrow> minidump_thread option" where
  "GetThreadByID thread_id l = map_option ((!) (tl_threads l)) (tl_id_to_thread_map l thread_id)"

section \<open>Memory list\<close>

definition max_regions :: "32 word" where
  "max_regions = 4096"

record 'm memory_list =
  ml_regions :: "mem_region list"
  ml_range_map :: 'm

fun store_regions :: "('m, nat) range_map \<Rightarrow> nat \<Rightarrow> memory_descriptor list \<Rightarrow> 'm \<Rightarrow> 'm memory_list option" where
  "store_regions rm region_index [] m = Some \<lparr>ml_regions = [], ml_range_map = m\<rparr>"
| "store_regions rm region_index (descriptor # descriptors) m =
     (let base_address = dd_start_of_memory_range descriptor; region_size = ld_data_size (dd_memory descriptor) in
      if region_size = 0 \<or> ucast region_size > - 1 - base_address then None
      else case rm_store rm base_address (ucast region_size) region_index m of
        (False, _) \<Rightarrow> None
      | (True, m) \<Rightarrow> map_option (\<lambda>l. l\<lparr>ml_regions := SetDescriptor (Some descriptor) new_region # ml_regions l\<rparr>)
          (store_regions rm (Suc region_index) descriptors m))"

definition MinidumpMemoryList_Read :: "list_format \<Rightarrow> ('m, nat) range_map \<Rightarrow> 32 word \<Rightarrow> ('s, 'm memory_list) reader" where
  "MinidumpMemoryList_Read lf rm expected_size =
     rd_bind (read_list_count (lf_mf lf) (unat expected_size) (lf_sizeof_memory_descriptor lf) max_regions) (\<lambda>region_count.
       if region_count = 0 then rd_return \<lparr>ml_regions = [], ml_range_map = rm_empty rm\<rparr>
       else rd_bind (ReadBytes (lf_sizeof_memory_descriptor lf * region_count)) (\<lambda>bytes. rd_bind rd_swap (\<lambda>swap.
         let descriptors = map (lf_memory_descriptor lf) (split_every (lf_sizeof_memory_descriptor lf) region_count bytes);
             descriptors = (if swap then map Swap_memory descriptors else descriptors)
         in case store_regions rm 0 descriptors (rm_empty rm) of None \<Rightarrow> rd_fail | Some l \<Rightarrow> rd_return l)))"

definition GetMemoryRegionAtIndex :: "nat \<Rightarrow> 'm memory_list \<Rightarrow> mem_region option" where
  "GetMemoryRegionAtIndex index l = (if index \<ge> length (ml_regions l) then None else Some (ml_regions l ! index))"

definition GetMemoryRegionForAddress :: "('m, nat) range_map \<Rightarrow> 64 word \<Rightarrow> 'm memory_list \<Rightarrow> mem_region option" where
  "GetMemoryRegionForAddress rm address l = (case rm_retrieve rm address (ml_range_map l) of
     None \<Rightarrow> None
   | Some (region_index, _, _) \<Rightarrow> GetMemoryRegionAtIndex region_index l)"

end
