(* ===== verification/Memory_Facts.thy ===== *)
theory Memory_Facts
  imports Minidump_Memory X86_Walks Minidump_Facts
begin

text \<open>
  The memory regions of a dump as the walkers see them: an access answers exactly for the
  region's addresses, with the file's bytes, and does not depend on the accesses before it. What
  the thread and memory lists guarantee.
\<close>

section \<open>Regions\<close>

lemma unat_minus_one_minus: "unat (- 1 - x) = 2 ^ 64 - 1 - unat x" for x :: "64 word"
  using unat_sub [of x "- 1"] by (simp add: word_order.extremum unsigned_minus_1_eq_mask mask_eq_exp_minus_1)

lemma unat_64_less: "unat x < 2 ^ 64" for x :: "64 word"
  using unsigned_less [of x] by simp

lemma unat_ucast_64: "unat (ucast sz :: 64 word) = unat sz" for sz :: "32 word"
  by (simp only: unat_eq_nat_uint) (simp add: uint_up_ucast is_up)

lemma region_end:
  fixes start :: "64 word" and sz :: "32 word"
  assumes "ucast sz \<le> - 1 - start"
  shows "unat start + unat sz < 2 ^ 64"
  using assms unat_minus_one_minus [of start] unat_ucast_64 [of sz] unat_64_less [of start]
  by (auto simp: word_le_nat_alt)

lemma region_rangeI:
  fixes a start :: "64 word" and sz :: "32 word"
  assumes "ucast sz \<le> - 1 - start" "n < 2 ^ 64"
  shows "\<not> (a < start \<or> of_nat n > - 1 - a \<or> a + of_nat n > start + ucast sz) \<longleftrightarrow>
    unat start \<le> unat a \<and> unat a + n \<le> unat start + unat sz"
proof -
  note lim = region_end [OF assms(1)]
  have n: "unat (of_nat n :: 64 word) = n" using assms(2) by (simp add: unat_of_nat)
  have e: "unat (start + ucast sz) = unat start + unat sz"
    using unat_add_lem [of start "ucast sz"] unat_ucast_64 [of sz] lim by simp
  have o: "of_nat n > - 1 - a \<longleftrightarrow> 2 ^ 64 \<le> unat a + n"
    using unat_minus_one_minus [of a] n unat_64_less [of a] by (auto simp: word_less_nat_alt)
  have p: "unat (a + of_nat n) = unat a + n" if "unat a + n < 2 ^ 64"
    using that n unat_add_lem [of a "of_nat n"] by simp
  show ?thesis
    using o p e lim by (auto simp: word_less_nat_alt not_less)
qed

text \<open>A region whose bytes are in the file, and a stream that can be read.\<close>

definition region_in_file :: "mem_region \<Rightarrow> 's minidump \<Rightarrow> bool" where
  "region_in_file r d \<longleftrightarrow> mg_valid r \<and> (\<exists>s. mh_stream d = Some s \<and> is_good s \<and>
     unat (region_rva r) + unat (region_data_size r) \<le> length (is_bytes s)) \<and>
     0 < region_data_size r \<and> region_data_size r \<le> max_bytes"

definition region_bytes :: "mem_region \<Rightarrow> 's minidump \<Rightarrow> 8 word list" where
  "region_bytes r d = take (unat (region_data_size r)) (drop (unat (region_rva r)) (is_bytes (the (mh_stream d))))"

text \<open>A valid region is one whose descriptor does not run past the address space.\<close>

definition region_ok :: "mem_region \<Rightarrow> bool" where
  "region_ok r \<longleftrightarrow> (mg_valid r \<longrightarrow> mg_descriptor r \<noteq> None \<and> ucast (region_data_size r) \<le> - 1 - region_start r)"

lemma region_ok_SetDescriptor [simp]: "region_ok (SetDescriptor m r)"
  by (auto simp: region_ok_def SetDescriptor_def region_data_size_def region_start_def split: option.splits)

lemma GetMemory_from_file:
  assumes "region_in_file r d" "mg_memory r = None"
  shows "\<exists>s. region_GetMemory r d = (Some (region_bytes r d), r\<lparr>mg_memory := Some (region_bytes r d)\<rparr>, d\<lparr>mh_stream := s\<rparr>)"
proof -
  obtain s where s: "mh_stream d = Some s" "is_good s" "unat (region_rva r) + unat (region_data_size r) \<le> length (is_bytes s)"
    using assms(1) by (auto simp: region_in_file_def)
  then have "unat (region_rva r) \<le> length (is_bytes s)" by simp
  then show ?thesis
    using assms s by (auto simp: region_in_file_def region_GetMemory_def region_bytes_def SeekSet_def stream_seekg_def
        ReadBytes_def stream_read_def Let_def)
qed

lemma GetMemory_keeps:
  assumes "region_GetMemory r d = (m, r', d')"
  shows "mh_swap d' = mh_swap d \<and> (\<exists>x. r' = r\<lparr>mg_memory := x\<rparr>)"
  using assms unfolding region_GetMemory_def
  by (auto dest!: SeekSet_keeps ReadBytes_keeps split: if_splits option.splits prod.splits bool.splits
      intro: exI [of _ "mg_memory r"])

text \<open>
  C23: A region that lies in the file answers an access exactly if the address and the bytes
  from it are all the region's own, without any wrap-around, and then with the value of the
  file's bytes, in the byte order of the dump.
\<close>

theorem GetMemoryAtAddress_spec:
  assumes "region_in_file r d" "region_ok r" "mg_memory r = None" "size_of < 2 ^ 64"
  shows "fst (GetMemoryAtAddressInternal size_of decode swap address r d) =
    (if unat (region_start r) \<le> unat address \<and> unat address + size_of \<le> unat (region_start r) + unat (region_data_size r)
     then let value = decode (take size_of (drop (unat address - unat (region_start r)) (region_bytes r d)))
       in Some (if mh_swap d then swap value else value)
     else None)"
proof -
  have v: "mg_valid r" and lim: "ucast (region_data_size r) \<le> - 1 - region_start r"
    using assms(1,2) by (auto simp: region_in_file_def region_ok_def)
  note range = region_rangeI [OF lim assms(4), of address]
  obtain s where g: "region_GetMemory r d = (Some (region_bytes r d), r\<lparr>mg_memory := Some (region_bytes r d)\<rparr>, d\<lparr>mh_stream := s\<rparr>)"
    using GetMemory_from_file [OF assms(1,3)] by blast
  have "unat (address - region_start r) = unat address - unat (region_start r)" if "unat (region_start r) \<le> unat address"
    using that by (simp add: unat_sub word_le_nat_alt)
  moreover have "region_start (r\<lparr>mg_memory := x\<rparr>) = region_start r" for x by (simp add: region_start_def)
  ultimately show ?thesis
    using range v g by (auto simp: GetMemoryAtAddressInternal_def Let_def)
qed

section \<open>The region as a function\<close>

text \<open>The interface the walkers use, over a region and the dump it reads from.\<close>

definition region_view :: "md_format \<Rightarrow> 's minidump \<Rightarrow> mem_region \<Rightarrow> memory_region" where
  "region_view mf d r = \<lparr>mr_base = GetBase r, mr_size = GetSize r,
     mr_get32 = (\<lambda>address. fst (GetMemoryAtAddress32 mf address r d)),
     mr_get64 = (\<lambda>address. fst (GetMemoryAtAddress64 mf address r d))\<rparr>"

lemma access_by_memory:
  "fst (GetMemoryAtAddressInternal n decode swap a r d) =
    (if \<not> mg_valid r \<or> a < region_start r \<or> of_nat n > - 1 - a \<or> a + of_nat n > region_start r + ucast (region_data_size r)
     then None
     else map_option (\<lambda>memory. let value = decode (take n (drop (unat (a - region_start r)) memory)) in
            if mh_swap d then swap value else value) (fst (region_GetMemory r d)))"
proof -
  obtain m r' d' where g: "region_GetMemory r d = (m, r', d')" by (cases "region_GetMemory r d")
  from GetMemory_keeps [OF g] have "mh_swap d' = mh_swap d" "region_start r' = region_start r"
    by (auto simp: region_start_def)
  then show ?thesis using g by (auto simp: GetMemoryAtAddressInternal_def Let_def split: option.split)
qed

lemma GetMemory_again:
  assumes "region_GetMemory r d = (m, r', d')"
  shows "fst (region_GetMemory r' d') = m"
proof (cases "mg_valid r \<and> mg_memory r = None \<and> region_data_size r \<noteq> 0")
  case False
  then show ?thesis using assms by (auto simp: region_GetMemory_def split: if_splits option.splits)
next
  case True
  obtain ok d1 where seek: "SeekSet (unat (region_rva r)) d = (ok, d1)" by (cases "SeekSet (unat (region_rva r)) d")
  show ?thesis
  proof (cases "ok \<and> region_data_size r \<le> max_bytes")
    case False
    then have a: "m = None" "r' = r" "d' = d1"
      using True assms seek by (auto simp: region_GetMemory_def not_le split: if_splits bool.splits)
    have "\<not> ok \<Longrightarrow> fst (SeekSet (unat (region_rva r)) d1) = False"
      using seek by (auto simp: SeekSet_def stream_seekg_def Let_def split: option.splits if_splits)
    then show ?thesis using True False a
      by (auto simp: region_GetMemory_def not_le split: prod.splits bool.splits)
  next
    case ok: True
    obtain b d2 where read: "ReadBytes (unat (region_data_size r)) d1 = (b, d2)"
      by (cases "ReadBytes (unat (region_data_size r)) d1")
    show ?thesis
    proof (cases b)
      case None
      then have "fst (SeekSet (unat (region_rva r)) d2) = False"
        using read by (auto simp: ReadBytes_def stream_read_def SeekSet_def stream_seekg_def Let_def split: option.splits if_splits)
      moreover have "m = None" "r' = r" "d' = d2"
        using True ok None assms seek read by (auto simp: region_GetMemory_def not_less split: if_splits)
      ultimately show ?thesis using True by (auto simp: region_GetMemory_def split: prod.splits)
    next
      case (Some memory)
      then show ?thesis using True ok assms seek read by (auto simp: region_GetMemory_def not_less split: if_splits)
    qed
  qed
qed

text \<open>
  C14: The answers of a region do not depend on what was read from it before: after any access,
  which may load the region's bytes or fail to, it is the same function of the addresses. So a
  walker may take the region for a function.
\<close>

theorem region_view_stable:
  assumes "GetMemoryAtAddressInternal n decode swap a r d = (v, r', d')"
  shows "region_view mf d' r' = region_view mf d r"
proof -
  have "r' = r \<and> d' = d \<or> (\<exists>m. region_GetMemory r d = (m, r', d'))"
    using assms by (auto simp: GetMemoryAtAddressInternal_def Let_def split: if_splits prod.splits option.splits)
  moreover have "region_view mf d' r' = region_view mf d r" if g: "region_GetMemory r d = (m, r', d')" for m
  proof -
    from GetMemory_keeps [OF g] obtain x where k: "mh_swap d' = mh_swap d" "r' = r\<lparr>mg_memory := x\<rparr>" by blast
    have "fst (region_GetMemory r' d') = fst (region_GetMemory r d)" using GetMemory_again [OF g] g by simp
    moreover have "region_start r' = region_start r" "region_data_size r' = region_data_size r" "mg_valid r' = mg_valid r"
        "GetBase r' = GetBase r" "GetSize r' = GetSize r"
      using k(2) by (simp_all add: region_start_def region_data_size_def GetBase_def GetSize_def)
    ultimately show ?thesis
      unfolding region_view_def GetMemoryAtAddress32_def GetMemoryAtAddress64_def access_by_memory
      by (simp only: k(1))
  qed
  ultimately show ?thesis by blast
qed

lemma region_view_bounded:
  assumes "region_ok r"
  shows "region_bounded (region_view mf d r)"
  unfolding region_bounded_def
proof (intro allI impI)
  fix a assume "mr_get32 (region_view mf d r) a \<noteq> None"
  then have a: "mg_valid r" "\<not> (a < region_start r \<or> of_nat 4 > - 1 - a \<or> a + of_nat 4 > region_start r + ucast (region_data_size r))"
    by (auto simp: region_view_def GetMemoryAtAddress32_def access_by_memory split: if_splits)
  with assms have "ucast (region_data_size r) \<le> - 1 - region_start r" by (simp add: region_ok_def)
  from region_rangeI [OF this, of 4 a] a(2)
  have "unat (region_start r) \<le> unat a" "unat a + 4 \<le> unat (region_start r) + unat (region_data_size r)" by auto
  then show "uint (mr_base (region_view mf d r)) \<le> uint a \<and>
      uint a + 4 \<le> uint (mr_base (region_view mf d r)) + uint (mr_size (region_view mf d r))"
    using a(1) by (simp add: region_view_def GetBase_def GetSize_def flip: uint_nat of_nat_le_iff [where 'a = int])
qed

end
