(* ===== verification/Thread_Facts.thy ===== *)
theory Thread_Facts
  imports Memory_Facts Processor
begin

text \<open>
  What the thread list and the memory list of a dump guarantee once they were read, the
  processor on such a thread list, and example lists.
\<close>

section \<open>The thread list\<close>

text \<open>A thread that was read: valid, without a context yet, its stack memory a valid region.\<close>

definition fresh_thread :: "minidump_thread \<Rightarrow> bool" where
  "fresh_thread t \<longleftrightarrow> tm_valid t \<and> tm_context t = None \<and> (\<forall>r. tm_memory t = Some r \<longrightarrow>
     mg_valid r \<and> region_ok r \<and> mg_memory r = None \<and> mg_descriptor r = Some (mt_stack (tm_thread t)))"

definition thread_id_of :: "minidump_thread \<Rightarrow> 32 word" where
  "thread_id_of t = mt_thread_id (tm_thread t)"

lemma MinidumpThread_Read_fresh: "MinidumpThread_Read lf d = (Some t, d') \<Longrightarrow> fresh_thread t"
  by (auto simp: MinidumpThread_Read_def rd_iff Let_def fresh_thread_def new_region_def SetDescriptor_def region_ok_def
      region_data_size_def region_start_def not_less split: if_splits)

lemma read_threads_spec:
  assumes "read_threads lf k n ids d = (Some l, d')"
  shows "length (tl_threads l) = n \<and> (\<forall>t \<in> set (tl_threads l). fresh_thread t \<and> ids (thread_id_of t) = None) \<and>
    distinct (map thread_id_of (tl_threads l)) \<and>
    (\<forall>i j. tl_id_to_thread_map l i = Some j \<longleftrightarrow>
       ids i = Some j \<or> (\<exists>m < n. j = k + m \<and> thread_id_of (tl_threads l ! m) = i))"
  using assms
proof (induction n arbitrary: k ids d l)
  case 0
  then show ?case by (simp add: rd_iff)
next
  case (Suc n)
  from Suc.prems obtain t d1 i l' where t: "MinidumpThread_Read lf d = (Some t, d1)" "GetThreadID t = Some i" "ids i = None"
    "read_threads lf (Suc k) n (ids(i \<mapsto> k)) d1 = (Some l', d')" "l = l'\<lparr>tl_threads := t # tl_threads l'\<rparr>"
    by (auto simp: rd_iff split: option.splits if_splits)
  have f: "fresh_thread t" using MinidumpThread_Read_fresh [OF t(1)] .
  then have i: "thread_id_of t = i" using t(2) by (simp add: GetThreadID_def fresh_thread_def thread_id_of_def)
  note IH = Suc.IH [OF t(4)]
  have new: "thread_id_of x \<noteq> i \<and> ids (thread_id_of x) = None" if "x \<in> set (tl_threads l')" for x
    using IH that by (auto split: if_splits)
  have "tl_id_to_thread_map l a = Some j \<longleftrightarrow>
      ids a = Some j \<or> (\<exists>m < Suc n. j = k + m \<and> thread_id_of (tl_threads l ! m) = a)" for a j
  proof -
    have "tl_id_to_thread_map l a = Some j \<longleftrightarrow>
        (ids(i \<mapsto> k)) a = Some j \<or> (\<exists>m < n. j = Suc k + m \<and> thread_id_of (tl_threads l' ! m) = a)"
      using IH t(5) by simp
    also have "\<dots> \<longleftrightarrow> ids a = Some j \<or> (j = k \<and> a = i) \<or> (\<exists>m < n. j = k + Suc m \<and> thread_id_of (tl_threads l' ! m) = a)"
      using t(3) by auto
    also have "\<dots> \<longleftrightarrow> ids a = Some j \<or> (\<exists>m < Suc n. j = k + m \<and> thread_id_of (tl_threads l ! m) = a)"
      using t(5) i by (auto simp: Ex_less_Suc2)
    finally show ?thesis .
  qed
  moreover have "i \<notin> set (map thread_id_of (tl_threads l'))" using new by auto
  then have "distinct (map thread_id_of (tl_threads l))" using IH i t(5) by simp
  moreover have "\<forall>x \<in> set (tl_threads l). fresh_thread x \<and> ids (thread_id_of x) = None"
    using IH new f i t(3,5) by auto
  ultimately show ?case using IH t(5) by simp
qed

lemma read_list_count_max: "read_list_count mf e s m d = (Some n, d') \<Longrightarrow> n \<le> unat m"
  by (auto simp: read_list_count_def rd_iff word_le_nat_alt split: if_splits)

text \<open>
  C16: A thread list that was read has at most 4096 threads, no two with the same id; a thread
  is found by an id exactly if it has it; and the stack memory of each, where it is not refused,
  is a region that does not run past the address space.
\<close>

theorem MinidumpThreadList_Read_spec:
  assumes "MinidumpThreadList_Read lf expected_size d = (Some l, d')"
  shows "thread_count l \<le> 4096 \<and> distinct (map GetThreadID (tl_threads l)) \<and>
    (\<forall>id t. GetThreadByID id l = Some t \<longleftrightarrow> t \<in> set (tl_threads l) \<and> GetThreadID t = Some id) \<and>
    (\<forall>t \<in> set (tl_threads l). \<forall>r. thread_GetMemory t = Some r \<longrightarrow>
      unat (GetBase r) + unat (GetSize r) < 2 ^ 64 \<and> GetBase r = GetStartOfStackMemoryRange t)"
proof -
  from assms obtain n d1 where n: "read_list_count (lf_mf lf) (unat expected_size) (lf_sizeof_thread lf) max_threads d = (Some n, d1)"
    and r: "read_threads lf 0 n (\<lambda>_. None) d1 = (Some l, d')"
    by (auto simp: MinidumpThreadList_Read_def rd_iff)
  note S = read_threads_spec [OF r]
  have id: "GetThreadID t = Some (thread_id_of t)" if "t \<in> set (tl_threads l)" for t
    using S that by (auto simp: GetThreadID_def fresh_thread_def thread_id_of_def)
  have "thread_count l \<le> 4096"
    using read_list_count_max [OF n] S by (simp add: thread_count_def max_threads_def)
  moreover have "distinct (map GetThreadID (tl_threads l))"
  proof -
    have "inj_on GetThreadID (set (tl_threads l))"
      using S id by (auto simp: inj_on_def distinct_map)
    then show ?thesis using S by (simp add: distinct_map)
  qed
  moreover have "GetThreadByID i l = Some t \<longleftrightarrow> t \<in> set (tl_threads l) \<and> GetThreadID t = Some i" for i t
  proof -
    have "GetThreadByID i l = Some t \<longleftrightarrow> (\<exists>m < length (tl_threads l). thread_id_of (tl_threads l ! m) = i \<and> tl_threads l ! m = t)"
      using S by (auto simp: GetThreadByID_def)
    also have "\<dots> \<longleftrightarrow> t \<in> set (tl_threads l) \<and> thread_id_of t = i" by (auto simp: in_set_conv_nth)
    finally show ?thesis using id by auto
  qed
  moreover have "unat (GetBase r) + unat (GetSize r) < 2 ^ 64 \<and> GetBase r = GetStartOfStackMemoryRange t"
    if t: "t \<in> set (tl_threads l)" "thread_GetMemory t = Some r" for t r
  proof -
    have f: "fresh_thread t" using S t(1) by blast
    then have r: "mg_valid r" "region_ok r" "mg_descriptor r = Some (mt_stack (tm_thread t))" "tm_valid t"
      using t(2) by (auto simp: fresh_thread_def thread_GetMemory_def)
    then have "ucast (region_data_size r) \<le> - 1 - region_start r" by (simp add: region_ok_def)
    from region_end [OF this] show ?thesis
      using r by (simp add: GetBase_def GetSize_def GetStartOfStackMemoryRange_def region_start_def)
  qed
  ultimately show ?thesis by blast
qed

section \<open>The memory list\<close>

text \<open>A region of the list found by an address: its index, base and size are those of a stored
  region that holds the address.\<close>

definition stored_region :: "memory_descriptor list \<Rightarrow> nat \<Rightarrow> nat \<Rightarrow> 64 word \<Rightarrow> 64 word \<Rightarrow> 64 word \<Rightarrow> bool" where
  "stored_region ds k j b s a \<longleftrightarrow> k \<le> j \<and> j < k + length ds \<and> b = dd_start_of_memory_range (ds ! (j - k)) \<and>
     s = ucast (ld_data_size (dd_memory (ds ! (j - k)))) \<and> in_range a b s"

lemma store_regions_spec:
  assumes "range_map_laws rm" "store_regions rm k ds m = Some l"
  shows "ml_regions l = map (\<lambda>d. SetDescriptor (Some d) new_region) ds \<and>
    (\<forall>d \<in> set ds. ucast (ld_data_size (dd_memory d)) \<le> - 1 - dd_start_of_memory_range d) \<and>
    (\<forall>a j b s. rm_retrieve rm a (ml_range_map l) = Some (j, b, s) \<longrightarrow>
       rm_retrieve rm a m = Some (j, b, s) \<or> stored_region ds k j b s a) \<and>
    (\<forall>a. rm_retrieve rm a (ml_range_map l) = None \<longrightarrow> rm_retrieve rm a m = None \<and> (\<forall>d \<in> set ds.
       \<not> in_range a (dd_start_of_memory_range d) (ucast (ld_data_size (dd_memory d)))))"
  using assms(2)
proof (induction ds arbitrary: k m l)
  case Nil
  then show ?case by auto
next
  case (Cons d ds)
  let ?b = "dd_start_of_memory_range d" and ?s = "ucast (ld_data_size (dd_memory d)) :: 64 word"
  from Cons.prems obtain m' l' where st: "rm_store rm ?b ?s k m = (True, m')" "store_regions rm (Suc k) ds m' = Some l'"
    "l = l'\<lparr>ml_regions := SetDescriptor (Some d) new_region # ml_regions l'\<rparr>" "?s \<le> - 1 - ?b"
    by (auto simp: Let_def not_less split: if_splits prod.splits bool.splits)
  have r: "rm_retrieve rm a m' = (if in_range a ?b ?s then Some (k, ?b, ?s) else rm_retrieve rm a m)" for a
    using assms(1) st(1) unfolding range_map_laws_def by (metis fst_conv snd_conv)
  note IH = Cons.IH [OF st(2)]
  have shift: "stored_region ds (Suc k) j b s a \<Longrightarrow> stored_region (d # ds) k j b s a" for j b s a
    by (auto simp: stored_region_def Suc_diff_le nth_Cons' Suc_le_eq)
  have here: "in_range a ?b ?s \<Longrightarrow> stored_region (d # ds) k k ?b ?s a" for a
    by (simp add: stored_region_def)
  have none: "\<not> in_range a ?b ?s \<and> rm_retrieve rm a m = None" if "rm_retrieve rm a (ml_range_map l') = None" for a
    using IH r [of a] that by (auto split: if_splits)
  have some: "rm_retrieve rm a m = Some (j, b, s) \<or> stored_region (d # ds) k j b s a"
    if "rm_retrieve rm a (ml_range_map l') = Some (j, b, s)" for a j b s
  proof -
    have "rm_retrieve rm a m' = Some (j, b, s) \<or> stored_region ds (Suc k) j b s a" using IH that by blast
    then show ?thesis using r [of a] shift [of j b s a] here [of a] by (auto split: if_splits)
  qed
  show ?case
    using IH st(3,4) none some by simp
qed


lemma descriptor_region:
  assumes "ucast (ld_data_size (dd_memory m)) \<le> - 1 - dd_start_of_memory_range m"
  defines "r \<equiv> SetDescriptor (Some m) new_region"
  shows "unat (GetBase r) + unat (GetSize r) < 2 ^ 64"
    "in_range a (dd_start_of_memory_range m) (ucast (ld_data_size (dd_memory m))) \<longleftrightarrow>
      unat (GetBase r) \<le> unat a \<and> unat a < unat (GetBase r) + unat (GetSize r)"
proof -
  have r: "GetBase r = dd_start_of_memory_range m" "GetSize r = ld_data_size (dd_memory m)"
    using assms(1) by (simp_all add: r_def GetBase_def GetSize_def SetDescriptor_def region_start_def region_data_size_def)
  show e: "unat (GetBase r) + unat (GetSize r) < 2 ^ 64" using region_end [OF assms(1)] by (simp add: r)
  show "in_range a (dd_start_of_memory_range m) (ucast (ld_data_size (dd_memory m))) \<longleftrightarrow>
      unat (GetBase r) \<le> unat a \<and> unat a < unat (GetBase r) + unat (GetSize r)"
    using e by (simp add: r in_range_unat unat_ucast_64)
qed

text \<open>
  C15: A memory list that was read finds exactly the addresses its regions hold: a region that
  is found holds the address and does not run past the address space, and an address that any
  region holds is found.
\<close>

theorem MinidumpMemoryList_Read_spec:
  assumes "range_map_laws rm" "MinidumpMemoryList_Read lf rm expected_size d = (Some l, d')"
  shows "length (ml_regions l) \<le> 4096 \<and>
    (case GetMemoryRegionForAddress rm a l of
       Some r \<Rightarrow> r \<in> set (ml_regions l) \<and> unat (GetBase r) \<le> unat a \<and> unat a < unat (GetBase r) + unat (GetSize r) \<and>
         unat (GetBase r) + unat (GetSize r) < 2 ^ 64
     | None \<Rightarrow> \<forall>r \<in> set (ml_regions l). \<not> (unat (GetBase r) \<le> unat a \<and> unat a < unat (GetBase r) + unat (GetSize r)))"
proof -
  obtain n d1 where n: "read_list_count (lf_mf lf) (unat expected_size) (lf_sizeof_memory_descriptor lf) max_regions d = (Some n, d1)"
    and body: "n = 0 \<and> l = \<lparr>ml_regions = [], ml_range_map = rm_empty rm\<rparr> \<or>
      (\<exists>ds. length ds = n \<and> store_regions rm 0 ds (rm_empty rm) = Some l)"
    using assms(2) by (auto simp: MinidumpMemoryList_Read_def rd_iff Let_def split: if_splits option.splits)
      (metis length_map split_every_length)+
  have empty: "rm_retrieve rm x (rm_empty rm) = None" for x using assms(1) by (simp add: range_map_laws_def)
  obtain ds where ds: "length ds = n" "store_regions rm 0 ds (rm_empty rm) = Some l"
    using body by (metis list.size(3) store_regions.simps(1))
  note S = store_regions_spec [OF assms(1) ds(2)]
  let ?r = "\<lambda>m. SetDescriptor (Some m) new_region"
  have valid: "ucast (ld_data_size (dd_memory m)) \<le> - 1 - dd_start_of_memory_range m" if "m \<in> set ds" for m
    using S that by blast
  note region = descriptor_region [OF valid]
  have "length (ml_regions l) \<le> 4096"
    using read_list_count_max [OF n] S ds(1) by (simp add: max_regions_def)
  moreover have "case GetMemoryRegionForAddress rm a l of
       Some r \<Rightarrow> r \<in> set (ml_regions l) \<and> unat (GetBase r) \<le> unat a \<and> unat a < unat (GetBase r) + unat (GetSize r) \<and>
         unat (GetBase r) + unat (GetSize r) < 2 ^ 64
     | None \<Rightarrow> \<forall>r \<in> set (ml_regions l). \<not> (unat (GetBase r) \<le> unat a \<and> unat a < unat (GetBase r) + unat (GetSize r))"
  proof (cases "rm_retrieve rm a (ml_range_map l)")
    case None
    then show ?thesis using S region(2) by (auto simp: GetMemoryRegionForAddress_def)
  next
    case (Some x)
    obtain j b s where x: "x = (j, b, s)" by (cases x)
    with Some S empty have "stored_region ds 0 j b s a" by fastforce
    then have j: "j < length ds" "in_range a (dd_start_of_memory_range (ds ! j)) (ucast (ld_data_size (dd_memory (ds ! j))))"
      by (auto simp: stored_region_def)
    have "GetMemoryRegionForAddress rm a l = Some (?r (ds ! j))"
      using Some x S j(1) by (simp add: GetMemoryRegionForAddress_def GetMemoryRegionAtIndex_def)
    moreover have mem: "ds ! j \<in> set ds" using j(1) by simp
    moreover have "?r (ds ! j) \<in> set (ml_regions l)" using S mem by simp
    moreover note iffD1 [OF region(2) [OF mem] j(2)] region(1) [OF mem]
    ultimately show ?thesis by simp
  qed
  ultimately show ?thesis by blast
qed

section \<open>The processor on a thread list that was read\<close>

text \<open>A thread as the processor sees it; \<open>context\<close> gives its context.\<close>

definition thread_view :: "md_format \<Rightarrow> 's minidump \<Rightarrow> (minidump_thread \<Rightarrow> 'ctx option) \<Rightarrow> minidump_thread \<Rightarrow> 'ctx dump_thread" where
  "thread_view mf d context t = \<lparr>th_id = GetThreadID t, th_context = context t,
     th_memory = map_option (region_view mf d) (thread_GetMemory t), th_start_of_stack = GetStartOfStackMemoryRange t\<rparr>"

lemma process_thread_found:
  assumes "process_thread e d th i requesting ts = Inr ts'"
  shows "ts_found_requesting_thread ts' = (ts_found_requesting_thread ts \<or> requesting)"
  using assms by (auto simp: process_thread_def Let_def split: option.splits elim!: ebind_InrE)

lemma process_threads_distinct:
  assumes "process_threads e d dump_id requesting_id threads ts = Inr (error, ts')"
    and "\<forall>t \<in> set threads. \<exists>th. t = Some th \<and> th_id th \<noteq> None"
    and "distinct (map (\<lambda>t. th_id (the t)) threads)"
    and "ts_found_requesting_thread ts \<longrightarrow> requesting_id \<notin> (\<lambda>t. th_id (the t)) ` set threads"
  shows "error = None"
  using assms
proof (induction threads arbitrary: ts)
  case (Cons t threads)
  from Cons.prems(2) obtain th i where t: "t = Some th" "th_id th = Some i" by auto
  show ?case
  proof (cases "dump_id = Some i")
    case True
    then show ?thesis using Cons t by auto
  next
    case False
    have nf: "\<not> (requesting_id = Some i \<and> ts_found_requesting_thread ts)" using Cons.prems(4) t by auto
    with Cons.prems(1) False t obtain ts1 where p: "process_thread e d th i (requesting_id = Some i) ts = Inr ts1"
      and r: "process_threads e d dump_id requesting_id threads ts1 = Inr (error, ts')"
      by (auto simp: Let_def split: if_splits)
    have "ts_found_requesting_thread ts1 \<longrightarrow> requesting_id \<notin> (\<lambda>t. th_id (the t)) ` set threads"
      using process_thread_found [OF p] Cons.prems(3,4) t by auto
    with Cons.IH [OF r] Cons.prems(2,3) show ?thesis by simp
  qed
qed simp

text \<open>
  C13: The processing of a dump whose thread list was read never ends with one of the errors about
  threads: every thread is there, has an id, and no two are the requesting one. So these tests
  of the processor guard against something \<open>MinidumpThreadList\<close> has already refused.
\<close>

theorem Process_of_read_threads:
  assumes "MinidumpThreadList_Read lf expected_size md = (Some l, md')"
    and "dm_threads d = Some (map (\<lambda>t. Some (thread_view mf md' context t)) (tl_threads l))"
    and "Process e d st sy = Inr (result, st', sy')"
  shows "result \<in> {PROCESS_OK, PROCESS_ERROR_NO_MINIDUMP_HEADER, PROCESS_SYMBOL_SUPPLIER_INTERRUPTED}"
proof -
  obtain n d1 where "read_threads lf 0 n (\<lambda>_. None) d1 = (Some l, md')"
    using assms(1) by (auto simp: MinidumpThreadList_Read_def rd_iff)
  note S = read_threads_spec [OF this]
  let ?threads = "map (\<lambda>t. Some (thread_view mf md' context t)) (tl_threads l)"
  have id: "th_id (thread_view mf md' context t) = Some (thread_id_of t)" if "t \<in> set (tl_threads l)" for t
    using S that by (auto simp: thread_view_def GetThreadID_def fresh_thread_def thread_id_of_def)
  have all: "\<forall>t \<in> set ?threads. \<exists>th. t = Some th \<and> th_id th \<noteq> None" using id by auto
  have "inj_on (\<lambda>t. th_id (thread_view mf md' context t)) (set (tl_threads l))"
    using S id by (auto simp: inj_on_def distinct_map)
  then have dist: "distinct (map (\<lambda>t. th_id (the t)) ?threads)" using S by (simp add: distinct_map comp_def)
  show ?thesis
  proof (cases "dm_time_date_stamp d")
    case None
    then show ?thesis using assms(3) by (simp add: Process_def Let_def)
  next
    case (Some time)
    obtain s1 a b where s1: "process_streams e d time (process_state_Clear (pe_clear_info e) st) = (s1, a, b)" by (metis prod_cases3)
    from assms(3) Some s1 obtain error ts where
      p: "process_threads e d a b ?threads \<lparr>ts_process_state = s1, ts_interrupted = False,
          ts_found_requesting_thread = False, ts_symbolizer = pe_Reset e sy\<rparr> = Inr (error, ts)"
      and r: "(case error of Some r \<Rightarrow> Inr (r, ts_process_state ts, ts_symbolizer ts)
         | None \<Rightarrow> (case finish_process e d b ts of (r, s2) \<Rightarrow> Inr (r, s2, ts_symbolizer ts))) =
         (Inr (result, st', sy') :: run_error + _)"
      by (auto simp: Process_def Let_def assms(2))
    have "error = None" by (rule process_threads_distinct [OF p all dist]) simp
    with r show ?thesis by (auto simp: finish_process_def Let_def split: if_splits prod.splits)
  qed
qed

section \<open>Examples\<close>

text \<open>A thread list with one thread, and a memory list with one region: the thread's stack.\<close>

definition example_list_format :: list_format where
  "example_list_format = \<lparr>lf_mf = example_format,
     lf_sizeof_thread = 48,
     lf_thread = (\<lambda>b. \<lparr>mt_thread_id = le_field 0 4 b, mt_suspend_count = le_field 4 4 b, mt_priority_class = le_field 8 4 b,
       mt_priority = le_field 12 4 b, mt_teb = le_field 16 8 b,
       mt_stack = \<lparr>dd_start_of_memory_range = le_field 24 8 b,
         dd_memory = \<lparr>ld_data_size = le_field 32 4 b, ld_rva = le_field 36 4 b\<rparr>\<rparr>,
       mt_thread_context = \<lparr>ld_data_size = le_field 40 4 b, ld_rva = le_field 44 4 b\<rparr>\<rparr>),
     lf_sizeof_memory_descriptor = 16,
     lf_memory_descriptor = (\<lambda>b. \<lparr>dd_start_of_memory_range = le_field 0 8 b,
         dd_memory = \<lparr>ld_data_size = le_field 8 4 b, ld_rva = le_field 12 4 b\<rparr>\<rparr>)\<rparr>"

definition example_dump_of :: "8 word list \<Rightarrow> unit minidump" where
  "example_dump_of bytes = (Minidump_stream \<lparr>is_bytes = bytes, is_position = 0, is_good = True, is_seeks_past_end = True\<rparr>)
     \<lparr>mh_valid := True\<rparr>"

definition example_thread_bytes :: "8 word list" where
  "example_thread_bytes = [1, 0, 0, 0] @ [7, 0, 0, 0] @ replicate 20 0 @
     [0, 0x10, 0, 0, 0, 0, 0, 0] @ [8, 0, 0, 0] @ [44, 0, 0, 0] @ replicate 8 0"

definition example_memory_bytes :: "8 word list" where
  "example_memory_bytes = [1, 0, 0, 0] @ [0, 0x10, 0, 0, 0, 0, 0, 0] @ [8, 0, 0, 0] @ [4, 0, 0, 0]"

definition example_threads :: "thread_list option \<times> unit minidump" where
  "example_threads = MinidumpThreadList_Read example_list_format 52 (example_dump_of example_thread_bytes)"

definition example_memory :: "(nat \<times> 64 word \<times> 64 word) list memory_list option \<times> unit minidump" where
  "example_memory = MinidumpMemoryList_Read example_list_format list_range_map 20 (example_dump_of example_memory_bytes)"

lemma example_lists:
  "map_option (\<lambda>l. map GetThreadID (tl_threads l)) (fst example_threads) = Some [Some 7]"
  "map_option (\<lambda>l. map GetBase (ml_regions l)) (fst example_memory) = Some [0x1000]"
  by code_simp+

definition example_list :: thread_list where
  "example_list = the (fst example_threads)"

lemma example_threads_read: "example_threads = (Some example_list, snd example_threads)"
  using example_lists(1) by (auto simp: example_list_def prod_eq_iff)

theorem MinidumpThreadList_Read_spec_witness:
  "thread_count example_list \<le> 4096 \<and> (\<exists>t. GetThreadByID 7 example_list = Some t)"
proof -
  note R = MinidumpThreadList_Read_spec [OF example_threads_read [unfolded example_threads_def]]
  have "map GetThreadID (tl_threads example_list) = [Some 7]"
    using example_lists(1) by (auto simp: example_list_def)
  then have "\<exists>t. t \<in> set (tl_threads example_list) \<and> GetThreadID t = Some 7" by (cases "tl_threads example_list") auto
  with R show ?thesis by blast
qed

theorem MinidumpMemoryList_Read_spec_witness:
  "\<exists>l. fst example_memory = Some l \<and> (\<exists>r. GetMemoryRegionForAddress list_range_map 0x1004 l = Some r)"
proof -
  obtain l where l: "example_memory = (Some l, snd example_memory)" "map GetBase (ml_regions l) = [0x1000]"
    using example_lists(2) by (auto simp: prod_eq_iff)
  have "map_option (\<lambda>l. map (\<lambda>r. unat (GetSize r)) (ml_regions l)) (fst example_memory) = Some [8]" by code_simp
  then have "map (\<lambda>r. unat (GetSize r)) (ml_regions l) = [8]" using l(1) by (metis fst_conv option.inject option.map(2))
  with l(2) obtain r where r: "ml_regions l = [r]" "GetBase r = 0x1000" "unat (GetSize r) = 8" by auto
  note R = MinidumpMemoryList_Read_spec [OF list_range_map_laws l(1) [unfolded example_memory_def], of "0x1004"]
  have "GetMemoryRegionForAddress list_range_map 0x1004 l \<noteq> None"
  proof
    assume "GetMemoryRegionForAddress list_range_map 0x1004 l = None"
    with R r show False by simp
  qed
  then show ?thesis using l(1) by (metis fst_conv not_None_eq)
qed

definition example_read_dump :: "unit dump" where
  "example_read_dump = example_dump\<lparr>dm_threads := Some (map (\<lambda>t. Some (thread_view example_format
       (snd example_threads) (\<lambda>_. Some ()) t)) (tl_threads example_list))\<rparr>"

lemma example_read_processed: "\<exists>x. Process example_env example_read_dump example_state () = Inr x"
proof -
  have "map_sum id (\<lambda>_. ()) (Process example_env example_read_dump example_state ()) = Inr ()" by code_simp
  then show ?thesis by (cases "Process example_env example_read_dump example_state ()") auto
qed

theorem Process_of_read_threads_witness:
  "\<exists>result st' sy'. Process example_env example_read_dump example_state () = Inr (result, st', sy') \<and>
     result \<noteq> PROCESS_ERROR_DUPLICATE_REQUESTING_THREADS"
proof -
  obtain result st' sy' where p: "Process example_env example_read_dump example_state () = Inr (result, st', sy')"
    using example_read_processed by (metis prod_cases3)
  have "dm_threads example_read_dump = Some (map (\<lambda>t. Some (thread_view example_format (snd example_threads) (\<lambda>_. Some ()) t))
      (tl_threads example_list))" by (simp add: example_read_dump_def)
  from Process_of_read_threads [OF example_threads_read [unfolded example_threads_def] this [unfolded example_threads_def] p]
  show ?thesis using p by auto
qed

text \<open>The region of the thread's stack, over a file that holds it.\<close>

definition example_region :: mem_region where
  "example_region = SetDescriptor (Some \<lparr>dd_start_of_memory_range = 0x1000, dd_memory = \<lparr>ld_data_size = 8, ld_rva = 4\<rparr>\<rparr>) new_region"

lemma example_region_ok: "region_in_file example_region (example_dump_of example_memory_bytes)" "mg_memory example_region = None"
proof -
  show "mg_memory example_region = None" by code_simp
  have "mg_valid example_region" "unat (region_rva example_region) = 4" "unat (region_data_size example_region) = 8"
    "0 < region_data_size example_region" "region_data_size example_region \<le> max_bytes" "length example_memory_bytes = 20"
    by code_simp+
  then show "region_in_file example_region (example_dump_of example_memory_bytes)"
    by (simp add: region_in_file_def example_dump_of_def Minidump_stream_def)
qed

theorem GetMemoryAtAddress_spec_witness:
  "fst (GetMemoryAtAddress32 example_format 0x1004 example_region (example_dump_of example_memory_bytes)) = Some 0 \<and>
   fst (GetMemoryAtAddress32 example_format 0x1005 example_region (example_dump_of example_memory_bytes)) = None"
proof -
  have v: "unat (region_start example_region) = 4096" "unat (region_data_size example_region) = 8"
     "mf_u32 example_format (take 4 (drop 4 (region_bytes example_region (example_dump_of example_memory_bytes)))) = 0"
     "mh_swap (example_dump_of example_memory_bytes) = False"
    by code_simp+
  have ok: "region_ok example_region" by (simp add: example_region_def)
  note R = GetMemoryAtAddress_spec [OF example_region_ok(1) ok example_region_ok(2), of 4 "mf_u32 example_format" Swap32]
  show ?thesis
    unfolding GetMemoryAtAddress32_def using R [of "0x1004"] R [of "0x1005"] v by (simp add: Let_def)
qed

theorem region_view_stable_witness:
  "region_view example_format (snd (snd (GetMemoryAtAddress32 example_format 0x1004 example_region (example_dump_of example_memory_bytes))))
      (fst (snd (GetMemoryAtAddress32 example_format 0x1004 example_region (example_dump_of example_memory_bytes)))) =
    region_view example_format (example_dump_of example_memory_bytes) example_region"
  by (rule region_view_stable [where n = 4 and decode = "mf_u32 example_format" and swap = Swap32 and a = "0x1004"
        and v = "fst (GetMemoryAtAddress32 example_format 0x1004 example_region (example_dump_of example_memory_bytes))"])
    (simp add: GetMemoryAtAddress32_def)

end
