(* ===== verification/Minidump_Module.thy ===== *)
theory Minidump_Module
  imports Minidump_Memory
begin

text \<open>
  \<open>MinidumpModule\<close> and \<open>MinidumpModuleList\<close> of \<open>minidump_src/minidump.cc\<close>. A module's record
  is read first; its name, CodeView and miscellaneous records are read in a second pass and kept
  as bytes, swapped in place. What the format's header declares is a parameter: where a member
  lies in its structure, and the accessors that the header defines inline.
\<close>

section \<open>State\<close>

record md_version_info =
  vi_signature :: "32 word"
  vi_struct_version :: "32 word"
  vi_file_version_hi :: "32 word"
  vi_file_version_lo :: "32 word"
  vi_product_version_hi :: "32 word"
  vi_product_version_lo :: "32 word"
  vi_file_flags_mask :: "32 word"
  vi_file_flags :: "32 word"
  vi_file_os :: "32 word"
  vi_file_type :: "32 word"
  vi_file_subtype :: "32 word"
  vi_file_date_hi :: "32 word"
  vi_file_date_lo :: "32 word"

record md_module =
  mo_base_of_image :: "64 word"
  mo_size_of_image :: "32 word"
  mo_checksum :: "32 word"
  mo_time_date_stamp :: "32 word"
  mo_module_name_rva :: "32 word"
  mo_version_info :: md_version_info
  mo_cv_record :: location_descriptor
  mo_misc_record :: location_descriptor

record minidump_module =
  om_module_valid :: bool
  om_has_debug_info :: bool
  om_valid :: bool
  om_module :: md_module
  om_name :: "8 word list option"
  om_cv_record :: "8 word list option"
  om_cv_record_signature :: "32 word"
  om_misc_record :: "8 word list option"

text \<open>
  The format: \<open>of_member\<close> gives a member's offset and size in its structure, \<open>of_minsize\<close>
  the structures' minimal sizes, \<open>of_guid\<close> decodes a GUID; \<open>of_base_address\<close> and
  \<open>of_size\<close> are the module's inline accessors.
\<close>

record module_format =
  of_mf :: md_format
  of_sizeof_module :: nat
  of_module :: "8 word list \<Rightarrow> md_module"
  of_minsize :: "string \<Rightarrow> nat"
  of_member :: "string \<Rightarrow> nat \<times> nat"
  of_sizeof_guid :: nat
  of_guid :: "8 word list \<Rightarrow> md_guid"
  of_base_address :: "minidump_module \<Rightarrow> 64 word"
  of_size :: "minidump_module \<Rightarrow> 64 word"

text \<open>What stops a query: an assertion that does not hold, or a null pointer that is read.\<close>

datatype module_error = AssertionFailed | NullRead

definition max_cv_bytes :: "32 word" where
  "max_cv_bytes = 32768"

definition max_misc_bytes :: "32 word" where
  "max_misc_bytes = 32768"

abbreviation (input) constants_of :: "module_format \<Rightarrow> md_constants" where
  "constants_of f \<equiv> mf_md (of_mf f)"

section \<open>Members of a structure in memory\<close>

text \<open>A part of a structure, given by its offset and size; \<open>Swap\<close> of it where it lies.\<close>

definition part :: "nat \<times> nat \<Rightarrow> 8 word list \<Rightarrow> 8 word list" where
  "part at bytes = (case at of (offset, n) \<Rightarrow> take n (drop offset bytes))"

definition swap_part :: "nat \<times> nat \<Rightarrow> 8 word list \<Rightarrow> 8 word list" where
  "swap_part at bytes = (case at of (offset, n) \<Rightarrow>
     take offset bytes @ rev (take n (drop offset bytes)) @ drop (offset + n) bytes)"

definition member_bytes :: "module_format \<Rightarrow> string \<Rightarrow> 8 word list \<Rightarrow> 8 word list" where
  "member_bytes f member = part (of_member f member)"

text \<open>The bytes from a member to the end: an array whose length the structure does not say.\<close>

definition member_tail :: "module_format \<Rightarrow> string \<Rightarrow> 8 word list \<Rightarrow> 8 word list" where
  "member_tail f member bytes = drop (fst (of_member f member)) bytes"

definition swap_member :: "module_format \<Rightarrow> string \<Rightarrow> 8 word list \<Rightarrow> 8 word list" where
  "swap_member f member = swap_part (of_member f member)"

definition member32 :: "module_format \<Rightarrow> string \<Rightarrow> 8 word list \<Rightarrow> 32 word" where
  "member32 f member bytes = mf_u32 (of_mf f) (member_bytes f member bytes)"

text \<open>A null-terminated string, and a \<open>std::string\<close> of given bytes.\<close>

definition string_of_bytes :: "8 word list \<Rightarrow> string" where
  "string_of_bytes = map (\<lambda>b. char_of (unat b))"

definition c_string :: "8 word list \<Rightarrow> string" where
  "c_string bytes = string_of_bytes (takeWhile (\<lambda>b. b \<noteq> 0) bytes)"

section \<open>Reading a module\<close>

definition Swap_version_info :: "md_version_info \<Rightarrow> md_version_info" where
  "Swap_version_info v = v\<lparr>vi_signature := Swap32 (vi_signature v), vi_struct_version := Swap32 (vi_struct_version v),
     vi_file_version_hi := Swap32 (vi_file_version_hi v), vi_file_version_lo := Swap32 (vi_file_version_lo v),
     vi_product_version_hi := Swap32 (vi_product_version_hi v), vi_product_version_lo := Swap32 (vi_product_version_lo v),
     vi_file_flags_mask := Swap32 (vi_file_flags_mask v), vi_file_flags := Swap32 (vi_file_flags v),
     vi_file_os := Swap32 (vi_file_os v), vi_file_type := Swap32 (vi_file_type v),
     vi_file_subtype := Swap32 (vi_file_subtype v), vi_file_date_hi := Swap32 (vi_file_date_hi v),
     vi_file_date_lo := Swap32 (vi_file_date_lo v)\<rparr>"

definition Swap_module :: "md_module \<Rightarrow> md_module" where
  "Swap_module m = m\<lparr>mo_base_of_image := Swap64 (mo_base_of_image m), mo_size_of_image := Swap32 (mo_size_of_image m),
     mo_checksum := Swap32 (mo_checksum m), mo_time_date_stamp := Swap32 (mo_time_date_stamp m),
     mo_module_name_rva := Swap32 (mo_module_name_rva m), mo_version_info := Swap_version_info (mo_version_info m),
     mo_cv_record := Swap_location (mo_cv_record m), mo_misc_record := Swap_location (mo_misc_record m)\<rparr>"

text \<open>A module as \<open>Read\<close> leaves it.\<close>

definition read_module :: "module_format \<Rightarrow> md_module \<Rightarrow> minidump_module" where
  "read_module f module = \<lparr>om_module_valid = True, om_has_debug_info = False, om_valid = False, om_module = module,
     om_name = None, om_cv_record = None, om_cv_record_signature = constants_of f ''MD_CVINFOUNKNOWN_SIGNATURE'',
     om_misc_record = None\<rparr>"

definition MinidumpModule_Read :: "module_format \<Rightarrow> ('s, minidump_module) reader" where
  "MinidumpModule_Read f =
     rd_bind (ReadBytes (of_sizeof_module f)) (\<lambda>bytes. rd_bind rd_swap (\<lambda>swap.
       let module = (if swap then Swap_module (of_module f bytes) else of_module f bytes) in
       if mo_size_of_image module = 0 \<or> ucast (mo_size_of_image module) > - 1 - mo_base_of_image module then rd_fail
       else rd_return (read_module f module)))"

section \<open>The debug records\<close>

definition pdb70_swapped :: "string list" where
  "pdb70_swapped = [''MDCVInfoPDB70.cv_signature'', ''MDCVInfoPDB70.signature.data1'', ''MDCVInfoPDB70.signature.data2'',
     ''MDCVInfoPDB70.signature.data3'', ''MDCVInfoPDB70.age'']"

definition pdb20_swapped :: "string list" where
  "pdb20_swapped = [''MDCVInfoPDB20.cv_header.signature'', ''MDCVInfoPDB20.cv_header.offset'', ''MDCVInfoPDB20.signature'',
     ''MDCVInfoPDB20.age'']"

text \<open>The checks and swaps that follow the record's signature.\<close>

definition check_pdb :: "module_format \<Rightarrow> string \<Rightarrow> string list \<Rightarrow> bool \<Rightarrow> 32 word \<Rightarrow> 8 word list \<Rightarrow> 8 word list option" where
  "check_pdb f minsize swapped swap data_size cv_record =
     (if of_minsize f minsize > unat data_size then None
      else let cv_record = (if swap then fold (swap_member f) swapped cv_record else cv_record) in
        if cv_record ! (unat data_size - 1) \<noteq> 0 then None else Some cv_record)"

definition check_cv_record :: "module_format \<Rightarrow> bool \<Rightarrow> 32 word \<Rightarrow> 32 word \<Rightarrow> 8 word list \<Rightarrow> 8 word list option" where
  "check_cv_record f swap data_size signature cv_record =
     (if signature = constants_of f ''MD_CVINFOPDB70_SIGNATURE''
      then check_pdb f ''MDCVInfoPDB70_minsize'' pdb70_swapped swap data_size cv_record
      else if signature = constants_of f ''MD_CVINFOPDB20_SIGNATURE''
      then check_pdb f ''MDCVInfoPDB20_minsize'' pdb20_swapped swap data_size cv_record
      else if signature = constants_of f ''MD_CVINFOELF_SIGNATURE'' \<and> of_minsize f ''MDCVInfoELF_minsize'' > unat data_size then None
      else Some cv_record)"

definition cv_signature_of :: "module_format \<Rightarrow> bool \<Rightarrow> 32 word \<Rightarrow> 8 word list \<Rightarrow> 32 word" where
  "cv_signature_of f swap data_size cv_record =
     (if data_size > 4
      then let signature = member32 f ''MDCVInfoPDB70.cv_signature'' cv_record in if swap then Swap32 signature else signature
      else constants_of f ''MD_CVINFOUNKNOWN_SIGNATURE'')"

definition GetCVRecord :: "module_format \<Rightarrow> minidump_module \<Rightarrow> 's minidump
    \<Rightarrow> (8 word list \<times> 32 word) option \<times> minidump_module \<times> 's minidump" where
  "GetCVRecord f m d =
     (if \<not> om_module_valid m then (None, m, d)
      else let data_size = ld_data_size (mo_cv_record (om_module m)) in
        case om_cv_record m of
          Some cv_record \<Rightarrow> (Some (cv_record, data_size), m, d)
        | None \<Rightarrow>
            if data_size = 0 then (None, m, d)
            else case SeekSet (unat (ld_rva (mo_cv_record (om_module m)))) d of
              (False, d) \<Rightarrow> (None, m, d)
            | (True, d) \<Rightarrow>
                if data_size > max_cv_bytes then (None, m, d)
                else case ReadBytes (unat data_size) d of
                  (None, d) \<Rightarrow> (None, m, d)
                | (Some bytes, d) \<Rightarrow>
                    let signature = cv_signature_of f (mh_swap d) data_size bytes in
                    case check_cv_record f (mh_swap d) data_size signature bytes of
                      None \<Rightarrow> (None, m, d)
                    | Some cv_record \<Rightarrow>
                        (Some (cv_record, data_size), m\<lparr>om_cv_record := Some cv_record, om_cv_record_signature := signature\<rparr>, d))"

text \<open>The swap of a miscellaneous record, whose data may be 16-bit units.\<close>

definition swap_units :: "8 word list \<Rightarrow> 8 word list" where
  "swap_units bytes = concat (map rev (split_every 2 (length bytes div 2) bytes)) @ drop (2 * (length bytes div 2)) bytes"

definition swap_misc :: "module_format \<Rightarrow> 8 word list \<Rightarrow> 8 word list" where
  "swap_misc f misc_record =
     (let misc_record = swap_member f ''MDImageDebugMisc.length'' (swap_member f ''MDImageDebugMisc.data_type'' misc_record) in
      if member_bytes f ''MDImageDebugMisc.unicode'' misc_record \<noteq> [0]
      then let offset = fst (of_member f ''MDImageDebugMisc.data''); n = length misc_record - of_minsize f ''MDImageDebugMisc_minsize''
        in take offset misc_record @ swap_units (take n (drop offset misc_record)) @ drop (offset + n) misc_record
      else misc_record)"

definition GetMiscRecord :: "module_format \<Rightarrow> minidump_module \<Rightarrow> 's minidump
    \<Rightarrow> (8 word list \<times> 32 word) option \<times> minidump_module \<times> 's minidump" where
  "GetMiscRecord f m d =
     (if \<not> om_module_valid m then (None, m, d)
      else let data_size = ld_data_size (mo_misc_record (om_module m)) in
        case om_misc_record m of
          Some misc_record \<Rightarrow> (Some (misc_record, data_size), m, d)
        | None \<Rightarrow>
            if data_size = 0 then (None, m, d)
            else if of_minsize f ''MDImageDebugMisc_minsize'' > unat data_size then (None, m, d)
            else case SeekSet (unat (ld_rva (mo_misc_record (om_module m)))) d of
              (False, d) \<Rightarrow> (None, m, d)
            | (True, d) \<Rightarrow>
                if data_size > max_misc_bytes then (None, m, d)
                else case ReadBytes (unat data_size) d of
                  (None, d) \<Rightarrow> (None, m, d)
                | (Some bytes, d) \<Rightarrow>
                    let misc_record = (if mh_swap d then swap_misc f bytes else bytes) in
                    if data_size \<noteq> member32 f ''MDImageDebugMisc.length'' misc_record then (None, m, d)
                    else (Some (misc_record, data_size), m\<lparr>om_misc_record := Some misc_record\<rparr>, d))"

definition ReadAuxiliaryData :: "module_format \<Rightarrow> minidump_module \<Rightarrow> 's minidump \<Rightarrow> bool \<times> minidump_module \<times> 's minidump" where
  "ReadAuxiliaryData f m d =
     (if \<not> om_module_valid m then (False, m, d)
      else case ReadString (of_mf f) (unat (mo_module_name_rva (om_module m))) d of
        (None, d) \<Rightarrow> (False, m\<lparr>om_name := None\<rparr>, d)
      | (Some name, d) \<Rightarrow>
          let m = m\<lparr>om_name := Some name, om_valid := True\<rparr> in
          case (if ld_data_size (mo_cv_record (om_module m)) \<noteq> 0
                then (case GetCVRecord f m d of (record, m, d) \<Rightarrow> (record \<noteq> None, m, d)) else (True, m, d)) of
            (False, m, d) \<Rightarrow> (False, m, d)
          | (True, m, d) \<Rightarrow>
              (case (if ld_data_size (mo_misc_record (om_module m)) \<noteq> 0
                     then (case GetMiscRecord f m d of (record, m, d) \<Rightarrow> (record \<noteq> None, m, d)) else (True, m, d)) of
                 (False, m, d) \<Rightarrow> (False, m, d)
               | (True, m, d) \<Rightarrow> (True, m\<lparr>om_has_debug_info := True\<rparr>, d)))"

section \<open>What a module tells\<close>

text \<open>Printing in upper-case digits with leading zeros, and a byte in lower case.\<close>

definition c_toupper_hex :: "char \<Rightarrow> char" where
  "c_toupper_hex c = (let n = (of_char c :: nat) in if 97 \<le> n \<and> n \<le> 102 then char_of (n - 32) else c)"

definition HEX_padded :: "nat \<Rightarrow> nat \<Rightarrow> string" where
  "HEX_padded width n = pad_zeros width (map c_toupper_hex (show_base 16 n))"

definition code_file :: "minidump_module \<Rightarrow> module_error + string" where
  "code_file m = (if \<not> om_valid m then Inr []
     else case om_name m of None \<Rightarrow> Inl NullRead | Some name \<Rightarrow> Inr (string_of_bytes name))"

definition build_id :: "module_format \<Rightarrow> 8 word list \<Rightarrow> 8 word list" where
  "build_id f cv_record = take (length cv_record - of_minsize f ''MDCVInfoELF_minsize'')
     (member_tail f ''MDCVInfoELF.build_id'' cv_record)"

text \<open>Reading a record as the structure of its signature asserts that it has the signature.\<close>

definition assert_signature :: "module_format \<Rightarrow> string \<Rightarrow> string \<Rightarrow> 8 word list \<Rightarrow> module_error + 'a \<Rightarrow> module_error + 'a" where
  "assert_signature f member signature cv_record k =
     (if member32 f member cv_record = constants_of f signature then k else Inl AssertionFailed)"

definition module_code_identifier :: "module_format \<Rightarrow> 's system_info_reader \<Rightarrow> minidump_module \<Rightarrow> 's minidump
    \<Rightarrow> (module_error + string) \<times> 's minidump" where
  "module_code_identifier f get_system_info m d =
     (if \<not> om_valid m then (Inr [], d)
      else if \<not> om_has_debug_info m then (Inr [], d)
      else case get_system_info d of
        (None, d) \<Rightarrow> (Inr [], d)
      | (Some None, d) \<Rightarrow> (Inr [], d)
      | (Some (Some raw), d) \<Rightarrow>
          (let platform_id = rs_platform_id raw in
           if is_one_of (constants_of f) [''MD_OS_WIN32_NT'', ''MD_OS_WIN32_WINDOWS''] platform_id
           then Inr (snprintf 17 (HEX_padded 8 (unat (mo_time_date_stamp (om_module m))) @
                  show_base 16 (unat (mo_size_of_image (om_module m)))))
           else if is_one_of (constants_of f) [''MD_OS_ANDROID'', ''MD_OS_LINUX''] platform_id \<and>
             om_cv_record m \<noteq> None \<and> om_cv_record_signature m = constants_of f ''MD_CVINFOELF_SIGNATURE''
           then assert_signature f ''MDCVInfoELF.cv_signature'' ''MD_CVINFOELF_SIGNATURE'' (the (om_cv_record m))
                  (Inr (concat (map (\<lambda>b. snprintf 3 (pad_zeros 2 (show_base 16 (unat b)))) (build_id f (the (om_cv_record m))))))
           else if is_one_of (constants_of f) [''MD_OS_ANDROID'', ''MD_OS_LINUX'', ''MD_OS_MAC_OS_X'', ''MD_OS_IOS'',
             ''MD_OS_SOLARIS'', ''MD_OS_NACL'', ''MD_OS_PS3''] platform_id
           then Inr ''id''
           else Inr [], d))"

text \<open>The file named by the CodeView record, and the one named by the miscellaneous record.\<close>

definition cv_debug_file :: "module_format \<Rightarrow> minidump_module \<Rightarrow> module_error + string" where
  "cv_debug_file f m = (case om_cv_record m of
     None \<Rightarrow> Inr []
   | Some cv_record \<Rightarrow>
       if om_cv_record_signature m = constants_of f ''MD_CVINFOPDB70_SIGNATURE''
       then assert_signature f ''MDCVInfoPDB70.cv_signature'' ''MD_CVINFOPDB70_SIGNATURE'' cv_record
              (Inr (c_string (member_tail f ''MDCVInfoPDB70.pdb_file_name'' cv_record)))
       else if om_cv_record_signature m = constants_of f ''MD_CVINFOPDB20_SIGNATURE''
       then assert_signature f ''MDCVInfoPDB20.cv_header.signature'' ''MD_CVINFOPDB20_SIGNATURE'' cv_record
              (Inr (c_string (member_tail f ''MDCVInfoPDB20.pdb_file_name'' cv_record)))
       else if om_cv_record_signature m = constants_of f ''MD_CVINFOELF_SIGNATURE''
       then assert_signature f ''MDCVInfoELF.cv_signature'' ''MD_CVINFOELF_SIGNATURE'' cv_record
              (case om_name m of None \<Rightarrow> Inl NullRead | Some name \<Rightarrow> Inr (string_of_bytes name))
       else Inr [])"

definition misc_debug_file :: "module_format \<Rightarrow> minidump_module \<Rightarrow> module_error + string" where
  "misc_debug_file f m = (case om_misc_record m of
     None \<Rightarrow> Inr []
   | Some misc_record \<Rightarrow>
       let bytes = unat (ld_data_size (mo_misc_record (om_module m))) - of_minsize f ''MDImageDebugMisc_minsize'';
           data = take bytes (member_tail f ''MDImageDebugMisc.data'' misc_record) in
       if member_bytes f ''MDImageDebugMisc.unicode'' misc_record = [0] then Inr (string_of_bytes data)
       else if bytes mod 2 = 0
       then (case UTF16ToUTF8 (map (mf_u16 (of_mf f)) (split_every 2 (bytes div 2) data)) False of
               None \<Rightarrow> Inl NullRead
             | Some new_file \<Rightarrow> Inr (string_of_bytes new_file))
       else Inr [])"

definition debug_file :: "module_format \<Rightarrow> minidump_module \<Rightarrow> module_error + string" where
  "debug_file f m =
     (if \<not> om_valid m then Inr []
      else if \<not> om_has_debug_info m then Inr []
      else ebind (cv_debug_file f m) (\<lambda>name. if name = [] then misc_debug_file f m else Inr name))"

definition guid_and_age_to_debug_id :: "md_guid \<Rightarrow> 32 word \<Rightarrow> string" where
  "guid_and_age_to_debug_id guid age = snprintf 41
     (HEX_padded 8 (unat (g_data1 guid)) @ HEX_padded 4 (unat (g_data2 guid)) @ HEX_padded 4 (unat (g_data3 guid)) @
      concat (map (\<lambda>i. HEX_padded 2 (unat (g_data4 guid ! i))) [0, 1, 2, 3, 4, 5, 6, 7]) @ show_base 16 (unat age))"

definition debug_identifier :: "module_format \<Rightarrow> minidump_module \<Rightarrow> module_error + string" where
  "debug_identifier f m =
     (if \<not> om_valid m then Inr []
      else if \<not> om_has_debug_info m then Inr []
      else case om_cv_record m of
        None \<Rightarrow> Inr []
      | Some cv_record \<Rightarrow>
          if om_cv_record_signature m = constants_of f ''MD_CVINFOPDB70_SIGNATURE''
          then assert_signature f ''MDCVInfoPDB70.cv_signature'' ''MD_CVINFOPDB70_SIGNATURE'' cv_record
                 (Inr (guid_and_age_to_debug_id (of_guid f (member_bytes f ''MDCVInfoPDB70.signature'' cv_record))
                    (member32 f ''MDCVInfoPDB70.age'' cv_record)))
          else if om_cv_record_signature m = constants_of f ''MD_CVINFOPDB20_SIGNATURE''
          then assert_signature f ''MDCVInfoPDB20.cv_header.signature'' ''MD_CVINFOPDB20_SIGNATURE'' cv_record
                 (Inr (snprintf 17 (HEX_padded 8 (unat (member32 f ''MDCVInfoPDB20.signature'' cv_record)) @
                    show_base 16 (unat (member32 f ''MDCVInfoPDB20.age'' cv_record)))))
          else if om_cv_record_signature m = constants_of f ''MD_CVINFOELF_SIGNATURE''
          then assert_signature f ''MDCVInfoELF.cv_signature'' ''MD_CVINFOELF_SIGNATURE'' cv_record
                 (let id = take (of_sizeof_guid f) (build_id f cv_record) in
                  Inr (guid_and_age_to_debug_id (of_guid f (id @ replicate (of_sizeof_guid f - length id) 0)) 0))
          else Inr [])"

definition version :: "module_format \<Rightarrow> minidump_module \<Rightarrow> string" where
  "version f m =
     (if \<not> om_valid m then []
      else let v = mo_version_info (om_module m) in
        if vi_signature v = constants_of f ''MD_VSFIXEDFILEINFO_SIGNATURE'' \<and>
          vi_struct_version v AND constants_of f ''MD_VSFIXEDFILEINFO_VERSION'' \<noteq> 0
        then snprintf 24 (show_base 10 (unat (drop_bit 16 (vi_file_version_hi v))) @ ''.'' @
          show_base 10 (unat (vi_file_version_hi v AND 0xffff)) @ ''.'' @
          show_base 10 (unat (drop_bit 16 (vi_file_version_lo v))) @ ''.'' @
          show_base 10 (unat (vi_file_version_lo v AND 0xffff)))
        else [])"

section \<open>Module list\<close>

definition max_modules :: "32 word" where
  "max_modules = 1024"

record 'm module_list =
  ol_modules :: "minidump_module list"
  ol_range_map :: 'm

fun read_modules :: "module_format \<Rightarrow> nat \<Rightarrow> ('s, minidump_module list) reader" where
  "read_modules f 0 = rd_return []"
| "read_modules f (Suc n) = rd_bind (MinidumpModule_Read f) (\<lambda>module. rd_bind (read_modules f n) (\<lambda>modules.
     rd_return (module # modules)))"

definition kDevAshmem :: string where
  "kDevAshmem = ''/dev/ashmem/''"

text \<open>
  Where a module's range goes in the map: the map after it, and the end of the range that the
  code then holds. A range that is refused is stored without the part before the end of the last
  one, unless it is one of Android's shared memory.
\<close>

definition store_module_range :: "('m, nat) range_map \<Rightarrow> string \<Rightarrow> nat \<Rightarrow> 64 word \<Rightarrow> 64 word \<Rightarrow> 64 word \<Rightarrow> 'm
    \<Rightarrow> ('m \<times> 64 word) option" where
  "store_module_range rm file_name module_index base_address module_size last_end_address m =
     (case rm_store rm base_address module_size module_index m of
        (True, m) \<Rightarrow> Some (m, base_address + module_size)
      | (False, m) \<Rightarrow>
          if take (length kDevAshmem) file_name = kDevAshmem then Some (m, base_address + module_size)
          else if base_address < last_end_address
          then (let module_size = module_size - (last_end_address - base_address); base_address = last_end_address in
                case rm_store rm base_address module_size module_index m of
                  (True, m) \<Rightarrow> Some (m, base_address + module_size)
                | (False, m) \<Rightarrow> None)
          else None)"

text \<open>The second pass; a module whose records could not be read is kept if it is valid.\<close>

fun read_auxiliary :: "module_format \<Rightarrow> ('m, nat) range_map \<Rightarrow> nat \<Rightarrow> 64 word \<Rightarrow> minidump_module list \<Rightarrow> 'm
    \<Rightarrow> ('s, 'm module_list) reader" where
  "read_auxiliary f rm module_index last_end_address [] m d = (Some \<lparr>ol_modules = [], ol_range_map = m\<rparr>, d)"
| "read_auxiliary f rm module_index last_end_address (module # modules) m d =
     (case ReadAuxiliaryData f module d of (ok, module, d) \<Rightarrow>
        if \<not> ok \<and> \<not> om_valid module then (None, d)
        else let base_address = of_base_address f module; module_size = of_size f module in
          if base_address = - 1 then (None, d)
          else case code_file module of
            Inl e \<Rightarrow> (None, d)
          | Inr file_name \<Rightarrow>
              case store_module_range rm file_name module_index base_address module_size last_end_address m of
                None \<Rightarrow> (None, d)
              | Some (m, end_address) \<Rightarrow>
                  rd_bind (read_auxiliary f rm (Suc module_index) end_address modules m)
                    (\<lambda>l. rd_return (l\<lparr>ol_modules := module # ol_modules l\<rparr>)) d)"

definition MinidumpModuleList_Read :: "module_format \<Rightarrow> ('m, nat) range_map \<Rightarrow> 32 word \<Rightarrow> ('s, 'm module_list) reader" where
  "MinidumpModuleList_Read f rm expected_size =
     rd_bind (read_list_count (of_mf f) (unat expected_size) (of_sizeof_module f) max_modules) (\<lambda>module_count.
     rd_bind (read_modules f module_count) (\<lambda>modules.
       read_auxiliary f rm 0 0 modules (rm_empty rm)))"

definition list_GetModuleAtIndex :: "nat \<Rightarrow> 'm module_list \<Rightarrow> minidump_module option" where
  "list_GetModuleAtIndex index l = (if index \<ge> length (ol_modules l) then None else Some (ol_modules l ! index))"

definition list_GetModuleForAddress :: "('m, nat) range_map \<Rightarrow> 64 word \<Rightarrow> 'm module_list \<Rightarrow> minidump_module option" where
  "list_GetModuleForAddress rm address l = (case rm_retrieve rm address (ol_range_map l) of
     None \<Rightarrow> None
   | Some (module_index, _, _) \<Rightarrow> list_GetModuleAtIndex module_index l)"

definition list_GetMainModule :: "'m module_list \<Rightarrow> minidump_module option" where
  "list_GetMainModule l = list_GetModuleAtIndex 0 l"

definition list_GetModuleAtSequence :: "('m, nat) range_map \<Rightarrow> nat \<Rightarrow> 'm module_list \<Rightarrow> minidump_module option" where
  "list_GetModuleAtSequence rm sequence l = (if sequence \<ge> length (ol_modules l) then None
     else case rm_at rm sequence (ol_range_map l) of
       None \<Rightarrow> None
     | Some module_index \<Rightarrow> list_GetModuleAtIndex module_index l)"

end
