(* ===== verification/Module_Ids.thy ===== *)
theory Module_Ids
  imports Minidump_Module
begin

text \<open>
  The identifiers of a module: the printed forms fit their buffers and can be read back, so that
  different debug identifiers stand for different builds; the assertions on a record's signature.
\<close>

section \<open>Printing\<close>

lemma c_toupper_digit: "d < 16 \<Longrightarrow> digit_val (c_toupper_hex (digit_char d)) = Some d"
  by (auto simp: digit_char_def c_toupper_hex_def digit_val_def Let_def of_char_of)

lemma show_base_chars: "2 \<le> b \<Longrightarrow> b \<le> 16 \<Longrightarrow> \<forall>c \<in> set (show_base b n). \<exists>d < 16. c = digit_char d"
proof (induction b n rule: show_base.induct)
  case (1 base n)
  have "n mod base < 16" using mod_lt_16 [OF 1(2,3)] .
  then show ?case using 1 by (subst show_base.simps) auto
qed

lemma digits_val_upper:
  "\<forall>c \<in> set s. \<exists>d < 16. c = digit_char d \<Longrightarrow> digits_val b acc (map c_toupper_hex s) = digits_val b acc s"
proof (induction s arbitrary: acc)
  case (Cons c s)
  then obtain d where "d < 16" "c = digit_char d" by auto
  with Cons show ?case by (simp add: c_toupper_digit digit_char_val)
qed simp

lemma digits_val_zeros: "digits_val b acc (replicate n (CHR ''0'') @ s) = digits_val b (acc * b ^ n) s"
  by (induction n arbitrary: acc) (auto simp: digit_val_def Let_def ac_simps)

lemma show_base_length: "2 \<le> b \<Longrightarrow> n < b ^ w \<Longrightarrow> 0 < w \<Longrightarrow> length (show_base b n) \<le> w"
proof (induction b n arbitrary: w rule: show_base.induct)
  case (1 base n)
  show ?case
  proof (cases "n < base")
    case True
    then show ?thesis using 1 by (subst show_base.simps) auto
  next
    case False
    with 1 have w: "1 < w" by (cases w; cases "w - 1") auto
    then obtain v where v: "w = Suc v" "0 < v" by (cases w) auto
    then have "n div base < base ^ v" using 1 by (auto intro!: less_mult_imp_div_less simp: mult.commute)
    with 1 False v show ?thesis by (subst show_base.simps) auto
  qed
qed

lemma HEX_padded_length: "n < 16 ^ w \<Longrightarrow> 0 < w \<Longrightarrow> length (HEX_padded w n) = w"
  using show_base_length [of 16 n w] by (simp add: HEX_padded_def pad_zeros_def)

lemma HEX_padded_val: "digits_val 16 0 (HEX_padded w n) = n"
proof -
  have "digits_val 16 0 (map c_toupper_hex (show_base 16 n)) = n"
    by (subst digits_val_upper) (rule show_base_chars, auto simp: show_base_val)
  then show ?thesis by (simp add: HEX_padded_def pad_zeros_def digits_val_zeros)
qed

lemma HEX_padded_inj: "HEX_padded w m = HEX_padded w n \<Longrightarrow> m = n"
  by (metis HEX_padded_val)

lemma show_base_inj: "2 \<le> b \<Longrightarrow> b \<le> 16 \<Longrightarrow> show_base b m = show_base b n \<Longrightarrow> m = n"
  by (metis show_base_val)

lemma HEX_padded_word [simp]:
  "length (HEX_padded 8 (unat (x :: 32 word))) = 8" "length (HEX_padded 4 (unat (y :: 16 word))) = 4"
  "length (HEX_padded 2 (unat (z :: 8 word))) = 2"
  using unsigned_less [of x] unsigned_less [of y] unsigned_less [of z] by (auto intro!: HEX_padded_length)

lemma show_hex_word [simp]: "length (show_base 16 (unat (x :: 32 word))) \<le> 8"
  using unsigned_less [of x] by (intro show_base_length) auto

lemma snprintf_fits [simp]: "length s < n \<Longrightarrow> snprintf n s = s"
  by (simp add: snprintf_def)

section \<open>Debug identifiers\<close>

definition debug_id_string :: "md_guid \<Rightarrow> 32 word \<Rightarrow> string" where
  "debug_id_string guid age = HEX_padded 8 (unat (g_data1 guid)) @ HEX_padded 4 (unat (g_data2 guid)) @
     HEX_padded 4 (unat (g_data3 guid)) @ concat (map (\<lambda>b. HEX_padded 2 (unat b)) (g_data4 guid)) @ show_base 16 (unat age)"

lemma concat_HEX_length: "length (concat (map (\<lambda>b. HEX_padded 2 (unat b)) (bs :: 8 word list))) = 2 * length bs"
  by (induction bs) simp_all

lemma list_8: "length xs = 8 \<Longrightarrow> map ((!) xs) [0, 1, 2, 3, 4, 5, 6, 7] = xs"
  by (simp add: numeral_eq_Suc length_Suc_conv) (elim exE conjE, simp)

lemma debug_id_string_eq:
  assumes "length (g_data4 guid) = 8"
  shows "guid_and_age_to_debug_id guid age = debug_id_string guid age"
proof -
  have "concat (map (\<lambda>i. HEX_padded 2 (unat (g_data4 guid ! i))) [0, 1, 2, 3, 4, 5, 6, 7]) =
      concat (map (\<lambda>b. HEX_padded 2 (unat b)) (g_data4 guid))"
    by (subst (2) list_8 [OF assms, symmetric]) simp
  moreover have "length (debug_id_string guid age) < 41"
    using assms show_hex_word [of age] by (simp add: debug_id_string_def concat_HEX_length del: show_hex_word)
  ultimately show ?thesis unfolding guid_and_age_to_debug_id_def debug_id_string_def [symmetric]
    by (metis snprintf_fits debug_id_string_def)
qed

lemma concat_HEX_inj: "length bs = length cs \<Longrightarrow> concat (map (\<lambda>b. HEX_padded 2 (unat b)) bs) @ s = concat (map (\<lambda>b. HEX_padded 2 (unat b)) cs) @ t \<Longrightarrow>
    bs = cs \<and> s = t" for bs cs :: "8 word list"
proof (induction bs cs rule: list_induct2)
  case (Cons b bs c cs)
  then have "HEX_padded 2 (unat b) = HEX_padded 2 (unat c)"
    using append_eq_append_conv [of "HEX_padded 2 (unat b)" "HEX_padded 2 (unat c)"] by simp
  then have "b = c" by (metis HEX_padded_inj unsigned_word_eqI)
  with Cons show ?case by simp
qed simp

text \<open>
  C28: A debug identifier is printed whole, in the 41 bytes of its buffer, and tells the GUID
  and the age apart: two records with the same identifier have the same GUID and the same age.
\<close>

theorem debug_id_injective:
  assumes "length (g_data4 guid) = 8" "length (g_data4 guid') = 8"
  shows "length (guid_and_age_to_debug_id guid age) \<le> 40 \<and>
    (guid_and_age_to_debug_id guid age = guid_and_age_to_debug_id guid' age' \<longleftrightarrow> guid = guid' \<and> age = age')"
proof -
  note show_hex_word [of age]
  moreover have "guid = guid' \<and> age = age'" if "debug_id_string guid age = debug_id_string guid' age'"
  proof -
    have split: "x @ y = x' @ y' \<Longrightarrow> length x = length x' \<Longrightarrow> x = x' \<and> y = y'" for x y x' y' :: string by simp
    note h1 = split [OF that [unfolded debug_id_string_def], simplified HEX_padded_word, OF refl]
    note h2 = split [OF h1 [THEN conjunct2], simplified HEX_padded_word, OF refl]
    note h3 = split [OF h2 [THEN conjunct2], simplified HEX_padded_word, OF refl]
    have h4: "g_data4 guid = g_data4 guid' \<and> show_base 16 (unat age) = show_base 16 (unat age')"
      by (rule concat_HEX_inj [OF _ h3 [THEN conjunct2]]) (simp add: assms)
    have "unat (g_data1 guid) = unat (g_data1 guid')" "unat (g_data2 guid) = unat (g_data2 guid')"
      "unat (g_data3 guid) = unat (g_data3 guid')"
      by (rule HEX_padded_inj [OF h1 [THEN conjunct1]], rule HEX_padded_inj [OF h2 [THEN conjunct1]],
          rule HEX_padded_inj [OF h3 [THEN conjunct1]])
    moreover have "unat age = unat age'" using h4 by (intro show_base_inj [of 16]) auto
    ultimately show ?thesis using h4 by (intro conjI md_guid.equality) (auto intro: unsigned_word_eqI)
  qed
  ultimately show ?thesis
    using assms by (auto simp: debug_id_string_eq debug_id_string_def concat_HEX_length)
qed

theorem debug_id_injective_witness:
  "guid_and_age_to_debug_id \<lparr>g_data1 = 1, g_data2 = 2, g_data3 = 3, g_data4 = replicate 8 0\<rparr> 1 \<noteq>
   guid_and_age_to_debug_id \<lparr>g_data1 = 1, g_data2 = 2, g_data3 = 3, g_data4 = replicate 8 0\<rparr> 0x10"
  using debug_id_injective [of "\<lparr>g_data1 = 1, g_data2 = 2, g_data3 = 3, g_data4 = replicate 8 0\<rparr>"
      "\<lparr>g_data1 = 1, g_data2 = 2, g_data3 = 3, g_data4 = replicate 8 0\<rparr>" 1 "0x10"] by simp

section \<open>The signature of a CodeView record\<close>

text \<open>
  What the format says of the signatures: each is the first member of its structure, four
  bytes, and the other swapped members lie after it; reversing the bytes of a value is \<open>Swap\<close>.
\<close>

definition cv_signatures :: "string list" where
  "cv_signatures = [''MDCVInfoPDB70.cv_signature'', ''MDCVInfoPDB20.cv_header.signature'', ''MDCVInfoELF.cv_signature'']"

definition signature_first :: "module_format \<Rightarrow> bool" where
  "signature_first f \<longleftrightarrow> (\<forall>s \<in> set cv_signatures. of_member f s = (0, 4)) \<and>
     (\<forall>s \<in> set (tl pdb70_swapped @ tl pdb20_swapped). 4 \<le> fst (of_member f s)) \<and>
     (\<forall>b. length b = 4 \<longrightarrow> mf_u32 (of_mf f) (rev b) = Swap32 (mf_u32 (of_mf f) b)) \<and>
     mf_md (of_mf f) ''MD_CVINFOUNKNOWN_SIGNATURE'' \<notin> mf_md (of_mf f) ` {''MD_CVINFOPDB70_SIGNATURE'', ''MD_CVINFOPDB20_SIGNATURE'',
       ''MD_CVINFOELF_SIGNATURE''} \<and>
     mf_md (of_mf f) ''MD_CVINFOELF_SIGNATURE'' \<notin> mf_md (of_mf f) ` {''MD_CVINFOPDB70_SIGNATURE'', ''MD_CVINFOPDB20_SIGNATURE''} \<and>
     Swap32 (mf_md (of_mf f) ''MD_CVINFOELF_SIGNATURE'') \<noteq> mf_md (of_mf f) ''MD_CVINFOELF_SIGNATURE''"

lemma swap_after: "4 \<le> fst (of_member f s) \<Longrightarrow> 4 \<le> length bytes \<Longrightarrow> take 4 (swap_member f s bytes) = take 4 bytes"
  by (cases "of_member f s") (auto simp: swap_member_def swap_part_def min_def)

lemma swap_length [simp]: "fst (of_member f s) \<le> length bytes \<Longrightarrow> length (swap_member f s bytes) = length bytes"
  by (cases "of_member f s") (simp add: swap_member_def swap_part_def)

lemma swap_length_ge: "4 \<le> length bytes \<Longrightarrow> 4 \<le> fst (of_member f s) \<Longrightarrow> 4 \<le> length (swap_member f s bytes)"
  by (cases "of_member f s") (auto simp: swap_member_def swap_part_def min_def)

lemma swaps_after:
  "\<forall>s \<in> set ss. 4 \<le> fst (of_member f s) \<Longrightarrow> 4 \<le> length bytes \<Longrightarrow> take 4 (fold (swap_member f) ss bytes) = take 4 bytes"
  by (induction ss arbitrary: bytes) (auto simp: swap_after swap_length_ge)

lemma swaps_signature:
  assumes "of_member f s = (0, 4)" "\<forall>t \<in> set ss. 4 \<le> fst (of_member f t)" "4 \<le> length bytes"
  shows "take 4 (fold (swap_member f) (s # ss) bytes) = rev (take 4 bytes)"
  using assms swaps_after [of ss f "swap_member f s bytes"] by (simp add: swap_member_def swap_part_def)

text \<open>What a kept record has where its signature is asserted.\<close>

definition signature_kept :: "module_format \<Rightarrow> bool \<Rightarrow> 32 word \<Rightarrow> 8 word list \<Rightarrow> bool" where
  "signature_kept f swap signature cv_record \<longleftrightarrow>
     (signature = mf_md (of_mf f) ''MD_CVINFOPDB70_SIGNATURE'' \<longrightarrow>
        member32 f ''MDCVInfoPDB70.cv_signature'' cv_record = signature) \<and>
     (signature = mf_md (of_mf f) ''MD_CVINFOPDB20_SIGNATURE'' \<and> signature \<noteq> mf_md (of_mf f) ''MD_CVINFOPDB70_SIGNATURE'' \<longrightarrow>
        member32 f ''MDCVInfoPDB20.cv_header.signature'' cv_record = signature) \<and>
     (signature = mf_md (of_mf f) ''MD_CVINFOELF_SIGNATURE'' \<longrightarrow>
        member32 f ''MDCVInfoELF.cv_signature'' cv_record = (if swap then Swap32 signature else signature))"

lemma check_cv_record_signature:
  assumes "signature_first f" "length bytes = unat n" "signature = cv_signature_of f swap n bytes"
    and check: "check_cv_record f swap n signature bytes = Some cv"
  shows "signature_kept f swap signature cv"
proof (cases "n > 4")
  case False
  then show ?thesis using assms(1,3) by (auto simp: cv_signature_of_def signature_kept_def signature_first_def)
next
  case True
  then have l4: "4 \<le> length bytes" using assms(2) by (simp add: word_less_nat_alt)
  have F: "of_member f ''MDCVInfoPDB70.cv_signature'' = (0, 4)" "of_member f ''MDCVInfoPDB20.cv_header.signature'' = (0, 4)"
     "of_member f ''MDCVInfoELF.cv_signature'' = (0, 4)"
    using assms(1) by (auto simp: signature_first_def cv_signatures_def)
  have m32: "member32 f s b = mf_u32 (of_mf f) (take 4 b)" if "of_member f s = (0, 4)" for s b
    using that by (simp add: member32_def member_bytes_def part_def)
  have sig: "signature = (if swap then Swap32 (mf_u32 (of_mf f) (take 4 bytes)) else mf_u32 (of_mf f) (take 4 bytes))"
    using True assms(3) by (simp add: cv_signature_of_def m32 F Let_def)
  have rev4: "mf_u32 (of_mf f) (rev (take 4 bytes)) = Swap32 (mf_u32 (of_mf f) (take 4 bytes))"
    using assms(1) l4 by (simp add: signature_first_def)
  have after: "\<forall>t \<in> set (tl pdb70_swapped). 4 \<le> fst (of_member f t)" "\<forall>t \<in> set (tl pdb20_swapped). 4 \<le> fst (of_member f t)"
    using assms(1) unfolding signature_first_def by auto
  have t70: "take 4 (fold (swap_member f) pdb70_swapped bytes) = rev (take 4 bytes)"
    using swaps_signature [OF F(1) after(1) l4] by (simp add: pdb70_swapped_def)
  have t20: "take 4 (fold (swap_member f) pdb20_swapped bytes) = rev (take 4 bytes)"
    using swaps_signature [OF F(2) after(2) l4] by (simp add: pdb20_swapped_def)
  have "mf_u32 (of_mf f) (take 4 cv) = signature" if "signature = mf_md (of_mf f) ''MD_CVINFOPDB70_SIGNATURE'' \<or>
      signature = mf_md (of_mf f) ''MD_CVINFOPDB20_SIGNATURE''"
    using that check sig t70 t20 rev4 by (auto simp: check_cv_record_def check_pdb_def Let_def split: if_splits)
  moreover have "cv = bytes" if "signature = mf_md (of_mf f) ''MD_CVINFOELF_SIGNATURE''"
    using that check assms(1) by (auto simp: check_cv_record_def signature_first_def split: if_splits)
  moreover have "mf_u32 (of_mf f) (take 4 bytes) = (if swap then Swap32 signature else signature)" using sig by auto
  ultimately show ?thesis by (auto simp: signature_kept_def m32 F)
qed

lemma GetCVRecord_signature:
  assumes "signature_first f" "om_cv_record m = None" "GetCVRecord f m d = (Some r, m', d')"
  obtains cv_record where "om_cv_record m' = Some cv_record" "om_valid m' = om_valid m"
    "signature_kept f (mh_swap d) (om_cv_record_signature m') cv_record"
proof -
  let ?n = "ld_data_size (mo_cv_record (om_module m))"
  from assms(2,3) obtain d1 d2 bytes cv where
    s: "SeekSet (unat (ld_rva (mo_cv_record (om_module m)))) d = (True, d1)" "ReadBytes (unat ?n) d1 = (Some bytes, d2)"
    and c: "check_cv_record f (mh_swap d2) ?n (cv_signature_of f (mh_swap d2) ?n bytes) bytes = Some cv"
    and m': "m' = m\<lparr>om_cv_record := Some cv, om_cv_record_signature := cv_signature_of f (mh_swap d2) ?n bytes\<rparr>"
    by (auto simp: GetCVRecord_def Let_def split: if_splits option.splits prod.splits bool.splits)
  have sw: "mh_swap d2 = mh_swap d" using SeekSet_keeps [OF s(1)] ReadBytes_keeps [OF s(2)] by auto
  have "length bytes = unat ?n" using s(2)
    by (auto simp: ReadBytes_def stream_read_def Let_def split: option.splits if_splits)
  from check_cv_record_signature [OF assms(1) this refl c] show ?thesis
    by (intro that [of cv]) (simp_all add: m' sw)
qed

lemma GetMiscRecord_keeps:
  assumes "GetMiscRecord f m d = (r, m', d')"
  shows "om_valid m' = om_valid m \<and> om_module_valid m' = om_module_valid m \<and> om_module m' = om_module m \<and>
    om_name m' = om_name m \<and> om_has_debug_info m' = om_has_debug_info m \<and> om_cv_record m' = om_cv_record m \<and>
    om_cv_record_signature m' = om_cv_record_signature m \<and> (\<exists>s. d' = d\<lparr>mh_stream := s\<rparr>)"
  using assms unfolding GetMiscRecord_def Let_def
  by (auto dest!: SeekSet_keeps ReadBytes_keeps split: if_splits option.splits prod.splits bool.splits)

lemma GetCVRecord_keeps:
  assumes "GetCVRecord f m d = (r, m', d')"
  shows "om_valid m' = om_valid m \<and> om_module_valid m' = om_module_valid m \<and> om_module m' = om_module m \<and>
    om_name m' = om_name m \<and> om_has_debug_info m' = om_has_debug_info m \<and> om_misc_record m' = om_misc_record m \<and>
    (r = None \<longrightarrow> om_cv_record m' = om_cv_record m) \<and> (\<exists>s. d' = d\<lparr>mh_stream := s\<rparr>)"
  using assms unfolding GetCVRecord_def Let_def
  by (auto dest!: SeekSet_keeps ReadBytes_keeps split: if_splits option.splits prod.splits bool.splits)

lemma ReadString_keeps: "ReadString mf k d = (r, d') \<Longrightarrow> \<exists>s. d' = d\<lparr>mh_stream := s\<rparr>"
  unfolding ReadString_def Let_def
  by (auto dest!: SeekSet_keeps ReadBytes_keeps split: if_splits option.splits prod.splits bool.splits)

text \<open>A record that is read only if the module has one.\<close>

lemma optional_cv:
  assumes "(if present then (case GetCVRecord f m d of (record, m, d) \<Rightarrow> (record \<noteq> None, m, d)) else (True, m, d)) = (ok, m', d')"
  shows "om_valid m' = om_valid m" "om_module m' = om_module m" "om_name m' = om_name m"
    "om_has_debug_info m' = om_has_debug_info m" "\<exists>s. d' = d\<lparr>mh_stream := s\<rparr>"
    "ok \<Longrightarrow> m' = m \<or> (\<exists>r. GetCVRecord f m d = (Some r, m', d'))"
proof -
  obtain r m1 d1 where g: "GetCVRecord f m d = (r, m1, d1)" by (metis prod_cases3)
  note keep = GetCVRecord_keeps [OF g]
  show "om_valid m' = om_valid m" "om_module m' = om_module m" "om_name m' = om_name m"
    "om_has_debug_info m' = om_has_debug_info m" "\<exists>s. d' = d\<lparr>mh_stream := s\<rparr>"
    "ok \<Longrightarrow> m' = m \<or> (\<exists>r. GetCVRecord f m d = (Some r, m', d'))"
    using assms g keep by (cases present; simp)+
qed

lemma optional_misc:
  assumes "(if present then (case GetMiscRecord f m d of (record, m, d) \<Rightarrow> (record \<noteq> None, m, d)) else (True, m, d)) = (ok, m', d')"
  shows "om_valid m' = om_valid m" "om_module m' = om_module m" "om_name m' = om_name m"
    "om_has_debug_info m' = om_has_debug_info m" "\<exists>s. d' = d\<lparr>mh_stream := s\<rparr>"
    "om_cv_record m' = om_cv_record m" "om_cv_record_signature m' = om_cv_record_signature m"
proof -
  obtain r m1 d1 where g: "GetMiscRecord f m d = (r, m1, d1)" by (metis prod_cases3)
  note keep = GetMiscRecord_keeps [OF g]
  show "om_valid m' = om_valid m" "om_module m' = om_module m" "om_name m' = om_name m"
    "om_has_debug_info m' = om_has_debug_info m" "\<exists>s. d' = d\<lparr>mh_stream := s\<rparr>"
    "om_cv_record m' = om_cv_record m" "om_cv_record_signature m' = om_cv_record_signature m"
    using assms g keep by (cases present; simp)+
qed

text \<open>The steps of \<open>ReadAuxiliaryData\<close>: a module that has been given a name is valid.\<close>

lemma ReadAuxiliaryData_cases:
  assumes "ReadAuxiliaryData f m d = (ok, m', d')"
  obtains (unnamed) "\<not> ok" "om_valid m' = om_valid m" "om_has_debug_info m' = om_has_debug_info m" "om_module m' = om_module m"
      "om_cv_record m' = om_cv_record m" "\<exists>s. d' = d\<lparr>mh_stream := s\<rparr>"
  | (named) name m1 d1 where "om_module_valid m" "om_name m' = Some name" "om_valid m'" "om_module m' = om_module m"
      "om_has_debug_info m' = (ok \<or> om_has_debug_info m)" "\<exists>s. d' = d\<lparr>mh_stream := s\<rparr>"
      "ok \<Longrightarrow> om_cv_record m' = om_cv_record m \<and> om_cv_record_signature m' = om_cv_record_signature m \<or>
         (\<exists>r d2 s. GetCVRecord f (m\<lparr>om_name := Some name, om_valid := True\<rparr>) d1 = (Some r, m1, d2) \<and> d1 = d\<lparr>mh_stream := s\<rparr> \<and>
           om_cv_record m' = om_cv_record m1 \<and> om_cv_record_signature m' = om_cv_record_signature m1)"
proof -
  show ?thesis
  proof (cases "om_module_valid m")
    case False
    with assms show ?thesis by (intro unnamed) (auto simp: ReadAuxiliaryData_def)
  next
    case True
    obtain r d1 where r: "ReadString (of_mf f) (unat (mo_module_name_rva (om_module m))) d = (r, d1)" by fastforce
    note keep1 = ReadString_keeps [OF r]
    show ?thesis
    proof (cases r)
      case None
      with assms True r keep1 show ?thesis by (intro unnamed) (auto simp: ReadAuxiliaryData_def)
    next
      case (Some name)
      let ?m = "m\<lparr>om_name := Some name, om_valid := True\<rparr>"
      let ?cv = "if ld_data_size (mo_cv_record (om_module ?m)) \<noteq> 0
        then (case GetCVRecord f ?m d1 of (record, m, d) \<Rightarrow> (record \<noteq> None, m, d)) else (True, ?m, d1)"
      obtain okc m1 d2 where c: "?cv = (okc, m1, d2)" by (metis prod_cases3)
      note keep2 = optional_cv [OF c]
      let ?misc = "if ld_data_size (mo_misc_record (om_module m1)) \<noteq> 0
        then (case GetMiscRecord f m1 d2 of (record, m, d) \<Rightarrow> (record \<noteq> None, m, d)) else (True, m1, d2)"
      obtain okm m2 d3 where x: "?misc = (okm, m2, d3)" by (metis prod_cases3)
      note keep3 = optional_misc [OF x]
      obtain s1 s2 s3 where d: "d1 = d\<lparr>mh_stream := s1\<rparr>" "d2 = d1\<lparr>mh_stream := s2\<rparr>" "d3 = d2\<lparr>mh_stream := s3\<rparr>"
        using keep1 keep2(5) keep3(5) by blast
      have "ReadAuxiliaryData f m d = (if okc then if okm then (True, m2\<lparr>om_has_debug_info := True\<rparr>, d3) else (False, m2, d3) else (False, m1, d2))"
        unfolding ReadAuxiliaryData_def Let_def r Some prod.case option.case c x using True x by (simp split: bool.split)
      with assms have e: "ok = (okc \<and> okm)" "d' = (if okc then d3 else d2)"
          "m' = (if okc then if okm then m2\<lparr>om_has_debug_info := True\<rparr> else m2 else m1)"
        by (auto split: if_splits)
      show ?thesis
      proof (rule named [of name d1 m1])
        assume ok
        with e have o: okc "m' = m2\<lparr>om_has_debug_info := True\<rparr>" by auto
        from keep2(6) [OF o(1)] show "om_cv_record m' = om_cv_record m \<and> om_cv_record_signature m' = om_cv_record_signature m \<or>
          (\<exists>r d2 s. GetCVRecord f ?m d1 = (Some r, m1, d2) \<and> d1 = d\<lparr>mh_stream := s\<rparr> \<and>
            om_cv_record m' = om_cv_record m1 \<and> om_cv_record_signature m' = om_cv_record_signature m1)"
          using o(2) keep3(6,7) d(1) by auto
      next
        show "\<exists>s. d' = d\<lparr>mh_stream := s\<rparr>" using e(2) d by (cases okc) auto
      qed (use e keep2(1-4) keep3(1-4) True in \<open>simp_all split: if_splits\<close>)
    qed
  qed
qed

lemma MinidumpModule_Read_fresh:
  assumes "MinidumpModule_Read f d = (Some m, d')"
  shows "om_module_valid m \<and> \<not> om_valid m \<and> \<not> om_has_debug_info m \<and> om_cv_record m = None \<and> om_name m = None \<and>
    mo_size_of_image (om_module m) \<noteq> 0 \<and> ucast (mo_size_of_image (om_module m)) \<le> - 1 - mo_base_of_image (om_module m)"
  using assms by (auto simp: MinidumpModule_Read_def read_module_def rd_iff Let_def not_less split: if_splits)

text \<open>
  C27: The assertions that guard the debug identifier hold for every module read from a dump, with
  one exception: in a dump of the other byte order an ELF record is kept as it is in the file
  while its signature is swapped, so the assertion on the record's own signature always fails.
\<close>

theorem debug_identifier_assertion:
  assumes "signature_first f" "MinidumpModule_Read f d0 = (Some m, d1)" "ReadAuxiliaryData f m d = (ok, m', d')"
  shows "debug_identifier f m' = Inl AssertionFailed \<longleftrightarrow>
    ok \<and> mh_swap d \<and> om_cv_record m' \<noteq> None \<and> om_cv_record_signature m' = mf_md (of_mf f) ''MD_CVINFOELF_SIGNATURE''"
proof -
  note fresh = MinidumpModule_Read_fresh [OF assms(2)]
  from assms(3) show ?thesis
  proof (cases rule: ReadAuxiliaryData_cases)
    case unnamed
    then show ?thesis using fresh by (simp add: debug_identifier_def)
  next
    case (named name m1 d2)
    then have v: "om_valid m'" "om_has_debug_info m' = ok" using fresh by auto
    show ?thesis
    proof (cases "ok \<and> om_cv_record m' \<noteq> None")
      case False
      then show ?thesis using v by (auto simp: debug_identifier_def)
    next
      case True
      with named(7) fresh obtain r d3 s where "GetCVRecord f (m\<lparr>om_name := Some name, om_valid := True\<rparr>) d2 = (Some r, m1, d3)"
        "d2 = d\<lparr>mh_stream := s\<rparr>" "om_cv_record m' = om_cv_record m1" "om_cv_record_signature m' = om_cv_record_signature m1"
        by auto
      with GetCVRecord_signature [OF assms(1), of "m\<lparr>om_name := Some name, om_valid := True\<rparr>" d2 r m1 d3] fresh
      obtain cv where cv: "om_cv_record m' = Some cv" and k: "signature_kept f (mh_swap d) (om_cv_record_signature m') cv"
        by auto
      show ?thesis
      proof (cases "om_cv_record_signature m' = mf_md (of_mf f) ''MD_CVINFOELF_SIGNATURE''")
        case True
        with assms(1) k show ?thesis using v cv \<open>ok \<and> _\<close>
          by (auto simp: debug_identifier_def assert_signature_def signature_kept_def signature_first_def Let_def)
      next
        case False
        with k show ?thesis using v cv
          by (auto simp: debug_identifier_def assert_signature_def signature_kept_def)
      qed
    qed
  qed
qed

section \<open>Example\<close>

text \<open>A module format with an ELF record, and a dump of the other byte order with one module.\<close>

definition example_module_constants :: md_constants where
  "example_module_constants name = (case map_of
     [(''MD_CVINFOPDB70_SIGNATURE'', 0x53445352), (''MD_CVINFOPDB20_SIGNATURE'', 0x3031424e), (''MD_CVINFOELF_SIGNATURE'', 0x4270454c),
      (''MD_VSFIXEDFILEINFO_SIGNATURE'', 0xfeef04bd), (''MD_VSFIXEDFILEINFO_VERSION'', 0x00010000)] name of
     Some v \<Rightarrow> v | None \<Rightarrow> example_constants name)"

definition example_module_format :: module_format where
  "example_module_format = \<lparr>of_mf = example_format\<lparr>mf_md := example_module_constants\<rparr>,
     of_sizeof_module = 108,
     of_module = (\<lambda>b. \<lparr>mo_base_of_image = le_field 0 8 b, mo_size_of_image = le_field 8 4 b, mo_checksum = le_field 12 4 b,
       mo_time_date_stamp = le_field 16 4 b, mo_module_name_rva = le_field 20 4 b,
       mo_version_info = \<lparr>vi_signature = le_field 24 4 b, vi_struct_version = le_field 28 4 b, vi_file_version_hi = le_field 32 4 b,
         vi_file_version_lo = le_field 36 4 b, vi_product_version_hi = le_field 40 4 b, vi_product_version_lo = le_field 44 4 b,
         vi_file_flags_mask = le_field 48 4 b, vi_file_flags = le_field 52 4 b, vi_file_os = le_field 56 4 b,
         vi_file_type = le_field 60 4 b, vi_file_subtype = le_field 64 4 b, vi_file_date_hi = le_field 68 4 b,
         vi_file_date_lo = le_field 72 4 b\<rparr>,
       mo_cv_record = \<lparr>ld_data_size = le_field 76 4 b, ld_rva = le_field 80 4 b\<rparr>,
       mo_misc_record = \<lparr>ld_data_size = le_field 84 4 b, ld_rva = le_field 88 4 b\<rparr>\<rparr>),
     of_minsize = (\<lambda>name. if name = ''MDCVInfoPDB70_minsize'' then 24 else if name = ''MDCVInfoPDB20_minsize'' then 16
       else if name = ''MDCVInfoELF_minsize'' then 4 else 12),
     of_member = (\<lambda>name. case map_of [(''MDCVInfoPDB70.signature.data1'', (4, 4)), (''MDCVInfoPDB70.signature.data2'', (8, 2)),
       (''MDCVInfoPDB70.signature.data3'', (10, 2)), (''MDCVInfoPDB70.signature'', (4, 16)), (''MDCVInfoPDB70.age'', (20, 4)),
       (''MDCVInfoPDB70.pdb_file_name'', (24, 0)), (''MDCVInfoPDB20.cv_header.offset'', (4, 4)),
       (''MDCVInfoPDB20.signature'', (8, 4)), (''MDCVInfoPDB20.age'', (12, 4)), (''MDCVInfoPDB20.pdb_file_name'', (16, 0)),
       (''MDCVInfoELF.build_id'', (4, 0)), (''MDImageDebugMisc.length'', (4, 4)), (''MDImageDebugMisc.unicode'', (8, 1)),
       (''MDImageDebugMisc.data'', (12, 0))] name of Some x \<Rightarrow> x | None \<Rightarrow> (0, 4)),
     of_sizeof_guid = 16,
     of_guid = (\<lambda>b. \<lparr>g_data1 = le_field 0 4 b, g_data2 = le_field 4 2 b, g_data3 = le_field 6 2 b, g_data4 = drop 8 b\<rparr>),
     of_base_address = (\<lambda>m. if om_valid m then mo_base_of_image (om_module m) else - 1),
     of_size = (\<lambda>m. if om_valid m then ucast (mo_size_of_image (om_module m)) else 0)\<rparr>"

definition swapped_module_bytes :: "8 word list" where
  "swapped_module_bytes = [0, 0, 0, 0, 0, 0, 0x10, 0] @ [0, 0, 0x10, 0] @ replicate 8 0 @ [0, 0, 0, 108] @ replicate 52 0 @
     [0, 0, 0, 8] @ [0, 0, 0, 114] @ replicate 24 0 @ [0, 0, 0, 2] @ [0, 0x6d] @ [0x42, 0x70, 0x45, 0x4c, 1, 2, 3, 4]"

definition swapped_dump :: "unit minidump" where
  "swapped_dump = (Minidump_stream \<lparr>is_bytes = swapped_module_bytes, is_position = 0, is_good = True, is_seeks_past_end = True\<rparr>)
     \<lparr>mh_valid := True, mh_swap := True\<rparr>"

text \<open>The module as it is read, and what is read next.\<close>

definition swapped_module :: minidump_module where
  "swapped_module = read_module example_module_format (Swap_module (of_module example_module_format (take 108 swapped_module_bytes)))"

definition swapped_auxiliary :: "bool \<times> minidump_module \<times> unit minidump" where
  "swapped_auxiliary = ReadAuxiliaryData example_module_format swapped_module swapped_dump"

lemma le_word_Cons_or: "le_word (b # bs) = (ucast b OR push_bit 8 (le_word bs) :: 'a::len word)"
proof -
  have e: "256 * (le_word bs :: 'a word) = push_bit 8 (le_word bs)" by (simp add: push_bit_eq_mult ac_simps)
  show ?thesis unfolding le_word.simps e
    by (rule disjunctive_add) (auto simp: bit_simps dest: bit_imp_le_length)
qed

lemma bytes_of_le_word: "bytes_of 4 (le_word [b0, b1, b2, b3] :: 32 word) = [b0, b1, b2, b3]"
  by (simp add: bytes_of_4 le_word_Cons_or del: le_word.simps(2))
    (intro conjI bit_word_eqI; auto simp: bit_simps dest: bit_imp_le_length)

lemma le_word_rev:
  assumes "length b = 4"
  shows "(le_field 0 4 (rev b) :: 32 word) = Swap32 (le_field 0 4 b)" 
proof -
  obtain b0 b1 b2 b3 where b: "b = [b0, b1, b2, b3]" using assms by (auto simp: numeral_eq_Suc length_Suc_conv)
  have "bytes_of 4 (le_word [b3, b2, b1, b0] :: 32 word) = bytes_of 4 (Swap32 (le_word [b0, b1, b2, b3]))"
    by (simp only: bytes_of_le_word Swap32_bytes rev.simps append.simps)
  then have "(le_word [b3, b2, b1, b0] :: 32 word) = Swap32 (le_word [b0, b1, b2, b3])" by (rule bytes_of_inj) simp
  then show ?thesis by (simp add: b le_field_def)
qed

lemma MinidumpModule_Read_eval:
  assumes "ReadBytes (of_sizeof_module f) d = (Some bytes, d')"
    and "module = (if mh_swap d' then Swap_module (of_module f bytes) else of_module f bytes)"
    and "mo_size_of_image module \<noteq> 0" "ucast (mo_size_of_image module) \<le> - 1 - mo_base_of_image module"
  shows "MinidumpModule_Read f d = (Some (read_module f module), d')"
  unfolding MinidumpModule_Read_def rd_bind_def assms(1) rd_swap_def Let_def
  using assms(2-) by (auto simp: rd_return_def)

lemma ReadBytes_eval:
  assumes "map_option (map unat) (fst (ReadBytes n d)) = Some (map unat bytes)"
  shows "ReadBytes n d = (Some bytes, snd (ReadBytes n d))"
proof -
  have "inj (unat :: 8 word \<Rightarrow> nat)" by (auto simp: inj_def intro: unsigned_word_eqI)
  with assms show ?thesis by (cases "ReadBytes n d") auto
qed

lemma swapped_module_read:
  "MinidumpModule_Read example_module_format swapped_dump = (Some swapped_module, snd (ReadBytes 108 swapped_dump))"
proof -
  let ?raw = "of_module example_module_format (take 108 swapped_module_bytes)"
  have r: "map_option (map unat) (fst (ReadBytes 108 swapped_dump)) = Some (map unat (take 108 swapped_module_bytes))"
    and s: "mh_swap (snd (ReadBytes 108 swapped_dump))" "of_sizeof_module example_module_format = 108"
    and raw: "Swap32 (mo_size_of_image ?raw) = 0x1000" "Swap64 (mo_base_of_image ?raw) = 0x1000"
    by code_simp+
  have i: "mo_size_of_image (Swap_module ?raw) \<noteq> 0" "ucast (mo_size_of_image (Swap_module ?raw)) \<le> - 1 - mo_base_of_image (Swap_module ?raw)"
    by (simp_all add: Swap_module_def raw)
  show ?thesis unfolding swapped_module_def
    by (rule MinidumpModule_Read_eval [OF _ _ i]) (use ReadBytes_eval [OF r] s(1,2) in simp_all)
qed

lemma swapped_auxiliary_read: "fst swapped_auxiliary" "mh_swap swapped_dump"
    "case om_cv_record (fst (snd swapped_auxiliary)) of None \<Rightarrow> False | Some _ \<Rightarrow> True"
    "om_cv_record_signature (fst (snd swapped_auxiliary)) = mf_md (of_mf example_module_format) ''MD_CVINFOELF_SIGNATURE''"
  by code_simp+

lemma example_signature_first: "signature_first example_module_format"
proof -
  have u: "mf_u32 (of_mf example_module_format) b = le_field 0 4 b" for b
    by (simp add: example_module_format_def example_format_def)
  have "\<forall>s \<in> set cv_signatures. of_member example_module_format s = (0, 4)"
    "\<forall>s \<in> set (tl pdb70_swapped @ tl pdb20_swapped). 4 \<le> fst (of_member example_module_format s)"
    "Swap32 (mf_md (of_mf example_module_format) ''MD_CVINFOELF_SIGNATURE'') \<noteq> mf_md (of_mf example_module_format) ''MD_CVINFOELF_SIGNATURE''"
    "mf_md (of_mf example_module_format) ''MD_CVINFOELF_SIGNATURE'' \<notin> mf_md (of_mf example_module_format) ` {''MD_CVINFOPDB70_SIGNATURE'', ''MD_CVINFOPDB20_SIGNATURE''}"
    "mf_md (of_mf example_module_format) ''MD_CVINFOUNKNOWN_SIGNATURE'' \<notin> mf_md (of_mf example_module_format) ` {''MD_CVINFOPDB70_SIGNATURE'', ''MD_CVINFOPDB20_SIGNATURE'', ''MD_CVINFOELF_SIGNATURE''}"
    by code_simp+
  then show ?thesis unfolding signature_first_def using le_word_rev u by simp
qed

theorem debug_identifier_assertion_witness:
  "debug_identifier example_module_format (fst (snd swapped_auxiliary)) = Inl AssertionFailed"
proof -
  have "ReadAuxiliaryData example_module_format swapped_module swapped_dump =
      (True, fst (snd swapped_auxiliary), snd (snd swapped_auxiliary))"
    using swapped_auxiliary_read(1) by (auto simp: swapped_auxiliary_def prod_eq_iff)
  with debug_identifier_assertion [OF example_signature_first swapped_module_read this] swapped_auxiliary_read show ?thesis by (auto split: option.splits)
qed

end
