(* ===== verification/Module_List_Facts.thy ===== *)
theory Module_List_Facts
  imports Module_Ids Code_Modules Memory_Facts
begin

text \<open>
  What the module list of a dump guarantees once it was read, and its copy in the process's
  state: the two agree on the addresses of modules that do not overlap, and need not on others.
\<close>

section \<open>The inline accessors and the range map\<close>

text \<open>What the header says of the accessors, and that the range map refuses an empty or wrapping range.\<close>

definition module_accessors :: "module_format \<Rightarrow> bool" where
  "module_accessors f \<longleftrightarrow> (\<forall>m. om_valid m \<longrightarrow>
     of_base_address f m = mo_base_of_image (om_module m) \<and> of_size f m = ucast (mo_size_of_image (om_module m)))"

definition refuses_wrapping :: "('m, 'v) range_map \<Rightarrow> bool" where
  "refuses_wrapping rm \<longleftrightarrow> (\<forall>b s v m. fst (rm_store rm b s v m) \<longrightarrow> s \<noteq> 0 \<and> unat b + unat s \<le> 2 ^ 64)"

definition holds_address :: "module_format \<Rightarrow> 64 word \<Rightarrow> minidump_module \<Rightarrow> bool" where
  "holds_address f a m \<longleftrightarrow> in_range a (of_base_address f m) (of_size f m)"

text \<open>A module whose image is not empty and ends within the address space.\<close>

definition image_ok :: "minidump_module \<Rightarrow> bool" where
  "image_ok m \<longleftrightarrow> mo_size_of_image (om_module m) \<noteq> 0 \<and> ucast (mo_size_of_image (om_module m)) \<le> - 1 - mo_base_of_image (om_module m)"

lemma image_ok_range:
  assumes "module_accessors f" "om_valid m" "image_ok m"
  shows "of_size f m \<noteq> 0" "unat (of_base_address f m) + unat (of_size f m) < 2 ^ 64"
proof -
  have b: "of_base_address f m = mo_base_of_image (om_module m)" "of_size f m = ucast (mo_size_of_image (om_module m))"
    using assms(1,2) by (simp_all add: module_accessors_def)
  have i: "mo_size_of_image (om_module m) \<noteq> 0" "ucast (mo_size_of_image (om_module m)) \<le> - 1 - mo_base_of_image (om_module m)"
    using assms(3) by (simp_all add: image_ok_def)
  from region_end [OF i(2)] show "unat (of_base_address f m) + unat (of_size f m) < 2 ^ 64"
    by (simp add: b unat_ucast_64)
  show "of_size f m \<noteq> 0"
  proof
    assume "of_size f m = 0"
    then have "unat (mo_size_of_image (om_module m)) = 0" using unat_ucast_64 b(2) by (metis unat_0)
    then show False using i(1) by (simp add: unat_eq_0)
  qed
qed

text \<open>The part of a module from the end of the last range is in the module, if it does not wrap.\<close>

lemma tail_in_range:
  assumes "b < e" "unat e + unat (s - (e - b)) \<le> 2 ^ 64" "s \<noteq> 0" "in_range a e (s - (e - b))"
  shows "in_range a b s"
proof (cases "e - b \<le> s")
  case True
  have "unat (s - (e - b)) = unat s - unat (e - b)" using True by (simp add: unat_sub word_le_nat_alt)
  moreover have "unat (e - b) = unat e - unat b" using assms(1) by (simp add: unat_sub word_less_nat_alt word_le_nat_alt)
  ultimately show ?thesis using assms(1,4) by (auto simp: in_range_unat word_less_nat_alt)
next
  case False
  then have "unat (s - (e - b)) = unat s + 2 ^ 64 - unat (e - b)"
    by (simp add: unat_sub_if' word_le_nat_alt)
  moreover have "unat (e - b) = unat e - unat b" using assms(1) by (simp add: unat_sub word_less_nat_alt word_le_nat_alt)
  ultimately show ?thesis using assms(1-3) unat_64_less [of e] unat_gt_0 [of s] by (simp add: word_less_nat_alt)
qed

section \<open>The second pass\<close>

lemma store_module_range_sound:
  assumes "range_map_laws rm" "refuses_wrapping rm" "s \<noteq> 0"
    and "store_module_range rm name k b s e m = Some (m', e')" "rm_retrieve rm a m' = Some (j, x, y)"
  shows "rm_retrieve rm a m = Some (j, x, y) \<or> j = k \<and> in_range a b s"
proof -
  have L: "fst (rm_store rm b s v m) \<Longrightarrow> rm_retrieve rm a (snd (rm_store rm b s v m)) =
      (if in_range a b s then Some (v, b, s) else rm_retrieve rm a m)"
    and R: "\<not> fst (rm_store rm b s v m) \<Longrightarrow> snd (rm_store rm b s v m) = m" for b s v m
    using assms(1) unfolding range_map_laws_def by blast+
  obtain ok m1 where st: "rm_store rm b s k m = (ok, m1)" by fastforce
  show ?thesis
  proof (cases ok)
    case True
    with assms(4) st have "m' = m1" by (simp add: store_module_range_def)
    with L [of b s k m] st True assms(5) show ?thesis by (auto split: if_splits)
  next
    case False
    then have m1: "m1 = m" using R [of b s k m] st by simp
    show ?thesis
    proof (cases "take (length kDevAshmem) name = kDevAshmem")
      case True
      with assms(4,5) st False m1 show ?thesis by (simp add: store_module_range_def)
    next
      case plain: False
      let ?s = "s - (e - b)"
      obtain ok2 m2 where st2: "rm_store rm e ?s k m = (ok2, m2)" by fastforce
      with assms(4) st False m1 plain have n: "b < e" "ok2" "m' = m2"
        by (auto simp: store_module_range_def Let_def split: if_splits bool.splits)
      have "unat e + unat ?s \<le> 2 ^ 64" using assms(2) st2 n(2) unfolding refuses_wrapping_def by (metis fst_conv)
      from tail_in_range [OF n(1) this assms(3)] L [of e ?s k m] st2 n assms(5) show ?thesis by (auto split: if_splits)
    qed
  qed
qed

text \<open>A module of the list: named, valid, with a base address and an image in bounds.\<close>

definition module_ok :: "module_format \<Rightarrow> minidump_module \<Rightarrow> bool" where
  "module_ok f m \<longleftrightarrow> om_valid m \<and> om_name m \<noteq> None \<and> image_ok m \<and> of_base_address f m \<noteq> - 1"

definition readable :: "minidump_module \<Rightarrow> bool" where
  "readable m \<longleftrightarrow> image_ok m \<and> \<not> om_valid m"

lemma read_auxiliary_step:
  assumes "read_auxiliary f rm k e (x # xs) m d = (Some l, d')" "readable x"
  obtains y name m1 e1 l1 d1 where "module_ok f y" "code_file y = Inr name"
    "store_module_range rm name k (of_base_address f y) (of_size f y) e m = Some (m1, e1)"
    "read_auxiliary f rm (Suc k) e1 xs m1 d1 = (Some l1, d')" "l = l1\<lparr>ol_modules := y # ol_modules l1\<rparr>"
proof -
  obtain ok y d1 where aux: "ReadAuxiliaryData f x d = (ok, y, d1)" by (metis prod_cases3)
  from assms(1) aux obtain name m1 e1 l1 where *: "ok \<or> om_valid y" "of_base_address f y \<noteq> - 1" "code_file y = Inr name"
    "store_module_range rm name k (of_base_address f y) (of_size f y) e m = Some (m1, e1)"
    "read_auxiliary f rm (Suc k) e1 xs m1 d1 = (Some l1, d')" "l = l1\<lparr>ol_modules := y # ol_modules l1\<rparr>"
    by (auto simp: Let_def rd_iff split: if_splits sum.splits option.splits prod.splits)
  from aux *(1) assms(2) have "om_valid y \<and> om_name y \<noteq> None \<and> image_ok y"
    by (cases rule: ReadAuxiliaryData_cases) (auto simp: readable_def image_ok_def)
  with * that show ?thesis unfolding module_ok_def by blast
qed

lemma read_auxiliary_sound:
  assumes "range_map_laws rm" "refuses_wrapping rm" "module_accessors f"
    and "read_auxiliary f rm k e xs m d = (Some l, d')" "\<forall>x \<in> set xs. readable x"
  shows "length (ol_modules l) = length xs \<and> (\<forall>y \<in> set (ol_modules l). module_ok f y) \<and>
    (\<forall>a j b s. rm_retrieve rm a (ol_range_map l) = Some (j, b, s) \<longrightarrow> rm_retrieve rm a m = Some (j, b, s) \<or>
       k \<le> j \<and> j < k + length xs \<and> holds_address f a (ol_modules l ! (j - k)))"
  using assms(4,5)
proof (induction xs arbitrary: k e m d l)
  case Nil
  then show ?case by auto
next
  case (Cons x xs)
  then have "readable x" by simp
  from read_auxiliary_step [OF Cons.prems(1) this]
  obtain y name m1 e1 l1 d1 where y: "module_ok f y"
    "store_module_range rm name k (of_base_address f y) (of_size f y) e m = Some (m1, e1)"
    "read_auxiliary f rm (Suc k) e1 xs m1 d1 = (Some l1, d')" "l = l1\<lparr>ol_modules := y # ol_modules l1\<rparr>" by metis
  have IH: "length (ol_modules l1) = length xs \<and> (\<forall>y \<in> set (ol_modules l1). module_ok f y) \<and>
    (\<forall>a j b s. rm_retrieve rm a (ol_range_map l1) = Some (j, b, s) \<longrightarrow> rm_retrieve rm a m1 = Some (j, b, s) \<or>
       Suc k \<le> j \<and> j < Suc k + length xs \<and> holds_address f a (ol_modules l1 ! (j - Suc k)))"
    using Cons.IH [OF y(3)] Cons.prems(2) by simp
  have sz: "of_size f y \<noteq> 0" using y(1) image_ok_range(1) [OF assms(3)] by (simp add: module_ok_def)
  have "rm_retrieve rm a m = Some (j, b, s) \<or> k \<le> j \<and> j < k + length (x # xs) \<and> holds_address f a (ol_modules l ! (j - k))"
    if r: "rm_retrieve rm a (ol_range_map l) = Some (j, b, s)" for a j b s
  proof -
    have "rm_retrieve rm a m1 = Some (j, b, s) \<or>
       Suc k \<le> j \<and> j < Suc k + length xs \<and> holds_address f a (ol_modules l1 ! (j - Suc k))"
      using IH r y(4) by simp
    then show ?thesis
    proof
      assume "rm_retrieve rm a m1 = Some (j, b, s)"
      from store_module_range_sound [OF assms(1,2) sz y(2) this] show ?thesis using y(4) by (auto simp: holds_address_def)
    next
      assume "Suc k \<le> j \<and> j < Suc k + length xs \<and> holds_address f a (ol_modules l1 ! (j - Suc k))"
      then show ?thesis using y(4) by (auto simp: nth_Cons' Suc_le_eq)
    qed
  qed
  with IH y(1,4) show ?case by auto
qed

lemma read_auxiliary_ok:
  "read_auxiliary f rm k e xs m d = (Some l, d') \<Longrightarrow> \<forall>x \<in> set xs. readable x \<Longrightarrow> \<forall>y \<in> set (ol_modules l). module_ok f y"
proof (induction xs arbitrary: k e m d l)
  case (Cons x xs)
  then have "readable x" by simp
  from read_auxiliary_step [OF Cons.prems(1) this] Cons.IH Cons.prems(2) show ?case by (metis (no_types, lifting) list.set_intros(2)
      module_list.select_convs(1) module_list.surjective module_list.update_convs(1) set_ConsD)
qed simp

lemma read_auxiliary_length: "read_auxiliary f rm k e xs m d = (Some l, d') \<Longrightarrow> length (ol_modules l) = length xs"
  by (induction xs arbitrary: k e m d l)
    (auto simp: Let_def rd_iff split: if_splits sum.splits option.splits prod.splits)

text \<open>Where the modules do not overlap, each range is stored as it is.\<close>

definition modules_disjoint :: "module_format \<Rightarrow> minidump_module list \<Rightarrow> bool" where
  "modules_disjoint f ms \<longleftrightarrow> sorted_wrt (\<lambda>m m'. \<forall>a. \<not> (holds_address f a m \<and> holds_address f a m')) ms"

lemma read_auxiliary_complete:
  assumes "range_map_laws rm" "module_accessors f"
    and "read_auxiliary f rm k e xs m d = (Some l, d')" "\<forall>x \<in> set xs. readable x"
    and "modules_disjoint f (ol_modules l)" "\<forall>y \<in> set (ol_modules l). \<forall>a. holds_address f a y \<longrightarrow> rm_retrieve rm a m = None"
  shows "(\<forall>j < length (ol_modules l). \<forall>a. holds_address f a (ol_modules l ! j) \<longrightarrow>
      (\<exists>b s. rm_retrieve rm a (ol_range_map l) = Some (k + j, b, s))) \<and>
    (\<forall>a. (\<forall>y \<in> set (ol_modules l). \<not> holds_address f a y) \<longrightarrow> rm_retrieve rm a (ol_range_map l) = rm_retrieve rm a m)"
  using assms(3-6)
proof (induction xs arbitrary: k e m d l)
  case Nil
  then show ?case by auto
next
  case (Cons x xs)
  then have "readable x" by simp
  from read_auxiliary_step [OF Cons.prems(1) this]
  obtain y name m1 e1 l1 d1 where y: "module_ok f y"
    "store_module_range rm name k (of_base_address f y) (of_size f y) e m = Some (m1, e1)"
    "read_auxiliary f rm (Suc k) e1 xs m1 d1 = (Some l1, d')" "l = l1\<lparr>ol_modules := y # ol_modules l1\<rparr>" by metis
  let ?b = "of_base_address f y" and ?s = "of_size f y"
  have "?s \<noteq> 0" "unat ?b + unat ?s < 2 ^ 64"
    using y(1) image_ok_range [OF assms(2)] by (simp_all add: module_ok_def)
  moreover have "\<forall>a. in_range a ?b ?s \<longrightarrow> rm_retrieve rm a m = None"
    using Cons.prems(4) y(4) by (simp add: holds_address_def)
  ultimately have "fst (rm_store rm ?b ?s k m)"
    using assms(1) unfolding range_map_laws_def by (meson less_imp_le)
  moreover from this have r1: "rm_retrieve rm a (snd (rm_store rm ?b ?s k m)) =
      (if holds_address f a y then Some (k, ?b, ?s) else rm_retrieve rm a m)" for a
    using assms(1) unfolding range_map_laws_def holds_address_def by blast
  ultimately have m1: "m1 = snd (rm_store rm ?b ?s k m)"
    using y(2) by (cases "rm_store rm ?b ?s k m") (auto simp: store_module_range_def)
  have dis: "modules_disjoint f (ol_modules l1)" "\<forall>z \<in> set (ol_modules l1). \<forall>a. \<not> (holds_address f a y \<and> holds_address f a z)"
    using Cons.prems(3) y(4) by (simp_all add: modules_disjoint_def)
  have IH: "(\<forall>j < length (ol_modules l1). \<forall>a. holds_address f a (ol_modules l1 ! j) \<longrightarrow>
      (\<exists>b s. rm_retrieve rm a (ol_range_map l1) = Some (Suc k + j, b, s))) \<and>
    (\<forall>a. (\<forall>y \<in> set (ol_modules l1). \<not> holds_address f a y) \<longrightarrow> rm_retrieve rm a (ol_range_map l1) = rm_retrieve rm a m1)"
    by (rule Cons.IH [OF y(3) _ dis(1)]) (use Cons.prems(2,4) dis(2) m1 r1 y(4) in auto)
  have first: "rm_retrieve rm a (ol_range_map l) = Some (k, ?b, ?s)" if "holds_address f a y" for a
    using IH dis(2) that m1 r1 [of a] y(4) by auto
  have "\<exists>b s. rm_retrieve rm a (ol_range_map l) = Some (k + j, b, s)"
    if "j < length (ol_modules l)" "holds_address f a (ol_modules l ! j)" for j a
    using that IH first [of a] y(4) by (cases j) auto
  moreover have "rm_retrieve rm a (ol_range_map l) = rm_retrieve rm a m"
    if "\<forall>z \<in> set (ol_modules l). \<not> holds_address f a z" for a
    using that IH m1 r1 [of a] y(4) by auto
  ultimately show ?case by blast
qed

lemma read_modules_readable: "read_modules f n d = (Some xs, d') \<Longrightarrow> length xs = n \<and> (\<forall>x \<in> set xs. readable x)"
proof (induction n arbitrary: d xs)
  case (Suc n)
  then obtain x ys d1 where *: "MinidumpModule_Read f d = (Some x, d1)" "read_modules f n d1 = (Some ys, d')" "xs = x # ys"
    by (auto simp: rd_iff)
  from MinidumpModule_Read_fresh [OF *(1)] have "readable x" by (simp add: readable_def image_ok_def)
  with Suc.IH [OF *(2)] *(3) show ?case by simp
qed (simp add: rd_iff)

lemma MinidumpModuleList_Read_steps:
  assumes "MinidumpModuleList_Read f rm expected_size d = (Some l, d')"
  obtains xs d1 where "length xs \<le> 1024" "\<forall>x \<in> set xs. readable x" "read_auxiliary f rm 0 0 xs (rm_empty rm) d1 = (Some l, d')"
proof -
  from assms obtain n d1 xs d2 where n: "read_list_count (of_mf f) (unat expected_size) (of_sizeof_module f) max_modules d = (Some n, d1)"
    and x: "read_modules f n d1 = (Some xs, d2)" and a: "read_auxiliary f rm 0 0 xs (rm_empty rm) d2 = (Some l, d')"
    by (auto simp: MinidumpModuleList_Read_def rd_iff)
  have "n \<le> 1024" using n by (auto simp: read_list_count_def rd_iff max_modules_def word_le_nat_alt split: if_splits)
  with read_modules_readable [OF x] a that show ?thesis by blast
qed

text \<open>
  C26: A module list that was read has at most 1024 modules, each valid and named with an image
  in bounds, and a module that is found for an address holds it: also where a range was stored
  without its overlapping part, whose size is computed with wrap-around.
\<close>

theorem MinidumpModuleList_Read_spec:
  assumes "range_map_laws rm" "refuses_wrapping rm" "module_accessors f" "MinidumpModuleList_Read f rm expected_size d = (Some l, d')"
  shows "length (ol_modules l) \<le> 1024 \<and> (\<forall>m \<in> set (ol_modules l). module_ok f m) \<and>
    (\<forall>a m. list_GetModuleForAddress rm a l = Some m \<longrightarrow> m \<in> set (ol_modules l) \<and> holds_address f a m)"
proof -
  from MinidumpModuleList_Read_steps [OF assms(4)] obtain xs d1 where x: "length xs \<le> 1024" "\<forall>x \<in> set xs. readable x"
    "read_auxiliary f rm 0 0 xs (rm_empty rm) d1 = (Some l, d')" .
  note S = read_auxiliary_sound [OF assms(1-3) x(3,2)]
  moreover have "rm_retrieve rm a (rm_empty rm) = None" for a using assms(1) by (simp add: range_map_laws_def)
  ultimately show ?thesis using x(1)
    by (fastforce simp: list_GetModuleForAddress_def list_GetModuleAtIndex_def split: option.splits if_splits)
qed

section \<open>The copy in the process's state\<close>

text \<open>The list as the abstract class that \<open>BasicCodeModules\<close> copies from; \<open>view\<close> is a module
  as the abstract class \<open>CodeModule\<close>.\<close>

definition list_ops :: "(minidump_module \<Rightarrow> codemodule) \<Rightarrow> 'm module_list \<Rightarrow> code_modules_ops" where
  "list_ops view l = \<lparr>cmo_GetMainModule = map_option view (list_GetMainModule l),
     cmo_module_count = length (ol_modules l), cmo_GetModuleAtIndex = (\<lambda>i. map_option view (list_GetModuleAtIndex i l))\<rparr>"

definition module_views :: "module_format \<Rightarrow> (codemodule \<Rightarrow> codemodule) \<Rightarrow> (minidump_module \<Rightarrow> codemodule) \<Rightarrow> bool" where
  "module_views f copy view \<longleftrightarrow>
     (\<forall>m. cm_base_address (view m) = of_base_address f m \<and> cm_size (view m) = of_size f m) \<and>
     (\<forall>x. cm_base_address (copy x) = cm_base_address x \<and> cm_size (copy x) = cm_size x)"

lemma module_range_view: "module_views f copy view \<Longrightarrow> module_range (copy (view m)) a \<longleftrightarrow> holds_address f a m"
  by (simp add: module_range_def holds_address_def module_views_def)

lemma copy_modules_total: "\<forall>i \<in> set is. get i \<noteq> None \<Longrightarrow> \<exists>m'. copy_modules rm copy get is m = Inr m'"
  by (induction "is" arbitrary: m) (auto simp: Let_def)

lemma list_copied: "\<exists>b. BasicCodeModules rm' copy (list_ops view l) = Inr b"
proof -
  have "\<forall>i \<in> set [0..<length (ol_modules l)]. cmo_GetModuleAtIndex (list_ops view l) i \<noteq> None"
    by (simp add: list_ops_def list_GetModuleAtIndex_def)
  from copy_modules_total [OF this, of rm' copy "rm_empty rm'"] show ?thesis
    by (auto simp: BasicCodeModules_def list_ops_def)
qed

lemma list_views: "map (\<lambda>i. copy (the (cmo_GetModuleAtIndex (list_ops view l) i))) [0..<cmo_module_count (list_ops view l)] =
    map (\<lambda>m. copy (view m)) (ol_modules l)"
  by (auto simp: list_ops_def list_GetModuleAtIndex_def intro!: nth_equalityI)

text \<open>The two lookups where the modules do not overlap.\<close>

lemma list_lookup_disjoint:
  assumes "range_map_laws rm" "module_accessors f" "MinidumpModuleList_Read f rm expected_size d = (Some l, d')"
    and "modules_disjoint f (ol_modules l)"
  shows "m \<in> set (ol_modules l) \<Longrightarrow> holds_address f a m \<Longrightarrow> list_GetModuleForAddress rm a l = Some m"
    and "\<forall>y \<in> set (ol_modules l). \<not> holds_address f a y \<Longrightarrow> list_GetModuleForAddress rm a l = None"
    and "\<forall>m \<in> set (ol_modules l). module_ok f m"
proof -
  from MinidumpModuleList_Read_steps [OF assms(3)] obtain xs d1 where x: "\<forall>x \<in> set xs. readable x"
    "read_auxiliary f rm 0 0 xs (rm_empty rm) d1 = (Some l, d')" .
  have empty: "rm_retrieve rm a (rm_empty rm) = None" for a using assms(1) by (simp add: range_map_laws_def)
  note C = read_auxiliary_complete [OF assms(1,2) x(2,1) assms(4)]
  show "\<forall>m \<in> set (ol_modules l). module_ok f m" by (rule read_auxiliary_ok [OF x(2,1)])
  {
    assume "m \<in> set (ol_modules l)" "holds_address f a m"
    then obtain j where j: "j < length (ol_modules l)" "holds_address f a (ol_modules l ! j)" "m = ol_modules l ! j"
      by (auto simp: in_set_conv_nth)
    then obtain u v where "rm_retrieve rm a (ol_range_map l) = Some (j, u, v)" using C empty by fastforce
    then show "list_GetModuleForAddress rm a l = Some m"
      using j by (simp add: list_GetModuleForAddress_def list_GetModuleAtIndex_def)
  }
  assume "\<forall>y \<in> set (ol_modules l). \<not> holds_address f a y"
  then show "list_GetModuleForAddress rm a l = None" using C empty by (simp add: list_GetModuleForAddress_def)
qed

lemma copy_lookup_disjoint:
  assumes "range_map_laws rm'" "module_accessors f" "module_views f copy view" "\<forall>m \<in> set (ol_modules l). module_ok f m"
    and "modules_disjoint f (ol_modules l)" "BasicCodeModules rm' copy (list_ops view l) = Inr b"
  shows "m \<in> set (ol_modules l) \<Longrightarrow> holds_address f a m \<Longrightarrow> GetModuleForAddress rm' b a = Some (copy (view m))"
    and "\<forall>y \<in> set (ol_modules l). \<not> holds_address f a y \<Longrightarrow> GetModuleForAddress rm' b a = None"
proof -
  let ?copies = "map (\<lambda>m. copy (view m)) (ol_modules l)"
  have "storable (copy (view m))" if "m \<in> set (ol_modules l)" for m
    using that assms(3,4) image_ok_range [OF assms(2), of m] by (simp add: storable_def module_ok_def module_views_def)
  then have st: "\<forall>x \<in> set ?copies. storable x" by simp
  have dj: "disjoint_modules ?copies"
    using assms(5) by (simp add: disjoint_modules_def modules_disjoint_def sorted_wrt_map module_range_view [OF assms(3)])
  note B = BasicCodeModules_lookup [OF assms(1,6) refl, unfolded list_views]
  show "GetModuleForAddress rm' b a = Some (copy (view m))" if m: "m \<in> set (ol_modules l)" "holds_address f a m"
  proof -
    have "copy (view m) \<in> set ?copies" "module_range (copy (view m)) a" using m module_range_view [OF assms(3)] by auto
    then show ?thesis using B st dj by blast
  qed
  show "GetModuleForAddress rm' b a = None" if n: "\<forall>y \<in> set (ol_modules l). \<not> holds_address f a y"
  proof (rule ccontr)
    assume "GetModuleForAddress rm' b a \<noteq> None"
    then obtain x where "GetModuleForAddress rm' b a = Some x" by blast
    then have "x \<in> set ?copies" "module_range x a" using B by blast+
    then show False using n module_range_view [OF assms(3)] by auto
  qed
qed

text \<open>
  C24: The copy of a module list into the process's state always succeeds, and where no two
  modules overlap it answers as the list does: the same module for every address, and the same
  main module.
\<close>

theorem module_list_copy:
  assumes "range_map_laws rm" "range_map_laws rm'" "module_accessors f" "module_views f copy view"
    and "MinidumpModuleList_Read f rm expected_size d = (Some l, d')" "modules_disjoint f (ol_modules l)"
  shows "\<exists>b. BasicCodeModules rm' copy (list_ops view l) = Inr b \<and>
    (\<forall>a. GetModuleForAddress rm' b a = map_option (\<lambda>m. copy (view m)) (list_GetModuleForAddress rm a l)) \<and>
    GetMainModule rm' b = map_option (\<lambda>m. copy (view m)) (list_GetMainModule l)"
proof -
  note L = list_lookup_disjoint [OF assms(1,3,5,6)]
  obtain b where b: "BasicCodeModules rm' copy (list_ops view l) = Inr b" using list_copied by blast
  note C = copy_lookup_disjoint [OF assms(2-4) L(3) assms(6) b]
  have found: "GetModuleForAddress rm' b a = map_option (\<lambda>m. copy (view m)) (list_GetModuleForAddress rm a l)" for a
  proof (cases "\<exists>m \<in> set (ol_modules l). holds_address f a m")
    case True
    then obtain m where m: "m \<in> set (ol_modules l)" "holds_address f a m" by blast
    show ?thesis by (simp add: L(1) [OF m] C(1) [OF m])
  next
    case False
    then have n: "\<forall>y \<in> set (ol_modules l). \<not> holds_address f a y" by blast
    show ?thesis by (simp add: L(2) [OF n] C(2) [OF n])
  qed
  have "GetMainModule rm' b = map_option (\<lambda>m. copy (view m)) (list_GetMainModule l)"
  proof (cases "ol_modules l")
    case Nil
    then have "list_GetMainModule l = None" "list_GetModuleForAddress rm a l = None" for a
      using L(2) by (simp_all add: list_GetMainModule_def list_GetModuleAtIndex_def)
    then show ?thesis using found by (simp add: GetMainModule_def)
  next
    case (Cons m ms)
    then have main: "list_GetMainModule l = Some m" by (simp add: list_GetMainModule_def list_GetModuleAtIndex_def)
    then have addr: "bcm_main_address b = of_base_address f m"
      using b assms(4) by (auto simp: BasicCodeModules_def list_ops_def module_views_def)
    have m: "m \<in> set (ol_modules l)" using Cons by simp
    then have "holds_address f (of_base_address f m) m"
      using L(3) image_ok_range(1) [OF assms(3)] by (auto simp: holds_address_def in_range_def module_ok_def word_neq_0_conv)
    then show ?thesis using found main addr L(1) [OF m] by (simp add: GetMainModule_def)
  qed
  with b found show ?thesis by blast
qed

section \<open>Overlapping modules\<close>

definition refuses_overlap :: "('m, 'v) range_map \<Rightarrow> bool" where
  "refuses_overlap rm \<longleftrightarrow> (\<forall>b s v m a. fst (rm_store rm b s v m) \<and> in_range a b s \<longrightarrow> rm_retrieve rm a m = None)"

text \<open>Two modules, the second beginning within the first and ending after it.\<close>

definition overlaps_end :: "module_format \<Rightarrow> minidump_module \<Rightarrow> minidump_module \<Rightarrow> bool" where
  "overlaps_end f m m' \<longleftrightarrow> unat (of_base_address f m) \<le> unat (of_base_address f m') \<and>
     unat (of_base_address f m') < unat (of_base_address f m) + unat (of_size f m) \<and>
     unat (of_base_address f m) + unat (of_size f m) < unat (of_base_address f m') + unat (of_size f m')"

lemma store_overlapping:
  assumes "range_map_laws rm" "refuses_overlap rm" "rm_retrieve rm b m \<noteq> None" "s \<noteq> 0" "b < e"
    and "take (length kDevAshmem) name \<noteq> kDevAshmem" "store_module_range rm name k b s e m = Some (m', e')"
    and "in_range a e (s - (e - b))"
  shows "rm_retrieve rm a m' = Some (k, e, s - (e - b))"
proof -
  have "in_range b b s" using assms(4) by (simp add: in_range_def word_neq_0_conv)
  then have "\<not> fst (rm_store rm b s k m)" using assms(2,3) unfolding refuses_overlap_def by metis
  moreover from this have "snd (rm_store rm b s k m) = m" using assms(1) unfolding range_map_laws_def by blast
  ultimately have st: "rm_store rm b s k m = (False, m)" by (simp add: prod_eq_iff)
  obtain ok2 m2 where st2: "rm_store rm e (s - (e - b)) k m = (ok2, m2)" by fastforce
  then have "ok2" "m' = m2" using assms(5-7) st by (auto simp: store_module_range_def Let_def split: bool.splits)
  with assms(1,8) st2 show ?thesis unfolding range_map_laws_def by (metis fst_conv snd_conv)
qed

lemma tail_range:
  assumes "unat b \<le> unat b'" "unat b' < unat b + unat s" "unat b + unat s < unat b' + unat s'" "unat b' + unat s' < 2 ^ 64"
    and "unat b + unat s \<le> unat a" "unat a < unat b' + unat s'"
  shows "b' < b + s" "in_range a (b + s) (s' - ((b + s) - b'))"
proof -
  have e: "unat (b + s) = unat b + unat s" using assms unat_add_lem [of b s] by simp
  then show "b' < b + s" using assms by (simp add: word_less_nat_alt)
  then have d: "unat (b + s - b') = unat b + unat s - unat b'" using e by (simp add: unat_sub word_less_nat_alt word_le_nat_alt)
  then have "unat (s' - (b + s - b')) = unat s' - (unat b + unat s - unat b')"
    using assms by (subst unat_sub) (simp_all add: word_le_nat_alt)
  then show "in_range a (b + s) (s' - ((b + s) - b'))" using assms e by (simp add: in_range_unat)
qed

lemma read_auxiliary_two:
  assumes "read_auxiliary f rm k e [x, x'] m d = (Some l, d')" "readable x" "readable x'" "ol_modules l = [y, y']"
  obtains name name' m1 e1 e2 where
    "store_module_range rm name k (of_base_address f y) (of_size f y) e m = Some (m1, e1)" "code_file y' = Inr name'"
    "store_module_range rm name' (Suc k) (of_base_address f y') (of_size f y') e1 m1 = Some (ol_range_map l, e2)"
proof -
  from read_auxiliary_step [OF assms(1,2)] obtain z name m1 e1 l1 d1 where z:
    "store_module_range rm name k (of_base_address f z) (of_size f z) e m = Some (m1, e1)"
    "read_auxiliary f rm (Suc k) e1 [x'] m1 d1 = (Some l1, d')" "l = l1\<lparr>ol_modules := z # ol_modules l1\<rparr>" .
  from read_auxiliary_step [OF z(2) assms(3)] obtain z' name' m2 e2 l2 d2 where z':
    "code_file z' = Inr name'" "store_module_range rm name' (Suc k) (of_base_address f z') (of_size f z') e1 m1 = Some (m2, e2)"
    "read_auxiliary f rm (Suc (Suc k)) e2 [] m2 d2 = (Some l2, d')" "l1 = l2\<lparr>ol_modules := z' # ol_modules l2\<rparr>" .
  from z'(3) have "ol_range_map l2 = m2" by auto
  with z z' assms(4) show ?thesis by (intro that) simp_all
qed

text \<open>The copy of two modules whose ranges overlap holds the first one's addresses only.\<close>

lemma copy_of_two:
  assumes "range_map_laws rm'" "refuses_overlap rm'" "module_views f copy view" "ol_modules l = [m, m']"
    and "of_size f m \<noteq> 0" "unat (of_base_address f m) + unat (of_size f m) < 2 ^ 64" "of_size f m' \<noteq> 0"
    and "unat (of_base_address f m') + unat (of_size f m') < 2 ^ 64"
    and "in_range (of_base_address f m') (of_base_address f m) (of_size f m)" "\<not> in_range a (of_base_address f m) (of_size f m)"
    and "BasicCodeModules rm' copy (list_ops view l) = Inr b"
  shows "GetModuleForAddress rm' b a = None"
proof -
  let ?b = "of_base_address f m" and ?s = "of_size f m" and ?b' = "of_base_address f m'" and ?s' = "of_size f m'"
  let ?c = "copy (view m)" and ?c' = "copy (view m')"
  have v: "cm_base_address ?c = ?b" "cm_size ?c = ?s" "cm_base_address ?c' = ?b'" "cm_size ?c' = ?s'"
    using assms(3) by (simp_all add: module_views_def)
  let ?m1 = "snd (rm_store rm' ?b ?s ?c (rm_empty rm'))"
  have "[0..<2] = [0, 1 :: nat]" by (simp add: upt_rec)
  then have b: "bcm_map b = snd (rm_store rm' ?b' ?s' ?c' ?m1)"
    using assms(4,11) v by (auto simp: BasicCodeModules_def list_ops_def list_GetModuleAtIndex_def Let_def)
  have empty: "rm_retrieve rm' x (rm_empty rm') = None" for x using assms(1) by (simp add: range_map_laws_def)
  have "fst (rm_store rm' ?b ?s ?c (rm_empty rm'))"
    using assms(1,5,6) empty unfolding range_map_laws_def by (meson less_imp_le)
  then have r1: "rm_retrieve rm' x ?m1 = (if in_range x ?b ?s then Some (?c, ?b, ?s) else None)" for x
    using assms(1) empty unfolding range_map_laws_def by metis
  have "in_range ?b' ?b' ?s'" using assms(7) by (simp add: in_range_def word_neq_0_conv)
  then have "\<not> fst (rm_store rm' ?b' ?s' ?c' ?m1)"
    using assms(2) r1 [of ?b'] assms(9) unfolding refuses_overlap_def by (metis option.distinct(1))
  then have "bcm_map b = ?m1" using assms(1) b unfolding range_map_laws_def by metis
  then show ?thesis using assms(10) by (simp add: GetModuleForAddress_def r1)
qed


section \<open>Examples\<close>

text \<open>A list of two pages, the second beginning at a given page.\<close>

definition small_module_format :: module_format where
  "small_module_format = example_module_format\<lparr>of_sizeof_module := 16,
     of_module := (\<lambda>b. \<lparr>mo_base_of_image = le_field 0 8 b, mo_size_of_image = le_field 8 4 b, mo_checksum = 0,
       mo_time_date_stamp = 0, mo_module_name_rva = le_field 12 4 b,
       mo_version_info = \<lparr>vi_signature = 0, vi_struct_version = 0, vi_file_version_hi = 0, vi_file_version_lo = 0,
         vi_product_version_hi = 0, vi_product_version_lo = 0, vi_file_flags_mask = 0, vi_file_flags = 0, vi_file_os = 0,
         vi_file_type = 0, vi_file_subtype = 0, vi_file_date_hi = 0, vi_file_date_lo = 0\<rparr>,
       mo_cv_record = \<lparr>ld_data_size = 0, ld_rva = 0\<rparr>, mo_misc_record = \<lparr>ld_data_size = 0, ld_rva = 0\<rparr>\<rparr>)\<rparr>"

definition two_pages :: "8 word \<Rightarrow> unit minidump" where
  "two_pages b = (Minidump_stream \<lparr>is_bytes = [2, 0, 0, 0] @ [0, 0x10, 0, 0, 0, 0, 0, 0] @ [0, 0x10, 0, 0] @ [36, 0, 0, 0] @
     [0, b, 0, 0, 0, 0, 0, 0] @ [0, 0x10, 0, 0] @ [36, 0, 0, 0] @ [2, 0, 0, 0] @ [0x6d, 0],
     is_position = 0, is_good = True, is_seeks_past_end = True\<rparr>)\<lparr>mh_valid := True\<rparr>"

definition two_pages_list :: "8 word \<Rightarrow> (nat \<times> 64 word \<times> 64 word) list module_list option \<times> unit minidump" where
  "two_pages_list b = MinidumpModuleList_Read small_module_format list_range_map 36 (two_pages b)"

definition page_list :: "8 word \<Rightarrow> (nat \<times> 64 word \<times> 64 word) list module_list" where
  "page_list b = the (fst (two_pages_list b))"

text \<open>A module's view and its copy, which has its own identity.\<close>

definition example_view :: "minidump_module \<Rightarrow> codemodule" where
  "example_view m = \<lparr>cm_ptr = 0, cm_base_address = of_base_address small_module_format m, cm_size = of_size small_module_format m,
     cm_code_file = [], cm_code_identifier = [], cm_debug_file = [], cm_debug_identifier = [], cm_version = []\<rparr>"

definition example_copy :: "codemodule \<Rightarrow> codemodule" where
  "example_copy x = x\<lparr>cm_ptr := Suc (cm_ptr x)\<rparr>"

definition range_of :: "minidump_module \<Rightarrow> 64 word \<times> 64 word" where
  "range_of m = (of_base_address small_module_format m, of_size small_module_format m)"

lemma two_pages_ranges:
  "map_option (\<lambda>l. map range_of (ol_modules l)) (fst (two_pages_list 0x30)) = Some [(0x1000, 0x1000), (0x3000, 0x1000)]"
  "map_option (\<lambda>l. map range_of (ol_modules l)) (fst (two_pages_list 0x18)) = Some [(0x1000, 0x1000), (0x1800, 0x1000)]"
  "map_option (\<lambda>l. map code_file (ol_modules l)) (fst (two_pages_list 0x18)) = Some [Inr ''m'', Inr ''m'']"
  by code_simp+

lemma page_list_read:
  assumes "b = 0x30 \<or> b = 0x18"
  shows "MinidumpModuleList_Read small_module_format list_range_map 36 (two_pages b) = (Some (page_list b), snd (two_pages_list b))"
  using assms two_pages_ranges by (cases "two_pages_list b") (auto simp: page_list_def two_pages_list_def)

lemma page_list_ranges: "map range_of (ol_modules (page_list 0x30)) = [(0x1000, 0x1000), (0x3000, 0x1000)]"
  "map range_of (ol_modules (page_list 0x18)) = [(0x1000, 0x1000), (0x1800, 0x1000)]"
  "map code_file (ol_modules (page_list 0x18)) = [Inr ''m'', Inr ''m'']"
  using two_pages_ranges by (auto simp: page_list_def)

lemma example_accessors: "module_accessors small_module_format"
  by (simp add: module_accessors_def small_module_format_def example_module_format_def)

lemma example_views: "module_views small_module_format example_copy example_view"
  by (simp add: module_views_def example_copy_def example_view_def)

lemma uint_sum_le: "uint b + uint s \<le> uint c \<longleftrightarrow> unat b + unat s \<le> unat c" "uint b + uint s \<le> 2 ^ 64 \<longleftrightarrow> unat b + unat s \<le> 2 ^ 64"
  for b s c :: "64 word"
proof -
  have e: "uint b + uint s = int (unat b + unat s)" by (simp only: uint_nat of_nat_add)
  show "uint b + uint s \<le> uint c \<longleftrightarrow> unat b + unat s \<le> unat c" unfolding uint_nat by (metis of_nat_add of_nat_le_iff)
  show "uint b + uint s \<le> 2 ^ 64 \<longleftrightarrow> unat b + unat s \<le> 2 ^ 64" unfolding e
    by (metis of_nat_le_iff of_nat_numeral of_nat_power)
qed

lemma list_refuses_wrapping: "refuses_wrapping list_range_map"
  unfolding refuses_wrapping_def
proof (intro allI impI)
  fix b s :: "64 word" and v :: 'a and m
  assume "fst (rm_store list_range_map b s v m)"
  then have "s \<noteq> 0 \<and> uint b + uint s \<le> 2 ^ 64" by (simp add: list_range_map_def split: if_splits)
  then show "s \<noteq> 0 \<and> unat b + unat s \<le> 2 ^ 64" by (simp only: uint_sum_le simp_thms)
qed

lemma list_refuses_overlap: "refuses_overlap list_range_map"
  unfolding refuses_overlap_def
proof (intro allI impI)
  fix b s a :: "64 word" and v :: 'a and m
  assume h: "fst (rm_store list_range_map b s v m) \<and> in_range a b s"
  have "\<not> in_range a b' s'" if "(v', b', s') \<in> set m" for v' b' s'
  proof -
    have "\<forall>(v', b', s') \<in> set m. disjoint_range b s b' s'" using h by (simp add: list_range_map_def split: if_splits)
    then have "s' = 0 \<or> unat b + unat s \<le> unat b' \<or> unat b' + unat s' \<le> unat b"
      using that unfolding disjoint_range_def uint_sum_le by fast
    then show ?thesis using h by (auto simp: in_range_unat)
  qed
  then show "rm_retrieve list_range_map a m = None" by (auto simp: list_range_map_def find_None_iff)
qed

theorem MinidumpModuleList_Read_spec_witness:
  "length (ol_modules (page_list 0x18)) \<le> 1024"
  using MinidumpModuleList_Read_spec [OF list_range_map_laws list_refuses_wrapping example_accessors page_list_read] by blast

theorem module_list_copy_witness:
  "\<exists>b. BasicCodeModules list_range_map example_copy (list_ops example_view (page_list 0x30)) = Inr b \<and>
     GetModuleForAddress list_range_map b 0x3004 = map_option (\<lambda>m. example_copy (example_view m))
       (list_GetModuleForAddress list_range_map 0x3004 (page_list 0x30))"
proof -
  obtain m m' where l: "ol_modules (page_list 0x30) = [m, m']" "range_of m = (0x1000, 0x1000)" "range_of m' = (0x3000, 0x1000)"
    using page_list_ranges(1) by auto
  then have "modules_disjoint small_module_format (ol_modules (page_list 0x30))"
    by (auto simp: modules_disjoint_def holds_address_def in_range_unat range_of_def)
  from module_list_copy [OF list_range_map_laws list_range_map_laws example_accessors example_views page_list_read this]
  show ?thesis by blast
qed


end
