(* ===== verification/Minidump_Streams.thy ===== *)
theory Minidump_Streams
  imports Minidump_Module
begin

text \<open>
  The streams of a single structure of \<open>minidump_src/minidump.cc\<close>, and the list of memory
  infos: \<open>MinidumpException\<close>, \<open>MinidumpAssertion\<close>, \<open>MinidumpSystemInfo\<close>,
  \<open>MinidumpMiscInfo\<close>, \<open>MinidumpBreakpadInfo\<close>, \<open>MinidumpMemoryInfoList\<close>. An object is given out
  only after its \<open>Read\<close> succeeded, so it is valid.
\<close>

section \<open>The structures\<close>

record md_exception =
  xr_thread_id :: "32 word"
  xr_exception_code :: "32 word"
  xr_exception_flags :: "32 word"
  xr_exception_record :: "64 word"
  xr_exception_address :: "64 word"
  xr_number_parameters :: "32 word"
  xr_exception_information :: "64 word list"
  xr_thread_context :: location_descriptor

record md_assertion =
  ma_expression :: "16 word list"
  ma_function :: "16 word list"
  ma_file :: "16 word list"
  ma_line :: "32 word"
  ma_type :: "32 word"

text \<open>The system info; \<open>ss_cpu\<close> is the memory of the union that depends on the processor.\<close>

record md_system_info =
  ss_processor_architecture :: "16 word"
  ss_processor_level :: "16 word"
  ss_processor_revision :: "16 word"
  ss_number_of_processors :: "8 word"
  ss_product_type :: "8 word"
  ss_major_version :: "32 word"
  ss_minor_version :: "32 word"
  ss_build_number :: "32 word"
  ss_platform_id :: "32 word"
  ss_csd_version_rva :: "32 word"
  ss_suite_mask :: "16 word"
  ss_cpu :: "8 word list"

record md_misc_info =
  mi_size_of_info :: "32 word"
  mi_flags1 :: "32 word"
  mi_process_id :: "32 word"
  mi_process_create_time :: "32 word"
  mi_process_user_time :: "32 word"
  mi_process_kernel_time :: "32 word"
  mi_processor_max_mhz :: "32 word"
  mi_processor_current_mhz :: "32 word"
  mi_processor_mhz_limit :: "32 word"
  mi_processor_max_idle_state :: "32 word"
  mi_processor_current_idle_state :: "32 word"
  mi_process_integrity_level :: "32 word"
  mi_process_execute_flags :: "32 word"
  mi_protected_process :: "32 word"
  mi_time_zone_id :: "32 word"
  mi_time_zone :: md_time_zone
  mi_build_string :: "16 word list"
  mi_dbg_bld_str :: "16 word list"

record md_breakpad_info =
  bk_validity :: "32 word"
  bk_dump_thread_id :: "32 word"
  bk_requesting_thread_id :: "32 word"

record md_memory_info =
  mm_base_address :: "64 word"
  mm_allocation_base :: "64 word"
  mm_allocation_protection :: "32 word"
  mm_region_size :: "64 word"
  mm_state :: "32 word"
  mm_protection :: "32 word"
  mm_type :: "32 word"

record md_memory_info_header =
  mn_size_of_header :: "32 word"
  mn_size_of_entry :: "32 word"
  mn_number_of_entries :: "64 word"

text \<open>
  The sizes of the structures, their decoding, and where the members of the system info's union
  lie; \<open>sf_misc_sizes\<close> are the sizes of the four versions of the miscellaneous info.
\<close>

record stream_format =
  sf_mf :: md_format
  sf_sizeof :: "string \<Rightarrow> nat"
  sf_exception :: "8 word list \<Rightarrow> md_exception"
  sf_assertion :: "8 word list \<Rightarrow> md_assertion"
  sf_system_info :: "8 word list \<Rightarrow> md_system_info"
  sf_cpu_member :: "string \<Rightarrow> nat \<times> nat"
  sf_misc_info :: "8 word list \<Rightarrow> md_misc_info"
  sf_misc_sizes :: "32 word \<times> 32 word \<times> 32 word \<times> 32 word"
  sf_breakpad_info :: "8 word list \<Rightarrow> md_breakpad_info"
  sf_memory_info :: "8 word list \<Rightarrow> md_memory_info"
  sf_memory_info_header :: "8 word list \<Rightarrow> md_memory_info_header"

abbreviation (input) sf_md :: "stream_format \<Rightarrow> md_constants" where
  "sf_md f \<equiv> mf_md (sf_mf f)"

text \<open>
  What the \<open>Read\<close> of a stream of one structure starts with: its size must be the structure's,
  and it is swapped in a dump of the other byte order.
\<close>

definition read_struct :: "nat \<Rightarrow> (8 word list \<Rightarrow> 'a) \<Rightarrow> ('a \<Rightarrow> 'a) \<Rightarrow> 32 word \<Rightarrow> ('s, 'a) reader" where
  "read_struct size_of decode swap_fields expected_size =
     rd_bind (rd_require (unat expected_size = size_of)) (\<lambda>_.
     rd_bind (ReadBytes size_of) (\<lambda>bytes. rd_bind rd_swap (\<lambda>swap.
       rd_return (if swap then swap_fields (decode bytes) else decode bytes))))"

section \<open>Exception\<close>

record minidump_exception =
  xn_exception :: md_exception
  xn_context :: "dump_context option"

definition Swap_exception :: "md_exception \<Rightarrow> md_exception" where
  "Swap_exception x = x\<lparr>xr_thread_id := Swap32 (xr_thread_id x), xr_exception_code := Swap32 (xr_exception_code x),
     xr_exception_flags := Swap32 (xr_exception_flags x), xr_exception_record := Swap64 (xr_exception_record x),
     xr_exception_address := Swap64 (xr_exception_address x), xr_number_parameters := Swap32 (xr_number_parameters x),
     xr_exception_information := map Swap64 (xr_exception_information x),
     xr_thread_context := Swap_location (xr_thread_context x)\<rparr>"

definition MinidumpException_Read :: "stream_format \<Rightarrow> 32 word \<Rightarrow> ('s, minidump_exception) reader" where
  "MinidumpException_Read f expected_size =
     rd_bind (read_struct (sf_sizeof f ''MDRawExceptionStream'') (sf_exception f) Swap_exception expected_size) (\<lambda>x.
       rd_return \<lparr>xn_exception = x, xn_context = None\<rparr>)"

definition exception_GetThreadID :: "minidump_exception \<Rightarrow> 32 word option" where
  "exception_GetThreadID x = Some (xr_thread_id (xn_exception x))"

definition exception_GetContext :: "stream_format \<Rightarrow> context_format \<Rightarrow> 's system_info_reader \<Rightarrow> minidump_exception \<Rightarrow> 's minidump
    \<Rightarrow> dump_context option \<times> minidump_exception \<times> 's minidump" where
  "exception_GetContext f cf get_system_info x d = (case xn_context x of
     Some context \<Rightarrow> (Some context, x, d)
   | None \<Rightarrow>
       (case SeekSet (unat (ld_rva (xr_thread_context (xn_exception x)))) d of
          (False, d) \<Rightarrow> (None, x, d)
        | (True, d) \<Rightarrow>
            (case MinidumpContext_Read (sf_mf f) cf get_system_info (ld_data_size (xr_thread_context (xn_exception x)))
                    new_DumpContext d of
               (False, _, d) \<Rightarrow> (None, x, d)
             | (True, context, d) \<Rightarrow> (Some context, x\<lparr>xn_context := Some context\<rparr>, d))))"

section \<open>Assertion\<close>

record minidump_assertion =
  an_assertion :: md_assertion
  an_expression :: "8 word list"
  an_function :: "8 word list"
  an_file :: "8 word list"

text \<open>The conversion of one of the structure's arrays: its size in bytes is twice its length.\<close>

definition convert_array :: "16 word list \<Rightarrow> 8 word list \<Rightarrow> ('s, 8 word list) reader" where
  "convert_array data result = rd_bind rd_swap (\<lambda>swap.
     case ConvertUTF16BufferToUTF8String data (2 * length data) swap result of None \<Rightarrow> rd_fail | Some s \<Rightarrow> rd_return s)"

definition MinidumpAssertion_Read :: "stream_format \<Rightarrow> 32 word \<Rightarrow> ('s, minidump_assertion) reader" where
  "MinidumpAssertion_Read f expected_size =
     rd_bind (rd_require (unat expected_size = sf_sizeof f ''MDRawAssertionInfo'')) (\<lambda>_.
     rd_bind (ReadBytes (sf_sizeof f ''MDRawAssertionInfo'')) (\<lambda>bytes.
       let a = sf_assertion f bytes in
       rd_bind (convert_array (ma_expression a) []) (\<lambda>expression.
       rd_bind (convert_array (ma_function a) []) (\<lambda>function.
       rd_bind (convert_array (ma_file a) []) (\<lambda>source_file. rd_bind rd_swap (\<lambda>swap.
         rd_return \<lparr>an_assertion = (if swap then a\<lparr>ma_line := Swap32 (ma_line a), ma_type := Swap32 (ma_type a)\<rparr> else a),
           an_expression = expression, an_function = function, an_file = source_file\<rparr>))))))"

section \<open>System info\<close>

record minidump_system_info =
  sn_system_info :: md_system_info
  sn_csd_version :: "8 word list option"
  sn_cpu_vendor :: "string option"

definition cpu_is_x86 :: "stream_format \<Rightarrow> md_system_info \<Rightarrow> bool" where
  "cpu_is_x86 f s \<longleftrightarrow> is_one_of (sf_md f) [''MD_CPU_ARCHITECTURE_X86'', ''MD_CPU_ARCHITECTURE_X86_WIN64'']
     (ucast (ss_processor_architecture s))"

definition x86_cpu_members :: "string list" where
  "x86_cpu_members = [''x86_cpu_info.vendor_id[0]'', ''x86_cpu_info.vendor_id[1]'', ''x86_cpu_info.vendor_id[2]'',
     ''x86_cpu_info.version_information'', ''x86_cpu_info.feature_information'', ''x86_cpu_info.amd_extended_cpu_features'']"

definition other_cpu_members :: "string list" where
  "other_cpu_members = [''other_cpu_info.processor_features[0]'', ''other_cpu_info.processor_features[1]'']"

definition swap_cpu :: "stream_format \<Rightarrow> string list \<Rightarrow> 8 word list \<Rightarrow> 8 word list" where
  "swap_cpu f members = fold (\<lambda>member. swap_part (sf_cpu_member f member)) members"

text \<open>The test of the architecture comes after its own swap.\<close>

definition Swap_system_info :: "stream_format \<Rightarrow> md_system_info \<Rightarrow> md_system_info" where
  "Swap_system_info f s =
     (let s = s\<lparr>ss_processor_architecture := Swap16 (ss_processor_architecture s), ss_processor_level := Swap16 (ss_processor_level s),
        ss_processor_revision := Swap16 (ss_processor_revision s), ss_major_version := Swap32 (ss_major_version s),
        ss_minor_version := Swap32 (ss_minor_version s), ss_build_number := Swap32 (ss_build_number s),
        ss_platform_id := Swap32 (ss_platform_id s), ss_csd_version_rva := Swap32 (ss_csd_version_rva s),
        ss_suite_mask := Swap16 (ss_suite_mask s)\<rparr>
      in s\<lparr>ss_cpu := swap_cpu f (if cpu_is_x86 f s then x86_cpu_members else other_cpu_members) (ss_cpu s)\<rparr>)"

definition MinidumpSystemInfo_Read :: "stream_format \<Rightarrow> 32 word \<Rightarrow> ('s, minidump_system_info) reader" where
  "MinidumpSystemInfo_Read f expected_size =
     rd_bind (read_struct (sf_sizeof f ''MDRawSystemInfo'') (sf_system_info f) (Swap_system_info f) expected_size) (\<lambda>s.
       rd_return \<lparr>sn_system_info = s, sn_csd_version = None, sn_cpu_vendor = None\<rparr>)"

definition os_short_names :: "(string \<times> string) list" where
  "os_short_names =
    [(''MD_OS_WIN32_NT'', ''windows''), (''MD_OS_WIN32_WINDOWS'', ''windows''), (''MD_OS_MAC_OS_X'', ''mac''),
     (''MD_OS_IOS'', ''ios''), (''MD_OS_LINUX'', ''linux''), (''MD_OS_SOLARIS'', ''solaris''),
     (''MD_OS_ANDROID'', ''android''), (''MD_OS_PS3'', ''ps3''), (''MD_OS_NACL'', ''nacl'')]"

definition GetOS :: "stream_format \<Rightarrow> minidump_system_info \<Rightarrow> string" where
  "GetOS f s = (case switch_case (sf_md f) os_short_names (ss_platform_id (sn_system_info s)) of
     Some os \<Rightarrow> os | None \<Rightarrow> [])"

definition cpu_names :: "(string \<times> string) list" where
  "cpu_names =
    [(''MD_CPU_ARCHITECTURE_X86'', ''x86''), (''MD_CPU_ARCHITECTURE_X86_WIN64'', ''x86''),
     (''MD_CPU_ARCHITECTURE_AMD64'', ''x86-64''), (''MD_CPU_ARCHITECTURE_PPC'', ''ppc''),
     (''MD_CPU_ARCHITECTURE_PPC64'', ''ppc64''), (''MD_CPU_ARCHITECTURE_SPARC'', ''sparc''),
     (''MD_CPU_ARCHITECTURE_ARM'', ''arm''), (''MD_CPU_ARCHITECTURE_ARM64'', ''arm64'')]"

definition GetCPU :: "stream_format \<Rightarrow> minidump_system_info \<Rightarrow> string" where
  "GetCPU f s = (case switch_case (sf_md f) cpu_names (ucast (ss_processor_architecture (sn_system_info s))) of
     Some cpu \<Rightarrow> cpu | None \<Rightarrow> [])"

definition GetCSDVersion :: "stream_format \<Rightarrow> minidump_system_info \<Rightarrow> 's minidump
    \<Rightarrow> 8 word list option \<times> minidump_system_info \<times> 's minidump" where
  "GetCSDVersion f s d = (case sn_csd_version s of
     Some csd \<Rightarrow> (Some csd, s, d)
   | None \<Rightarrow>
       (case ReadString (sf_mf f) (unat (ss_csd_version_rva (sn_system_info s))) d of
          (csd, d) \<Rightarrow> (csd, s\<lparr>sn_csd_version := csd\<rparr>, d)))"

text \<open>The four characters of a vendor word, the lowest byte first.\<close>

definition vendor_chars :: "32 word \<Rightarrow> 8 word list" where
  "vendor_chars w = map (\<lambda>i. ucast (drop_bit i w AND 0xff)) [0, 8, 16, 24]"

definition GetCPUVendor :: "stream_format \<Rightarrow> minidump_system_info \<Rightarrow> string option \<times> minidump_system_info" where
  "GetCPUVendor f s =
     (if sn_cpu_vendor s = None \<and> cpu_is_x86 f (sn_system_info s)
      then let id = (\<lambda>member. mf_u32 (sf_mf f) (part (sf_cpu_member f member) (ss_cpu (sn_system_info s))));
               vendor = c_string (vendor_chars (id ''x86_cpu_info.vendor_id[0]'') @ vendor_chars (id ''x86_cpu_info.vendor_id[1]'') @
                 vendor_chars (id ''x86_cpu_info.vendor_id[2]''))
        in (Some vendor, s\<lparr>sn_cpu_vendor := Some vendor\<rparr>)
      else (sn_cpu_vendor s, s))"

text \<open>The structure as \<open>system_info\<close> gives it to the processor.\<close>

definition raw_of :: "stream_format \<Rightarrow> minidump_system_info \<Rightarrow> raw_system_info" where
  "raw_of f s = (let i = sn_system_info s; u32 = (\<lambda>member. mf_u32 (sf_mf f) (part (sf_cpu_member f member) (ss_cpu i))) in
     \<lparr>rs_processor_architecture = ss_processor_architecture i, rs_processor_level = ss_processor_level i,
      rs_processor_revision = ss_processor_revision i, rs_number_of_processors = ss_number_of_processors i,
      rs_platform_id = ss_platform_id i, rs_major_version = ss_major_version i, rs_minor_version = ss_minor_version i,
      rs_build_number = ss_build_number i, rs_arm_cpuid = u32 ''arm_cpu_info.cpuid'',
      rs_arm_elf_hwcaps = u32 ''arm_cpu_info.elf_hwcaps''\<rparr>)"

section \<open>Miscellaneous info\<close>

text \<open>Of a shorter version the members behind its end are those of the object, which is new.\<close>

record minidump_misc_info =
  mc_misc_info :: md_misc_info
  mc_standard_name :: "8 word list"
  mc_daylight_name :: "8 word list"
  mc_build_string :: "8 word list"
  mc_dbg_bld_str :: "8 word list"

definition Swap_misc_1 :: "md_misc_info \<Rightarrow> md_misc_info" where
  "Swap_misc_1 m = m\<lparr>mi_size_of_info := Swap32 (mi_size_of_info m), mi_flags1 := Swap32 (mi_flags1 m),
     mi_process_id := Swap32 (mi_process_id m), mi_process_create_time := Swap32 (mi_process_create_time m),
     mi_process_user_time := Swap32 (mi_process_user_time m), mi_process_kernel_time := Swap32 (mi_process_kernel_time m)\<rparr>"

definition Swap_misc_2 :: "md_misc_info \<Rightarrow> md_misc_info" where
  "Swap_misc_2 m = m\<lparr>mi_processor_max_mhz := Swap32 (mi_processor_max_mhz m),
     mi_processor_current_mhz := Swap32 (mi_processor_current_mhz m), mi_processor_mhz_limit := Swap32 (mi_processor_mhz_limit m),
     mi_processor_max_idle_state := Swap32 (mi_processor_max_idle_state m),
     mi_processor_current_idle_state := Swap32 (mi_processor_current_idle_state m)\<rparr>"

definition Swap_misc_3 :: "md_misc_info \<Rightarrow> md_misc_info" where
  "Swap_misc_3 m = m\<lparr>mi_process_integrity_level := Swap32 (mi_process_integrity_level m),
     mi_process_execute_flags := Swap32 (mi_process_execute_flags m), mi_protected_process := Swap32 (mi_protected_process m),
     mi_time_zone_id := Swap32 (mi_time_zone_id m), mi_time_zone := Swap_time_zone (mi_time_zone m)\<rparr>"

definition Swap_misc_info :: "stream_format \<Rightarrow> md_misc_info \<Rightarrow> md_misc_info" where
  "Swap_misc_info f m = (case sf_misc_sizes f of (size1, size2, size3, size4) \<Rightarrow>
     let m = Swap_misc_1 m;
         m = (if mi_size_of_info m > size1 then Swap_misc_2 m else m)
     in if mi_size_of_info m > size2 then Swap_misc_3 m else m)"

definition MinidumpMiscInfo_Read :: "stream_format \<Rightarrow> 32 word \<Rightarrow> ('s, minidump_misc_info) reader" where
  "MinidumpMiscInfo_Read f expected_size = (case sf_misc_sizes f of (size1, size2, size3, size4) \<Rightarrow>
     rd_bind (rd_require (expected_size \<in> {size1, size2, size3, size4})) (\<lambda>_.
     rd_bind (ReadBytes (unat expected_size)) (\<lambda>bytes. rd_bind rd_swap (\<lambda>swap.
       let m = (if swap then Swap_misc_info f (sf_misc_info f bytes) else sf_misc_info f bytes) in
       rd_bind (rd_require (expected_size = mi_size_of_info m)) (\<lambda>_.
       rd_bind (if mi_size_of_info m > size2 then convert_array (tz_standard_name (mi_time_zone m)) [] else rd_return []) (\<lambda>standard_name.
       rd_bind (if mi_size_of_info m > size2 then convert_array (tz_daylight_name (mi_time_zone m)) [] else rd_return []) (\<lambda>daylight_name.
       rd_bind (if mi_size_of_info m > size3 then convert_array (mi_build_string m) [] else rd_return []) (\<lambda>build_string.
       rd_bind (if mi_size_of_info m > size3 then convert_array (mi_dbg_bld_str m) [] else rd_return []) (\<lambda>dbg_bld_str.
         rd_return \<lparr>mc_misc_info = m, mc_standard_name = standard_name, mc_daylight_name = daylight_name,
           mc_build_string = build_string, mc_dbg_bld_str = dbg_bld_str\<rparr>)))))))))"

section \<open>Breakpad info\<close>

definition Swap_breakpad_info :: "md_breakpad_info \<Rightarrow> md_breakpad_info" where
  "Swap_breakpad_info b = b\<lparr>bk_validity := Swap32 (bk_validity b), bk_dump_thread_id := Swap32 (bk_dump_thread_id b),
     bk_requesting_thread_id := Swap32 (bk_requesting_thread_id b)\<rparr>"

definition MinidumpBreakpadInfo_Read :: "stream_format \<Rightarrow> 32 word \<Rightarrow> ('s, md_breakpad_info) reader" where
  "MinidumpBreakpadInfo_Read f expected_size =
     read_struct (sf_sizeof f ''MDRawBreakpadInfo'') (sf_breakpad_info f) Swap_breakpad_info expected_size"

definition GetDumpThreadID :: "stream_format \<Rightarrow> md_breakpad_info \<Rightarrow> 32 word option" where
  "GetDumpThreadID f b = (if bk_validity b AND sf_md f ''MD_BREAKPAD_INFO_VALID_DUMP_THREAD_ID'' = 0 then None
     else Some (bk_dump_thread_id b))"

definition GetRequestingThreadID :: "stream_format \<Rightarrow> md_breakpad_info \<Rightarrow> 32 word option" where
  "GetRequestingThreadID f b = (if bk_validity b AND sf_md f ''MD_BREAKPAD_INFO_VALID_REQUESTING_THREAD_ID'' = 0 then None
     else Some (bk_requesting_thread_id b))"

section \<open>Memory infos\<close>

definition IsExecutable :: "stream_format \<Rightarrow> md_memory_info \<Rightarrow> bool" where
  "IsExecutable f m = is_one_of (sf_md f)
     [''MD_MEMORY_PROTECT_EXECUTE'', ''MD_MEMORY_PROTECT_EXECUTE_READ'', ''MD_MEMORY_PROTECT_EXECUTE_READWRITE'']
     (mm_protection m AND sf_md f ''MD_MEMORY_PROTECTION_ACCESS_MASK'')"

definition IsWritable :: "stream_format \<Rightarrow> md_memory_info \<Rightarrow> bool" where
  "IsWritable f m = is_one_of (sf_md f)
     [''MD_MEMORY_PROTECT_READWRITE'', ''MD_MEMORY_PROTECT_WRITECOPY'', ''MD_MEMORY_PROTECT_EXECUTE_READWRITE'',
      ''MD_MEMORY_PROTECT_EXECUTE_WRITECOPY'']
     (mm_protection m AND sf_md f ''MD_MEMORY_PROTECTION_ACCESS_MASK'')"

definition Swap_memory_info :: "md_memory_info \<Rightarrow> md_memory_info" where
  "Swap_memory_info m = m\<lparr>mm_base_address := Swap64 (mm_base_address m), mm_allocation_base := Swap64 (mm_allocation_base m),
     mm_allocation_protection := Swap32 (mm_allocation_protection m), mm_region_size := Swap64 (mm_region_size m),
     mm_state := Swap32 (mm_state m), mm_protection := Swap32 (mm_protection m), mm_type := Swap32 (mm_type m)\<rparr>"

definition MinidumpMemoryInfo_Read :: "stream_format \<Rightarrow> ('s, md_memory_info) reader" where
  "MinidumpMemoryInfo_Read f =
     rd_bind (ReadBytes (sf_sizeof f ''MDRawMemoryInfo'')) (\<lambda>bytes. rd_bind rd_swap (\<lambda>swap.
       let m = (if swap then Swap_memory_info (sf_memory_info f bytes) else sf_memory_info f bytes) in
       if mm_region_size m = 0 \<or> mm_region_size m > - 1 - mm_base_address m then rd_fail else rd_return m))"

record 'm memory_info_list =
  il_infos :: "md_memory_info list"
  il_range_map :: 'm

text \<open>\<open>GetBase\<close> and \<open>GetSize\<close> of a valid info are the parameters \<open>base\<close> and \<open>size\<close>.\<close>

fun read_memory_infos :: "stream_format \<Rightarrow> (md_memory_info \<Rightarrow> 64 word) \<Rightarrow> (md_memory_info \<Rightarrow> 64 word) \<Rightarrow> ('m, nat) range_map
    \<Rightarrow> nat \<Rightarrow> nat \<Rightarrow> 'm \<Rightarrow> ('s, 'm memory_info_list) reader" where
  "read_memory_infos f base size_of rm index 0 m = rd_return \<lparr>il_infos = [], il_range_map = m\<rparr>"
| "read_memory_infos f base size_of rm index (Suc n) m =
     rd_bind (MinidumpMemoryInfo_Read f) (\<lambda>info.
       case rm_store rm (base info) (size_of info) index m of
         (False, _) \<Rightarrow> rd_fail
       | (True, m) \<Rightarrow> rd_bind (read_memory_infos f base size_of rm (Suc index) n m)
           (\<lambda>l. rd_return (l\<lparr>il_infos := info # il_infos l\<rparr>)))"

definition Swap_memory_info_header :: "md_memory_info_header \<Rightarrow> md_memory_info_header" where
  "Swap_memory_info_header h = h\<lparr>mn_size_of_header := Swap32 (mn_size_of_header h), mn_size_of_entry := Swap32 (mn_size_of_entry h),
     mn_number_of_entries := Swap64 (mn_number_of_entries h)\<rparr>"

definition MinidumpMemoryInfoList_Read :: "stream_format \<Rightarrow> (md_memory_info \<Rightarrow> 64 word) \<Rightarrow> (md_memory_info \<Rightarrow> 64 word)
    \<Rightarrow> ('m, nat) range_map \<Rightarrow> 32 word \<Rightarrow> ('s, 'm memory_info_list) reader" where
  "MinidumpMemoryInfoList_Read f base size_of rm expected_size =
     (let sizeof_list = sf_sizeof f ''MDRawMemoryInfoList''; sizeof_info = sf_sizeof f ''MDRawMemoryInfo'' in
      rd_bind (rd_require (sizeof_list \<le> unat expected_size)) (\<lambda>_.
      rd_bind (ReadBytes sizeof_list) (\<lambda>bytes. rd_bind rd_swap (\<lambda>swap.
        let header = (if swap then Swap_memory_info_header (sf_memory_info_header f bytes) else sf_memory_info_header f bytes);
            n = mn_number_of_entries header in
        rd_bind (rd_require (unat (mn_size_of_header header) = sizeof_list)) (\<lambda>_.
        rd_bind (rd_require (unat (mn_size_of_entry header) = sizeof_info)) (\<lambda>_.
        rd_bind (rd_require (n \<le> 0xffffffff div of_nat sizeof_info)) (\<lambda>_.
        rd_bind (rd_require (ucast expected_size = of_nat sizeof_list + n * of_nat sizeof_info)) (\<lambda>_.
        rd_bind (rd_require (ucast (ucast n :: 32 word) = n)) (\<lambda>_.
          read_memory_infos f base size_of rm 0 (unat n) (rm_empty rm))))))))))"

definition GetMemoryInfoAtIndex :: "nat \<Rightarrow> 'm memory_info_list \<Rightarrow> md_memory_info option" where
  "GetMemoryInfoAtIndex index l = (if index \<ge> length (il_infos l) then None else Some (il_infos l ! index))"

definition GetMemoryInfoForAddress :: "('m, nat) range_map \<Rightarrow> 64 word \<Rightarrow> 'm memory_info_list \<Rightarrow> md_memory_info option" where
  "GetMemoryInfoForAddress rm address l = (case rm_retrieve rm address (il_range_map l) of
     None \<Rightarrow> None | Some (info_index, _, _) \<Rightarrow> GetMemoryInfoAtIndex info_index l)"

end
