(* ===== verification/Stream_Facts.thy ===== *)
theory Stream_Facts
  imports Minidump_Streams Module_List_Facts
begin

text \<open>
  The system info in a dump of the other byte order, and the lookups of the memory infos.
\<close>

section \<open>The system info of the other byte order\<close>

text \<open>How the members of the system info's union lie, as the format has them.\<close>

definition cpu_union :: "stream_format \<Rightarrow> bool" where
  "cpu_union f \<longleftrightarrow> sf_cpu_member f ''arm_cpu_info.cpuid'' = (0, 4) \<and> sf_cpu_member f ''arm_cpu_info.elf_hwcaps'' = (4, 4) \<and>
     sf_cpu_member f ''other_cpu_info.processor_features[0]'' = (0, 8) \<and>
     sf_cpu_member f ''other_cpu_info.processor_features[1]'' = (8, 8) \<and>
     map (\<lambda>s. sf_cpu_member f s) x86_cpu_members = [(0, 4), (4, 4), (8, 4), (12, 4), (16, 4), (20, 4)]"

lemma swap_part_first: "length a = n \<Longrightarrow> swap_part (0, n) (a @ b) = rev a @ b"
  by (simp add: swap_part_def)

lemma swap_part_next: "length a = k \<Longrightarrow> length b = n \<Longrightarrow> swap_part (k, n) (a @ b @ c) = a @ rev b @ c"
  by (simp add: swap_part_def)

lemma part_first: "length a = n \<Longrightarrow> part (0, n) (a @ b) = a"
  by (simp add: part_def)

lemma part_next: "length a = k \<Longrightarrow> length b = n \<Longrightarrow> part (k, n) (a @ b @ c) = b"
  by (simp add: part_def)

lemma Swap_system_info_cpu:
  "ss_cpu (Swap_system_info f s) =
     swap_cpu f (if cpu_is_x86 f (Swap_system_info f s) then x86_cpu_members else other_cpu_members) (ss_cpu s)"
  by (simp add: Swap_system_info_def Let_def cpu_is_x86_def)

text \<open>
  C22: In a dump of the other byte order the processor id and the feature bits of an ARM system
  info are exchanged: the processor's union is swapped as two 64-bit values, which moves each of
  its two 32-bit members to the place of the other.
\<close>

theorem arm_features_exchanged:
  assumes "cpu_union f" "MinidumpSystemInfo_Read f expected_size d = (Some s, d')" "mh_swap d"
    and "ReadBytes (sf_sizeof f ''MDRawSystemInfo'') d = (Some bytes, d'')" "\<not> cpu_is_x86 f (sn_system_info s)"
    and "ss_cpu (sf_system_info f bytes) = rev cpuid @ rev hwcaps @ rest"
    and "length cpuid = 4" "length hwcaps = 4" "8 \<le> length rest"
  shows "rs_arm_cpuid (raw_of f s) = mf_u32 (sf_mf f) hwcaps \<and> rs_arm_elf_hwcaps (raw_of f s) = mf_u32 (sf_mf f) cpuid"
proof -
  have "mh_swap d''" using ReadBytes_keeps [OF assms(4)] assms(3) by auto
  then have s: "sn_system_info s = Swap_system_info f (sf_system_info f bytes)"
    using assms(2,4) by (auto simp: MinidumpSystemInfo_Read_def read_struct_def rd_iff)
  obtain r r' where r: "rest = r @ r'" "length r = 8" using assms(9) by (metis append_take_drop_id length_take min.absorb2)
  have "swap_part (0, 8) (rev cpuid @ rev hwcaps @ rest) = hwcaps @ cpuid @ rest"
    using swap_part_first [of "rev cpuid @ rev hwcaps" 8 rest] assms(7,8) by simp
  moreover have "swap_part (8, 8) (hwcaps @ cpuid @ r @ r') = hwcaps @ cpuid @ rev r @ r'"
    using swap_part_next [of "hwcaps @ cpuid" 8 r 8 r'] assms(7,8) r(2) by simp
  ultimately have cpu: "ss_cpu (sn_system_info s) = hwcaps @ cpuid @ rev r @ r'"
    using assms(1,5,6) r(1) s
    by (simp add: Swap_system_info_cpu swap_cpu_def other_cpu_members_def cpu_union_def)
  have "rs_arm_cpuid (raw_of f s) = mf_u32 (sf_mf f) (part (0, 4) (hwcaps @ cpuid @ rev r @ r'))"
    "rs_arm_elf_hwcaps (raw_of f s) = mf_u32 (sf_mf f) (part (4, 4) (hwcaps @ cpuid @ rev r @ r'))"
    using assms(1) cpu by (simp_all add: raw_of_def Let_def cpu_union_def)
  then show ?thesis using assms(7,8) by (simp add: part_first part_next)
qed

text \<open>An x86 vendor is read right in either order.\<close>

lemma x86_vendor_other_order:
  assumes "cpu_union f" "cpu_is_x86 f (Swap_system_info f i)" "ss_cpu i = rev v0 @ rev v1 @ rev v2 @ rev a @ rev b @ rev c @ rest"
    and "length v0 = 4" "length v1 = 4" "length v2 = 4" "length a = 4" "length b = 4" "length c = 4"
  shows "ss_cpu (Swap_system_info f i) = v0 @ v1 @ v2 @ a @ b @ c @ rest"
proof -
  note next4 = swap_part_next [of _ _ _ 4]
  have "swap_part (0, 4) (rev v0 @ x) = v0 @ x" for x using assms by (simp add: swap_part_first)
  moreover have "swap_part (4, 4) (v0 @ rev v1 @ x) = v0 @ v1 @ x" for x using assms next4 [of v0 4 "rev v1" x] by simp
  moreover have "swap_part (8, 4) (v0 @ v1 @ rev v2 @ x) = v0 @ v1 @ v2 @ x" for x
    using assms next4 [of "v0 @ v1" 8 "rev v2" x] by simp
  moreover have "swap_part (12, 4) (v0 @ v1 @ v2 @ rev a @ x) = v0 @ v1 @ v2 @ a @ x" for x
    using assms next4 [of "v0 @ v1 @ v2" 12 "rev a" x] by simp
  moreover have "swap_part (16, 4) (v0 @ v1 @ v2 @ a @ rev b @ x) = v0 @ v1 @ v2 @ a @ b @ x" for x
    using assms next4 [of "v0 @ v1 @ v2 @ a" 16 "rev b" x] by simp
  moreover have "swap_part (20, 4) (v0 @ v1 @ v2 @ a @ b @ rev c @ x) = v0 @ v1 @ v2 @ a @ b @ c @ x" for x
    using assms next4 [of "v0 @ v1 @ v2 @ a @ b" 20 "rev c" x] by simp
  ultimately show ?thesis using assms(1,2,3)
    by (simp add: Swap_system_info_cpu swap_cpu_def x86_cpu_members_def cpu_union_def)
qed

section \<open>Ranges that are all stored\<close>

text \<open>The ranges a list stores one after the other, each under its index.\<close>

fun store_all :: "('m, nat) range_map \<Rightarrow> nat \<Rightarrow> (64 word \<times> 64 word) list \<Rightarrow> 'm \<Rightarrow> 'm option" where
  "store_all rm k [] m = Some m"
| "store_all rm k ((b, s) # ranges) m = (case rm_store rm b s k m of
     (False, _) \<Rightarrow> None | (True, m) \<Rightarrow> store_all rm (Suc k) ranges m)"

lemma store_all_spec:
  assumes "range_map_laws rm" "refuses_overlap rm" "store_all rm k ranges m = Some m'"
  shows "rm_retrieve rm a m' = Some (j, x, y) \<longleftrightarrow> rm_retrieve rm a m = Some (j, x, y) \<or>
    k \<le> j \<and> j < k + length ranges \<and> ranges ! (j - k) = (x, y) \<and> in_range a x y"
  using assms(3)
proof (induction ranges arbitrary: k m)
  case (Cons r ranges)
  obtain b s where r: "r = (b, s)" by (cases r)
  with Cons.prems obtain m1 where st: "rm_store rm b s k m = (True, m1)" "store_all rm (Suc k) ranges m1 = Some m'"
    by (auto split: prod.splits bool.splits)
  have "rm_retrieve rm a m1 = (if in_range a b s then Some (k, b, s) else rm_retrieve rm a m)"
    using assms(1) st(1) unfolding range_map_laws_def by (metis fst_conv snd_conv)
  moreover have "in_range a b s \<Longrightarrow> rm_retrieve rm a m = None"
    using assms(2) st(1) unfolding refuses_overlap_def by (metis fst_conv)
  ultimately have m1: "rm_retrieve rm a m1 = Some (j, x, y) \<longleftrightarrow> rm_retrieve rm a m = Some (j, x, y) \<or>
      j = k \<and> x = b \<and> y = s \<and> in_range a b s" by auto
  have step: "k \<le> j \<and> j < k + length (r # ranges) \<and> (r # ranges) ! (j - k) = (x, y) \<longleftrightarrow>
      j = k \<and> x = b \<and> y = s \<or> Suc k \<le> j \<and> j < Suc k + length ranges \<and> ranges ! (j - Suc k) = (x, y)"
    by (auto simp: r nth_Cons' Suc_le_eq)
  show ?case using Cons.IH [OF st(2)] m1 step by blast
qed auto

lemma read_memory_infos_stored:
  assumes "read_memory_infos f base size_of rm k n m d = (Some l, d')"
  shows "length (il_infos l) = n \<and>
    store_all rm k (map (\<lambda>i. (base i, size_of i)) (il_infos l)) m = Some (il_range_map l) \<and>
    (\<forall>i \<in> set (il_infos l). mm_region_size i \<noteq> 0 \<and> mm_region_size i \<le> - 1 - mm_base_address i)"
  using assms
proof (induction n arbitrary: k m d l)
  case (Suc n)
  from Suc.prems obtain i d1 where i: "MinidumpMemoryInfo_Read f d = (Some i, d1)"
    and rest: "(case rm_store rm (base i) (size_of i) k m of (False, _) \<Rightarrow> rd_fail
       | (True, m) \<Rightarrow> rd_bind (read_memory_infos f base size_of rm (Suc k) n m)
           (\<lambda>l. rd_return (l\<lparr>il_infos := i # il_infos l\<rparr>))) d1 = (Some l, d')"
    by (auto simp: rd_iff)
  obtain ok m1 where st: "rm_store rm (base i) (size_of i) k m = (ok, m1)" by fastforce
  with rest obtain l1 where s: "MinidumpMemoryInfo_Read f d = (Some i, d1)" "rm_store rm (base i) (size_of i) k m = (True, m1)"
    "read_memory_infos f base size_of rm (Suc k) n m1 d1 = (Some l1, d')" "l = l1\<lparr>il_infos := i # il_infos l1\<rparr>"
    using i by (cases ok) (auto simp: rd_iff)
  have "mm_region_size i \<noteq> 0 \<and> mm_region_size i \<le> - 1 - mm_base_address i"
    using s(1) by (auto simp: MinidumpMemoryInfo_Read_def rd_iff Let_def not_less split: if_splits)
  with Suc.IH [OF s(3)] s(2,4) show ?case by simp
qed (simp add: rd_iff)

text \<open>
  The memory info of an address is found exactly if an info of the list covers it, and no
  other covers it; none runs past the address space.
\<close>

theorem MinidumpMemoryInfoList_Read_spec:
  assumes "range_map_laws rm" "refuses_overlap rm" "\<And>i. base i = mm_base_address i" "\<And>i. size_of i = mm_region_size i"
    and "MinidumpMemoryInfoList_Read f base size_of rm expected_size d = (Some l, d')"
  shows "(\<forall>a i. GetMemoryInfoForAddress rm a l = Some i \<longleftrightarrow> i \<in> set (il_infos l) \<and> in_range a (mm_base_address i) (mm_region_size i)) \<and>
    (\<forall>i \<in> set (il_infos l). mm_region_size i \<noteq> 0 \<and> unat (mm_base_address i) + unat (mm_region_size i) < 2 ^ 64)"
proof -
  from assms(5) obtain n d1 where "read_memory_infos f base size_of rm 0 n (rm_empty rm) d1 = (Some l, d')"
    by (auto simp: MinidumpMemoryInfoList_Read_def Let_def rd_iff)
  note S = read_memory_infos_stored [OF this]
  let ?r = "map (\<lambda>i. (base i, size_of i)) (il_infos l)"
  have "rm_retrieve rm a (rm_empty rm) = None" for a using assms(1) by (simp add: range_map_laws_def)
  with store_all_spec [OF assms(1,2) S [THEN conjunct2, THEN conjunct1]]
  have r: "rm_retrieve rm a (il_range_map l) = Some (j, x, y) \<longleftrightarrow>
      j < length (il_infos l) \<and> ?r ! j = (x, y) \<and> in_range a x y" for a j x y by simp
  have "GetMemoryInfoForAddress rm a l = Some i \<longleftrightarrow>
      (\<exists>j < length (il_infos l). il_infos l ! j = i \<and> in_range a (base i) (size_of i))" for a i
  proof -
    have "GetMemoryInfoForAddress rm a l = Some i \<longleftrightarrow>
        (\<exists>j x y. rm_retrieve rm a (il_range_map l) = Some (j, x, y) \<and> j < length (il_infos l) \<and> il_infos l ! j = i)"
      by (auto simp: GetMemoryInfoForAddress_def GetMemoryInfoAtIndex_def split: option.splits)
    then show ?thesis using r by auto
  qed
  moreover have "unat (mm_base_address i) + unat (mm_region_size i) < 2 ^ 64" if "mm_region_size i \<le> - 1 - mm_base_address i" for i
    using that unat_minus_one_minus [of "mm_base_address i"] unat_64_less [of "mm_base_address i"] by (simp add: word_le_nat_alt)
  ultimately have e: "\<forall>i \<in> set (il_infos l). unat (mm_base_address i) + unat (mm_region_size i) < 2 ^ 64"
    and g: "GetMemoryInfoForAddress rm a l = Some i \<longleftrightarrow> (\<exists>j < length (il_infos l). il_infos l ! j = i \<and> in_range a (base i) (size_of i))" for a i
    using S by blast+
  show ?thesis using e S unfolding g assms(3,4) by (auto simp: in_set_conv_nth)
qed

text \<open>The test for a loss of data in the number of entries never fails: the test against overflow
  before it leaves only 32-bit numbers.\<close>

lemma data_loss_never:
  assumes "n \<le> 0xffffffff div of_nat sizeof_info" "0 < sizeof_info" "sizeof_info < 2 ^ 64"
  shows "ucast (ucast n :: 32 word) = (n :: 64 word)"
proof -
  have s: "unat (of_nat sizeof_info :: 64 word) = sizeof_info" using assms(3) by (simp add: unat_of_nat)
  have "unat n \<le> 0xffffffff div sizeof_info" using assms(1) s by (simp add: word_le_nat_alt unat_div)
  then have "unat n \<le> 0xffffffff" using div_le_dividend order_trans by blast
  then have "unat n < 2 ^ 32" by simp
  then have "unat (ucast (ucast n :: 32 word) :: 64 word) = unat n" by (simp add: unat_ucast_64 unsigned_ucast_eq take_bit_eq_mod unat_mod)
  then show ?thesis by (rule unsigned_word_eqI)
qed

section \<open>Examples\<close>

text \<open>A format that lays the structures out without padding; the members that no example reads are constant.\<close>

definition zero_time :: md_system_time where
  "zero_time = \<lparr>st_year = 0, st_month = 0, st_day_of_week = 0, st_day = 0, st_hour = 0, st_minute = 0, st_second = 0, st_milliseconds = 0\<rparr>"

definition example_stream_format :: stream_format where
  "example_stream_format = \<lparr>sf_mf = example_format\<lparr>mf_md := (\<lambda>name.
       if name = ''MD_CPU_ARCHITECTURE_ARM'' then 5 else if name = ''MD_CPU_ARCHITECTURE_X86_WIN64'' then 10 else example_constants name)\<rparr>,
     sf_sizeof = (\<lambda>name. if name = ''MDRawSystemInfo'' then 26 else if name = ''MDRawMemoryInfoList'' then 16 else 16),
     sf_exception = (\<lambda>b. \<lparr>xr_thread_id = le_field 0 4 b, xr_exception_code = le_field 8 4 b, xr_exception_flags = 0,
       xr_exception_record = 0, xr_exception_address = 0, xr_number_parameters = 0, xr_exception_information = [],
       xr_thread_context = \<lparr>ld_data_size = 0, ld_rva = 0\<rparr>\<rparr>),
     sf_assertion = (\<lambda>b. \<lparr>ma_expression = [], ma_function = [], ma_file = [], ma_line = 0, ma_type = 0\<rparr>),
     sf_system_info = (\<lambda>b. \<lparr>ss_processor_architecture = le_field 0 2 b, ss_processor_level = 0, ss_processor_revision = 0,
       ss_number_of_processors = 1, ss_product_type = 0, ss_major_version = 0, ss_minor_version = 0, ss_build_number = 0,
       ss_platform_id = 0, ss_csd_version_rva = 0, ss_suite_mask = 0, ss_cpu = drop 2 b\<rparr>),
     sf_cpu_member = (\<lambda>name. case map_of [(''arm_cpu_info.cpuid'', (0, 4)), (''arm_cpu_info.elf_hwcaps'', (4, 4)),
       (''other_cpu_info.processor_features[0]'', (0, 8)), (''other_cpu_info.processor_features[1]'', (8, 8)),
       (''x86_cpu_info.vendor_id[0]'', (0, 4)), (''x86_cpu_info.vendor_id[1]'', (4, 4)), (''x86_cpu_info.vendor_id[2]'', (8, 4)),
       (''x86_cpu_info.version_information'', (12, 4)), (''x86_cpu_info.feature_information'', (16, 4))] name of
       Some x \<Rightarrow> x | None \<Rightarrow> (20, 4)),
     sf_misc_info = (\<lambda>b. \<lparr>mi_size_of_info = le_field 0 4 b, mi_flags1 = le_field 4 4 b, mi_process_id = le_field 8 4 b,
       mi_process_create_time = le_field 12 4 b, mi_process_user_time = 0, mi_process_kernel_time = 0, mi_processor_max_mhz = 0,
       mi_processor_current_mhz = 0, mi_processor_mhz_limit = 0, mi_processor_max_idle_state = 0, mi_processor_current_idle_state = 0,
       mi_process_integrity_level = 0, mi_process_execute_flags = 0, mi_protected_process = 0, mi_time_zone_id = 0,
       mi_time_zone = \<lparr>tz_bias = 0, tz_standard_name = [0], tz_standard_date = zero_time, tz_standard_bias = 0,
         tz_daylight_name = [0], tz_daylight_date = zero_time, tz_daylight_bias = 0\<rparr>, mi_build_string = [0], mi_dbg_bld_str = [0]\<rparr>),
     sf_misc_sizes = (24, 44, 232, 832),
     sf_breakpad_info = (\<lambda>b. \<lparr>bk_validity = le_field 0 4 b, bk_dump_thread_id = le_field 4 4 b, bk_requesting_thread_id = le_field 8 4 b\<rparr>),
     sf_memory_info = (\<lambda>b. \<lparr>mm_base_address = le_field 0 8 b, mm_allocation_base = 0, mm_allocation_protection = 0,
       mm_region_size = le_field 8 4 b, mm_state = 0, mm_protection = le_field 12 4 b, mm_type = 0\<rparr>),
     sf_memory_info_header = (\<lambda>b. \<lparr>mn_size_of_header = le_field 0 4 b, mn_size_of_entry = le_field 4 4 b,
       mn_number_of_entries = le_field 8 8 b\<rparr>)\<rparr>"

text \<open>A system info of an ARM processor in a dump of the other byte order, and one memory info.\<close>

definition arm_dump :: "unit minidump" where
  "arm_dump = (Minidump_stream \<lparr>is_bytes = [0, 5] @ rev [0x10, 0, 0, 0x41] @ rev [1, 0, 0, 0] @ replicate 16 0,
     is_position = 0, is_good = True, is_seeks_past_end = True\<rparr>)\<lparr>mh_valid := True, mh_swap := True\<rparr>"

definition memory_info_dump :: "unit minidump" where
  "memory_info_dump = (Minidump_stream \<lparr>is_bytes = [16, 0, 0, 0] @ [16, 0, 0, 0] @ [1, 0, 0, 0, 0, 0, 0, 0] @
     [0, 0x10, 0, 0, 0, 0, 0, 0] @ [0, 0x10, 0, 0] @ [4, 0, 0, 0], is_position = 0, is_good = True, is_seeks_past_end = True\<rparr>)
     \<lparr>mh_valid := True\<rparr>"

definition memory_infos :: "(nat \<times> 64 word \<times> 64 word) list memory_info_list option \<times> unit minidump" where
  "memory_infos = MinidumpMemoryInfoList_Read example_stream_format mm_base_address mm_region_size list_range_map 32 memory_info_dump"

lemma memory_infos_one: "map_option (\<lambda>l. map (\<lambda>i. (mm_base_address i, mm_region_size i)) (il_infos l)) (fst memory_infos) =
    Some [(0x1000, 0x1000)]"
  by code_simp

theorem MinidumpMemoryInfoList_Read_spec_witness:
  "\<exists>l i. fst memory_infos = Some l \<and> GetMemoryInfoForAddress list_range_map 0x1ffe l = Some i \<and> mm_base_address i = 0x1000"
proof -
  obtain l where l: "fst memory_infos = Some l" "map (\<lambda>i. (mm_base_address i, mm_region_size i)) (il_infos l) = [(0x1000, 0x1000)]"
    using memory_infos_one by auto
  then obtain i where i: "il_infos l = [i]" "mm_base_address i = 0x1000" "mm_region_size i = 0x1000" by auto
  have "MinidumpMemoryInfoList_Read example_stream_format mm_base_address mm_region_size list_range_map 32 memory_info_dump =
      (Some l, snd memory_infos)"
    using l(1) by (auto simp: memory_infos_def prod_eq_iff)
  from MinidumpMemoryInfoList_Read_spec [OF list_range_map_laws list_refuses_overlap refl refl this]
  have "GetMemoryInfoForAddress list_range_map 0x1ffe l = Some i \<longleftrightarrow>
      i \<in> set (il_infos l) \<and> in_range 0x1ffe (mm_base_address i) (mm_region_size i)" by blast
  with i l(1) show ?thesis by (auto simp: in_range_unat)
qed

theorem arm_features_exchanged_witness:
  "\<exists>s. fst (MinidumpSystemInfo_Read example_stream_format 26 arm_dump) = Some s \<and>
     rs_arm_cpuid (raw_of example_stream_format s) = 1 \<and> rs_arm_elf_hwcaps (raw_of example_stream_format s) = 0x41000010"
proof -
  let ?b = "[0, 5] @ rev [0x10, 0, 0, 0x41] @ rev [1, 0, 0, 0] @ replicate 16 0 :: 8 word list"
  have r: "map_option (map unat) (fst (ReadBytes (sf_sizeof example_stream_format ''MDRawSystemInfo'') arm_dump)) = Some (map unat ?b)"
    and sw: "mh_swap arm_dump" and n: "sf_sizeof example_stream_format ''MDRawSystemInfo'' = 26"
    and x: "\<not> cpu_is_x86 example_stream_format (Swap_system_info example_stream_format (sf_system_info example_stream_format ?b))"
    and u: "cpu_union example_stream_format"
    and v: "mf_u32 (sf_mf example_stream_format) [1, 0, 0, 0] = 1" "mf_u32 (sf_mf example_stream_format) [0x10, 0, 0, 0x41] = 0x41000010"
    by code_simp+
  note rb = ReadBytes_eval [OF r]
  obtain d' where d': "ReadBytes 26 arm_dump = (Some ?b, d')" using rb n by metis
  have "mh_swap d'" using ReadBytes_keeps [OF d'] sw by auto
  then obtain s where s: "MinidumpSystemInfo_Read example_stream_format 26 arm_dump = (Some s, d')"
    "sn_system_info s = Swap_system_info example_stream_format (sf_system_info example_stream_format ?b)"
    using d' by (auto simp: MinidumpSystemInfo_Read_def read_struct_def n rd_bind_def rd_require_def rd_swap_def rd_return_def)
  have cpu: "ss_cpu (sf_system_info example_stream_format ?b) = rev [0x10, 0, 0, 0x41] @ rev [1, 0, 0, 0] @ replicate 16 0"
    by (simp add: example_stream_format_def)
  have "\<not> cpu_is_x86 example_stream_format (sn_system_info s)" using x s(2) by simp
  from arm_features_exchanged [OF u s(1) sw rb this cpu] v s(1) show ?thesis by simp
qed

end
