(* ===== verification/Linux_Maps.thy ===== *)
theory Linux_Maps
  imports Minidump_Module Symbol_Records Memory_Facts
begin

text \<open>
  \<open>minidump_src/proc_maps_linux.cc\<close>, the parser of the lines of \<open>/proc/self/maps\<close>, and
  \<open>MinidumpLinuxMapsList\<close> of \<open>minidump.cc\<close>, which keeps them. The conversions of
  \<open>sscanf\<close> are modelled as the C library defines them, on the string that is left.
\<close>

section \<open>Regions\<close>

datatype permission = READ | WRITE | EXECUTE | PRIVATE

record mapped_region =
  lr_start :: "64 word"
  lr_end :: "64 word"
  lr_offset :: "64 word"
  lr_major_device :: "8 word"
  lr_minor_device :: "8 word"
  lr_inode :: "64 word"
  lr_permissions :: "permission set"
  lr_path :: string
  lr_line :: string

section \<open>The conversions of \<open>sscanf\<close>\<close>

type_synonym 'a scanner = "string \<Rightarrow> ('a \<times> string) option"

text \<open>A number; unlike for \<open>strtoull\<close> an \<open>0x\<close> without a digit after it is no number.\<close>

definition scan_number_of :: "nat \<Rightarrow> (bool \<times> nat) scanner" where
  "scan_number_of base s =
     (let t = snd (strip_sign (dropWhile c_isspace s)) in
      if base = 16 \<and> (take 2 t = ''0x'' \<or> take 2 t = ''0X'') \<and> strip_0x base t = t then None
      else map_option (\<lambda>(neg, v, rest). ((neg, v), rest)) (scan_number base s))"

text \<open>\<open>%lx\<close>, \<open>%hhx\<close> and \<open>%ld\<close>: a number that does not fit is the greatest or least one.\<close>

definition scan_x :: "64 word scanner" where
  "scan_x s = map_option (\<lambda>((neg, v), rest).
     (if 2 ^ 64 \<le> int v then ULLONG_MAX else if neg then - of_nat v else of_nat v, rest)) (scan_number_of 16 s)"

definition scan_hhx :: "8 word scanner" where
  "scan_hhx s = map_option (\<lambda>(v, rest). (ucast v, rest)) (scan_x s)"

definition scan_d :: "64 word scanner" where
  "scan_d s = map_option (\<lambda>((neg, v), rest).
     let x = (if neg then - int v else int v) in
     (word_of_int (if x > LONG_MAX then LONG_MAX else if x < LONG_MIN then LONG_MIN else x), rest)) (scan_number_of 10 s)"

text \<open>\<open>%4c\<close>; a literal character; white space, of any length.\<close>

definition scan_chars :: "nat \<Rightarrow> string scanner" where
  "scan_chars n s = (if length s < n then None else Some (take n s, drop n s))"

definition scan_literal :: "char \<Rightarrow> unit scanner" where
  "scan_literal c s = (case s of [] \<Rightarrow> None | x # rest \<Rightarrow> if x = c then Some ((), rest) else None)"

definition scan_white :: "unit scanner" where
  "scan_white s = Some ((), dropWhile c_isspace s)"

definition scan_bind :: "'a scanner \<Rightarrow> ('a \<Rightarrow> 'b scanner) \<Rightarrow> 'b scanner" where
  "scan_bind m f s = (case m s of None \<Rightarrow> None | Some (x, rest) \<Rightarrow> f x rest)"

text \<open>The whole format. What \<open>%n\<close> tells is where the rest begins.\<close>

definition scan_region :: "(64 word \<times> 64 word \<times> string \<times> 64 word \<times> 8 word \<times> 8 word \<times> 64 word) scanner" where
  "scan_region =
     scan_bind scan_x (\<lambda>start. scan_bind (scan_literal CHR ''-'') (\<lambda>_.
     scan_bind scan_x (\<lambda>fin. scan_bind scan_white (\<lambda>_.
     scan_bind (scan_chars 4) (\<lambda>permissions. scan_bind scan_white (\<lambda>_.
     scan_bind scan_x (\<lambda>offset. scan_bind scan_white (\<lambda>_.
     scan_bind scan_hhx (\<lambda>major. scan_bind (scan_literal CHR '':'') (\<lambda>_.
     scan_bind scan_hhx (\<lambda>minor. scan_bind scan_white (\<lambda>_.
     scan_bind scan_d (\<lambda>inode. scan_bind scan_white (\<lambda>_ rest.
       Some ((start, fin, permissions, offset, major, minor, inode), rest)))))))))))))))"

section \<open>The parser\<close>

definition parse_permissions :: "string \<Rightarrow> permission set option" where
  "parse_permissions permissions =
     (let flag = (\<lambda>i yes p no. if permissions ! i = yes then Some {p} else if permissions ! i \<in> no then Some {} else None) in
      case flag 0 CHR ''r'' READ {CHR ''-''} of None \<Rightarrow> None | Some r \<Rightarrow>
      (case flag 1 CHR ''w'' WRITE {CHR ''-''} of None \<Rightarrow> None | Some w \<Rightarrow>
      (case flag 2 CHR ''x'' EXECUTE {CHR ''-''} of None \<Rightarrow> None | Some x \<Rightarrow>
      (case flag 3 CHR ''p'' PRIVATE {CHR ''s'', CHR ''S''} of None \<Rightarrow> None | Some p \<Rightarrow>
       Some (r \<union> w \<union> x \<union> p)))))"

definition parse_region :: "string \<Rightarrow> mapped_region option" where
  "parse_region l =
     (let line = takeWhile (\<lambda>c. c \<noteq> CHR 0x00) l in
      case scan_region line of
        None \<Rightarrow> None
      | Some ((start, fin, permissions, offset, major, minor, inode), path) \<Rightarrow>
          map_option (\<lambda>p. \<lparr>lr_start = start, lr_end = fin, lr_offset = offset, lr_major_device = major, lr_minor_device = minor,
            lr_inode = inode, lr_permissions = p, lr_path = path, lr_line = line\<rparr>) (parse_permissions permissions))"

text \<open>The split by newlines: the lines and what is left after the last one.\<close>

fun split_lines :: "string \<Rightarrow> string \<Rightarrow> string list \<times> string" where
  "split_lines l [] = ([], l)"
| "split_lines l (c # input) =
     (if c \<noteq> CHR 0x0A \<and> c \<noteq> CHR 0x0D then split_lines (l @ [c]) input
      else if l \<noteq> [] then (case split_lines [] input of (lines, rest) \<Rightarrow> (l # lines, rest))
      else split_lines l input)"

fun parse_regions :: "string list \<Rightarrow> mapped_region list option" where
  "parse_regions [] = Some []"
| "parse_regions (l # lines) = (case parse_region l of
     None \<Rightarrow> None
   | Some region \<Rightarrow> map_option (\<lambda>regions. region # regions) (parse_regions lines))"

definition ParseProcMaps :: "string \<Rightarrow> mapped_region list option" where
  "ParseProcMaps input = (case split_lines [] input of (lines, l) \<Rightarrow>
     if l \<noteq> [] then None else parse_regions lines)"

section \<open>The list of mappings\<close>

text \<open>The inline accessors of a mapping: its base and size.\<close>

record maps_format =
  lf_GetBase :: "mapped_region \<Rightarrow> 64 word"
  lf_GetSize :: "mapped_region \<Rightarrow> 64 word"

text \<open>The stream is looked up again; an empty one is read into the first element of an empty vector.\<close>

definition MinidumpLinuxMapsList_Read :: "md_format \<Rightarrow> 32 word \<Rightarrow> ('s, mapped_region list) reader" where
  "MinidumpLinuxMapsList_Read mf expected_size d =
     (case SeekToStreamType (mf_md mf ''MD_LINUX_MAPS'') d of
        (None, d) \<Rightarrow> (None, d)
      | (Some stream_length, d) \<Rightarrow>
          if expected_size \<noteq> stream_length then (None, d)
          else case ReadBytes (unat stream_length) d of
            (None, d) \<Rightarrow> (None, d)
          | (Some mapping_bytes, d) \<Rightarrow> (ParseProcMaps (string_of_bytes mapping_bytes), d))"

fun GetLinuxMapsForAddress :: "maps_format \<Rightarrow> 64 word \<Rightarrow> mapped_region list \<Rightarrow> mapped_region option" where
  "GetLinuxMapsForAddress lf address [] = None"
| "GetLinuxMapsForAddress lf address (m # maps) =
     (if lf_GetBase lf m \<le> address \<and> lf_GetBase lf m + lf_GetSize lf m > address then Some m
      else GetLinuxMapsForAddress lf address maps)"

definition GetLinuxMapsAtIndex :: "nat \<Rightarrow> mapped_region list \<Rightarrow> mapped_region option" where
  "GetLinuxMapsAtIndex index maps = (if index \<ge> length maps then None else Some (maps ! index))"

section \<open>Printing\<close>

text \<open>A line as the kernel prints it: eight digits at least, the path after any number of blanks.\<close>

definition show_permissions :: "permission set \<Rightarrow> string" where
  "show_permissions p = [if READ \<in> p then CHR ''r'' else CHR ''-'', if WRITE \<in> p then CHR ''w'' else CHR ''-'',
     if EXECUTE \<in> p then CHR ''x'' else CHR ''-'', if PRIVATE \<in> p then CHR ''p'' else CHR ''s'']"

definition show_region :: "nat \<Rightarrow> mapped_region \<Rightarrow> string" where
  "show_region blanks r = pad_zeros 8 (show_base 16 (unat (lr_start r))) @ ''-'' @ pad_zeros 8 (show_base 16 (unat (lr_end r))) @ '' '' @
     show_permissions (lr_permissions r) @ '' '' @ pad_zeros 8 (show_base 16 (unat (lr_offset r))) @ '' '' @
     pad_zeros 2 (show_base 16 (unat (lr_major_device r))) @ '':'' @ pad_zeros 2 (show_base 16 (unat (lr_minor_device r))) @ '' '' @
     show_base 10 (unat (lr_inode r)) @ replicate (Suc blanks) CHR '' '' @ lr_path r"

lemma pad_zeros_digits: "\<forall>c \<in> set (pad_zeros w (show_base 16 n)). is_base_digit 16 c"
proof -
  have "is_base_digit 16 (CHR ''0'')" by (simp add: is_base_digit_def digit_val_def Let_def)
  then show ?thesis using show_base_digits [of 16 n] by (auto simp: pad_zeros_def simp del: show_base.simps)
qed

lemma digits_val_pad: "digits_val 16 0 (pad_zeros w (show_base 16 n)) = n"
proof -
  have z: "digits_val 16 0 (replicate k (CHR ''0'') @ s) = digits_val 16 0 s" for k s
    by (induction k) (auto simp: digit_val_def Let_def)
  show ?thesis by (simp add: pad_zeros_def z show_base_val)
qed

lemma scan_number_rest:
  assumes "ds \<noteq> []" "\<forall>c \<in> set ds. is_base_digit b c" "b \<le> 16"
    and "rest = [] \<or> \<not> is_base_digit b (hd rest) \<and> hd rest \<notin> {CHR ''x'', CHR ''X''}"
  shows "scan_number_of b (ds @ rest) = Some ((False, digits_val b 0 ds), rest)"
proof -
  obtain c r where ds: "ds = c # r" using assms(1) by (cases ds) auto
  have c: "is_base_digit b c" using assms ds by simp
  have sp: "dropWhile c_isspace (ds @ rest) = ds @ rest" using base_digit_chars [OF c] ds by simp
  have sg: "strip_sign (ds @ rest) = (False, ds @ rest)" using base_digit_chars [OF c] ds by (simp add: strip_sign_def)
  have no_x: "second \<noteq> CHR ''x'' \<and> second \<noteq> CHR ''X''" if "ds @ rest = first # second # more" for first second more
    using that ds assms(2-4) base_digit_chars(5) by (cases r; cases rest) auto
  have ox: "strip_0x b (ds @ rest) = ds @ rest"
    using no_x by (fastforce simp: strip_0x_def split: list.splits)
  have t2: "take 2 (ds @ rest) \<noteq> ''0x''" "take 2 (ds @ rest) \<noteq> ''0X''"
    using no_x by (cases "ds @ rest"; cases "tl (ds @ rest)"; auto)+
  have tk: "takeWhile (is_base_digit b) (ds @ rest) = ds" and dr: "dropWhile (is_base_digit b) (ds @ rest) = rest"
    using assms(2,4) by (cases rest; simp add: takeWhile_append dropWhile_append)+
  show ?thesis
    unfolding scan_number_of_def scan_number_def sp sg Let_def prod.case snd_conv ox tk dr using assms(1) t2 by simp
qed

lemma not_digit: "\<not> is_base_digit 16 CHR ''-''" "\<not> is_base_digit 16 CHR '' ''" "\<not> is_base_digit 16 CHR '':''" "\<not> is_base_digit 10 CHR '' ''"
  by (simp_all add: is_base_digit_def digit_val_def Let_def)

lemma pad_zeros_nonempty: "pad_zeros w (show_base b n) \<noteq> []"
  by (simp add: pad_zeros_def)

lemma scan_x_show:
  fixes v :: "64 word"
  assumes "x = CHR ''-'' \<or> x = CHR '' ''"
  shows "scan_x (pad_zeros w (show_base 16 (unat v)) @ x # rest) = Some (v, x # rest)"
proof -
  have "\<not> is_base_digit 16 x" using assms not_digit by auto
  then have "scan_number_of 16 (pad_zeros w (show_base 16 (unat v)) @ x # rest) = Some ((False, unat v), x # rest)"
    using scan_number_rest [OF pad_zeros_nonempty pad_zeros_digits, of "x # rest" w "unat v"] assms by (auto simp: digits_val_pad)
  moreover have "unat v < 2 ^ 64" by (rule unat_64_less)
  ultimately show ?thesis by (simp add: scan_x_def)
qed

lemma scan_hhx_show:
  fixes v :: "8 word"
  assumes "x = CHR '':'' \<or> x = CHR '' ''"
  shows "scan_hhx (pad_zeros w (show_base 16 (unat v)) @ x # rest) = Some (v, x # rest)"
proof -
  have "\<not> is_base_digit 16 x" using assms not_digit by auto
  then have "scan_number_of 16 (pad_zeros w (show_base 16 (unat v)) @ x # rest) = Some ((False, unat v), x # rest)"
    using scan_number_rest [OF pad_zeros_nonempty pad_zeros_digits, of "x # rest" w "unat v"] assms by (auto simp: digits_val_pad)
  moreover have "unat v < 2 ^ 8" using unsigned_less [of v] by simp
  moreover have "ucast (ucast v :: 64 word) = v" by (rule bit_word_eqI) (simp add: bit_simps)
  ultimately show ?thesis by (simp add: scan_hhx_def scan_x_def)
qed

lemma scan_d_show:
  assumes "unat (v :: 64 word) < 2 ^ 63"
  shows "scan_d (show_base 10 (unat v) @ CHR '' '' # rest) = Some (v, CHR '' '' # rest)"
proof -
  have "scan_number_of 10 (show_base 10 (unat v) @ CHR '' '' # rest) = Some ((False, unat v), CHR '' '' # rest)"
    using scan_number_rest [OF show_base_nonempty show_base_digits, of 10 "CHR '' '' # rest" "unat v"] not_digit
    by (simp add: show_base_val)
  moreover have "int (unat v) < int (2 ^ 63)" using assms by (simp only: of_nat_less_iff)
  then have "uint v < 2 ^ 63" by simp
  moreover have "- (2 ^ 63) \<le> uint v" by (rule order_trans [OF _ uint_ge_0]) simp
  ultimately show ?thesis using assms by (simp add: scan_d_def Let_def LONG_MAX_def LONG_MIN_def)
qed

lemma digit_not_space: "\<not> c_isspace (hd (pad_zeros w (show_base 16 n)))"
proof -
  have "is_base_digit 16 (hd (pad_zeros w (show_base 16 n)))"
    using pad_zeros_digits [of w n] pad_zeros_nonempty [of w 16 n] by (simp add: list.set_sel)
  then show ?thesis by (rule base_digit_chars)
qed

lemma scan_white_pad: "scan_white (CHR '' '' # pad_zeros w (show_base 16 n) @ rest) = Some ((), pad_zeros w (show_base 16 n) @ rest)"
proof -
  obtain c r where p: "pad_zeros w (show_base 16 n) = c # r" using pad_zeros_nonempty [of w 16 n] by (cases "pad_zeros w (show_base 16 n)") auto
  have "c_isspace CHR '' ''" by (simp add: c_isspace_def)
  then show ?thesis using digit_not_space [of w n] by (simp add: scan_white_def p)
qed

text \<open>A printed region: no line end or null in the path, which does not begin with a blank.\<close>

definition printable :: "mapped_region \<Rightarrow> bool" where
  "printable r \<longleftrightarrow> unat (lr_inode r) < 2 ^ 63 \<and> (\<forall>c \<in> set (lr_path r). c \<notin> {CHR 0x00, CHR 0x0A, CHR 0x0D}) \<and>
     (lr_path r \<noteq> [] \<longrightarrow> \<not> c_isspace (hd (lr_path r)))"

lemma permissions_shown: "length (show_permissions p) = 4" "\<not> c_isspace (hd (show_permissions p))"
    "parse_permissions (show_permissions p) = Some p"
proof -
  show "length (show_permissions p) = 4" by (simp add: show_permissions_def)
  show "\<not> c_isspace (hd (show_permissions p))" by (simp add: show_permissions_def c_isspace_def)
  have "(if READ \<in> p then {READ} else {}) \<union> (if WRITE \<in> p then {WRITE} else {}) \<union> (if EXECUTE \<in> p then {EXECUTE} else {}) \<union>
      (if PRIVATE \<in> p then {PRIVATE} else {}) = p"
  proof (rule set_eqI)
    fix x show "x \<in> (if READ \<in> p then {READ} else {}) \<union> (if WRITE \<in> p then {WRITE} else {}) \<union>
      (if EXECUTE \<in> p then {EXECUTE} else {}) \<union> (if PRIVATE \<in> p then {PRIVATE} else {}) \<longleftrightarrow> x \<in> p"
      by (cases x) auto
  qed
  moreover have "parse_permissions (show_permissions p) = Some ((if READ \<in> p then {READ} else {}) \<union>
      (if WRITE \<in> p then {WRITE} else {}) \<union> (if EXECUTE \<in> p then {EXECUTE} else {}) \<union> (if PRIVATE \<in> p then {PRIVATE} else {}))"
    by (simp add: show_permissions_def parse_permissions_def Let_def insert_commute)
  ultimately show "parse_permissions (show_permissions p) = Some p" by simp
qed

lemma scan_shown:
  assumes "printable r"
  shows "scan_region (show_region blanks r) =
    Some ((lr_start r, lr_end r, show_permissions (lr_permissions r), lr_offset r, lr_major_device r, lr_minor_device r, lr_inode r), lr_path r)"
proof -
  have b: "dropWhile c_isspace (replicate k CHR '' '' @ lr_path r) = lr_path r" for k
    using assms by (induction k) (auto simp: printable_def c_isspace_def dropWhile_eq_self_iff)
  have p: "scan_white (CHR '' '' # show_permissions p @ rest) = Some ((), show_permissions p @ rest)" for p rest
    using permissions_shown(2) [of p] by (simp add: scan_white_def show_permissions_def c_isspace_def)
  have c: "scan_chars 4 (show_permissions p @ rest) = Some (show_permissions p, rest)" for p rest
    using permissions_shown(1) [of p] by (simp add: scan_chars_def)
  have i: "scan_white (CHR '' '' # show_base 10 n @ rest) = Some ((), show_base 10 n @ rest)" for n rest
  proof -
    obtain x xs where s: "show_base 10 n = x # xs" using show_base_nonempty [of 10 n] by (cases "show_base 10 n") auto
    then have "is_base_digit 10 x" using show_base_digits [of 10 n] by simp
    then have "\<not> c_isspace x" by (rule base_digit_chars)
    moreover have "c_isspace CHR '' ''" by (simp add: c_isspace_def)
    ultimately show ?thesis by (simp add: scan_white_def s)
  qed
  show ?thesis
    using assms unfolding scan_region_def show_region_def printable_def
    by (simp add: scan_bind_def scan_x_show scan_hhx_show scan_d_show scan_white_pad p c i scan_literal_def)
       (simp add: scan_white_def b c_isspace_def)
qed

section \<open>A printed file is read back\<close>

lemma digit_no_end: "is_base_digit b c \<Longrightarrow> c \<notin> {CHR 0x00, CHR 0x0A, CHR 0x0D}"
  by (auto simp: is_base_digit_def digit_val_def Let_def)

lemma shown_no_end:
  assumes "printable r" "c \<in> set (show_region blanks r)"
  shows "c \<notin> {CHR 0x00, CHR 0x0A, CHR 0x0D}"
proof -
  have "c \<in> {CHR ''-'', CHR '' '', CHR '':'', CHR ''r'', CHR ''w'', CHR ''x'', CHR ''p'', CHR ''s''} \<or> c \<in> set (lr_path r) \<or>
      is_base_digit 16 c \<or> is_base_digit 10 c"
    using assms(2) pad_zeros_digits show_base_digits [of 10 "unat (lr_inode r)"]
    by (auto simp: show_region_def show_permissions_def split: if_splits)
  then show ?thesis using assms(1) digit_no_end by (auto simp: printable_def)
qed

lemma split_lines_line:
  "\<forall>c \<in> set l. c \<notin> {CHR 0x0A, CHR 0x0D} \<Longrightarrow> acc @ l \<noteq> [] \<Longrightarrow>
    split_lines acc (l @ CHR 0x0A # rest) = (case split_lines [] rest of (lines, r) \<Rightarrow> ((acc @ l) # lines, r))"
  by (induction l arbitrary: acc) auto

definition show_maps :: "(nat \<times> mapped_region) list \<Rightarrow> string" where
  "show_maps rs = concat (map (\<lambda>(blanks, r). show_region blanks r @ [CHR 0x0A]) rs)"

lemma split_shown:
  "\<forall>(k, r) \<in> set rs. printable r \<Longrightarrow> split_lines [] (show_maps rs) = (map (\<lambda>(k, r). show_region k r) rs, [])"
proof (induction rs)
  case (Cons x rs)
  obtain k r where x: "x = (k, r)" by (cases x)
  with Cons.prems have "\<forall>c \<in> set (show_region k r). c \<notin> {CHR 0x0A, CHR 0x0D}" using shown_no_end [of r _ k] by fastforce
  moreover have "show_region k r \<noteq> []" by (simp add: show_region_def)
  ultimately show ?case using Cons x split_lines_line [of "show_region k r" "[]"] by (simp add: show_maps_def)
qed (simp add: show_maps_def)

lemma parse_shown: "printable r \<Longrightarrow> parse_region (show_region k r) = Some (r\<lparr>lr_line := show_region k r\<rparr>)"
proof -
  assume r: "printable r"
  then have "takeWhile (\<lambda>c. c \<noteq> CHR 0x00) (show_region k r) = show_region k r"
    using shown_no_end [OF r, of _ k] by (fastforce simp: takeWhile_eq_all_conv)
  then show ?thesis
    unfolding parse_region_def Let_def by (simp only:) (simp add: scan_shown [OF r] permissions_shown(3))
qed

text \<open>
  C19: The text of a process's mappings is parsed back as it was printed: every address range,
  permission, device, inode and path, for any number of mappings and blanks before the path.
\<close>

theorem ParseProcMaps_roundtrip:
  assumes "\<forall>(blanks, r) \<in> set rs. printable r"
  shows "ParseProcMaps (show_maps rs) = Some (map (\<lambda>(blanks, r). r\<lparr>lr_line := show_region blanks r\<rparr>) rs)"
proof -
  have "parse_regions (map (\<lambda>(k, r). show_region k r) rs) = Some (map (\<lambda>(k, r). r\<lparr>lr_line := show_region k r\<rparr>) rs)"
    using assms by (induction rs) (auto simp: parse_shown)
  then show ?thesis by (simp add: ParseProcMaps_def split_shown [OF assms])
qed

definition stack_mapping :: mapped_region where
  "stack_mapping = \<lparr>lr_start = 0x7ffd0000, lr_end = 0x7ffd2000, lr_offset = 0, lr_major_device = 3, lr_minor_device = 12,
     lr_inode = 64593, lr_permissions = {READ, WRITE, PRIVATE}, lr_path = ''[stack]'', lr_line = []\<rparr>"

lemma stack_mapping_printable: "printable stack_mapping"
  by (simp add: printable_def stack_mapping_def c_isspace_def)

theorem ParseProcMaps_roundtrip_witness:
  "ParseProcMaps (show_maps [(18, stack_mapping)]) = Some [stack_mapping\<lparr>lr_line := show_region 18 stack_mapping\<rparr>]"
  using ParseProcMaps_roundtrip [of "[(18, stack_mapping)]"] stack_mapping_printable by simp

section \<open>The lookup\<close>

text \<open>What the header says of the accessors.\<close>

definition maps_accessors :: "maps_format \<Rightarrow> bool" where
  "maps_accessors lf \<longleftrightarrow> (\<forall>m. lf_GetBase lf m = lr_start m \<and> lf_GetSize lf m = lr_end m - lr_start m)"

lemma GetLinuxMapsForAddress_find:
  "maps_accessors lf \<Longrightarrow> GetLinuxMapsForAddress lf a maps = List.find (\<lambda>m. lr_start m \<le> a \<and> a < lr_end m) maps"
  by (induction maps) (auto simp: maps_accessors_def)

end
