(* ===== verification/Exploitability.thy ===== *)
theory Exploitability
  imports Linux_Maps Minidump_Streams Processor
begin

text \<open>
  \<open>minidump_src/exploitability.cc\<close> and \<open>exploitability_linux.cc\<close>: how likely a crash could be
  exploited. What the dump's getters return is a record; running \<open>objdump\<close> on the bytes at the
  instruction pointer is the parameter \<open>objdump\<close>, its output as far as it was read.
\<close>

section \<open>Any platform\<close>

datatype exploitability_engine = ExploitabilityWin | ExploitabilityLinux bool

definition ExploitabilityForPlatform :: "md_constants \<Rightarrow> raw_system_info option option \<Rightarrow> bool \<Rightarrow> exploitability_engine option" where
  "ExploitabilityForPlatform md system_info enable_objdump = (case system_info of
     None \<Rightarrow> None
   | Some None \<Rightarrow> None
   | Some (Some raw) \<Rightarrow>
       if is_one_of md [''MD_OS_WIN32_NT'', ''MD_OS_WIN32_WINDOWS''] (rs_platform_id raw) then Some ExploitabilityWin
       else if is_one_of md [''MD_OS_LINUX''] (rs_platform_id raw) then Some (ExploitabilityLinux enable_objdump)
       else None)"

definition AddressIsAscii :: "64 word \<Rightarrow> bool" where
  "AddressIsAscii address = list_all (\<lambda>i. let byte = drop_bit (8 * i) address AND 0xff in
     0x20 \<le> byte \<and> byte \<le> 0x7e \<or> byte = 0) [0..<8]"

section \<open>The dump and the process\<close>

record 'm exploit_dump =
  ed_exception :: "md_exception option option"
  ed_context :: "dump_context option"
  ed_memory_list :: "'m memory_list option"
  ed_linux_maps :: "mapped_region list option"

record 'm exploit_env =
  ee_mf :: md_format
  ee_cf :: context_format
  ee_rm :: "('m, nat) range_map"
  ee_maps :: maps_format
  ee_IsExecutable :: "mapped_region \<Rightarrow> bool"
  ee_GetPathname :: "mapped_region \<Rightarrow> string"
  ee_objdump :: "string \<Rightarrow> 8 word list \<Rightarrow> string option"

text \<open>
  What stops the rating: a thread index out of range, a null context or memory, and output that
  fills the whole buffer, so that the string read from it does not end.
\<close>

datatype exploit_error = ThreadOutOfRange | NullContextRead | NullMemoryRead | UnterminatedOutput

definition MAX_INSTRUCTION_LEN :: nat where "MAX_INSTRUCTION_LEN = 15"
definition MAX_OBJDUMP_BUFFER_LEN :: nat where "MAX_OBJDUMP_BUFFER_LEN = 4096"

section \<open>Strings\<close>

text \<open>\<open>s.find(c)\<close> and \<open>s.find(t)\<close>.\<close>

definition find_char :: "char \<Rightarrow> string \<Rightarrow> nat option" where
  "find_char c s = (let k = length (takeWhile (\<lambda>x. x \<noteq> c) s) in if k < length s then Some k else None)"

fun contains :: "string \<Rightarrow> string \<Rightarrow> bool" where
  "contains t [] \<longleftrightarrow> t = []"
| "contains t (c # s) \<longleftrightarrow> take (length t) (c # s) = t \<or> contains t s"

text \<open>The tokens of \<open>istream_iterator<string>\<close>, and the lines of \<open>getline\<close>.\<close>

fun stream_tokens :: "string \<Rightarrow> string \<Rightarrow> string list" where
  "stream_tokens t [] = (if t = [] then [] else [t])"
| "stream_tokens t (c # s) =
     (if c_isspace c then (if t = [] then stream_tokens [] s else t # stream_tokens [] s) else stream_tokens (t @ [c]) s)"

fun stream_lines :: "string \<Rightarrow> string \<Rightarrow> string list" where
  "stream_lines l [] = (if l = [] then [] else [l])"
| "stream_lines l (c # s) = (if c = CHR 0x0A then l # stream_lines [] s else stream_lines (l @ [c]) s)"

section \<open>The output of objdump\<close>

fun find_instruction_line :: "bool \<Rightarrow> string list \<Rightarrow> string option" where
  "find_instruction_line data_section_seen [] = None"
| "find_instruction_line data_section_seen (l # lines) =
     (let data_section_seen = data_section_seen \<or> contains ''<.data>:'' l in
      if \<not> data_section_seen \<or> \<not> contains ''0:'' l then find_instruction_line data_section_seen lines else Some l)"

definition GetObjdumpInstructionLine :: "string \<Rightarrow> string option" where
  "GetObjdumpInstructionLine objdump_output = find_instruction_line False (stream_lines [] objdump_output)"

text \<open>The regular expression \<open>^[[:xdigit:]]{2}$\<close>.\<close>

definition is_hex_byte :: "string \<Rightarrow> bool" where
  "is_hex_byte t \<longleftrightarrow> length t = 2 \<and> list_all (is_base_digit 16) t"

text \<open>The operation with the operands, \<open>None\<close> where there is no operation.\<close>

fun find_operation :: "string list \<Rightarrow> (string \<times> string) option" where
  "find_operation [] = None"
| "find_operation (t # tokens) =
     (if \<not> is_hex_byte t then Some (t, if tokens = [] then [] else last tokens) else find_operation tokens)"

definition TokenizeObjdumpInstruction :: "string \<Rightarrow> bool \<times> string \<times> string \<times> string" where
  "TokenizeObjdumpInstruction line = (case find_operation (tl (stream_tokens [] line)) of
     None \<Rightarrow> (False, [], [], [])
   | Some (operation, operands) \<Rightarrow>
       (case find_char CHR '','' operands of
          None \<Rightarrow> (True, operation, operands, [])
        | Some delim \<Rightarrow> (True, operation, take delim operands, drop (delim + 1) operands)))"

section \<open>The address of a write\<close>

definition x86_registers :: "string list" where
  "x86_registers = [''eax'', ''ebx'', ''ecx'', ''edx'', ''edi'', ''esi'', ''ebp'', ''esp'', ''eip'']"

definition amd64_registers :: "string list" where
  "amd64_registers = [''rax'', ''rbx'', ''rcx'', ''rdx'', ''rdi'', ''rsi'', ''rbp'', ''rsp'', ''rip'', ''r8'', ''r9'', ''r10'',
     ''r11'', ''r12'', ''r13'', ''r14'', ''r15'']"

definition register_value :: "md_format \<Rightarrow> context_format \<Rightarrow> dump_context \<Rightarrow> string \<Rightarrow> (exploit_error + 64 word) option" where
  "register_value mf cf context register =
     (let read = (\<lambda>c. case c of None \<Rightarrow> Inl NullContextRead | Some raw \<Rightarrow> Inr (read_field mf cf raw register));
          cpu = GetContextCPU (mf_md mf) context in
      if cpu = mf_md mf ''MD_CONTEXT_X86''
      then (if register \<in> set x86_registers then Some (read (GetContextX86 (mf_md mf) context)) else None)
      else if cpu = mf_md mf ''MD_CONTEXT_AMD64''
      then (if register \<in> set amd64_registers then Some (read (GetContextAMD64 (mf_md mf) context)) else None)
      else None)"

text \<open>
  \<open>sscanf\<close> of one \<open>%x\<close>: \<open>None\<close> is the result 0. At the end of the input the result is
  \<open>EOF\<close>, which is not 0, and the constant stays 0.
\<close>

definition scan_constant :: "string \<Rightarrow> 32 word option" where
  "scan_constant s = (if dropWhile c_isspace s = [] then Some 0 else map_option (\<lambda>(v, _). ucast v) (scan_x s))"

text \<open>The address, \<open>None\<close> where the method returns false and leaves the result as it was.\<close>

definition CalculateAddress :: "md_format \<Rightarrow> context_format \<Rightarrow> string \<Rightarrow> dump_context \<Rightarrow> exploit_error + 64 word option" where
  "CalculateAddress mf cf address_expression context =
     (let plus = find_char CHR ''+'' address_expression;
          delim = (if plus = None then find_char CHR ''-'' address_expression else plus);
          constant = (case delim of None \<Rightarrow> Some 0
            | Some k \<Rightarrow> scan_constant (takeWhile (\<lambda>c. c \<noteq> CHR 0x00) (drop (k + 1) address_expression)));
          expression = (case delim of None \<Rightarrow> address_expression | Some k \<Rightarrow> take k address_expression) in
      case constant of
        None \<Rightarrow> Inr None
      | Some add_constant \<Rightarrow>
          (case register_value mf cf context expression of
             None \<Rightarrow> Inr None
           | Some (Inl e) \<Rightarrow> Inl e
           | Some (Inr v) \<Rightarrow> Inr (Some (if plus \<noteq> None then v + ucast add_constant else v - ucast add_constant))))"

section \<open>A write to memory that does not permit it\<close>

definition write_operations :: "string list" where
  "write_operations = [''mov'', ''inc'', ''dec'', ''and'', ''or'', ''xor'', ''not'', ''neg'', ''add'', ''sub'', ''shl'', ''shr'']"

definition objdump_architectures :: "(string \<times> string) list" where
  "objdump_architectures = [(''MD_CONTEXT_X86'', ''i386''), (''MD_CONTEXT_AMD64'', ''i386:x86-64'')]"

text \<open>
  The string in the output buffer, which is empty where objdump could not be run. \<open>raw_bytes\<close> is
  what lies at the instruction pointer; the test against a null pointer comes after the offset
  was added.
\<close>

definition DisassembleBytes :: "'m exploit_env \<Rightarrow> string \<Rightarrow> 8 word list option \<Rightarrow> nat \<Rightarrow> exploit_error + string" where
  "DisassembleBytes e architecture raw_memory offset = (case raw_memory of
     None \<Rightarrow> if offset = 0 then Inr [] else Inl NullMemoryRead
   | Some bytes \<Rightarrow>
       (case ee_objdump e architecture (take MAX_INSTRUCTION_LEN (drop offset bytes)) of
          None \<Rightarrow> Inr []
        | Some output \<Rightarrow>
            let buffer = take MAX_OBJDUMP_BUFFER_LEN output; s = takeWhile (\<lambda>c. c \<noteq> CHR 0x00) buffer in
            if length s = MAX_OBJDUMP_BUFFER_LEN then Inl UnterminatedOutput else Inr s))"

definition is_memory_write :: "string \<Rightarrow> string \<Rightarrow> bool" where
  "is_memory_write instruction dest \<longleftrightarrow>
     length dest > 2 \<and> hd dest = CHR ''['' \<and> last dest = CHR '']'' \<and> instruction \<in> set write_operations"

text \<open>The lines that follow the disassembly.\<close>

definition illegal_write :: "'m exploit_env \<Rightarrow> dump_context \<Rightarrow> string \<Rightarrow> exploit_error + bool" where
  "illegal_write e context output = (case GetObjdumpInstructionLine output of
     None \<Rightarrow> Inr False
   | Some line \<Rightarrow>
       (case TokenizeObjdumpInstruction line of (_, instruction, dest, src) \<Rightarrow>
          if is_memory_write instruction dest
          then ebind (CalculateAddress (ee_mf e) (ee_cf e) (take (length dest - 2) (drop 1 dest)) context) (\<lambda>write_address.
            Inr ((case write_address of None \<Rightarrow> 0 | Some a \<Rightarrow> a) > 4096))
          else Inr False))"

definition EndedOnIllegalWrite :: "'m exploit_env \<Rightarrow> 'm exploit_dump \<Rightarrow> 's minidump \<Rightarrow> 64 word \<Rightarrow> exploit_error + bool" where
  "EndedOnIllegalWrite e dump d instruction_ptr =
     (case Option.bind (ed_memory_list dump) (GetMemoryRegionForAddress (ee_rm e) instruction_ptr) of
        None \<Rightarrow> Inr False
      | Some memory_region \<Rightarrow>
          (case ed_exception dump of
             None \<Rightarrow> Inr False
           | Some raw_exception_stream \<Rightarrow>
               if raw_exception_stream = None then Inr False
               else case ed_context dump of
                 None \<Rightarrow> Inr False
               | Some context \<Rightarrow>
                   (case switch_case (mf_md (ee_mf e)) objdump_architectures (GetContextCPU (mf_md (ee_mf e)) context) of
                      None \<Rightarrow> Inr False
                    | Some architecture \<Rightarrow>
                        (case region_GetMemory memory_region d of (raw_memory, memory_region, d) \<Rightarrow>
                           let base = GetBase memory_region; offset = instruction_ptr - base in
                           if base > instruction_ptr then Inr False
                           else if ucast (GetSize memory_region) < of_nat MAX_INSTRUCTION_LEN + offset then Inr False
                           else ebind (DisassembleBytes e architecture raw_memory (unat offset)) (illegal_write e context)))))"

section \<open>The mappings\<close>

definition StackPointerOffStack :: "'m exploit_env \<Rightarrow> 'm exploit_dump \<Rightarrow> 64 word \<Rightarrow> bool" where
  "StackPointerOffStack e dump stack_ptr = (case ed_linux_maps dump of
     None \<Rightarrow> False
   | Some maps \<Rightarrow>
       (case GetLinuxMapsForAddress (ee_maps e) stack_ptr maps of
          None \<Rightarrow> True
        | Some m \<Rightarrow> ee_GetPathname e m \<noteq> [] \<and> ee_GetPathname e m \<noteq> ''[stack]''))"

definition ExecutableStackOrHeap :: "'m exploit_env \<Rightarrow> 'm exploit_dump \<Rightarrow> bool" where
  "ExecutableStackOrHeap e dump = (case ed_linux_maps dump of
     None \<Rightarrow> False
   | Some maps \<Rightarrow> list_ex (\<lambda>m. (ee_GetPathname e m = ''[stack]'' \<or> ee_GetPathname e m = ''[heap]'') \<and> ee_IsExecutable e m) maps)"

definition InstructionPointerInCode :: "'m exploit_env \<Rightarrow> 'm exploit_dump \<Rightarrow> 64 word \<Rightarrow> bool" where
  "InstructionPointerInCode e dump instruction_ptr =
     (case Option.bind (ed_linux_maps dump) (GetLinuxMapsForAddress (ee_maps e) instruction_ptr) of
        None \<Rightarrow> False | Some m \<Rightarrow> ee_IsExecutable e m)"

definition benign_signals :: "string list" where
  "benign_signals = map (append ''MD_EXCEPTION_CODE_LIN_'')
     [''SIGHUP'', ''SIGINT'', ''SIGQUIT'', ''SIGTRAP'', ''SIGABRT'', ''SIGFPE'', ''SIGKILL'', ''SIGUSR1'', ''SIGUSR2'', ''SIGPIPE'',
      ''SIGALRM'', ''SIGTERM'', ''SIGCHLD'', ''SIGCONT'', ''SIGSTOP'', ''SIGTSTP'', ''SIGTTIN'', ''SIGTTOU'', ''SIGURG'',
      ''SIGXCPU'', ''SIGXFSZ'', ''SIGVTALRM'', ''SIGPROF'', ''SIGWINCH'', ''SIGIO'', ''SIGPWR'', ''SIGSYS'', ''DUMP_REQUESTED'']"

definition BenignCrashTrigger :: "md_constants \<Rightarrow> md_exception \<Rightarrow> bool" where
  "BenignCrashTrigger md raw_exception_stream = is_one_of md benign_signals (xr_exception_code raw_exception_stream)"

section \<open>The rating\<close>

definition failure_functions :: "string list" where
  "failure_functions = [''__stack_chk_fail'', ''__chk_fail'']"

text \<open>Whether a frame of the requesting thread is in one of the functions that report an overflow.\<close>

definition failure_reported :: "process_state \<Rightarrow> exploit_error + bool" where
  "failure_reported ps =
     (if ps_requesting_thread ps = - 1 then Inr False
      else if ps_requesting_thread ps < 0 \<or> ps_requesting_thread ps \<ge> int (length (ps_threads ps)) then Inl ThreadOutOfRange
      else Inr (list_ex (\<lambda>f. sf_function_name f \<in> set failure_functions) (cs_frames (ps_threads ps ! nat (ps_requesting_thread ps)))))"

definition pointer_of :: "'m exploit_env \<Rightarrow> (string \<times> pointer_member) list \<Rightarrow> dump_context \<Rightarrow> exploit_error + 64 word option" where
  "pointer_of e members context = (case get_pointer (ee_mf e) (ee_cf e) members context of
     Inl _ \<Rightarrow> Inl NullContextRead | Inr (ok, v) \<Rightarrow> Inr (if ok then Some v else None))"

definition CheckPlatformExploitability :: "'m exploit_env \<Rightarrow> bool \<Rightarrow> process_state \<Rightarrow> 'm exploit_dump \<Rightarrow> 's minidump
    \<Rightarrow> exploit_error + exploitability_rating" where
  "CheckPlatformExploitability e enable_objdump ps dump d =
     ebind (failure_reported ps) (\<lambda>reported.
       if reported then Inr EXPLOITABILITY_HIGH
       else case ed_exception dump of
         None \<Rightarrow> Inr EXPLOITABILITY_ERR_PROCESSING
       | Some None \<Rightarrow> Inr EXPLOITABILITY_ERR_PROCESSING
       | Some (Some raw_exception_stream) \<Rightarrow>
           if BenignCrashTrigger (mf_md (ee_mf e)) raw_exception_stream then Inr EXPLOITABILITY_NONE
           else case ed_context dump of
             None \<Rightarrow> Inr EXPLOITABILITY_ERR_PROCESSING
           | Some context \<Rightarrow>
               ebind (pointer_of e ip_members context) (\<lambda>ip. case ip of
                 None \<Rightarrow> Inr EXPLOITABILITY_ERR_PROCESSING
               | Some instruction_ptr \<Rightarrow>
                   ebind (pointer_of e sp_members context) (\<lambda>sp. case sp of
                     None \<Rightarrow> Inr EXPLOITABILITY_ERR_PROCESSING
                   | Some stack_ptr \<Rightarrow>
                       if \<not> InstructionPointerInCode e dump instruction_ptr \<or> StackPointerOffStack e dump stack_ptr \<or>
                         ExecutableStackOrHeap e dump
                       then Inr EXPLOITABILITY_HIGH
                       else ebind (if enable_objdump then EndedOnIllegalWrite e dump d instruction_ptr else Inr False) (\<lambda>illegal.
                         Inr (if illegal then EXPLOITABILITY_HIGH else EXPLOITABILITY_INTERESTING)))))"

end
