(* ===== verification/Exploit_Facts.thy ===== *)
theory Exploit_Facts
  imports Exploitability Context_Facts Thread_Facts Stream_Facts
begin

text \<open>
  What the Linux rating computes: the operand objdump prints is read back, an instruction line is
  split into its operation and operands, the address of a faulting write is the one the operand
  names, and the rating is the decision its rules state.
\<close>

section \<open>Operands\<close>

definition show_operand :: "string \<Rightarrow> bool \<Rightarrow> 32 word \<Rightarrow> string" where
  "show_operand register added c = register @ (if added then CHR ''+'' else CHR ''-'') # ''0x'' @ C_Strings.show_hex (unat c)"

text \<open>The context is of one of the two CPUs, and the register is one of those the code knows.\<close>

definition register_of :: "md_format \<Rightarrow> dump_context \<Rightarrow> raw_context \<Rightarrow> string \<Rightarrow> bool" where
  "register_of mf context raw register \<longleftrightarrow> dc_context context = Some raw \<and>
     (let cpu = GetContextCPU (mf_md mf) context in
      if cpu = mf_md mf ''MD_CONTEXT_X86'' then register \<in> set x86_registers
      else cpu = mf_md mf ''MD_CONTEXT_AMD64'' \<and> register \<in> set amd64_registers)"

lemma register_of_value:
  "register_of mf context raw register \<Longrightarrow>
    register_value mf cf context register = Some (Inr (read_field mf cf raw register))"
  by (auto simp: register_of_def register_value_def Let_def GetContextX86_def GetContextAMD64_def get_context_def is_one_of_def
      split: if_splits)

lemma register_chars:
  assumes "register_of mf context raw register"
  shows "c \<in> set register \<Longrightarrow> c \<notin> {CHR ''+'', CHR ''-'', CHR '','', CHR ''['', CHR '']''}" "register \<noteq> []"
    "c \<in> set register \<Longrightarrow> \<not> c_isspace c"
proof -
  have r: "register \<in> set (x86_registers @ amd64_registers)"
    using assms by (auto simp: register_of_def Let_def split: if_splits)
  have "list_all (\<lambda>r. r \<noteq> [] \<and> list_all (\<lambda>c. c \<notin> {CHR ''+'', CHR ''-'', CHR '','', CHR ''['', CHR '']''} \<and> \<not> c_isspace c) r)
      (x86_registers @ amd64_registers)"
    by code_simp
  then show "c \<in> set register \<Longrightarrow> c \<notin> {CHR ''+'', CHR ''-'', CHR '','', CHR ''['', CHR '']''}" "register \<noteq> []"
    "c \<in> set register \<Longrightarrow> \<not> c_isspace c"
    using r by (auto simp: list_all_iff)
qed

lemma find_char_append:
  "c \<notin> set s \<Longrightarrow> find_char c (s @ c # t) = Some (length s)"
proof -
  assume "c \<notin> set s"
  then have "takeWhile (\<lambda>x. x \<noteq> c) (s @ c # t) = s" by (subst takeWhile_append2) auto
  then show ?thesis by (simp add: find_char_def)
qed

lemma find_char_none: "c \<notin> set s \<longleftrightarrow> find_char c s = None"
proof
  assume "c \<notin> set s"
  then have "takeWhile (\<lambda>x. x \<noteq> c) s = s" by (auto simp: takeWhile_eq_all_conv)
  then show "find_char c s = None" unfolding find_char_def Let_def by (simp only:) simp
next
  assume "find_char c s = None"
  then have l: "length (takeWhile (\<lambda>x. x \<noteq> c) s) = length s"
    using length_takeWhile_le [of "\<lambda>x. x \<noteq> c" s] by (simp add: find_char_def Let_def split: if_splits)
  then have "takeWhile (\<lambda>x. x \<noteq> c) s = s"
    by (metis append_take_drop_id takeWhile_eq_take take_all_iff order_refl)
  then show "c \<notin> set s" by (auto simp: takeWhile_eq_all_conv)
qed

lemma hex_chars: "c \<in> set (C_Strings.show_hex n) \<Longrightarrow> c \<notin> {CHR ''+'', CHR ''-'', CHR '','', CHR ''['', CHR '']'', CHR 0x00} \<and> \<not> c_isspace c"
proof -
  assume "c \<in> set (C_Strings.show_hex n)"
  then have "is_base_digit 16 c" using show_base_digits [of 16 n] by simp
  then show ?thesis using base_digit_chars(1) [of 16 c] by (auto simp: is_base_digit_def digit_val_def Let_def)
qed

lemma scan_x_prefixed: "n < 2 ^ 64 \<Longrightarrow> scan_x (CHR ''0'' # CHR ''x'' # C_Strings.show_hex n) = Some (of_nat n, [])"
proof -
  assume n: "n < 2 ^ 64"
  obtain d ds where s: "C_Strings.show_hex n = d # ds" using show_base_nonempty by (cases "C_Strings.show_hex n") auto
  have d: "is_base_digit 16 d" "list_all (is_base_digit 16) ds"
    using show_base_digits [of 16 n] by (auto simp: s list_all_iff)
  have t: "takeWhile (is_base_digit 16) ds = ds" "dropWhile (is_base_digit 16) ds = []"
    using d(2) by (auto simp: takeWhile_eq_all_conv list_all_iff)
  have z: "\<not> c_isspace CHR ''0''" by (simp add: c_isspace_def)
  have "digits_val 16 0 (d # ds) = n" using show_base_val [of 16 n] by (simp add: s)
  then have "scan_number 16 (CHR ''0'' # CHR ''x'' # d # ds) = Some (False, n, [])"
    using z d(1) by (simp add: scan_number_def strip_sign_def strip_0x_def t)
  then show ?thesis using z d n
    by (simp add: s scan_x_def scan_number_of_def strip_sign_def strip_0x_def)
qed

lemma scan_constant_shown: "scan_constant (''0x'' @ C_Strings.show_hex (unat c)) = Some (c :: 32 word)"
proof -
  have "unat c < 2 ^ 32" using unsigned_less [of c] by simp
  then have "unat c < 2 ^ 64" by simp
  moreover have "\<not> c_isspace CHR ''0''" by (simp add: c_isspace_def)
  ultimately show ?thesis by (simp add: scan_constant_def scan_x_prefixed)
qed

definition operand_address :: "md_format \<Rightarrow> context_format \<Rightarrow> raw_context \<Rightarrow> string \<Rightarrow> bool \<Rightarrow> 32 word \<Rightarrow> 64 word" where
  "operand_address mf cf raw register added c =
     (if added then read_field mf cf raw register + ucast c else read_field mf cf raw register - ucast c)"

lemma CalculateAddress_parts:
  assumes "(if find_char CHR ''+'' s = None then find_char CHR ''-'' s else find_char CHR ''+'' s) = Some k"
    and "scan_constant (takeWhile (\<lambda>c. c \<noteq> CHR 0x00) (drop (k + 1) s)) = Some c"
    and "register_value mf cf context (take k s) = Some (Inr v)"
  shows "CalculateAddress mf cf s context = Inr (Some (if find_char CHR ''+'' s \<noteq> None then v + ucast c else v - ucast c))"
  unfolding CalculateAddress_def Let_def using assms by simp

text \<open>
  A printed operand is read back: \<open>CalculateAddress\<close> of a register of the context's CPU plus or
  minus a printed 32-bit constant succeeds, and the address is the register's value in the context
  with the constant added or subtracted, modulo \<open>2 ^ 64\<close> on both CPUs.
\<close>

lemma CalculateAddress_operand:
  assumes "register_of mf context raw register"
  shows "CalculateAddress mf cf (show_operand register added c) context =
    Inr (Some (operand_address mf cf raw register added c))"
proof -
  let ?k = "''0x'' @ C_Strings.show_hex (unat c)" and ?s = "show_operand register added c"
  have r: "CHR ''+'' \<notin> set register" "CHR ''-'' \<notin> set register" using register_chars(1) [OF assms] by blast+
  have k: "CHR ''+'' \<notin> set ?k" "takeWhile (\<lambda>c. c \<noteq> CHR 0x00) ?k = ?k"
    using hex_chars [of _ "unat c"] by (auto simp: takeWhile_eq_all_conv)
  have f: "find_char CHR ''+'' ?s = (if added then Some (length register) else None)"
    "\<not> added \<Longrightarrow> find_char CHR ''-'' ?s = Some (length register)"
    using r k(1) find_char_append [OF r(1)] find_char_append [OF r(2)]
    by (auto simp: show_operand_def find_char_none [symmetric])
  have parts: "drop (length register + 1) ?s = ?k" "take (length register) ?s = register"
    by (simp_all add: show_operand_def)
  have "(if find_char CHR ''+'' ?s = None then find_char CHR ''-'' ?s else find_char CHR ''+'' ?s) = Some (length register)"
    using f by simp
  moreover have "scan_constant (takeWhile (\<lambda>c. c \<noteq> CHR 0x00) (drop (length register + 1) ?s)) = Some c"
    unfolding parts k(2) by (rule scan_constant_shown)
  moreover have "register_value mf cf context (take (length register) ?s) = Some (Inr (read_field mf cf raw register))"
    unfolding parts by (rule register_of_value [OF assms])
  ultimately show ?thesis
    using CalculateAddress_parts f(1) by (simp add: operand_address_def)
qed

section \<open>The listing\<close>

text \<open>Tokens with the white space before each, and a line of them.\<close>

definition spaced :: "(string \<times> string) list \<Rightarrow> string" where
  "spaced ts = concat (map (\<lambda>(blanks, t). blanks @ t) ts)"

definition well_spaced :: "(string \<times> string) list \<Rightarrow> bool" where
  "well_spaced ts \<longleftrightarrow> list_all (\<lambda>(blanks, t). blanks \<noteq> [] \<and> list_all c_isspace blanks \<and>
     t \<noteq> [] \<and> list_all (\<lambda>c. \<not> c_isspace c) t) ts"

lemma stream_tokens_blanks: "list_all c_isspace blanks \<Longrightarrow> stream_tokens [] (blanks @ s) = stream_tokens [] s"
  by (induction blanks) auto

lemma stream_tokens_chars: "list_all (\<lambda>c. \<not> c_isspace c) t \<Longrightarrow> stream_tokens acc (t @ s) = stream_tokens (acc @ t) s"
  by (induction t arbitrary: acc) auto

lemma stream_tokens_end:
  "s = [] \<or> c_isspace (hd s) \<Longrightarrow> t \<noteq> [] \<Longrightarrow> stream_tokens t s = t # stream_tokens [] s"
  by (cases s) auto

lemma stream_tokens_spaced:
  "well_spaced ts \<Longrightarrow> list_all c_isspace trailing \<Longrightarrow> stream_tokens [] (spaced ts @ trailing) = map snd ts"
proof (induction ts)
  case Nil
  then show ?case using stream_tokens_blanks [of trailing "[]"] by (simp add: spaced_def)
next
  case (Cons x ts)
  obtain b t where x: "x = (b, t)" by (cases x)
  have p: "list_all c_isspace b" "t \<noteq> []" "list_all (\<lambda>c. \<not> c_isspace c) t" "well_spaced ts"
    using Cons.prems x by (auto simp: well_spaced_def)
  let ?s = "spaced ts @ trailing"
  have h: "?s = [] \<or> c_isspace (hd ?s)"
  proof (cases ts)
    case Nil
    then show ?thesis using Cons.prems(2) by (cases trailing) (auto simp: spaced_def)
  next
    case (Cons y ys)
    then show ?thesis using p(4) by (cases y; cases "fst y") (auto simp: spaced_def well_spaced_def)
  qed
  have "spaced (x # ts) @ trailing = b @ t @ ?s" by (simp add: spaced_def x)
  then have "stream_tokens [] (spaced (x # ts) @ trailing) = stream_tokens t ?s"
    using stream_tokens_blanks [OF p(1)] stream_tokens_chars [OF p(3)] by simp
  also have "\<dots> = t # map snd ts"
    using stream_tokens_end [OF h p(2)] Cons.IH [OF p(4) Cons.prems(2)] by simp
  finally show ?case by (simp add: x)
qed

lemma find_operation_bytes:
  "list_all is_hex_byte bytes \<Longrightarrow> find_operation (bytes @ ts) = find_operation ts"
  by (induction bytes) auto

text \<open>The destination and source of the operands: what is before and after the first comma.\<close>

definition split_operands :: "string \<Rightarrow> string \<times> string" where
  "split_operands s = (takeWhile (\<lambda>c. c \<noteq> CHR '','') s, drop 1 (dropWhile (\<lambda>c. c \<noteq> CHR '','') s))"

text \<open>
  A line of the disassembly is split as objdump lays it out: for tokens separated by any white
  space, of which the first is the offset, the next are the bytes of the instruction, two digits
  each, and then the operation comes, which is not of that form, the call returns true with that
  operation, and its destination and source are the parts before and after the comma of the
  \<^emph>\<open>last\<close> token, or empty where the operation is the last one.
\<close>

lemma TokenizeObjdumpInstruction_tokens:
  assumes "well_spaced ts" "list_all c_isspace trailing"
    and "map snd ts = offset # bytes @ operation # operands"
    and "list_all is_hex_byte bytes" "\<not> is_hex_byte operation"
  shows "TokenizeObjdumpInstruction (spaced ts @ trailing) =
    (True, operation, split_operands (if operands = [] then [] else last operands))"
proof -
  let ?s = "if operands = [] then [] else last operands"
  have f: "find_operation (tl (stream_tokens [] (spaced ts @ trailing))) = Some (operation, ?s)"
    using assms(3-5) stream_tokens_spaced [OF assms(1,2)] by (simp add: find_operation_bytes)
  have "(case find_char CHR '','' s of None \<Rightarrow> (True, operation, s, [])
      | Some delim \<Rightarrow> (True, operation, take delim s, drop (delim + 1) s)) = (True, operation, split_operands s)" for s
  proof (cases "CHR '','' \<in> set s")
    case True
    then obtain a b where s: "s = a @ CHR '','' # b" "CHR '','' \<notin> set a" by (meson split_list_first)
    have "takeWhile (\<lambda>c. c \<noteq> CHR '','') s = a" "dropWhile (\<lambda>c. c \<noteq> CHR '','') s = CHR '','' # b"
      unfolding s(1) using s(2) by (subst takeWhile_append2 dropWhile_append2; auto)+
    then show ?thesis using find_char_append [OF s(2)] s(1) by (simp add: split_operands_def)
  next
    case False
    then have "takeWhile (\<lambda>c. c \<noteq> CHR '','') s = s" "dropWhile (\<lambda>c. c \<noteq> CHR '','') s = []"
      by (auto simp: takeWhile_eq_all_conv)
    then show ?thesis using False find_char_none [of "CHR '',''" s] by (simp only: split_operands_def) simp
  qed
  then show ?thesis unfolding TokenizeObjdumpInstruction_def f by simp
qed

definition unlines :: "string list \<Rightarrow> string" where
  "unlines ls = concat (map (\<lambda>l. l @ [CHR 0x0A]) ls)"

lemma stream_lines_line:
  "CHR 0x0A \<notin> set l \<Longrightarrow> stream_lines acc (l @ CHR 0x0A # s) = (acc @ l) # stream_lines [] s"
  by (induction l arbitrary: acc) auto

lemma stream_lines_unlines: "\<forall>l \<in> set ls. CHR 0x0A \<notin> set l \<Longrightarrow> stream_lines [] (unlines ls) = ls"
  by (induction ls) (auto simp: unlines_def stream_lines_line)

lemma find_instruction_line_skip:
  "\<forall>l \<in> set ls. \<not> contains ''0:'' l \<Longrightarrow>
    find_instruction_line seen (ls @ rest) = find_instruction_line (seen \<or> (\<exists>l \<in> set ls. contains ''<.data>:'' l)) rest"
  by (induction ls arbitrary: seen) (auto simp: Let_def)

lemma find_instruction_line_before:
  "\<forall>l \<in> set ls. \<not> contains ''<.data>:'' l \<Longrightarrow> find_instruction_line False (ls @ rest) = find_instruction_line False rest"
  by (induction ls) (auto simp: Let_def)

text \<open>
  A listing of objdump: lines before the section, its line, and the instruction's line, which is
  the first after it with \<open>0:\<close>.
\<close>

definition listing :: "string list \<Rightarrow> string list \<Rightarrow> string \<Rightarrow> string list \<Rightarrow> bool" where
  "listing before header line rest \<longleftrightarrow> list_all (\<lambda>l. \<not> contains ''<.data>:'' l) before \<and>
     list_ex (contains ''<.data>:'') header \<and> list_all (\<lambda>l. \<not> contains ''0:'' l) header \<and> contains ''0:'' line \<and>
     list_all (\<lambda>l. CHR 0x0A \<notin> set l) (before @ header @ line # rest)"

lemma GetObjdumpInstructionLine_listing:
  assumes "listing before header line rest"
  shows "GetObjdumpInstructionLine (unlines (before @ header @ line # rest)) = Some line"
proof -
  have l: "stream_lines [] (unlines (before @ header @ line # rest)) = before @ header @ line # rest"
    using assms by (intro stream_lines_unlines) (auto simp: listing_def list_all_iff)
  have "find_instruction_line False (before @ header @ line # rest) = find_instruction_line True (line # rest)"
    using assms find_instruction_line_before [of before] find_instruction_line_skip [of header False]
    by (auto simp: listing_def list_all_iff list_ex_iff)
  then show ?thesis using assms l by (simp add: GetObjdumpInstructionLine_def listing_def Let_def)
qed

section \<open>A crash on a write\<close>

lemma bracketed_operand:
  assumes "register_of mf context raw register" "after = [] \<or> hd after = CHR '',''"
  shows "split_operands (CHR ''['' # show_operand register added c @ CHR '']'' # after) =
    (CHR ''['' # show_operand register added c @ [CHR '']''], drop 1 after)"
proof -
  let ?d = "CHR ''['' # show_operand register added c @ [CHR '']'']"
  have "\<forall>x \<in> set ?d. x \<noteq> CHR '',''"
    using register_chars(1) [OF assms(1)] hex_chars [of _ "unat c"] by (auto simp: show_operand_def)
  then have "takeWhile (\<lambda>c. c \<noteq> CHR '','') (?d @ after) = ?d" "dropWhile (\<lambda>c. c \<noteq> CHR '','') (?d @ after) = after"
    using assms(2) by (cases after; subst takeWhile_append2 dropWhile_append2; auto)+
  then show ?thesis by (simp add: split_operands_def)
qed

lemma illegal_write_shown:
  assumes "register_of (ee_mf e) context raw register"
    and "listing before header (spaced ts @ trailing) rest"
    and "well_spaced ts" "list_all c_isspace trailing" "list_all is_hex_byte bytes" "\<not> is_hex_byte operation"
    and "map snd ts = offset # bytes @ operation # operands @ [CHR ''['' # show_operand register added c @ CHR '']'' # after]"
    and "after = [] \<or> hd after = CHR '',''"
  shows "illegal_write e context (unlines (before @ header @ (spaced ts @ trailing) # rest)) =
    Inr (operation \<in> set write_operations \<and> 4096 < operand_address (ee_mf e) (ee_cf e) raw register added c)"
proof -
  let ?x = "show_operand register added c"
  have t: "TokenizeObjdumpInstruction (spaced ts @ trailing) =
      (True, operation, CHR ''['' # ?x @ [CHR '']''], drop 1 after)"
    using TokenizeObjdumpInstruction_tokens [OF assms(3,4,7,5,6)] bracketed_operand [OF assms(1,8)] by simp
  have "?x \<noteq> []" by (simp add: show_operand_def)
  then have w: "is_memory_write operation (CHR ''['' # ?x @ [CHR '']'']) \<longleftrightarrow> operation \<in> set write_operations"
    by (cases ?x) (auto simp: is_memory_write_def)
  show ?thesis
    unfolding illegal_write_def GetObjdumpInstructionLine_listing [OF assms(2)] option.case t prod.case w
    using CalculateAddress_operand [OF assms(1)] by simp
qed

text \<open>The crash is in a region of the dump that lies in the file, with a whole instruction after it.\<close>

definition crash_region :: "'m exploit_env \<Rightarrow> 'm exploit_dump \<Rightarrow> 's minidump \<Rightarrow> 64 word \<Rightarrow> mem_region \<Rightarrow> bool" where
  "crash_region e dump d ip r \<longleftrightarrow> Option.bind (ed_memory_list dump) (GetMemoryRegionForAddress (ee_rm e) ip) = Some r \<and>
     region_in_file r d \<and> mg_memory r = None \<and> unat (region_start r) \<le> unat ip \<and>
     unat ip + MAX_INSTRUCTION_LEN \<le> unat (region_start r) + unat (region_data_size r)"

definition instruction_bytes :: "mem_region \<Rightarrow> 's minidump \<Rightarrow> 64 word \<Rightarrow> 8 word list" where
  "instruction_bytes r d ip = take MAX_INSTRUCTION_LEN (drop (unat ip - unat (region_start r)) (region_bytes r d))"

definition objdump_architecture :: "md_format \<Rightarrow> dump_context \<Rightarrow> string" where
  "objdump_architecture mf context =
     (if GetContextCPU (mf_md mf) context = mf_md mf ''MD_CONTEXT_X86'' then ''i386'' else ''i386:x86-64'')"

lemma EndedOnIllegalWrite_disassembled:
  assumes "crash_region e dump d ip r" "ed_exception dump = Some (Some x)" "ed_context dump = Some context"
    and "register_of (ee_mf e) context raw register"
    and "ee_objdump e (objdump_architecture (ee_mf e) context) (instruction_bytes r d ip) = Some output"
    and "CHR 0x00 \<notin> set output" "length output < MAX_OBJDUMP_BUFFER_LEN"
  shows "EndedOnIllegalWrite e dump d ip = illegal_write e context output"
proof -
  let ?md = "mf_md (ee_mf e)"
  have a: "switch_case ?md objdump_architectures (GetContextCPU ?md context) = Some (objdump_architecture (ee_mf e) context)"
    using assms(4) by (auto simp: register_of_def Let_def switch_case_def objdump_architectures_def objdump_architecture_def
        split: if_splits)
  obtain s where g: "region_GetMemory r d = (Some (region_bytes r d), r\<lparr>mg_memory := Some (region_bytes r d)\<rparr>, d\<lparr>mh_stream := s\<rparr>)"
    using GetMemory_from_file assms(1) by (metis crash_region_def)
  have v: "mg_valid r" using assms(1) by (simp add: crash_region_def region_in_file_def)
  have u: "region_start (r\<lparr>mg_memory := m\<rparr>) = region_start r" "region_data_size (r\<lparr>mg_memory := m\<rparr>) = region_data_size r" for m
    by (simp_all add: region_start_def region_data_size_def)
  have b: "unat (region_start r) \<le> unat ip" "unat ip + 15 \<le> unat (region_start r) + unat (region_data_size r)"
    using assms(1) by (simp_all add: crash_region_def MAX_INSTRUCTION_LEN_def)
  have o: "unat (ip - region_start r) = unat ip - unat (region_start r)" using b(1) by (simp add: unat_sub word_le_nat_alt)
  have sz: "unat (region_data_size r) < 2 ^ 32" using unsigned_less [of "region_data_size r"] by simp
  have "unat (15 + (ip - region_start r)) = 15 + unat (ip - region_start r)"
    using b o sz unat_add_lem [of 15 "ip - region_start r"] by (simp, linarith)
  then have f: "\<not> ucast (region_data_size r) < 15 + (ip - region_start r)" "\<not> ip < region_start r"
    using b o unat_ucast_64 [of "region_data_size r"] by (auto simp: word_less_nat_alt)
  have "takeWhile (\<lambda>c. c \<noteq> CHR 0x00) output = output" using assms(6) by (auto simp: takeWhile_eq_all_conv)
  then have "DisassembleBytes e (objdump_architecture (ee_mf e) context) (Some (region_bytes r d)) (unat (ip - region_start r)) =
      Inr output"
    using assms(5,7) o by (simp add: DisassembleBytes_def instruction_bytes_def Let_def del: takeWhile_eq_all_conv)
  then show ?thesis
    using assms(1-3) a g v f by (simp add: crash_region_def EndedOnIllegalWrite_def GetBase_def GetSize_def u Let_def
        MAX_INSTRUCTION_LEN_def)
qed

text \<open>
  C17: A crash whose instruction objdump prints as an operation on a bracketed operand, a register
  plus or minus a constant, is found to end on an illegal write exactly if the operation is one of
  the twelve that write and the address the operand has in the crash's context is above 4096: the
  listing is searched for the instruction's line, the line split, and the operand's text read back.
\<close>

theorem EndedOnIllegalWrite_spec:
  assumes "crash_region e dump d ip r" "ed_exception dump = Some (Some x)" "ed_context dump = Some context"
    and "register_of (ee_mf e) context raw register"
    and "ee_objdump e (objdump_architecture (ee_mf e) context) (instruction_bytes r d ip) =
      Some (unlines (before @ header @ (spaced ts @ trailing) # rest))"
    and "CHR 0x00 \<notin> set (unlines (before @ header @ (spaced ts @ trailing) # rest))"
    and "length (unlines (before @ header @ (spaced ts @ trailing) # rest)) < MAX_OBJDUMP_BUFFER_LEN"
    and "listing before header (spaced ts @ trailing) rest" "well_spaced ts" "list_all c_isspace trailing"
    and "map snd ts = offset # bytes @ operation # operands @ [CHR ''['' # show_operand register added c @ CHR '']'' # after]"
    and "list_all is_hex_byte bytes" "\<not> is_hex_byte operation" "after = [] \<or> hd after = CHR '',''"
  shows "EndedOnIllegalWrite e dump d ip =
    Inr (operation \<in> set write_operations \<and> 4096 < operand_address (ee_mf e) (ee_cf e) raw register added c)"
  unfolding EndedOnIllegalWrite_disassembled [OF assms(1-7)]
  by (rule illegal_write_shown [OF assms(4,8-10,12,13,11,14)])

section \<open>The rating\<close>

text \<open>
  What the rules of the rating look at: the frames of the requesting thread, the kind of crash, and
  the mapping that holds an address, the first one in the list.
\<close>

definition mapping_of :: "'m exploit_dump \<Rightarrow> 64 word \<Rightarrow> mapped_region option" where
  "mapping_of dump a = Option.bind (ed_linux_maps dump) (List.find (\<lambda>m. lr_start m \<le> a \<and> a < lr_end m))"

text \<open>The inline accessors of a mapping, as the header has them.\<close>

definition maps_env :: "'m exploit_env \<Rightarrow> bool" where
  "maps_env e \<longleftrightarrow> maps_accessors (ee_maps e) \<and>
     (\<forall>m. ee_IsExecutable e m = (EXECUTE \<in> lr_permissions m) \<and> ee_GetPathname e m = lr_path m)"

definition suspicious :: "'m exploit_dump \<Rightarrow> 64 word \<Rightarrow> 64 word \<Rightarrow> bool" where
  "suspicious dump ip sp \<longleftrightarrow>
     (case mapping_of dump ip of None \<Rightarrow> True | Some m \<Rightarrow> EXECUTE \<notin> lr_permissions m) \<or>
     (case mapping_of dump sp of None \<Rightarrow> True | Some m \<Rightarrow> lr_path m \<notin> {[], ''[stack]''}) \<or>
     (\<exists>maps m. ed_linux_maps dump = Some maps \<and> m \<in> set maps \<and> lr_path m \<in> {''[stack]'', ''[heap]''} \<and>
        EXECUTE \<in> lr_permissions m)"

lemma suspicious_tests:
  assumes "maps_env e"
  shows "suspicious dump ip sp \<longleftrightarrow>
    \<not> InstructionPointerInCode e dump ip \<or> StackPointerOffStack e dump sp \<or> ExecutableStackOrHeap e dump"
proof -
  have m: "GetLinuxMapsForAddress (ee_maps e) a = List.find (\<lambda>m. lr_start m \<le> a \<and> a < lr_end m)" for a
    using GetLinuxMapsForAddress_find assms by (auto simp: maps_env_def)
  have a: "ee_IsExecutable e m = (EXECUTE \<in> lr_permissions m)" "ee_GetPathname e m = lr_path m" for m
    using assms by (auto simp: maps_env_def)
  show ?thesis
    by (cases "ed_linux_maps dump")
      (auto simp: suspicious_def mapping_of_def InstructionPointerInCode_def StackPointerOffStack_def ExecutableStackOrHeap_def
        m a list_ex_iff split: option.splits)
qed


section \<open>Operands of other forms\<close>

text \<open>
  An operand with an index register is not refused: the index is read as the hexadecimal
  constant, as far as the letters of its name are digits. The address of \<open>[eax+ecx*4+0x8]\<close> is taken
  to be 0xec above \<open>eax\<close>, whatever \<open>ecx\<close> is.
\<close>

theorem index_register_read_as_constant:
  assumes "register_of mf context raw ''eax''"
  shows "CalculateAddress mf cf ''eax+ecx*4+0x8'' context = Inr (Some (read_field mf cf raw ''eax'' + 0xec))"
proof -
  have "find_char CHR ''+'' ''eax+ecx*4+0x8'' = Some 3"
    "scan_constant (takeWhile (\<lambda>c. c \<noteq> CHR 0x00) (drop (3 + 1) ''eax+ecx*4+0x8'')) = Some 0xec"
    "take 3 ''eax+ecx*4+0x8'' = ''eax''"
    by code_simp+
  then show ?thesis
    using CalculateAddress_parts [where s = "''eax+ecx*4+0x8''" and k = 3 and c = "0xec"] register_of_value [OF assms] by simp
qed

lemma x86_address_not_wrapped:
  assumes "unat (read_field mf cf raw register) < 2 ^ 32"
  shows "unat (operand_address mf cf raw register True c) = unat (read_field mf cf raw register) + unat c"
proof -
  have "unat c < 2 ^ 32" using unsigned_less [of c] by simp
  then show ?thesis using assms unat_ucast_64 [of c] unat_add_lem [of "read_field mf cf raw register" "ucast c"]
    by (simp add: operand_address_def)
qed

section \<open>Examples\<close>

text \<open>
  A crash in an x86 process on \<open>mov DWORD PTR [eax+0x4],ecx\<close>, with eight bytes of 0x10 as the
  context's registers.
\<close>

definition crash_context :: dump_context where
  "crash_context = \<lparr>dc_valid = True, dc_context_flags = 0x10000,
     dc_context = Some \<lparr>rc_struct = ''MDRawContextX86'', rc_context_flags = 0x10000, rc_bytes = replicate 16 0x10\<rparr>\<rparr>"

definition crash_bytes :: "8 word list" where
  "crash_bytes = [0x89, 0x48, 0x04] @ replicate 13 0x90"

definition crash_line :: "(string \<times> string) list" where
  "crash_line = [(''   '', ''0:''), ([CHR 0x09], ''89''), ('' '', ''48''), ('' '', ''04''), ([CHR 0x09], ''mov''),
     (''    '', ''DWORD''), ('' '', ''PTR''), ('' '', ''[eax+0x4],ecx'')]"

definition crash_listing :: string where
  "crash_listing = unlines ([''raw:     file format binary'', []] @ [''00000000 <.data>:''] @ (spaced crash_line @ []) # [''   3: 90 nop''])"

definition crash_env :: "(nat \<times> 64 word \<times> 64 word) list exploit_env" where
  "crash_env = \<lparr>ee_mf = example_format, ee_cf = example_context_format, ee_rm = list_range_map,
     ee_maps = \<lparr>lf_GetBase = lr_start, lf_GetSize = (\<lambda>m. lr_end m - lr_start m)\<rparr>,
     ee_IsExecutable = (\<lambda>m. EXECUTE \<in> lr_permissions m), ee_GetPathname = lr_path,
     ee_objdump = (\<lambda>architecture bytes. if architecture = ''i386'' then Some crash_listing else None)\<rparr>"

definition crash_region_example :: mem_region where
  "crash_region_example = SetDescriptor (Some \<lparr>dd_start_of_memory_range = 0x1000, dd_memory = \<lparr>ld_data_size = 16, ld_rva = 0\<rparr>\<rparr>) new_region"

definition crash_exception :: md_exception where
  "crash_exception = md_exception.make 7 11 0 0 0x101010101010 0 [] \<lparr>ld_data_size = 16, ld_rva = 0\<rparr>"

definition crash_maps :: "mapped_region list" where
  "crash_maps = [stack_mapping\<lparr>lr_start := 0x10101000, lr_end := 0x10102000, lr_permissions := {READ, EXECUTE}, lr_path := []\<rparr>]"

definition crash_dump :: "(nat \<times> 64 word \<times> 64 word) list exploit_dump" where
  "crash_dump = \<lparr>ed_exception = Some (Some crash_exception), ed_context = Some crash_context,
     ed_memory_list = Some \<lparr>ml_regions = [crash_region_example], ml_range_map = [(0, 0x1000, 0x100f)]\<rparr>,
     ed_linux_maps = Some crash_maps\<rparr>"

lemma crash_register: "register_of example_format crash_context (the (dc_context crash_context)) ''eax''"
  by code_simp

lemma crash_in_region: "crash_region crash_env crash_dump (example_dump_of crash_bytes) 0x1000 crash_region_example"
proof -
  have "Option.bind (ed_memory_list crash_dump) (GetMemoryRegionForAddress (ee_rm crash_env) 0x1000) = Some crash_region_example"
    "mg_memory crash_region_example = None" "unat (region_start crash_region_example) = 4096" "mg_valid crash_region_example"
    "unat (region_rva crash_region_example) = 0" "unat (region_data_size crash_region_example) = 16"
    "0 < region_data_size crash_region_example" "region_data_size crash_region_example \<le> max_bytes" "length crash_bytes = 16"
    by code_simp+
  then show ?thesis
    by (simp add: crash_region_def region_in_file_def example_dump_of_def Minidump_stream_def MAX_INSTRUCTION_LEN_def)
qed

lemma crash_listing_ok:
  "ee_objdump crash_env (objdump_architecture (ee_mf crash_env) crash_context)
      (instruction_bytes crash_region_example (example_dump_of crash_bytes) 0x1000) = Some crash_listing"
    "CHR 0x00 \<notin> set crash_listing" "length crash_listing < MAX_OBJDUMP_BUFFER_LEN"
    "listing [''raw:     file format binary'', []] [''00000000 <.data>:''] (spaced crash_line @ []) [''   3: 90 nop'']"
    "well_spaced crash_line" "list_all is_hex_byte [''89'', ''48'', ''04'']" "\<not> is_hex_byte ''mov''"
  by code_simp+

lemma crash_operands:
  "map snd crash_line = ''0:'' # [''89'', ''48'', ''04''] @ ''mov'' # [''DWORD'', ''PTR''] @
     [CHR ''['' # show_operand ''eax'' True 4 @ CHR '']'' # '',ecx'']"
  by code_simp

lemma crash_operand_address: "operand_address (ee_mf crash_env) (ee_cf crash_env) (the (dc_context crash_context)) ''eax'' True 4 = 0x10101014"
  by code_simp

theorem EndedOnIllegalWrite_spec_witness:
  "EndedOnIllegalWrite crash_env crash_dump (example_dump_of crash_bytes) 0x1000 = Inr True"
proof -
  have e: "ed_exception crash_dump = Some (Some crash_exception)" "ed_context crash_dump = Some crash_context"
    "ee_mf crash_env = example_format" "(4096 :: 64 word) < 0x10101014" "''mov'' \<in> set write_operations"
    by (simp_all add: crash_dump_def crash_env_def write_operations_def)
  have "EndedOnIllegalWrite crash_env crash_dump (example_dump_of crash_bytes) 0x1000 =
      Inr (''mov'' \<in> set write_operations \<and>
        4096 < operand_address (ee_mf crash_env) (ee_cf crash_env) (the (dc_context crash_context)) ''eax'' True 4)"
    by (rule EndedOnIllegalWrite_spec [OF crash_in_region e(1,2) crash_register [folded e(3)]
          crash_listing_ok(1-3) [unfolded crash_listing_def] crash_listing_ok(4,5) _ crash_operands crash_listing_ok(6,7)]) simp_all
  then show ?thesis unfolding crash_operand_address using e(4,5) by simp
qed

lemma crash_env_maps: "maps_env crash_env"
  by (simp add: maps_env_def crash_env_def maps_accessors_def)

text \<open>In an executable mapping without a name the crash is INTERESTING as long as objdump is not run.\<close>

lemma crash_state:
  "failure_reported example_state = Inr False" "ed_exception crash_dump = Some (Some crash_exception)"
    "\<not> BenignCrashTrigger (mf_md (ee_mf crash_env)) crash_exception" "ed_context crash_dump = Some crash_context"
    "pointer_of crash_env ip_members crash_context = Inr (Some 0x10101010)"
    "pointer_of crash_env sp_members crash_context = Inr (Some 0x10101010)"
  by code_simp+


theorem index_register_read_as_constant_witness:
  "CalculateAddress example_format example_context_format ''eax+ecx*4+0x8'' crash_context = Inr (Some 0x101010fc)"
proof -
  have "read_field example_format example_context_format (the (dc_context crash_context)) ''eax'' = 0x10101010"
    by code_simp
  then show ?thesis using index_register_read_as_constant [OF crash_register, of example_context_format] by simp
qed

end
