(* ===== verification/Disassembler_X86.thy ===== *)
theory Disassembler_X86
  imports Prelude "HOL-Library.Word"
begin

text \<open>
  \<open>minidump_src/disassembler_x86.cc\<close>: a walk over the instructions of a block that follows the one
  register that held the bad address. Decoding is done by libdis; \<open>disasm\<close> is its \<open>x86_disasm\<close> with
  \<open>x86_insn_is_valid\<close>, and an instruction is what the code reads of it.
\<close>

section \<open>Instructions\<close>

datatype insn_group = insn_controlflow | insn_string | insn_comparison | other_group

datatype insn_type = insn_jmp | insn_jcc | insn_call | insn_callcc | insn_return | insn_push | insn_xor | insn_pop
  | insn_mov | insn_movcc | insn_popregs | insn_xchg | insn_xchgcc | other_insn

text \<open>A register of libdis is its id with the rest of the structure, here its name; an id 0 is none.\<close>

record x86_reg =
  rg_id :: "32 word"
  rg_name :: string

datatype x86_op = op_expression x86_reg x86_reg | op_register x86_reg | other_operand

record x86_insn =
  in_group :: insn_group
  in_type :: insn_type
  in_src :: "x86_op option"
  in_dest :: "x86_op option"
  in_valid :: bool

text \<open>The size with the instruction; the size 0 is a failure.\<close>

type_synonym disasm = "8 word list \<Rightarrow> 32 word \<Rightarrow> 32 word \<Rightarrow> 32 word \<Rightarrow> 32 word \<times> x86_insn"

section \<open>The state\<close>

datatype disx86_flag = DISX86_BAD_BRANCH_TARGET | DISX86_BAD_ARGUMENT_PASSED | DISX86_BAD_WRITE | DISX86_BAD_BLOCK_WRITE
  | DISX86_BAD_READ | DISX86_BAD_BLOCK_READ | DISX86_BAD_COMPARISON

record disassembler =
  di_bytecode :: "8 word list"
  di_size :: "32 word"
  di_virtual_address :: "32 word"
  di_current_byte_offset :: "32 word"
  di_current_inst_offset :: "32 word"
  di_instr_valid :: bool
  di_register_valid :: bool
  di_pushed_bad_value :: bool
  di_end_of_block :: bool
  di_flags :: "disx86_flag set"
  di_current_instr :: "x86_insn option"
  di_bad_register :: "x86_reg option"

text \<open>Neither the instruction nor the register is set by the constructor.\<close>

definition DisassemblerX86 :: "8 word list \<Rightarrow> 32 word \<Rightarrow> 32 word \<Rightarrow> disassembler" where
  "DisassemblerX86 bytecode size_of virtual_address = \<lparr>di_bytecode = bytecode, di_size = size_of,
     di_virtual_address = virtual_address, di_current_byte_offset = 0, di_current_inst_offset = 0, di_instr_valid = False,
     di_register_valid = False, di_pushed_bad_value = False, di_end_of_block = False, di_flags = {}, di_current_instr = None,
     di_bad_register = None\<rparr>"

section \<open>The checks of an instruction\<close>

definition is_bad :: "disassembler \<Rightarrow> x86_reg \<Rightarrow> bool" where
  "is_bad t r \<longleftrightarrow> map_option rg_id (di_bad_register t) = Some (rg_id r)"

text \<open>The operand is an expression whose base is the register, or it is the register.\<close>

definition bad_expression :: "disassembler \<Rightarrow> x86_op option \<Rightarrow> bool" where
  "bad_expression t operand = (case operand of Some (op_expression base index) \<Rightarrow> is_bad t base | _ \<Rightarrow> False)"

definition bad_operand_register :: "disassembler \<Rightarrow> x86_op option \<Rightarrow> bool" where
  "bad_operand_register t operand = (case operand of Some (op_register r) \<Rightarrow> is_bad t r | _ \<Rightarrow> False)"

definition branch_flags :: "disassembler \<Rightarrow> x86_insn \<Rightarrow> disx86_flag set" where
  "branch_flags t i =
     (if in_type i \<notin> {insn_jmp, insn_jcc, insn_call, insn_callcc} then {}
      else case in_dest i of
        None \<Rightarrow> {}
      | Some (op_expression base index) \<Rightarrow> if is_bad t base then {DISX86_BAD_BRANCH_TARGET} else {}
      | Some (op_register r) \<Rightarrow> if is_bad t r then {DISX86_BAD_BRANCH_TARGET} else {}
      | Some other_operand \<Rightarrow>
          if di_pushed_bad_value t \<and> in_type i \<in> {insn_call, insn_callcc} then {DISX86_BAD_ARGUMENT_PASSED} else {})"

definition instr_flags :: "disassembler \<Rightarrow> x86_insn \<Rightarrow> disx86_flag set" where
  "instr_flags t i = (case in_group i of
     insn_controlflow \<Rightarrow> branch_flags t i
   | insn_string \<Rightarrow> (if bad_expression t (in_dest i) then {DISX86_BAD_BLOCK_WRITE} else {}) \<union>
       (if bad_expression t (in_src i) then {DISX86_BAD_BLOCK_READ} else {})
   | insn_comparison \<Rightarrow>
       if bad_expression t (in_dest i) \<or> bad_expression t (in_src i) \<or> bad_operand_register t (in_dest i) \<or>
         bad_operand_register t (in_src i) then {DISX86_BAD_COMPARISON} else {}
   | other_group \<Rightarrow> (if bad_expression t (in_dest i) then {DISX86_BAD_WRITE} else {}) \<union>
       (if bad_expression t (in_src i) then {DISX86_BAD_READ} else {}))"

definition check_flags :: "x86_insn \<Rightarrow> disassembler \<Rightarrow> disassembler" where
  "check_flags i t = (if di_register_valid t then t\<lparr>di_flags := di_flags t \<union> instr_flags t i\<rparr> else t)"

definition check_pushed :: "x86_insn \<Rightarrow> disassembler \<Rightarrow> disassembler" where
  "check_pushed i t =
     (if di_register_valid t \<and> in_type i = insn_push
      then case in_dest i of
        Some (op_expression base index) \<Rightarrow> if is_bad t base \<or> is_bad t index then t\<lparr>di_pushed_bad_value := True\<rparr> else t
      | Some (op_register r) \<Rightarrow> if is_bad t r then t\<lparr>di_pushed_bad_value := True\<rparr> else t
      | _ \<Rightarrow> t
      else t)"

text \<open>The register may be overwritten, or exchanged with another one, which is then followed.\<close>

definition check_clobbered :: "x86_insn \<Rightarrow> disassembler \<Rightarrow> disassembler" where
  "check_clobbered i t =
     (if \<not> di_register_valid t then t
      else if in_type i = insn_xor then
        (case (in_src i, in_dest i) of
           (Some (op_register s), Some (op_register r)) \<Rightarrow>
             if is_bad t s \<and> rg_id s = rg_id r then t\<lparr>di_register_valid := False\<rparr> else t
         | _ \<Rightarrow> t)
      else if in_type i \<in> {insn_pop, insn_mov, insn_movcc} then
        (if bad_operand_register t (in_dest i) then t\<lparr>di_register_valid := False\<rparr> else t)
      else if in_type i = insn_popregs then t\<lparr>di_register_valid := False\<rparr>
      else if in_type i \<in> {insn_xchg, insn_xchgcc} then
        (case (in_dest i, in_src i) of
           (Some (op_register r), Some (op_register s)) \<Rightarrow>
             if is_bad t r then t\<lparr>di_bad_register := Some s\<rparr>
             else if is_bad t s then t\<lparr>di_bad_register := Some r\<rparr> else t
         | _ \<Rightarrow> t)
      else t)"

section \<open>The operations\<close>

definition NextInstruction :: "disasm \<Rightarrow> disassembler \<Rightarrow> 32 word \<times> disassembler" where
  "NextInstruction disasm t =
     (if di_current_byte_offset t \<ge> di_size t then (0, t\<lparr>di_instr_valid := False\<rparr>)
      else let (instr_size, i) = disasm (di_bytecode t) (di_size t) (di_virtual_address t) (di_current_byte_offset t);
               t = t\<lparr>di_current_instr := Some i\<rparr> in
        if instr_size = 0 then (0, t\<lparr>di_instr_valid := False\<rparr>)
        else let t = t\<lparr>di_current_byte_offset := di_current_byte_offset t + instr_size,
                   di_current_inst_offset := di_current_inst_offset t + 1, di_instr_valid := in_valid i\<rparr> in
          if \<not> in_valid i then (0, t)
          else let t = (if in_type i = insn_return then t\<lparr>di_end_of_block := True\<rparr> else t)
            in (instr_size, check_clobbered i (check_pushed i (check_flags i t))))"

definition set_bad :: "(x86_insn \<Rightarrow> x86_op option) \<Rightarrow> disassembler \<Rightarrow> bool \<times> disassembler" where
  "set_bad operand t =
     (if \<not> di_instr_valid t then (False, t)
      else case Option.bind (di_current_instr t) operand of
        Some (op_expression base index) \<Rightarrow> (True, t\<lparr>di_bad_register := Some base, di_register_valid := True\<rparr>)
      | _ \<Rightarrow> (False, t))"

definition setBadRead :: "disassembler \<Rightarrow> bool \<times> disassembler" where
  "setBadRead = set_bad in_src"

definition setBadWrite :: "disassembler \<Rightarrow> bool \<times> disassembler" where
  "setBadWrite = set_bad in_dest"

section \<open>Runs\<close>

inductive disassembler_step :: "disasm \<Rightarrow> disassembler \<Rightarrow> disassembler \<Rightarrow> bool" for disasm where
  next_instruction: "snd (NextInstruction disasm t) = t' \<Longrightarrow> disassembler_step disasm t t'"
| bad_read: "snd (setBadRead t) = t' \<Longrightarrow> disassembler_step disasm t t'"
| bad_write: "snd (setBadWrite t) = t' \<Longrightarrow> disassembler_step disasm t t'"

inductive_cases disassembler_stepE: "disassembler_step disasm t t'"

text \<open>What libdis promises: an instruction does not run past the end of the buffer.\<close>

definition disasm_in_bounds :: "disasm \<Rightarrow> bool" where
  "disasm_in_bounds disasm \<longleftrightarrow> (\<forall>b n a k. k < n \<longrightarrow> unat (fst (disasm b n a k)) \<le> unat n - unat k)"

text \<open>
  The state between two calls: the offset is in the buffer, a valid instruction is there, a
  register that is followed is known, and nothing is flagged or pushed before one was set.
\<close>

definition disassembler_ok :: "disassembler \<Rightarrow> bool" where
  "disassembler_ok t \<longleftrightarrow> di_current_byte_offset t \<le> di_size t \<and> (di_instr_valid t \<longrightarrow> di_current_instr t \<noteq> None) \<and>
     (di_register_valid t \<longrightarrow> di_bad_register t \<noteq> None) \<and>
     (di_bad_register t = None \<longrightarrow> di_flags t = {} \<and> \<not> di_pushed_bad_value t)"

lemma check_simps [simp]:
  "di_current_byte_offset (check_flags i t) = di_current_byte_offset t" "di_size (check_flags i t) = di_size t"
  "di_current_byte_offset (check_pushed i t) = di_current_byte_offset t" "di_size (check_pushed i t) = di_size t"
  "di_current_byte_offset (check_clobbered i t) = di_current_byte_offset t" "di_size (check_clobbered i t) = di_size t"
  "di_instr_valid (check_flags i t) = di_instr_valid t" "di_current_instr (check_flags i t) = di_current_instr t"
  "di_instr_valid (check_pushed i t) = di_instr_valid t" "di_current_instr (check_pushed i t) = di_current_instr t"
  "di_instr_valid (check_clobbered i t) = di_instr_valid t" "di_current_instr (check_clobbered i t) = di_current_instr t"
  "di_flags (check_pushed i t) = di_flags t" "di_flags (check_clobbered i t) = di_flags t"
  "di_register_valid (check_flags i t) = di_register_valid t" "di_register_valid (check_pushed i t) = di_register_valid t"
  "di_bad_register (check_flags i t) = di_bad_register t" "di_bad_register (check_pushed i t) = di_bad_register t"
  "di_pushed_bad_value (check_flags i t) = di_pushed_bad_value t" "di_pushed_bad_value (check_clobbered i t) = di_pushed_bad_value t"
  by (simp_all add: check_flags_def check_pushed_def check_clobbered_def split: option.split x86_op.split)

lemma check_register_known:
  assumes "di_register_valid t \<longrightarrow> di_bad_register t \<noteq> None"
  shows "di_register_valid (check_clobbered i t) \<longrightarrow> di_register_valid t \<and> di_bad_register (check_clobbered i t) \<noteq> None"
    "di_bad_register (check_clobbered i t) = None \<longleftrightarrow> di_bad_register t = None"
  using assms by (auto simp: check_clobbered_def split: option.splits x86_op.splits)

lemma check_without_register:
  "\<not> di_register_valid t \<Longrightarrow> check_clobbered i (check_pushed i (check_flags i t)) = t"
  by (simp add: check_flags_def check_pushed_def check_clobbered_def)

lemma check_keeps:
  "di_flags t \<subseteq> di_flags (check_flags i t)" "di_pushed_bad_value t \<longrightarrow> di_pushed_bad_value (check_pushed i t)"
  by (simp_all add: check_flags_def check_pushed_def split: option.split x86_op.split)

lemma disasm_offset:
  fixes k n s :: "32 word"
  assumes "k < n" "unat s \<le> unat n - unat k"
  shows "k + s \<le> n" "s \<noteq> 0 \<Longrightarrow> unat k < unat (k + s)"
proof -
  have k: "unat k < unat n" "unat n < 2 ^ 32" using assms(1) unsigned_less [of n] by (simp_all add: word_less_nat_alt)
  then have u: "unat (k + s) = unat k + unat s" using assms(2) unat_add_lem [of k s] by (simp, linarith)
  then show "k + s \<le> n" using assms k by (simp add: word_le_nat_alt)
  show "s \<noteq> 0 \<Longrightarrow> unat k < unat (k + s)" using u by (simp add: unat_gt_0)
qed

text \<open>One call of \<open>NextInstruction\<close>, on each of its ways out.\<close>

lemma NextInstruction_cases:
  obtains (finished) "di_size t \<le> di_current_byte_offset t" "NextInstruction disasm t = (0, t\<lparr>di_instr_valid := False\<rparr>)"
  | (undecoded) i where "di_current_byte_offset t < di_size t"
      "NextInstruction disasm t = (0, t\<lparr>di_current_instr := Some i, di_instr_valid := False\<rparr>)"
  | (decoded) n i t1 where "di_current_byte_offset t < di_size t" "n \<noteq> 0"
      "disasm (di_bytecode t) (di_size t) (di_virtual_address t) (di_current_byte_offset t) = (n, i)"
      "t1 = t\<lparr>di_current_instr := Some i, di_current_byte_offset := di_current_byte_offset t + n,
         di_current_inst_offset := di_current_inst_offset t + 1, di_instr_valid := in_valid i,
         di_end_of_block := di_end_of_block t \<or> in_valid i \<and> in_type i = insn_return\<rparr>"
      "NextInstruction disasm t =
        (if in_valid i then (n, check_clobbered i (check_pushed i (check_flags i t1))) else (0, t1))"
proof (cases "di_size t \<le> di_current_byte_offset t")
  case False
  obtain n i where d: "disasm (di_bytecode t) (di_size t) (di_virtual_address t) (di_current_byte_offset t) = (n, i)"
    by fastforce
  show thesis
  proof (cases "n = 0")
    case True
    with False d undecoded show thesis by (simp add: NextInstruction_def)
  next
    case n: False
    show thesis
      by (rule decoded [OF _ n d refl]) (use False n d in \<open>(cases t, simp add: NextInstruction_def Let_def)+\<close>)
  qed
qed (use finished in \<open>simp add: NextInstruction_def\<close>)

lemma NextInstruction_ok:
  assumes "disasm_in_bounds disasm" "disassembler_ok t"
  shows "disassembler_ok (snd (NextInstruction disasm t))"
proof (cases rule: NextInstruction_cases [of t disasm])
  case (decoded n i t1)
  have "fst (disasm (di_bytecode t) (di_size t) (di_virtual_address t) (di_current_byte_offset t)) = n" using decoded by simp
  then have "unat n \<le> unat (di_size t) - unat (di_current_byte_offset t)"
    using assms(1) decoded(1) unfolding disasm_in_bounds_def by metis
  from disasm_offset(1) [OF decoded(1) this] have ok: "disassembler_ok t1"
    using assms(2) by (simp add: decoded(4) disassembler_ok_def)
  have "disassembler_ok (check_clobbered i (check_pushed i (check_flags i t1)))"
  proof (cases "di_register_valid t1")
    case True
    then show ?thesis using ok check_register_known [of "check_pushed i (check_flags i t1)" i] by (auto simp: disassembler_ok_def)
  next
    case False
    then show ?thesis using ok check_without_register by simp
  qed
  then show ?thesis using ok decoded(5) by simp
qed (use assms(2) in \<open>auto simp: disassembler_ok_def\<close>)

lemma set_bad_ok: "disassembler_ok t \<Longrightarrow> disassembler_ok (snd (set_bad operand t))"
  by (auto simp: set_bad_def disassembler_ok_def split: option.split x86_op.split)

text \<open>
  C21: Whatever calls are made on a new disassembler, its state stays well formed: the offset never
  passes the end of the buffer, a valid instruction is always there to be asked for its operands, a
  register is followed only once it has been named, and before that nothing is flagged.
\<close>

theorem disassembler_reachable_ok:
  assumes "disasm_in_bounds disasm" "(disassembler_step disasm)\<^sup>*\<^sup>* (DisassemblerX86 bytecode n a) t"
  shows "disassembler_ok t"
  using assms(2)
proof (induction rule: rtranclp_induct)
  case base
  show ?case by (simp add: disassembler_ok_def DisassemblerX86_def)
next
  case (step t t')
  from step(2) show ?case
    by (cases rule: disassembler_stepE)
      (use step.IH NextInstruction_ok [OF assms(1)] set_bad_ok in \<open>auto simp: setBadRead_def setBadWrite_def\<close>)
qed

section \<open>A block\<close>

text \<open>Calls until one returns 0, at most \<open>fuel\<close> of them; how many instructions there were.\<close>

fun run_block :: "disasm \<Rightarrow> nat \<Rightarrow> disassembler \<Rightarrow> nat \<times> disassembler" where
  "run_block disasm 0 t = (0, t)"
| "run_block disasm (Suc fuel) t =
     (case NextInstruction disasm t of (n, t') \<Rightarrow>
        if n = 0 then (0, t') else (case run_block disasm fuel t' of (k, t'') \<Rightarrow> (Suc k, t'')))"

lemma NextInstruction_advances:
  assumes "disasm_in_bounds disasm" "fst (NextInstruction disasm t) \<noteq> 0"
  shows "unat (di_current_byte_offset t) < unat (di_current_byte_offset (snd (NextInstruction disasm t)))"
    "di_current_byte_offset (snd (NextInstruction disasm t)) \<le> di_size t" "di_size (snd (NextInstruction disasm t)) = di_size t"
proof -
  show "unat (di_current_byte_offset t) < unat (di_current_byte_offset (snd (NextInstruction disasm t)))"
    "di_current_byte_offset (snd (NextInstruction disasm t)) \<le> di_size t" "di_size (snd (NextInstruction disasm t)) = di_size t"
  proof (atomize (full), cases rule: NextInstruction_cases [of t disasm])
    case (decoded n i t1)
    have "fst (disasm (di_bytecode t) (di_size t) (di_virtual_address t) (di_current_byte_offset t)) = n" using decoded by simp
    then have "unat n \<le> unat (di_size t) - unat (di_current_byte_offset t)"
      using assms(1) decoded(1) unfolding disasm_in_bounds_def by metis
    from disasm_offset [OF decoded(1) this] decoded
    show "unat (di_current_byte_offset t) < unat (di_current_byte_offset (snd (NextInstruction disasm t))) \<and>
      di_current_byte_offset (snd (NextInstruction disasm t)) \<le> di_size t \<and> di_size (snd (NextInstruction disasm t)) = di_size t"
      by simp
  qed (use assms(2) in simp_all)
qed

lemma run_block_bound:
  assumes "disasm_in_bounds disasm"
  shows "di_current_byte_offset t \<le> di_size t \<Longrightarrow>
    fst (run_block disasm fuel t) \<le> unat (di_size t) - unat (di_current_byte_offset t)"
proof (induction fuel arbitrary: t)
  case (Suc fuel)
  obtain n t' where s: "NextInstruction disasm t = (n, t')" by fastforce
  show ?case
  proof (cases "n = 0")
    case False
    then have "unat (di_current_byte_offset t) < unat (di_current_byte_offset t')" "di_current_byte_offset t' \<le> di_size t"
      "di_size t' = di_size t"
      using NextInstruction_advances [OF assms, of t] s by simp_all
    then show ?thesis using Suc.IH [of t'] False s by (auto simp: word_le_nat_alt split: prod.split)
  qed (use s in simp)
qed simp

text \<open>
  An operand without a base register has the base id 0: it is accepted as the register that is
  bad, and every later access to an absolute address then counts as one through it.
\<close>

lemma absolute_operand_followed:
  assumes "di_instr_valid t" "di_current_instr t = Some i" "in_src i = Some (op_expression none index)" "rg_id none = 0"
    and "rg_id absolute = 0" "in_group j = other_group" "in_dest j = Some (op_expression absolute index')"
  shows "fst (setBadRead t)" "DISX86_BAD_WRITE \<in> di_flags (check_flags j (snd (setBadRead t)))"
  using assms by (simp_all add: setBadRead_def set_bad_def check_flags_def instr_flags_def bad_expression_def is_bad_def)

section \<open>An example\<close>

text \<open>\<open>mov eax, [ecx]\<close>, \<open>push ecx\<close>, \<open>call\<close> on one byte each.\<close>

definition example_insn :: "8 word \<Rightarrow> x86_insn" where
  "example_insn b = (let ecx = \<lparr>rg_id = 2, rg_name = ''ecx''\<rparr> in
     if b = 1 then \<lparr>in_group = other_group, in_type = insn_mov, in_src = Some (op_expression ecx \<lparr>rg_id = 0, rg_name = []\<rparr>),
       in_dest = Some (op_register \<lparr>rg_id = 1, rg_name = ''eax''\<rparr>), in_valid = True\<rparr>
     else if b = 2 then \<lparr>in_group = other_group, in_type = insn_push, in_src = None, in_dest = Some (op_register ecx), in_valid = True\<rparr>
     else \<lparr>in_group = insn_controlflow, in_type = insn_call, in_src = None, in_dest = Some other_operand, in_valid = b = 3\<rparr>)"

definition example_disasm :: disasm where
  "example_disasm b n a k = (if k < n then (1, example_insn (b ! unat k)) else (0, example_insn 0))"

lemma example_disasm_ok: "disasm_in_bounds example_disasm"
  unfolding disasm_in_bounds_def example_disasm_def by (auto simp: word_less_nat_alt)

definition example_run :: disassembler where
  "example_run = snd (NextInstruction example_disasm (snd (NextInstruction example_disasm (snd (setBadRead
     (snd (NextInstruction example_disasm (DisassemblerX86 [1, 2, 3] 3 0x1000))))))))"

lemma example_reachable: "(disassembler_step example_disasm)\<^sup>*\<^sup>* (DisassemblerX86 [1, 2, 3] 3 0x1000) example_run"
  unfolding example_run_def
  by (meson bad_read next_instruction rtranclp.rtrancl_refl rtranclp.rtrancl_into_rtrancl)

theorem disassembler_reachable_ok_witness:
  "disassembler_ok example_run \<and> di_flags example_run = {DISX86_BAD_ARGUMENT_PASSED}"
proof -
  have "di_flags example_run = {DISX86_BAD_ARGUMENT_PASSED}" by code_simp
  then show ?thesis using disassembler_reachable_ok [OF example_disasm_ok example_reachable] by simp
qed

end
