(* ===== verification/Stack_Print.thy ===== *)
theory Stack_Print
  imports Processor Symbol_Supplier
begin

text \<open>
  \<open>minidump_src/stackwalk_common.cc\<close>: the processed state as text for people, as lines of fields for
  programs, and as the \<open>RfStackTrace\<close> object that is handed to Java, with \<open>rfStackTrace.cc\<close>, which
  builds that object from a dump. What is printed is returned as a string.
\<close>

section \<open>What is printed\<close>

text \<open>
  The printers cast a frame to its CPU's class. \<open>fv_valid\<close> tells whether a flag is set in the
  context's validity, \<open>fv_all_valid\<close> whether it is the whole mask, \<open>fv_member\<close> is a member of the
  context by name, widened to 64 bits.
\<close>

record frame_view =
  fv_return_address :: "64 word"
  fv_trust_description :: string
  fv_valid :: "string \<Rightarrow> bool"
  fv_all_valid :: bool
  fv_member :: "string \<Rightarrow> 64 word"

text \<open>The module list: the lookup, the main module and the modules in order; \<open>None\<close> is a null pointer.\<close>

record printed_modules =
  pm_GetModuleForAddress :: "64 word \<Rightarrow> codemodule option"
  pm_GetMainModule :: "codemodule option"
  pm_sequence :: "codemodule option list"

record print_env =
  pn_view :: "stack_frame \<Rightarrow> frame_view"
  pn_get8 :: "memory_region \<Rightarrow> 64 word \<Rightarrow> 8 word option"
  pn_FillSourceLineInfo :: "stack_frame \<Rightarrow> stack_frame"
  pn_modules :: "printed_modules option"
  pn_gl :: "string \<times> string \<times> string"

datatype print_error = Assertion_failed | Out_of_range | Null_dereference

section \<open>Formats\<close>

text \<open>\<open>%d\<close>, \<open>0x%x\<close> and \<open>0x%08x\<close> with their 64-bit forms, \<open>%5s\<close>, and \<open>%s\<close> of a \<open>c_str()\<close>.\<close>

definition show_int :: "int \<Rightarrow> string" where
  "show_int i = (if i < 0 then CHR ''-'' # show_base 10 (nat (- i)) else show_base 10 (nat i))"

definition show_0x :: "64 word \<Rightarrow> string" where
  "show_0x w = ''0x'' @ show_base 16 (unat w)"

definition pad_left :: "nat \<Rightarrow> string \<Rightarrow> string" where
  "pad_left width s = replicate (width - length s) CHR '' '' @ s"

definition c_str :: "string \<Rightarrow> string" where
  "c_str s = takeWhile (\<lambda>c. c \<noteq> CHR 0x00) s"

definition kOutputSeparator :: char where "kOutputSeparator = CHR ''|''"

text \<open>The loop that erases each occurrence of a character, from the place of the last one.\<close>

definition find_from :: "char \<Rightarrow> string \<Rightarrow> nat \<Rightarrow> nat option" where
  "find_from c s position =
     (let k = position + length (takeWhile (\<lambda>x. x \<noteq> c) (drop position s)) in if k < length s then Some k else None)"

function erase_all :: "char \<Rightarrow> string \<Rightarrow> nat \<Rightarrow> string" where
  "erase_all c result position = (case find_from c result position of
     None \<Rightarrow> result
   | Some position \<Rightarrow> erase_all c (take position result @ drop (position + 1) result) position)"
  by pat_completeness auto
termination
  by (relation "measure (\<lambda>(c, s, p). length s)") (auto simp: find_from_def Let_def split: if_splits)

declare erase_all.simps [simp del]

definition StripSeparator :: "string \<Rightarrow> string" where
  "StripSeparator original = erase_all CHR 0x0A (erase_all kOutputSeparator original 0) 0"

section \<open>Registers\<close>

definition kMaxWidth :: int where "kMaxWidth = 80"

text \<open>The text with the column after it; \<open>PrintRegister\<close> and \<open>PrintRegister64\<close> differ in the width.\<close>

definition print_column :: "string \<Rightarrow> int \<Rightarrow> string \<times> int" where
  "print_column buffer start_col =
     (if start_col + int (length buffer) > kMaxWidth then ([CHR 0x0A, CHR '' ''] @ buffer, int (length buffer))
      else (buffer, start_col + int (length buffer)))"

definition PrintRegister :: "string \<Rightarrow> 64 word \<Rightarrow> int \<Rightarrow> string \<times> int" where
  "PrintRegister name value = print_column (snprintf 64
     ('' '' @ pad_left 5 name @ '' = 0x'' @ pad_zeros 8 (show_base 16 (unat (ucast value :: 32 word)))))"

definition PrintRegister64 :: "string \<Rightarrow> 64 word \<Rightarrow> int \<Rightarrow> string \<times> int" where
  "PrintRegister64 name value = print_column (snprintf 64
     ('' '' @ pad_left 5 name @ '' = 0x'' @ pad_zeros 16 (show_base 16 (unat value))))"

text \<open>
  The registers of a CPU in the order of the code: the name printed, when it is printed, and the
  member of the context it is in.
\<close>

datatype register_test = Flag string | All_valid

type_synonym register_row = "string \<times> register_test \<times> string"

definition x86_rows :: "register_row list" where
  "x86_rows =
    [(''eip'', Flag ''CONTEXT_VALID_EIP'', ''eip''), (''esp'', Flag ''CONTEXT_VALID_ESP'', ''esp''), (''ebp'', Flag ''CONTEXT_VALID_EBP'', ''ebp''),
     (''ebx'', Flag ''CONTEXT_VALID_EBX'', ''ebx''), (''esi'', Flag ''CONTEXT_VALID_ESI'', ''esi''), (''edi'', Flag ''CONTEXT_VALID_EDI'', ''edi''),
     (''eax'', All_valid, ''eax''), (''ecx'', All_valid, ''ecx''), (''edx'', All_valid, ''edx''),
     (''efl'', All_valid, ''eflags'')]"

definition ppc_rows :: "register_row list" where
  "ppc_rows =
    [(''srr0'', Flag ''CONTEXT_VALID_SRR0'', ''srr0''), (''r1'', Flag ''CONTEXT_VALID_GPR1'', ''gpr[1]'')]"

definition amd64_rows :: "register_row list" where
  "amd64_rows =
    [(''rax'', Flag ''CONTEXT_VALID_RAX'', ''rax''), (''rdx'', Flag ''CONTEXT_VALID_RDX'', ''rdx''), (''rcx'', Flag ''CONTEXT_VALID_RCX'', ''rcx''),
     (''rbx'', Flag ''CONTEXT_VALID_RBX'', ''rbx''), (''rsi'', Flag ''CONTEXT_VALID_RSI'', ''rsi''), (''rdi'', Flag ''CONTEXT_VALID_RDI'', ''rdi''),
     (''rbp'', Flag ''CONTEXT_VALID_RBP'', ''rbp''), (''rsp'', Flag ''CONTEXT_VALID_RSP'', ''rsp''), (''r8'', Flag ''CONTEXT_VALID_R8'', ''r8''),
     (''r9'', Flag ''CONTEXT_VALID_R9'', ''r9''), (''r10'', Flag ''CONTEXT_VALID_R10'', ''r10''), (''r11'', Flag ''CONTEXT_VALID_R11'', ''r11''),
     (''r12'', Flag ''CONTEXT_VALID_R12'', ''r12''), (''r13'', Flag ''CONTEXT_VALID_R13'', ''r13''), (''r14'', Flag ''CONTEXT_VALID_R14'', ''r14''),
     (''r15'', Flag ''CONTEXT_VALID_R15'', ''r15''), (''rip'', Flag ''CONTEXT_VALID_RIP'', ''rip'')]"

definition sparc_rows :: "register_row list" where
  "sparc_rows =
    [(''sp'', Flag ''CONTEXT_VALID_SP'', ''g_r[14]''), (''fp'', Flag ''CONTEXT_VALID_FP'', ''g_r[30]''), (''pc'', Flag ''CONTEXT_VALID_PC'', ''pc'')]"

definition arm_rows :: "register_row list" where
  "arm_rows =
    [(''r0'', Flag ''CONTEXT_VALID_R0'', ''iregs[0]''), (''r1'', Flag ''CONTEXT_VALID_R1'', ''iregs[1]''), (''r2'', Flag ''CONTEXT_VALID_R2'', ''iregs[2]''),
     (''r3'', Flag ''CONTEXT_VALID_R3'', ''iregs[3]''), (''r4'', Flag ''CONTEXT_VALID_R4'', ''iregs[4]''), (''r5'', Flag ''CONTEXT_VALID_R5'', ''iregs[5]''),
     (''r6'', Flag ''CONTEXT_VALID_R6'', ''iregs[6]''), (''r7'', Flag ''CONTEXT_VALID_R7'', ''iregs[7]''), (''r8'', Flag ''CONTEXT_VALID_R8'', ''iregs[8]''),
     (''r9'', Flag ''CONTEXT_VALID_R9'', ''iregs[9]''), (''r10'', Flag ''CONTEXT_VALID_R10'', ''iregs[10]''), (''r12'', Flag ''CONTEXT_VALID_R12'', ''iregs[12]''),
     (''fp'', Flag ''CONTEXT_VALID_FP'', ''iregs[11]''), (''sp'', Flag ''CONTEXT_VALID_SP'', ''iregs[13]''), (''lr'', Flag ''CONTEXT_VALID_LR'', ''iregs[14]''),
     (''pc'', Flag ''CONTEXT_VALID_PC'', ''iregs[15]'')]"

definition arm64_rows :: "register_row list" where
  "arm64_rows =
    [(''x0'', Flag ''CONTEXT_VALID_X0'', ''iregs[0]''), (''x1'', Flag ''CONTEXT_VALID_X1'', ''iregs[1]''), (''x2'', Flag ''CONTEXT_VALID_X2'', ''iregs[2]''),
     (''x3'', Flag ''CONTEXT_VALID_X3'', ''iregs[3]''), (''x4'', Flag ''CONTEXT_VALID_X4'', ''iregs[4]''), (''x5'', Flag ''CONTEXT_VALID_X5'', ''iregs[5]''),
     (''x6'', Flag ''CONTEXT_VALID_X6'', ''iregs[6]''), (''x7'', Flag ''CONTEXT_VALID_X7'', ''iregs[7]''), (''x8'', Flag ''CONTEXT_VALID_X8'', ''iregs[8]''),
     (''x9'', Flag ''CONTEXT_VALID_X9'', ''iregs[9]''), (''x10'', Flag ''CONTEXT_VALID_X10'', ''iregs[10]''), (''x11'', Flag ''CONTEXT_VALID_X11'', ''iregs[11]''),
     (''x12'', Flag ''CONTEXT_VALID_X12'', ''iregs[12]''), (''x13'', Flag ''CONTEXT_VALID_X13'', ''iregs[13]''), (''x14'', Flag ''CONTEXT_VALID_X14'', ''iregs[14]''),
     (''x15'', Flag ''CONTEXT_VALID_X15'', ''iregs[15]''), (''x16'', Flag ''CONTEXT_VALID_X16'', ''iregs[16]''), (''x17'', Flag ''CONTEXT_VALID_X17'', ''iregs[17]''),
     (''x18'', Flag ''CONTEXT_VALID_X18'', ''iregs[18]''), (''x19'', Flag ''CONTEXT_VALID_X19'', ''iregs[19]''), (''x20'', Flag ''CONTEXT_VALID_X20'', ''iregs[20]''),
     (''x21'', Flag ''CONTEXT_VALID_X21'', ''iregs[21]''), (''x22'', Flag ''CONTEXT_VALID_X22'', ''iregs[22]''), (''x23'', Flag ''CONTEXT_VALID_X23'', ''iregs[23]''),
     (''x24'', Flag ''CONTEXT_VALID_X24'', ''iregs[24]''), (''x25'', Flag ''CONTEXT_VALID_X25'', ''iregs[25]''), (''x26'', Flag ''CONTEXT_VALID_X26'', ''iregs[26]''),
     (''x27'', Flag ''CONTEXT_VALID_X27'', ''iregs[27]''), (''x28'', Flag ''CONTEXT_VALID_X28'', ''iregs[28]''), (''fp'', Flag ''CONTEXT_VALID_FP'', ''iregs[29]''),
     (''lr'', Flag ''CONTEXT_VALID_LR'', ''iregs[30]''), (''sp'', Flag ''CONTEXT_VALID_SP'', ''iregs[31]''), (''pc'', Flag ''CONTEXT_VALID_PC'', ''iregs[32]'')]"

definition mips_rows :: "register_row list" where
  "mips_rows =
    [(''gp'', Flag ''CONTEXT_VALID_GP'', ''iregs[MD_CONTEXT_MIPS_REG_GP]''), (''sp'', Flag ''CONTEXT_VALID_SP'', ''iregs[MD_CONTEXT_MIPS_REG_SP]''), (''fp'', Flag ''CONTEXT_VALID_FP'', ''iregs[MD_CONTEXT_MIPS_REG_FP]''),
     (''ra'', Flag ''CONTEXT_VALID_RA'', ''iregs[MD_CONTEXT_MIPS_REG_RA]''), (''pc'', Flag ''CONTEXT_VALID_PC'', ''epc''), (''s0'', Flag ''CONTEXT_VALID_S0'', ''iregs[MD_CONTEXT_MIPS_REG_S0]''),
     (''s1'', Flag ''CONTEXT_VALID_S1'', ''iregs[MD_CONTEXT_MIPS_REG_S1]''), (''s2'', Flag ''CONTEXT_VALID_S2'', ''iregs[MD_CONTEXT_MIPS_REG_S2]''), (''s3'', Flag ''CONTEXT_VALID_S3'', ''iregs[MD_CONTEXT_MIPS_REG_S3]''),
     (''s4'', Flag ''CONTEXT_VALID_S4'', ''iregs[MD_CONTEXT_MIPS_REG_S4]''), (''s5'', Flag ''CONTEXT_VALID_S5'', ''iregs[MD_CONTEXT_MIPS_REG_S5]''), (''s6'', Flag ''CONTEXT_VALID_S6'', ''iregs[MD_CONTEXT_MIPS_REG_S6]''),
     (''s7'', Flag ''CONTEXT_VALID_S7'', ''iregs[MD_CONTEXT_MIPS_REG_S7]'')]"

definition row_valid :: "frame_view \<Rightarrow> register_test \<Rightarrow> bool" where
  "row_valid v test = (case test of Flag flag \<Rightarrow> fv_valid v flag | All_valid \<Rightarrow> fv_all_valid v)"

definition valid_rows :: "frame_view \<Rightarrow> register_row list \<Rightarrow> (string \<times> 64 word) list" where
  "valid_rows v rows = map (\<lambda>(name, test, member). (name, fv_member v member)) (filter (\<lambda>(name, test, member). row_valid v test) rows)"

fun print_registers :: "(string \<Rightarrow> 64 word \<Rightarrow> int \<Rightarrow> string \<times> int) \<Rightarrow> (string \<times> 64 word) list \<Rightarrow> int \<Rightarrow> string" where
  "print_registers print [] column = []"
| "print_registers print ((name, value) # registers) column =
     (case print name value column of (s, column) \<Rightarrow> s @ print_registers print registers column)"

definition cpu_registers :: "string \<Rightarrow> frame_view \<Rightarrow> string" where
  "cpu_registers cpu v =
     (if cpu = ''x86'' then print_registers PrintRegister (valid_rows v x86_rows) 0
      else if cpu = ''ppc'' then print_registers PrintRegister (valid_rows v ppc_rows) 0
      else if cpu = ''amd64'' then print_registers PrintRegister64 (valid_rows v amd64_rows) 0
      else if cpu = ''sparc'' then print_registers PrintRegister (valid_rows v sparc_rows) 0
      else if cpu = ''arm'' then print_registers PrintRegister (valid_rows v arm_rows) 0
      else if cpu = ''arm64'' then print_registers PrintRegister64 (valid_rows v arm64_rows) 0
      else if cpu = ''mips'' \<or> cpu = ''mips64'' then print_registers PrintRegister64 (valid_rows v mips_rows) 0
      else [])"

section \<open>The contents of the stack\<close>

text \<open>The length of a word, the flag of the stack pointer and its member.\<close>

definition stack_pointers :: "string \<Rightarrow> (nat \<times> string \<times> string) option" where
  "stack_pointers = map_of
    [(''x86'', 4, ''CONTEXT_VALID_ESP'', ''esp''), (''amd64'', 8, ''CONTEXT_VALID_RSP'', ''rsp''),
     (''arm'', 4, ''CONTEXT_VALID_SP'', ''iregs[13]''), (''arm64'', 8, ''CONTEXT_VALID_SP'', ''iregs[31]'')]"

text \<open>The word length, 0 for a CPU that is not known, with the range, 0 where a pointer is not valid.\<close>

definition stack_range :: "string \<Rightarrow> frame_view \<Rightarrow> frame_view \<Rightarrow> nat \<times> 64 word \<times> 64 word" where
  "stack_range cpu v prev_frame = (case stack_pointers cpu of
     None \<Rightarrow> (0, 0, 0)
   | Some (word_length, flag, member) \<Rightarrow>
       if fv_valid v flag \<and> fv_valid prev_frame flag then (word_length, fv_member v member, fv_member prev_frame member)
       else (word_length, 0, 0))"

definition kBytesPerRow :: nat where "kBytesPerRow = 16"

definition isprint :: "8 word \<Rightarrow> bool" where
  "isprint b \<longleftrightarrow> 0x20 \<le> b \<and> b < 0x7f"

text \<open>The bytes of a row in hexadecimal and as characters.\<close>

fun row_bytes :: "(64 word \<Rightarrow> 8 word option) \<Rightarrow> 64 word \<Rightarrow> nat \<Rightarrow> 64 word \<Rightarrow> string \<times> string" where
  "row_bytes get8 stack_end 0 address = ([], [])"
| "row_bytes get8 stack_end (Suc n) address =
     (case row_bytes get8 stack_end n (address + 1) of (hex, data_as_string) \<Rightarrow>
        (case (if address < stack_end then get8 address else None) of
           Some value \<Rightarrow> ('' '' @ pad_zeros 2 (show_base 16 (unat value)) @ hex,
             (if isprint value then char_of (unat value) else CHR ''.'') # data_as_string)
         | None \<Rightarrow> (''   '' @ hex, CHR '' '' # data_as_string)))"

definition show_address :: "nat \<Rightarrow> 64 word \<Rightarrow> string" where
  "show_address word_length a = (if word_length = 4 then pad_zeros 8 (show_base 16 (unat (ucast a :: 32 word)))
     else pad_zeros 16 (show_base 16 (unat a)))"

text \<open>Neither loop ends unless the address gets to the end of the range before it wraps around.\<close>

partial_function (option) print_rows :: "string \<Rightarrow> nat \<Rightarrow> (64 word \<Rightarrow> 8 word option) \<Rightarrow> 64 word \<Rightarrow> 64 word \<Rightarrow> string option" where
  "print_rows indent word_length get8 stack_end address =
     (if address < stack_end
      then case row_bytes get8 stack_end kBytesPerRow address of (hex, data_as_string) \<Rightarrow>
        Option.bind (print_rows indent word_length get8 stack_end (address + of_nat kBytesPerRow)) (\<lambda>s.
          Some ([CHR 0x0A] @ indent @ '' '' @ show_address word_length address @ hex @ ''  '' @ data_as_string @ s))
      else Some [])"

text \<open>The word on the stack, 0 where it cannot be read, and the frame that is looked up with it.\<close>

definition stack_word :: "nat \<Rightarrow> memory_region \<Rightarrow> 64 word \<Rightarrow> 64 word" where
  "stack_word word_length memory address =
     (if word_length = 4 then (case mr_get32 memory address of Some v \<Rightarrow> ucast v | None \<Rightarrow> 0)
      else (case mr_get64 memory address of Some v \<Rightarrow> v | None \<Rightarrow> 0))"

definition pointee :: "print_env \<Rightarrow> printed_modules \<Rightarrow> 64 word \<Rightarrow> stack_frame" where
  "pointee e modules data =
     (let f = \<lparr>sf_instruction = data, sf_module = pm_GetModuleForAddress modules data, sf_function_name = [], sf_function_base = 0,
        sf_source_file_name = [], sf_source_line = 0, sf_source_line_base = 0, sf_trust = FRAME_TRUST_NONE\<rparr>
      in if sf_module f \<noteq> None then pn_FillSourceLineInfo e f else f)"

definition print_pointer :: "string \<Rightarrow> nat \<Rightarrow> 64 word \<Rightarrow> stack_frame \<Rightarrow> string" where
  "print_pointer indent word_length address f =
     (if sf_function_name f = [] then []
      else indent @ '' *(0x'' @ show_address word_length address @ '') = 0x'' @ show_address word_length (sf_instruction f) @
        '' <'' @ c_str (sf_function_name f) @ ''> ['' @ c_str (PathnameStripper_File (sf_source_file_name f)) @ '' : '' @
        show_int (sf_source_line f) @ '' + '' @ show_0x (sf_instruction f - sf_source_line_base f) @ '']'' @ [CHR 0x0A])"

partial_function (option) print_pointers :: "print_env \<Rightarrow> printed_modules \<Rightarrow> string \<Rightarrow> nat \<Rightarrow> memory_region \<Rightarrow> 64 word \<Rightarrow> 64 word
    \<Rightarrow> string option" where
  "print_pointers e modules indent word_length memory stack_end address =
     (if address < stack_end
      then Option.bind (print_pointers e modules indent word_length memory stack_end (address + of_nat word_length)) (\<lambda>s.
        Some (print_pointer indent word_length address (pointee e modules (stack_word word_length memory address)) @ s))
      else Some [])"

definition PrintStackContents :: "print_env \<Rightarrow> string \<Rightarrow> frame_view \<Rightarrow> frame_view \<Rightarrow> string \<Rightarrow> memory_region option
    \<Rightarrow> (print_error + string) option" where
  "PrintStackContents e indent v prev_frame cpu memory = (case stack_range cpu v prev_frame of
     (word_length, stack_begin, stack_end) \<Rightarrow>
       if word_length = 0 \<or> stack_begin = 0 \<or> stack_end = 0 then Some (Inr [])
       else if stack_begin \<ge> stack_end
       then Some (Inr ([CHR 0x0A] @ indent @ ''Stack contents:'' @ [CHR 0x0A] @ indent @ ''Possible instruction pointers:'' @
         [CHR 0x0A, CHR 0x0A]))
       else case memory of
         None \<Rightarrow> Some (Inl Null_dereference)
       | Some memory \<Rightarrow>
           Option.bind (print_rows indent word_length (pn_get8 e memory) stack_end stack_begin) (\<lambda>rows.
           case pn_modules e of
             None \<Rightarrow> Some (Inl Null_dereference)
           | Some modules \<Rightarrow>
               map_option (\<lambda>pointers. Inr ([CHR 0x0A] @ indent @ ''Stack contents:'' @ rows @ [CHR 0x0A] @ indent @
                 ''Possible instruction pointers:'' @ [CHR 0x0A] @ pointers @ [CHR 0x0A]))
                 (print_pointers e modules indent word_length memory stack_end stack_begin)))"

section \<open>A stack\<close>

definition frame_place :: "stack_frame \<Rightarrow> 64 word \<Rightarrow> string" where
  "frame_place f instruction_address = (case sf_module f of
     None \<Rightarrow> show_0x instruction_address
   | Some m \<Rightarrow> c_str (PathnameStripper_File (cm_code_file m)) @
       (if sf_function_name f \<noteq> []
        then ''!'' @ c_str (sf_function_name f) @
          (if sf_source_file_name f \<noteq> []
           then '' ['' @ c_str (PathnameStripper_File (sf_source_file_name f)) @ '' : '' @ show_int (sf_source_line f) @ '' + '' @
             show_0x (instruction_address - sf_source_line_base f) @ '']''
           else '' + '' @ show_0x (instruction_address - sf_function_base f))
        else '' + '' @ show_0x (instruction_address - cm_base_address m)))"

fun print_frames :: "print_env \<Rightarrow> string \<Rightarrow> bool \<Rightarrow> memory_region option \<Rightarrow> int \<Rightarrow> stack_frame list \<Rightarrow> (print_error + string) option" where
  "print_frames e cpu output_stack_contents memory frame_index [] = Some (Inr [])"
| "print_frames e cpu output_stack_contents memory frame_index (f # frames) =
     (let v = pn_view e f;
          head = pad_left 2 (show_int frame_index) @ ''  '' @ frame_place f (fv_return_address v) @ [CHR 0x0A, CHR '' ''] @
            cpu_registers cpu v @ [CHR 0x0A] @ ''    Found by: '' @ c_str (fv_trust_description v) @ [CHR 0x0A] in
      obind (if output_stack_contents \<and> frames \<noteq> []
          then PrintStackContents e ''    '' v (pn_view e (hd frames)) cpu memory else Some (Inr [])) (\<lambda>contents.
      obind (print_frames e cpu output_stack_contents memory (frame_index + 1) frames) (\<lambda>rest.
        Some (Inr (head @ contents @ rest)))))"

definition PrintStack :: "print_env \<Rightarrow> string \<Rightarrow> bool \<Rightarrow> memory_region option \<Rightarrow> stack_frame list \<Rightarrow> (print_error + string) option" where
  "PrintStack e cpu output_stack_contents memory frames =
     obind (print_frames e cpu output_stack_contents memory 0 frames) (\<lambda>s.
       Some (Inr ((if frames = [] then '' <no frames>'' @ [CHR 0x0A] else []) @ s)))"

definition sep :: string where "sep = [kOutputSeparator]"

definition machine_frame :: "print_env \<Rightarrow> int \<Rightarrow> int \<Rightarrow> stack_frame \<Rightarrow> print_error + string" where
  "machine_frame e thread_num frame_index f =
     (let instruction_address = fv_return_address (pn_view e f); start = show_int thread_num @ sep @ show_int frame_index @ sep in
      case sf_module f of
        None \<Rightarrow> Inr (start @ sep @ sep @ sep @ sep @ show_0x instruction_address @ [CHR 0x0A])
      | Some m \<Rightarrow>
          if cm_code_file m = [] then Inl Assertion_failed
          else Inr (start @ c_str (StripSeparator (PathnameStripper_File (cm_code_file m))) @
            (if sf_function_name f \<noteq> []
             then sep @ c_str (StripSeparator (sf_function_name f)) @
               (if sf_source_file_name f \<noteq> []
                then sep @ c_str (StripSeparator (sf_source_file_name f)) @ sep @ show_int (sf_source_line f) @ sep @
                  show_0x (instruction_address - sf_source_line_base f)
                else sep @ sep @ sep @ show_0x (instruction_address - sf_function_base f))
             else sep @ sep @ sep @ sep @ show_0x (instruction_address - cm_base_address m)) @ [CHR 0x0A]))"

fun machine_frames :: "print_env \<Rightarrow> int \<Rightarrow> int \<Rightarrow> stack_frame list \<Rightarrow> print_error + string" where
  "machine_frames e thread_num frame_index [] = Inr []"
| "machine_frames e thread_num frame_index (f # frames) =
     ebind (machine_frame e thread_num frame_index f) (\<lambda>s.
     ebind (machine_frames e thread_num (frame_index + 1) frames) (\<lambda>rest. Inr (s @ rest)))"

definition PrintStackMachineReadable :: "print_env \<Rightarrow> int \<Rightarrow> stack_frame list \<Rightarrow> print_error + string" where
  "PrintStackMachineReadable e thread_num = machine_frames e thread_num 0"

section \<open>Modules\<close>

definition ContainsModule :: "codemodule list \<Rightarrow> codemodule \<Rightarrow> bool" where
  "ContainsModule modules m \<longleftrightarrow>
     list_ex (\<lambda>x. cm_debug_file m = cm_debug_file x \<and> cm_debug_identifier m = cm_debug_identifier x) modules"

definition symbol_issues :: "codemodule list \<Rightarrow> codemodule list \<Rightarrow> codemodule \<Rightarrow> string" where
  "symbol_issues modules_without_symbols modules_with_corrupt_symbols m =
     (if ContainsModule modules_without_symbols m
      then ''  (WARNING: No symbols, '' @ PathnameStripper_File (cm_debug_file m) @ '', '' @ cm_debug_identifier m @ '')''
      else if ContainsModule modules_with_corrupt_symbols m
      then ''  (WARNING: Corrupt symbols, '' @ PathnameStripper_File (cm_debug_file m) @ '', '' @ cm_debug_identifier m @ '')''
      else [])"

definition show_bound :: "64 word \<Rightarrow> string" where
  "show_bound a = ''0x'' @ pad_zeros 8 (show_base 16 (unat a))"

definition PrintModule :: "codemodule \<Rightarrow> codemodule list \<Rightarrow> codemodule list \<Rightarrow> 64 word \<Rightarrow> string" where
  "PrintModule m modules_without_symbols modules_with_corrupt_symbols main_address =
     (let base_address = cm_base_address m in
      show_bound base_address @ '' - '' @ show_bound (base_address + cm_size m - 1) @ ''  '' @
        c_str (PathnameStripper_File (cm_code_file m)) @ ''  '' @ (if cm_version m = [] then ''???'' else c_str (cm_version m)) @
        (if main_address \<noteq> 0 \<and> base_address = main_address then ''  (main)'' else []) @
        c_str (symbol_issues modules_without_symbols modules_with_corrupt_symbols m) @ [CHR 0x0A])"

definition main_address :: "printed_modules \<Rightarrow> 64 word" where
  "main_address modules = (case pm_GetMainModule modules of None \<Rightarrow> 0 | Some m \<Rightarrow> cm_base_address m)"

text \<open>Each module of the sequence in turn; a null one is an assertion or a null pointer.\<close>

fun for_modules :: "print_error \<Rightarrow> (codemodule \<Rightarrow> 'a) \<Rightarrow> codemodule option list \<Rightarrow> print_error + 'a list" where
  "for_modules err f [] = Inr []"
| "for_modules err f (m # modules) = (case m of
     None \<Rightarrow> Inl err
   | Some m \<Rightarrow> ebind (for_modules err f modules) (\<lambda>rest. Inr (f m # rest)))"

definition PrintModules :: "printed_modules option \<Rightarrow> codemodule list \<Rightarrow> codemodule list \<Rightarrow> print_error + string" where
  "PrintModules modules modules_without_symbols modules_with_corrupt_symbols = (case modules of
     None \<Rightarrow> Inr []
   | Some modules \<Rightarrow>
       ebind (for_modules Assertion_failed
           (\<lambda>m. PrintModule m modules_without_symbols modules_with_corrupt_symbols (main_address modules)) (pm_sequence modules))
         (\<lambda>ms. Inr ([CHR 0x0A] @ ''Loaded modules:'' @ [CHR 0x0A] @ concat ms)))"

definition machine_module :: "printed_modules \<Rightarrow> codemodule \<Rightarrow> string" where
  "machine_module modules m =
     (let base_address = cm_base_address m in
      ''Module'' @ sep @ c_str (StripSeparator (PathnameStripper_File (cm_code_file m))) @ sep @
        c_str (StripSeparator (cm_version m)) @ sep @ c_str (StripSeparator (PathnameStripper_File (cm_debug_file m))) @ sep @
        c_str (StripSeparator (cm_debug_identifier m)) @ sep @ show_bound base_address @ sep @
        show_bound (base_address + cm_size m - 1) @ sep @
        show_int (if pm_GetMainModule modules \<noteq> None \<and> base_address = main_address modules then 1 else 0) @ [CHR 0x0A])"

definition PrintModulesMachineReadable :: "printed_modules option \<Rightarrow> print_error + string" where
  "PrintModulesMachineReadable modules = (case modules of
     None \<Rightarrow> Inr []
   | Some modules \<Rightarrow> ebind (for_modules Null_dereference (machine_module modules) (pm_sequence modules)) (\<lambda>ms. Inr (concat ms)))"

section \<open>The process\<close>

text \<open>\<open>vector::at\<close> with an \<open>int\<close>, which is converted to an unsigned size.\<close>

definition vector_at :: "'a list \<Rightarrow> int \<Rightarrow> print_error + 'a" where
  "vector_at xs i = (if i < 0 \<or> i \<ge> int (length xs) then Inl Out_of_range else Inr (xs ! nat i))"

text \<open>The threads in the order they are printed: the requesting one first, if it is known.\<close>

definition thread_order :: "process_state \<Rightarrow> int list" where
  "thread_order ps = (if ps_requesting_thread ps \<noteq> - 1 then [ps_requesting_thread ps] else []) @
     filter (\<lambda>i. i \<noteq> ps_requesting_thread ps) (map int [0..<length (ps_threads ps)])"

definition print_system :: "print_env \<Rightarrow> system_info \<Rightarrow> string" where
  "print_system e i = (case pn_gl e of (gl_version, gl_vendor, gl_renderer) \<Rightarrow>
     let nl = [CHR 0x0A] in
     ''Operating system: '' @ c_str (si_os i) @ nl @ ''                  '' @ c_str (si_os_version i) @ nl @
     ''CPU: '' @ c_str (si_cpu i) @ nl @ (if si_cpu_info i \<noteq> [] then ''     '' @ c_str (si_cpu_info i) @ nl else []) @
     ''     '' @ show_int (sint (si_cpu_count i)) @ '' CPU'' @ (if si_cpu_count i \<noteq> 1 then ''s'' else []) @ nl @ nl @
     ''GPU:'' @ (if gl_version \<noteq> [] \<or> gl_vendor \<noteq> [] \<or> gl_renderer \<noteq> []
       then '' '' @ c_str gl_version @ nl @ ''     '' @ c_str gl_vendor @ nl @ ''     '' @ c_str gl_renderer @ nl
       else '' UNKNOWN'' @ nl) @ nl)"

definition print_crash :: "process_state \<Rightarrow> string" where
  "print_crash ps = (let nl = [CHR 0x0A] in
     (if ps_crashed ps then ''Crash reason:  '' @ c_str (ps_crash_reason ps) @ nl @ ''Crash address: '' @ show_0x (ps_crash_address ps) @ nl
      else ''No crash'' @ nl) @
     (if ps_assertion ps \<noteq> [] then ''Assertion: '' @ c_str (ps_assertion ps) @ nl else []) @
     (if ps_time_date_stamp ps \<noteq> 0 \<and> ps_process_create_time ps \<noteq> 0 \<and> ps_time_date_stamp ps \<ge> ps_process_create_time ps
      then ''Process uptime: '' @ show_int (sint (ps_time_date_stamp ps - ps_process_create_time ps)) @ '' seconds'' @ nl
      else ''Process uptime: not available'' @ nl))"

text \<open>One thread: the line before its stack, and the stack with the thread's memory.\<close>

definition print_thread :: "print_env \<Rightarrow> bool \<Rightarrow> process_state \<Rightarrow> int \<Rightarrow> (print_error + string) option" where
  "print_thread e output_stack_contents ps i =
     obind (Some (vector_at (ps_threads ps) i)) (\<lambda>stack.
     obind (Some (vector_at (ps_thread_memory_regions ps) i)) (\<lambda>memory.
     obind (PrintStack e (si_cpu (ps_system_info ps)) output_stack_contents memory (cs_frames stack)) (\<lambda>s.
       Some (Inr ([CHR 0x0A] @ ''Thread '' @ show_int i @
         (if i = ps_requesting_thread ps then (if ps_crashed ps then '' (crashed)'' else '' (requested dump, did not crash)'') else []) @
         [CHR 0x0A] @ s)))))"

fun print_threads :: "print_env \<Rightarrow> bool \<Rightarrow> process_state \<Rightarrow> int list \<Rightarrow> (print_error + string) option" where
  "print_threads e output_stack_contents ps [] = Some (Inr [])"
| "print_threads e output_stack_contents ps (i # threads) =
     obind (print_thread e output_stack_contents ps i) (\<lambda>s.
     obind (print_threads e output_stack_contents ps threads) (\<lambda>rest. Some (Inr (s @ rest))))"

definition PrintProcessState :: "print_env \<Rightarrow> bool \<Rightarrow> process_state \<Rightarrow> (print_error + string) option" where
  "PrintProcessState e output_stack_contents ps =
     obind (print_threads e output_stack_contents ps (thread_order ps)) (\<lambda>threads.
     obind (Some (PrintModules (pn_modules e) (ps_modules_without_symbols ps) (ps_modules_with_corrupt_symbols ps))) (\<lambda>modules.
       Some (Inr (print_system e (ps_system_info ps) @ print_crash ps @ threads @ modules))))"

definition machine_system :: "print_env \<Rightarrow> system_info \<Rightarrow> string" where
  "machine_system e i = (case pn_gl e of (gl_version, gl_vendor, gl_renderer) \<Rightarrow>
     let nl = [CHR 0x0A] in
     ''OS'' @ sep @ c_str (StripSeparator (si_os i)) @ sep @ c_str (StripSeparator (si_os_version i)) @ nl @
     ''CPU'' @ sep @ c_str (StripSeparator (si_cpu i)) @ sep @ c_str (StripSeparator (si_cpu_info i)) @ sep @
       show_int (sint (si_cpu_count i)) @ nl @
     ''GPU'' @ sep @ c_str (StripSeparator gl_version) @ sep @ c_str (StripSeparator gl_vendor) @ sep @
       c_str (StripSeparator gl_renderer) @ nl)"

definition machine_crash :: "process_state \<Rightarrow> string" where
  "machine_crash ps =
     ''Crash'' @ sep @
     (if ps_crashed ps then c_str (StripSeparator (ps_crash_reason ps)) @ sep @ show_0x (ps_crash_address ps) @ sep
      else if ps_assertion ps \<noteq> [] then c_str (StripSeparator (ps_assertion ps)) @ sep @ sep
      else ''No crash'' @ sep @ sep) @
     (if ps_requesting_thread ps \<noteq> - 1 then show_int (ps_requesting_thread ps) else []) @ [CHR 0x0A]"

fun machine_threads :: "print_env \<Rightarrow> process_state \<Rightarrow> int list \<Rightarrow> print_error + string" where
  "machine_threads e ps [] = Inr []"
| "machine_threads e ps (i # threads) =
     ebind (vector_at (ps_threads ps) i) (\<lambda>stack.
     ebind (PrintStackMachineReadable e i (cs_frames stack)) (\<lambda>s.
     ebind (machine_threads e ps threads) (\<lambda>rest. Inr (s @ rest))))"

definition PrintProcessStateMachineReadable :: "print_env \<Rightarrow> process_state \<Rightarrow> print_error + string" where
  "PrintProcessStateMachineReadable e ps =
     ebind (PrintModulesMachineReadable (pn_modules e)) (\<lambda>modules.
     ebind (machine_threads e ps (thread_order ps)) (\<lambda>threads.
       Inr (machine_system e (ps_system_info ps) @ machine_crash ps @ modules @ [CHR 0x0A] @ threads)))"

section \<open>The trace for Java\<close>

record frame_info =
  fi_frameId :: int
  fi_funcName :: string
  fi_srcFileName :: string
  fi_binFileName :: string
  fi_srcFileOffset :: int
  fi_funcOffset :: "64 word"
  fi_regs :: "(string \<times> 64 word) list"

record thread_info =
  ti_threadId :: int
  ti_frames :: "frame_info list"

record module_info =
  oi_name :: string
  oi_version :: string
  oi_symIssues :: string
  oi_baseAddr :: "64 word"
  oi_size :: "64 word"

record rf_stack_trace =
  rf_crashCause :: string
  rf_crashAddress :: "64 word"
  rf_os :: string
  rf_cpu :: string
  rf_threads :: "thread_info list"
  rf_modules :: "module_info list"

definition addRegInfo :: "string \<times> 64 word \<Rightarrow> frame_info \<Rightarrow> frame_info" where
  "addRegInfo reg f = f\<lparr>fi_regs := fi_regs f @ [reg]\<rparr>"

definition addFrame :: "frame_info \<Rightarrow> thread_info \<Rightarrow> thread_info" where
  "addFrame f t = t\<lparr>ti_frames := ti_frames t @ [f]\<rparr>"

definition addThread :: "thread_info \<Rightarrow> rf_stack_trace \<Rightarrow> rf_stack_trace" where
  "addThread t rf = rf\<lparr>rf_threads := rf_threads rf @ [t]\<rparr>"

definition addModule :: "module_info \<Rightarrow> rf_stack_trace \<Rightarrow> rf_stack_trace" where
  "addModule m rf = rf\<lparr>rf_modules := rf_modules rf @ [m]\<rparr>"

definition RfPrintModule :: "codemodule \<Rightarrow> codemodule list \<Rightarrow> codemodule list \<Rightarrow> module_info" where
  "RfPrintModule m modules_without_symbols modules_with_corrupt_symbols =
     \<lparr>oi_name = PathnameStripper_File (cm_code_file m), oi_version = (if cm_version m = [] then ''???'' else cm_version m),
      oi_symIssues = symbol_issues modules_without_symbols modules_with_corrupt_symbols m, oi_baseAddr = cm_base_address m,
      oi_size = cm_size m - 1\<rparr>"

definition RfPrintModules :: "printed_modules option \<Rightarrow> codemodule list \<Rightarrow> codemodule list \<Rightarrow> rf_stack_trace
    \<Rightarrow> print_error + rf_stack_trace" where
  "RfPrintModules modules modules_without_symbols modules_with_corrupt_symbols rf = (case modules of
     None \<Rightarrow> Inr rf
   | Some modules \<Rightarrow>
       ebind (for_modules Assertion_failed (\<lambda>m. RfPrintModule m modules_without_symbols modules_with_corrupt_symbols) (pm_sequence modules))
         (\<lambda>ms. Inr (fold addModule ms rf)))"

text \<open>The tables of the registers for people are also those of the three CPUs that have them here.\<close>

definition rf_rows :: "string \<Rightarrow> register_row list" where
  "rf_rows cpu = (if cpu = ''arm'' then arm_rows else if cpu = ''x86'' then x86_rows else if cpu = ''amd64'' then amd64_rows else [])"

text \<open>\<open>new_frame\<close> is what the constructor of \<open>FrameInfo\<close>, in a header, makes.\<close>

definition rf_frame :: "print_env \<Rightarrow> frame_info \<Rightarrow> string \<Rightarrow> int \<Rightarrow> stack_frame \<Rightarrow> frame_info" where
  "rf_frame e new_frame cpu frame_index f =
     (let v = pn_view e f; instruction_address = fv_return_address v; i = new_frame\<lparr>fi_frameId := frame_index\<rparr>;
          i = (case sf_module f of
            None \<Rightarrow> i\<lparr>fi_funcOffset := instruction_address\<rparr>
          | Some m \<Rightarrow>
              let i = i\<lparr>fi_binFileName := PathnameStripper_File (cm_code_file m)\<rparr> in
              if sf_function_name f \<noteq> []
              then let i = i\<lparr>fi_funcName := sf_function_name f\<rparr> in
                if sf_source_file_name f \<noteq> []
                then i\<lparr>fi_srcFileName := PathnameStripper_File (sf_source_file_name f), fi_srcFileOffset := sf_source_line f,
                  fi_funcOffset := instruction_address - sf_source_line_base f\<rparr>
                else i\<lparr>fi_funcOffset := instruction_address - sf_function_base f\<rparr>
              else i\<lparr>fi_funcOffset := instruction_address - cm_base_address m\<rparr>)
      in fold addRegInfo (valid_rows v (rf_rows cpu)) i)"

fun rf_frames :: "print_env \<Rightarrow> frame_info \<Rightarrow> string \<Rightarrow> int \<Rightarrow> stack_frame list \<Rightarrow> thread_info \<Rightarrow> thread_info" where
  "rf_frames e new_frame cpu frame_index [] t = t"
| "rf_frames e new_frame cpu frame_index (f # frames) t =
     rf_frames e new_frame cpu (frame_index + 1) frames (addFrame (rf_frame e new_frame cpu frame_index f) t)"

definition RfPrintStack :: "print_env \<Rightarrow> frame_info \<Rightarrow> string \<Rightarrow> stack_frame list \<Rightarrow> thread_info \<Rightarrow> thread_info" where
  "RfPrintStack e new_frame cpu frames t = (if frames = [] then t else rf_frames e new_frame cpu 0 frames t)"

fun rf_add_threads :: "print_env \<Rightarrow> frame_info \<Rightarrow> process_state \<Rightarrow> int list \<Rightarrow> rf_stack_trace \<Rightarrow> print_error + rf_stack_trace" where
  "rf_add_threads e new_frame ps [] rf = Inr rf"
| "rf_add_threads e new_frame ps (i # threads) rf =
     ebind (vector_at (ps_threads ps) i) (\<lambda>stack.
     ebind (vector_at (ps_thread_memory_regions ps) i) (\<lambda>memory.
       rf_add_threads e new_frame ps threads
         (addThread (RfPrintStack e new_frame (si_cpu (ps_system_info ps)) (cs_frames stack) \<lparr>ti_threadId = i, ti_frames = []\<rparr>) rf)))"

definition RfPrintProcessState :: "print_env \<Rightarrow> frame_info \<Rightarrow> process_state \<Rightarrow> rf_stack_trace \<Rightarrow> print_error + rf_stack_trace" where
  "RfPrintProcessState e new_frame ps rf =
     (let i = ps_system_info ps;
          rf = rf\<lparr>rf_cpu := si_cpu i @ '' ['' @ si_cpu_info i @ '']'', rf_os := c_str (si_os i) @ '' ['' @ c_str (si_os_version i) @ '']''\<rparr>;
          rf = (if ps_crashed ps then rf\<lparr>rf_crashCause := ps_crash_reason ps, rf_crashAddress := ps_crash_address ps\<rparr>
            else rf\<lparr>rf_crashCause := ''No Crash''\<rparr>) in
      ebind (rf_add_threads e new_frame ps (thread_order ps) rf)
        (RfPrintModules (pn_modules e) (ps_modules_without_symbols ps) (ps_modules_with_corrupt_symbols ps)))"

text \<open>
  The whole of it: the dump as it was read, \<open>None\<close> where it could not be, is processed into a new
  state. What the processor is run with is \<open>pe\<close>, and \<open>env\<close> is what the state's objects answer.
\<close>

datatype rf_error = Processing run_error | Printing print_error

definition RfMinidumpProcess :: "('ctx, 'y) processor_env \<Rightarrow> (process_state \<Rightarrow> print_env) \<Rightarrow> frame_info \<Rightarrow> process_state \<Rightarrow> 'y
    \<Rightarrow> 'ctx dump option \<Rightarrow> rf_stack_trace \<Rightarrow> rf_error + (int \<times> rf_stack_trace)" where
  "RfMinidumpProcess pe env new_frame new_state sy dump rf = (case dump of
     None \<Rightarrow> Inr (- 1, rf)
   | Some d \<Rightarrow>
       (case Process pe d new_state sy of
          Inl err \<Rightarrow> Inl (Processing err)
        | Inr (result, ps, sy) \<Rightarrow>
            if result \<noteq> PROCESS_OK then Inr (- 1, rf)
            else (case RfPrintProcessState (env ps) new_frame ps rf of
              Inl err \<Rightarrow> Inl (Printing err) | Inr rf \<Rightarrow> Inr (0, rf))))"

end
