(* ===== verification/Print_Facts.thy ===== *)
theory Print_Facts
  imports Stack_Print Exploit_Facts
begin

text \<open>
  What the printers of the processed state do: the output for programs can be read back field by
  field, the trace for Java is complete for every dump that was processed, and the printing of a
  stack's contents returns exactly if the addresses do not wrap around.
\<close>

section \<open>Fields\<close>

lemma find_from_least:
  "find_from c s p = Some k \<Longrightarrow> p \<le> length s \<Longrightarrow> p \<le> k \<and> k < length s \<and> s ! k = c \<and> c \<notin> set (take (k - p) (drop p s))"
  using nth_length_takeWhile [of "\<lambda>x. x \<noteq> c" "drop p s"] set_takeWhileD [of c "\<lambda>x. x \<noteq> c" "drop p s"]
  by (auto simp: find_from_def Let_def takeWhile_eq_take [symmetric] split: if_splits)

lemma find_from_char: "find_from c s p = map_option ((+) p) (find_char c (drop p s))"
  by (auto simp: find_from_def find_char_def Let_def)

lemma find_from_none: "find_from c s p = None \<Longrightarrow> c \<notin> set (drop p s)"
  by (simp add: find_from_char find_char_none)

lemma erase_all_from:
  "p \<le> length s \<Longrightarrow> erase_all c s p = take p s @ filter (\<lambda>x. x \<noteq> c) (drop p s)"
proof (induction c s p rule: erase_all.induct)
  case (1 c s p)
  show ?case
  proof (cases "find_from c s p")
    case None
    then have "filter (\<lambda>x. x \<noteq> c) (drop p s) = drop p s" using find_from_none by (fastforce simp: filter_id_conv)
    then show ?thesis using None by (simp add: erase_all.simps [of c s p])
  next
    case (Some k)
    let ?t = "take k s @ drop (k + 1) s"
    have k: "p \<le> k" "k < length s" "s ! k = c" "c \<notin> set (take (k - p) (drop p s))"
      using find_from_least [OF Some] 1(2) by auto
    have "erase_all c s p = erase_all c ?t k" using Some by (simp add: erase_all.simps [of c s p])
    also have "\<dots> = take k ?t @ filter (\<lambda>x. x \<noteq> c) (drop k ?t)" using 1(1) [OF Some] k by simp
    also have "\<dots> = take k s @ filter (\<lambda>x. x \<noteq> c) (drop (k + 1) s)" using k by simp
    also have "take k s = take p s @ take (k - p) (drop p s)" using k(1) by (metis le_add_diff_inverse take_add)
    also have "take (k - p) (drop p s) = filter (\<lambda>x. x \<noteq> c) (take (k - p) (drop p s))"
      using k(4) by (metis (mono_tags, lifting) filter_True)
    finally have e: "erase_all c s p =
      take p s @ filter (\<lambda>x. x \<noteq> c) (take (k - p) (drop p s)) @ filter (\<lambda>x. x \<noteq> c) (drop (k + 1) s)" by simp
    have "drop p s = take (k - p) (drop p s) @ c # drop (k + 1) s"
      using k by (metis Cons_nth_drop_Suc Suc_eq_plus1 append_take_drop_id drop_drop le_add_diff_inverse2)
    then have "filter (\<lambda>x. x \<noteq> c) (drop p s) = filter (\<lambda>x. x \<noteq> c) (take (k - p) (drop p s)) @ filter (\<lambda>x. x \<noteq> c) (drop (k + 1) s)"
      by (metis (mono_tags, lifting) filter.simps(2) filter_append)
    then show ?thesis using e by simp
  qed
qed

lemma StripSeparator_filter: "StripSeparator s = filter (\<lambda>c. c \<noteq> CHR ''|'' \<and> c \<noteq> CHR 0x0A) s"
  by (simp add: StripSeparator_def erase_all_from kOutputSeparator_def conj_commute)

text \<open>A field, and the fields of a line with the separator between them.\<close>

definition clean :: "string \<Rightarrow> bool" where
  "clean s \<longleftrightarrow> CHR ''|'' \<notin> set s \<and> CHR 0x0A \<notin> set s"

fun join_fields :: "string list \<Rightarrow> string" where
  "join_fields [] = []"
| "join_fields [s] = s"
| "join_fields (s # columns) = s @ CHR ''|'' # join_fields columns"

fun split_fields :: "string \<Rightarrow> string \<Rightarrow> string list" where
  "split_fields field [] = [field]"
| "split_fields field (c # s) = (if c = CHR ''|'' then field # split_fields [] s else split_fields (field @ [c]) s)"

lemma split_fields_clean: "CHR ''|'' \<notin> set s \<Longrightarrow> split_fields field (s @ rest) = split_fields (field @ s) rest"
  by (induction s arbitrary: field) auto

lemma split_join: "list_all clean columns \<Longrightarrow> columns \<noteq> [] \<Longrightarrow> split_fields [] (join_fields columns) = columns"
proof (induction columns rule: join_fields.induct)
  case (2 s)
  then show ?case using split_fields_clean [of s "[]" "[]"] by (simp add: clean_def)
next
  case (3 s t columns)
  then show ?case using split_fields_clean [of s "[]" "CHR ''|'' # join_fields (t # columns)"] by (simp add: clean_def)
qed simp

lemma join_no_newline: "list_all clean columns \<Longrightarrow> CHR 0x0A \<notin> set (join_fields columns)"
  by (induction columns rule: join_fields.induct) (auto simp: clean_def)

named_theorems clean_intros \<open>strings that are one field\<close>

lemma clean_stripped [clean_intros]: "clean (c_str (StripSeparator s))"
  by (auto simp: clean_def c_str_def StripSeparator_filter dest: set_takeWhileD)

lemma clean_digits: "clean (show_base b n)" if "2 \<le> b" "b \<le> 16"
  using show_base_digits [OF that, of n] by (auto simp: clean_def is_base_digit_def digit_val_def Let_def)

lemma clean_numbers [clean_intros]: "clean (show_int i)" "clean (show_0x w)" "clean (show_bound w)"
  using clean_digits [of 10 "nat i"] clean_digits [of 10 "nat (- i)"] clean_digits [of 16 "unat w"]
  by (auto simp: clean_def show_int_def show_0x_def show_bound_def pad_zeros_def)

lemma clean_names [clean_intros]: "clean []" "clean ''OS''" "clean ''CPU''" "clean ''GPU''" "clean ''Crash''" "clean ''No crash''" "clean ''Module''"
  by (simp_all add: clean_def)

text \<open>Lines of fields, and the text they are printed as.\<close>

definition line_text :: "string list list \<Rightarrow> string" where
  "line_text lines = unlines (map join_fields lines)"

lemma line_text_append: "line_text (a @ b) = line_text a @ line_text b"
  by (simp add: line_text_def unlines_def)

lemma line_text_read:
  assumes "\<forall>columns \<in> set lines. list_all clean columns \<and> columns \<noteq> []"
  shows "map (split_fields []) (stream_lines [] (line_text lines)) = lines"
proof -
  have "stream_lines [] (line_text lines) = map join_fields lines"
    unfolding line_text_def using assms join_no_newline by (intro stream_lines_unlines) auto
  then show ?thesis using assms split_join by (induction lines) (auto simp: map_idI)
qed

section \<open>The output for programs\<close>

definition stripped :: "string \<Rightarrow> string" where
  "stripped s = c_str (StripSeparator s)"

definition system_lines :: "print_env \<Rightarrow> system_info \<Rightarrow> string list list" where
  "system_lines e i = (case pn_gl e of (gl_version, gl_vendor, gl_renderer) \<Rightarrow>
     [[''OS'', stripped (si_os i), stripped (si_os_version i)],
      [''CPU'', stripped (si_cpu i), stripped (si_cpu_info i), show_int (sint (si_cpu_count i))],
      [''GPU'', stripped gl_version, stripped gl_vendor, stripped gl_renderer]])"

definition crash_line_of :: "process_state \<Rightarrow> string list" where
  "crash_line_of ps =
     [''Crash'', if ps_crashed ps then stripped (ps_crash_reason ps)
        else if ps_assertion ps \<noteq> [] then stripped (ps_assertion ps) else ''No crash'',
      if ps_crashed ps then show_0x (ps_crash_address ps) else [],
      if ps_requesting_thread ps \<noteq> - 1 then show_int (ps_requesting_thread ps) else []]"

definition module_line :: "printed_modules \<Rightarrow> codemodule \<Rightarrow> string list" where
  "module_line modules m =
     [''Module'', stripped (PathnameStripper_File (cm_code_file m)), stripped (cm_version m),
      stripped (PathnameStripper_File (cm_debug_file m)), stripped (cm_debug_identifier m), show_bound (cm_base_address m),
      show_bound (cm_base_address m + cm_size m - 1),
      show_int (if pm_GetMainModule modules \<noteq> None \<and> cm_base_address m = main_address modules then 1 else 0)]"

text \<open>The columns of a frame: the thread and the frame, the module, function, source file and line, the offset.\<close>

definition frame_line :: "print_env \<Rightarrow> int \<Rightarrow> int \<Rightarrow> stack_frame \<Rightarrow> string list" where
  "frame_line e thread_num frame_index f =
     (let a = fv_return_address (pn_view e f) in
      [show_int thread_num, show_int frame_index] @
      (case sf_module f of
         None \<Rightarrow> [[], [], [], [], show_0x a]
       | Some m \<Rightarrow> stripped (PathnameStripper_File (cm_code_file m)) #
           (if sf_function_name f = [] then [[], [], [], show_0x (a - cm_base_address m)]
            else stripped (sf_function_name f) #
              (if sf_source_file_name f = [] then [[], [], show_0x (a - sf_function_base f)]
               else [stripped (sf_source_file_name f), show_int (sf_source_line f), show_0x (a - sf_source_line_base f)]))))"

definition module_lines :: "printed_modules option \<Rightarrow> string list list" where
  "module_lines modules = (case modules of None \<Rightarrow> [] | Some ms \<Rightarrow> map (module_line ms \<circ> the) (pm_sequence ms))"

definition thread_lines :: "print_env \<Rightarrow> process_state \<Rightarrow> int \<Rightarrow> string list list" where
  "thread_lines e ps i =
     (let frames = cs_frames (ps_threads ps ! nat i) in map (\<lambda>k. frame_line e i (int k) (frames ! k)) [0..<length frames])"

lemmas line_defs = line_text_def unlines_def sep_def kOutputSeparator_def stripped_def

lemma machine_system_lines: "machine_system e i = line_text (system_lines e i)"
  by (simp add: machine_system_def system_lines_def line_defs Let_def split: prod.split)

lemma machine_crash_lines: "machine_crash ps = line_text [crash_line_of ps]"
  by (simp add: machine_crash_def crash_line_of_def line_defs)

lemma machine_module_line: "machine_module modules m = line_text [module_line modules m]"
  by (simp add: machine_module_def module_line_def line_defs Let_def)

lemma for_modules_Inr: "for_modules err f ms = Inr xs \<longleftrightarrow> None \<notin> set ms \<and> xs = map (f \<circ> the) ms"
  by (induction ms arbitrary: xs) (auto split: option.splits)

lemma machine_modules_lines:
  assumes "PrintModulesMachineReadable modules = Inr out"
  shows "out = line_text (module_lines modules)"
proof (cases modules)
  case (Some ms)
  have "concat (map (machine_module ms \<circ> the) l) = line_text (map (module_line ms \<circ> the) l)" for l
    by (induction l) (auto simp: machine_module_line line_text_def unlines_def)
  then show ?thesis using assms Some by (auto simp: PrintModulesMachineReadable_def module_lines_def for_modules_Inr)
qed (use assms in \<open>simp add: PrintModulesMachineReadable_def module_lines_def line_text_def unlines_def\<close>)

lemma machine_frame_line:
  "machine_frame e t i f = Inr out \<Longrightarrow> out = line_text [frame_line e t i f]"
proof -
  assume f: "machine_frame e t i f = Inr out"
  show "out = line_text [frame_line e t i f]"
  proof (cases "sf_module f")
    case None
    then show ?thesis using f by (simp add: machine_frame_def frame_line_def line_defs Let_def)
  next
    case (Some m)
    then have "cm_code_file m \<noteq> []" using f by (auto simp: machine_frame_def Let_def)
    then show ?thesis using f Some
      by (cases "sf_function_name f = []"; cases "sf_source_file_name f = []")
        (simp_all add: machine_frame_def frame_line_def line_defs Let_def)
  qed
qed

lemma machine_frames_lines:
  "machine_frames e t i frames = Inr out \<Longrightarrow>
    out = line_text (map (\<lambda>k. frame_line e t (i + int k) (frames ! k)) [0..<length frames])"
proof (induction frames arbitrary: i out)
  case (Cons f frames)
  then obtain a b where ab: "machine_frame e t i f = Inr a" "machine_frames e t (i + 1) frames = Inr b" "out = a @ b" by auto
  have "[0..<length (f # frames)] = 0 # map Suc [0..<length frames]" by (simp add: map_Suc_upt upt_conv_Cons del: upt_Suc)
  then have "map (\<lambda>k. frame_line e t (i + int k) ((f # frames) ! k)) [0..<length (f # frames)] =
      frame_line e t i f # map (\<lambda>k. frame_line e t (i + 1 + int k) (frames ! k)) [0..<length frames]"
    by (simp add: comp_def algebra_simps del: upt_Suc)
  moreover have "out = line_text ([frame_line e t i f] @ map (\<lambda>k. frame_line e t (i + 1 + int k) (frames ! k)) [0..<length frames])"
    unfolding ab(3) machine_frame_line [OF ab(1)] Cons.IH [OF ab(2)] by (rule line_text_append [symmetric])
  ultimately show ?case by simp
qed (simp add: line_text_def unlines_def)

lemma machine_threads_lines:
  "machine_threads e ps threads = Inr out \<Longrightarrow> out = line_text (concat (map (thread_lines e ps) threads))"
proof (induction threads arbitrary: out)
  case (Cons i threads)
  then obtain stack a b where s: "vector_at (ps_threads ps) i = Inr stack" "machine_frames e i 0 (cs_frames stack) = Inr a"
    "machine_threads e ps threads = Inr b" "out = a @ b"
    by (auto simp: PrintStackMachineReadable_def)
  have "stack = ps_threads ps ! nat i" using s(1) by (simp add: vector_at_def split: if_splits)
  then show ?case using machine_frames_lines [OF s(2)] Cons.IH [OF s(3)] s(4)
    by (simp add: thread_lines_def Let_def line_text_append)
qed (simp add: line_text_def unlines_def)

lemma clean_lines:
  "\<forall>l \<in> set (system_lines e i). list_all clean l \<and> l \<noteq> []" "list_all clean (crash_line_of ps) \<and> crash_line_of ps \<noteq> []"
  "list_all clean (module_line modules m) \<and> module_line modules m \<noteq> []"
  "list_all clean (frame_line e t k f) \<and> frame_line e t k f \<noteq> []"
  by (auto simp: system_lines_def crash_line_of_def module_line_def frame_line_def stripped_def Let_def clean_intros
      split: prod.split option.split)

text \<open>
  C3: The output for programs can be read back: whatever the names in the dump and in the symbol
  files are, cutting it into lines and each line at its separators gives back the three lines of the
  system, the one of the crash, one with eight columns for each module, an empty one, and for the
  threads, the requesting one first, one with seven columns for each frame, all with the values of the
  state without separators and newlines.
\<close>

theorem machine_readable_roundtrip:
  assumes "PrintProcessStateMachineReadable e ps = Inr out"
  shows "map (split_fields []) (stream_lines [] out) =
      system_lines e (ps_system_info ps) @ [crash_line_of ps] @ module_lines (pn_modules e) @ [[[]]] @
      concat (map (thread_lines e ps) (thread_order ps)) \<and>
    (\<forall>l \<in> set (module_lines (pn_modules e)). length l = 8) \<and> (\<forall>i. \<forall>l \<in> set (thread_lines e ps i). length l = 7)"
proof (intro conjI)
  let ?lines = "system_lines e (ps_system_info ps) @ [crash_line_of ps] @ module_lines (pn_modules e) @ [[[]]] @
      concat (map (thread_lines e ps) (thread_order ps))"
  obtain m t where mt: "PrintModulesMachineReadable (pn_modules e) = Inr m" "machine_threads e ps (thread_order ps) = Inr t"
    "out = machine_system e (ps_system_info ps) @ machine_crash ps @ m @ [CHR 0x0A] @ t"
    using assms by (auto simp: PrintProcessStateMachineReadable_def)
  have "line_text [[[]]] = [CHR 0x0A]" by (simp add: line_text_def unlines_def)
  then have "out = line_text ?lines"
    unfolding mt(3) machine_modules_lines [OF mt(1)] machine_threads_lines [OF mt(2)] machine_system_lines machine_crash_lines
    by (simp only: line_text_append)
  moreover have "\<forall>l \<in> set ?lines. list_all clean l \<and> l \<noteq> []"
    using clean_lines by (auto simp: module_lines_def thread_lines_def Let_def clean_intros split: option.splits)
  ultimately show "map (split_fields []) (stream_lines [] out) = ?lines" using line_text_read by blast
  show "\<forall>l \<in> set (module_lines (pn_modules e)). length l = 8"
    by (auto simp: module_lines_def module_line_def split: option.split)
  show "\<forall>i. \<forall>l \<in> set (thread_lines e ps i). length l = 7"
    by (auto simp: thread_lines_def frame_line_def Let_def split: option.split)
qed

section \<open>The trace for Java\<close>

definition requesting_thread_ok :: "process_state \<Rightarrow> bool" where
  "requesting_thread_ok ps \<longleftrightarrow> ps_requesting_thread ps = - 1 \<or>
     0 \<le> ps_requesting_thread ps \<and> ps_requesting_thread ps < int (length (ps_threads ps))"

lemma moved_first:
  "distinct xs \<Longrightarrow> r \<in> set xs \<Longrightarrow> distinct (r # filter (\<lambda>i. i \<noteq> r) xs) \<and> set (r # filter (\<lambda>i. i \<noteq> r) xs) = set xs"
  by auto

lemma thread_order_set:
  assumes "requesting_thread_ok ps"
  shows "distinct (thread_order ps) \<and> set (thread_order ps) = {0..<int (length (ps_threads ps))}"
proof -
  define xs where "xs = map int [0..<length (ps_threads ps)]"
  have xs: "distinct xs" "set xs = {0..<int (length (ps_threads ps))}"
    unfolding xs_def by (simp add: distinct_map) (simp add: image_int_atLeastLessThan)
  show ?thesis
  proof (cases "ps_requesting_thread ps = - 1")
    case True
    then have "filter (\<lambda>i. i \<noteq> ps_requesting_thread ps) xs = xs" using xs(2) by (auto simp: filter_id_conv)
    then show ?thesis using True xs by (simp add: thread_order_def xs_def [symmetric])
  next
    case False
    then have "ps_requesting_thread ps \<in> set xs" using assms xs(2) by (auto simp: requesting_thread_ok_def)
    from moved_first [OF xs(1) this] show ?thesis using False xs(2) by (simp add: thread_order_def xs_def [symmetric])
  qed
qed

lemma rf_frames_length: "length (ti_frames (rf_frames e nf cpu k frames t)) = length (ti_frames t) + length frames"
  by (induction frames arbitrary: k t) (auto simp: addFrame_def)

lemma rf_frames_id: "ti_threadId (rf_frames e nf cpu k frames t) = ti_threadId t"
  by (induction frames arbitrary: k t) (auto simp: addFrame_def)

text \<open>The thread infos of the trace, as what one is for each of the threads.\<close>

definition rf_thread :: "print_env \<Rightarrow> frame_info \<Rightarrow> process_state \<Rightarrow> int \<Rightarrow> thread_info" where
  "rf_thread e nf ps i =
     RfPrintStack e nf (si_cpu (ps_system_info ps)) (cs_frames (ps_threads ps ! nat i)) \<lparr>ti_threadId = i, ti_frames = []\<rparr>"

lemma rf_thread_frames:
  "ti_threadId (rf_thread e nf ps i) = i" "length (ti_frames (rf_thread e nf ps i)) = length (cs_frames (ps_threads ps ! nat i))"
  by (simp_all add: rf_thread_def RfPrintStack_def rf_frames_length rf_frames_id)

lemma rf_add_threads_all:
  assumes "\<forall>i \<in> set threads. 0 \<le> i \<and> i < int (length (ps_threads ps)) \<and> i < int (length (ps_thread_memory_regions ps))"
  shows "rf_add_threads e nf ps threads rf = Inr (rf\<lparr>rf_threads := rf_threads rf @ map (rf_thread e nf ps) threads\<rparr>)"
  using assms
  by (induction threads arbitrary: rf) (auto simp: vector_at_def addThread_def rf_thread_def)

lemma add_modules: "fold addModule ms rf = rf\<lparr>rf_modules := rf_modules rf @ ms\<rparr>"
  by (induction ms arbitrary: rf) (auto simp: addModule_def)

definition all_modules :: "printed_modules option \<Rightarrow> codemodule list" where
  "all_modules modules = (case modules of None \<Rightarrow> [] | Some ms \<Rightarrow> map the (pm_sequence ms))"

definition no_null_module :: "printed_modules option \<Rightarrow> bool" where
  "no_null_module modules \<longleftrightarrow> (\<forall>ms. modules = Some ms \<longrightarrow> None \<notin> set (pm_sequence ms))"

lemma RfPrintModules_all:
  assumes "no_null_module modules"
  shows "RfPrintModules modules a b rf =
    Inr (rf\<lparr>rf_modules := rf_modules rf @ map (\<lambda>m. RfPrintModule m a b) (all_modules modules)\<rparr>)"
proof (cases modules)
  case (Some ms)
  then have "for_modules Assertion_failed (\<lambda>m. RfPrintModule m a b) (pm_sequence ms) =
      Inr (map ((\<lambda>m. RfPrintModule m a b) \<circ> the) (pm_sequence ms))"
    using assms by (simp add: for_modules_Inr no_null_module_def)
  then show ?thesis using Some by (simp add: RfPrintModules_def all_modules_def add_modules)
qed (simp add: RfPrintModules_def all_modules_def)

lemma Process_ok_threads:
  assumes "Process pe d st sy = Inr (PROCESS_OK, ps, sy')"
  shows "requesting_thread_ok ps" "length (ps_threads ps) \<le> length (ps_thread_memory_regions ps)"
proof -
  obtain threads found where p: "\<exists>new. ps_thread_memory_regions ps = ps_thread_memory_regions st @ new \<and> length new = length (ps_threads ps)"
    "requesting_ok (requesting_id_of d) found ps"
    using Process_ok [OF assms] by blast
  then show "length (ps_threads ps) \<le> length (ps_thread_memory_regions ps)" by auto
  have "length (tids ps) = length (ps_threads ps)" by (simp add: tids_def)
  then show "requesting_thread_ok ps" using p(2) by (auto simp: requesting_thread_ok_def requesting_ok_def split: if_splits)
qed


section \<open>The contents of a stack\<close>

lemma unat_add_small:
  fixes a :: "64 word"
  assumes "unat a + w < 2 ^ 64"
  shows "unat (a + of_nat w) = unat a + w"
proof -
  have "unat (of_nat w :: 64 word) = w" using assms by (simp add: unat_of_nat)
  then show ?thesis using assms unat_add_lem [of a "of_nat w"] by simp
qed

lemma print_rows_returns:
  "unat stack_end \<le> 2 ^ 64 - 16 \<Longrightarrow> print_rows indent w get8 stack_end a \<noteq> None"
proof (induction "unat stack_end - unat a" arbitrary: a rule: less_induct)
  case less
  show ?case
  proof (cases "a < stack_end")
    case True
    then have "unat a < unat stack_end" by (simp add: word_less_nat_alt)
    moreover from this have "unat (a + of_nat 16) = unat a + 16" by (intro unat_add_small) (use less.prems in simp_all)
    ultimately have "print_rows indent w get8 stack_end (a + 16) \<noteq> None" by (intro less.hyps) (use less.prems in auto)
    then show ?thesis using True by (auto simp: print_rows.simps [of indent w get8 stack_end a] kBytesPerRow_def split: prod.split)
  qed (simp add: print_rows.simps)
qed

lemma print_pointers_returns:
  assumes "unat stack_end + w \<le> 2 ^ 64" "0 < w" "w < 2 ^ 64"
  shows "print_pointers e ms indent w memory stack_end a \<noteq> None"
proof (induction "unat stack_end - unat a" arbitrary: a rule: less_induct)
  case less
  show ?case
  proof (cases "a < stack_end")
    case True
    then have "unat a < unat stack_end" by (simp add: word_less_nat_alt)
    moreover from this have "unat (a + of_nat w) = unat a + w" by (intro unat_add_small) (use assms in simp_all)
    ultimately have "print_pointers e ms indent w memory stack_end (a + of_nat w) \<noteq> None"
      by (intro less.hyps) (use assms in auto)
    then show ?thesis using True by (auto simp: print_pointers.simps [of e ms indent w memory stack_end a])
  qed (simp add: print_pointers.simps)
qed

lemma aligned_below:
  fixes a :: "64 word"
  assumes "unat a mod 16 = 0" "2 ^ 64 - 16 < unat stack_end"
  shows "a < stack_end" "unat (a + 16) mod 16 = 0"
proof -
  have "unat a < 2 ^ 64" by (rule unat_64_less)
  then have "unat a \<le> 2 ^ 64 - 16" using assms(1) by (simp, presburger)
  then show "a < stack_end" using assms(2) by (simp add: word_less_nat_alt)
  have "unat (a + 16) = (unat a + 16) mod 2 ^ 64" by (simp add: unat_word_ariths)
  also have "\<dots> mod 16 = (unat a + 16) mod 16" by (rule mod_mod_cancel) simp
  finally show "unat (a + 16) mod 16 = 0" using assms(1) by simp
qed

lemma print_rows_wraps:
  assumes "2 ^ 64 - 16 < unat stack_end"
  shows "unat a mod 16 = 0 \<Longrightarrow> print_rows indent w get8 stack_end a = None"
proof -
  have "2 ^ 64 - 16 < unat stack_end \<longrightarrow> unat a mod 16 \<noteq> 0" if "print_rows indent w get8 stack_end a = Some s" for s
  proof (rule print_rows.raw_induct [OF _ that, where P = "\<lambda>indent w get8 stack_end a s. 2 ^ 64 - 16 < unat stack_end \<longrightarrow> unat a mod 16 \<noteq> 0"])
    fix rows :: "string \<Rightarrow> nat \<Rightarrow> (64 word \<Rightarrow> 8 word option) \<Rightarrow> 64 word \<Rightarrow> 64 word \<Rightarrow> string option"
      and indent w get8 stack_end a y
    assume IH: "\<And>indent w get8 stack_end a y. rows indent w get8 stack_end a = Some y \<Longrightarrow> 2 ^ 64 - 16 < unat stack_end \<longrightarrow> unat a mod 16 \<noteq> 0"
      and body: "(if a < stack_end
        then case row_bytes get8 stack_end kBytesPerRow a of (hex, data_as_string) \<Rightarrow>
          Option.bind (rows indent w get8 stack_end (a + of_nat kBytesPerRow)) (\<lambda>s.
            Some ([CHR 0x0A] @ indent @ '' '' @ show_address w a @ hex @ ''  '' @ data_as_string @ s))
        else Some []) = Some y"
    show "2 ^ 64 - 16 < unat stack_end \<longrightarrow> unat a mod 16 \<noteq> 0"
    proof (intro impI notI)
      assume e: "2 ^ 64 - 16 < unat stack_end" and al: "unat a mod 16 = 0"
      note b = aligned_below [OF al e]
      obtain s' where "rows indent w get8 stack_end (a + 16) = Some s'"
        using body b(1) by (auto simp: kBytesPerRow_def bind_eq_Some_conv split: prod.splits)
      from IH [OF this] e b(2) show False by simp
    qed
  qed
  then show "unat a mod 16 = 0 \<Longrightarrow> print_rows indent w get8 stack_end a = None"
    using assms by (cases "print_rows indent w get8 stack_end a") auto
qed

text \<open>
  C20: The printing of a 64-bit stack that begins at an aligned address returns exactly if the stack
  pointer of the next frame is not in the last 16 bytes of the address space: above that the address
  wraps around to 0 before it reaches the end, and the rows are printed for ever.
\<close>

theorem PrintStackContents_returns:
  assumes "stack_range cpu v next_frame = (8, stack_begin, stack_end)" "stack_begin \<noteq> 0" "stack_begin < stack_end"
    and "unat stack_begin mod 16 = 0" "pn_modules e = Some modules"
  shows "PrintStackContents e indent v next_frame cpu (Some memory) \<noteq> None \<longleftrightarrow> unat stack_end \<le> 2 ^ 64 - 16"
proof
  assume "unat stack_end \<le> 2 ^ 64 - 16"
  then have "print_rows indent 8 (pn_get8 e memory) stack_end stack_begin \<noteq> None"
    "print_pointers e modules indent 8 memory stack_end stack_begin \<noteq> None"
    using print_rows_returns print_pointers_returns by simp_all
  then show "PrintStackContents e indent v next_frame cpu (Some memory) \<noteq> None"
    using assms by (auto simp: PrintStackContents_def)
next
  assume r: "PrintStackContents e indent v next_frame cpu (Some memory) \<noteq> None"
  show "unat stack_end \<le> 2 ^ 64 - 16"
  proof (rule ccontr)
    assume "\<not> ?thesis"
    then have n: "print_rows indent 8 (pn_get8 e memory) stack_end stack_begin = None"
      using print_rows_wraps assms(4) by simp
    have "\<not> stack_end \<le> stack_begin" "stack_end \<noteq> 0" using assms(3) by auto
    then have "PrintStackContents e indent v next_frame cpu (Some memory) = None"
      by (simp add: PrintStackContents_def n assms(1,2,5))
    then show False using r by simp
  qed
qed

section \<open>Examples\<close>

text \<open>An AMD64 frame whose function name has a separator and a newline in it.\<close>

definition example_module :: codemodule where
  "example_module = \<lparr>cm_ptr = 1, cm_base_address = 0x20, cm_size = 0x10, cm_code_file = ''/bin/a|b'', cm_code_identifier = [],
     cm_debug_file = ''a.dbg'', cm_debug_identifier = ''ABC0'', cm_version = []\<rparr>"

definition example_frame :: stack_frame where
  "example_frame = \<lparr>sf_instruction = 0x23, sf_module = Some example_module, sf_function_name = ''f|g'' @ [CHR 0x0A],
     sf_function_base = 0x10, sf_source_file_name = ''a.c'', sf_source_line = 7, sf_source_line_base = 0x20,
     sf_trust = FRAME_TRUST_CONTEXT\<rparr>"

definition example_view :: "64 word \<Rightarrow> frame_view" where
  "example_view rsp = \<lparr>fv_return_address = 0x23, fv_trust_description = ''given as instruction pointer in context'',
     fv_valid = (\<lambda>flag. flag = ''CONTEXT_VALID_RSP''), fv_all_valid = False, fv_member = (\<lambda>member. rsp)\<rparr>"

definition example_print_env :: print_env where
  "example_print_env = \<lparr>pn_view = (\<lambda>f. example_view 0x7000), pn_get8 = (\<lambda>m a. None), pn_FillSourceLineInfo = id,
     pn_modules = Some \<lparr>pm_GetModuleForAddress = (\<lambda>a. None), pm_GetMainModule = Some example_module,
       pm_sequence = [Some example_module]\<rparr>, pn_gl = ([], [], [])\<rparr>"

definition printed_state :: process_state where
  "printed_state = example_state\<lparr>ps_requesting_thread := 0, ps_threads := [\<lparr>cs_frames = [example_frame], cs_tid = 9\<rparr>]\<rparr>"

definition example_memory_region :: memory_region where
  "example_memory_region = \<lparr>mr_base = 0x7000, mr_size = 0x100, mr_get32 = (\<lambda>a. None), mr_get64 = (\<lambda>a. None)\<rparr>"

lemma printed_lines:
  "system_lines example_print_env (ps_system_info printed_state) @ [crash_line_of printed_state] @
      module_lines (pn_modules example_print_env) @ [[[]]] @
      concat (map (thread_lines example_print_env printed_state) (thread_order printed_state)) =
    [[''OS'', [], []], [''CPU'', [], [], ''0''], [''GPU'', [], [], []], [''Crash'', ''No crash'', [], ''0''],
     [''Module'', ''ab'', [], ''a.dbg'', ''ABC0'', ''0x00000020'', ''0x0000002f'', ''1''], [[]],
     [''0'', ''0'', ''ab'', ''fg'', ''a.c'', ''7'', ''0x3'']]"
  by code_simp

lemma printed_state_printed: "\<exists>out. PrintProcessStateMachineReadable example_print_env printed_state = Inr out"
proof -
  have "map_sum id (\<lambda>_. ()) (PrintProcessStateMachineReadable example_print_env printed_state) = Inr ()" by code_simp
  then show ?thesis by (cases "PrintProcessStateMachineReadable example_print_env printed_state") auto
qed

theorem machine_readable_roundtrip_witness:
  "\<exists>out. PrintProcessStateMachineReadable example_print_env printed_state = Inr out \<and>
    map (split_fields []) (stream_lines [] out) =
    [[''OS'', [], []], [''CPU'', [], [], ''0''], [''GPU'', [], [], []], [''Crash'', ''No crash'', [], ''0''],
     [''Module'', ''ab'', [], ''a.dbg'', ''ABC0'', ''0x00000020'', ''0x0000002f'', ''1''], [[]],
     [''0'', ''0'', ''ab'', ''fg'', ''a.c'', ''7'', ''0x3'']]"
  using printed_state_printed machine_readable_roundtrip printed_lines by metis

definition new_frame_info :: frame_info where
  "new_frame_info = \<lparr>fi_frameId = 0, fi_funcName = [], fi_srcFileName = [], fi_binFileName = [], fi_srcFileOffset = 0,
     fi_funcOffset = 0, fi_regs = []\<rparr>"

definition empty_trace :: rf_stack_trace where
  "empty_trace = \<lparr>rf_crashCause = [], rf_crashAddress = 0, rf_os = [], rf_cpu = [], rf_threads = [], rf_modules = []\<rparr>"

lemma example_run_order:
  "\<exists>ps sy. Process Processor.example_env example_dump example_state () = Inr (PROCESS_OK, ps, sy) \<and> thread_order ps = [1, 0]"
proof -
  have "map_sum id (\<lambda>(r, ps, sy). (r, thread_order ps)) (Process Processor.example_env example_dump example_state ()) = Inr (PROCESS_OK, [1, 0])"
    by code_simp
  then show ?thesis by (cases "Process Processor.example_env example_dump example_state ()") auto
qed


theorem PrintStackContents_returns_witness:
  "PrintStackContents example_print_env [] (example_view 0x7000) (example_view 0x7020) ''amd64'' (Some example_memory_region) \<noteq> None \<and>
   PrintStackContents example_print_env [] (example_view 0x7000) (example_view 0xfffffffffffffff8) ''amd64'' (Some example_memory_region) = None"
proof -
  have r: "stack_range ''amd64'' (example_view 0x7000) (example_view 0x7020) = (8, 0x7000, 0x7020)"
    "stack_range ''amd64'' (example_view 0x7000) (example_view 0xfffffffffffffff8) = (8, 0x7000, 0xfffffffffffffff8)"
    by (simp_all add: stack_range_def stack_pointers_def example_view_def)
  have m: "pn_modules example_print_env = Some (the (pn_modules example_print_env))" by (simp add: example_print_env_def)
  have u: "unat (0xfffffffffffffff8 :: 64 word) = 2 ^ 64 - 8" "(0x7000 :: 64 word) < 0xfffffffffffffff8" "unat (0x7000 :: 64 word) mod 16 = 0" by simp_all
  show ?thesis
    using PrintStackContents_returns [OF r(1) _ _ u(3) m, of "[]" example_memory_region]
      PrintStackContents_returns [OF r(2) _ u(2,3) m, of "[]" example_memory_region] u(1) by simp
qed

end
