(* ===== verification/Spec2Isabelle.thy ===== *)
theory Spec2Isabelle
  imports Big_Integer_Value Big_Integer_Old CFI_Rules Symbol_Records Symbol_Lookup Resolver Symbol_Supplier
    Code_Modules Symbolizer Stack_Walk Walk_Facts X86_Walks Walker_AMD64 Walker_ARM64 Crash_Reason Processor Context_Facts Thread_Facts
    Module_List_Facts Stream_Facts Exploit_Facts Disassembler_X86 Print_Facts
begin

text \<open>
  A verification library for the C++ code of this repository. File names below are relative to
  \<open>src/\<close>; \<open>bpad\<close> stands for \<open>src/java/JNIExperiments/bpad/minidump_src\<close>.

  \<^bold>\<open>The program.\<close> The repository holds two programs with logic of their own.

  \<^item> \<open>BigInteger/main.cc\<close> and its earlier copy \<open>c++/BigInteger/main.cc\<close>: integers of a fixed
    number of decimal digits, with \<open>operator+\<close> and \<open>operator-\<close> calling each other.
  \<^item> The minidump processor of \<open>bpad\<close>. A dump of a crashed process is a file with a directory of
    streams. The processor reads threads, modules, memory, contexts, the exception and the system
    info from it, walks each thread's stack with the walker of its CPU, finds functions and lines
    in symbol files, rates how exploitable the crash looks, and hands the state of the process to
    printers and to a trace object for Java.

  \<^bold>\<open>The parts and their theories.\<close> A class is a \<open>record\<close> with the members the code uses, a method a
  function from the object to its result and the object after it. A failure that the code reports
  (\<open>false\<close>, a null pointer) is \<open>None\<close> or a Boolean result; an exception, an access outside of an
  array, a failed assertion is an \<open>Inl\<close> of a sum. Pointers that are shared are indices of a heap or
  the object's identity. Integers have the width of the code.

  Shared: \<open>Prelude\<close> (sequencing of sums and options, C's integer conversions, checked arrays),
  \<open>C_Strings\<close> (\<open>strtok_r\<close>, \<open>strtol\<close> and the like, printing of numbers), \<open>Std_Map\<close> (\<open>std::map\<close> and
  \<open>std::set\<close>), \<open>Frames\<close> (modules, frames, and the interfaces of the range maps).

  Big integers: \<open>Big_Integer\<close> (class \<open>BigInteger\<close>, \<open>fact\<close>), \<open>Big_Integer_Value\<close> (their meaning),
  \<open>Big_Integer_Old\<close> (what differs in the earlier copy).

  Symbols:
  \<^item> \<open>Symbol_Records\<close>: \<open>bpad/tokenize.cc\<close> and \<open>SymbolParseHelper\<close> of \<open>bpad/basic_source_line_resolver.cc\<close>.
  \<^item> \<open>CFI_Rules\<close>: \<open>bpad/cfi_frame_info.cc\<close>.
  \<^item> \<open>Symbol_Module\<close>, \<open>Symbol_Lookup\<close>: the class \<open>Module\<close> of \<open>bpad/basic_source_line_resolver.cc\<close>, loading
    and looking up.
  \<^item> \<open>Resolver\<close>: \<open>bpad/source_line_resolver_base.cc\<close>. \<open>Symbol_Supplier\<close>: \<open>bpad/simple_symbol_supplier.cc\<close>,
    \<open>bpad/pathname_stripper.cc\<close>. \<open>Code_Modules\<close>: \<open>bpad/basic_code_modules.cc\<close>. \<open>Symbolizer\<close>:
    \<open>bpad/stack_frame_symbolizer.cc\<close>, the client of resolver and supplier.

  Stack walks:
  \<^item> \<open>Stack_Walk\<close>: \<open>bpad/stackwalker.cc\<close>, \<open>bpad/stackwalker_address_list.cc\<close>; \<open>Walk_Facts\<close>: what every walk
    guarantees. \<open>Unwind\<close>: what the CPUs' walkers share.
  \<^item> \<open>Walker_X86\<close> and \<open>X86_Walks\<close>, \<open>Walker_AMD64\<close>, \<open>Walker_ARM\<close>, \<open>Walker_ARM64\<close>:
    \<open>bpad/stackwalker_x86.cc\<close>, \<open>_amd64.cc\<close>, \<open>_arm.cc\<close>, \<open>_arm64.cc\<close>.

  The dump, all of \<open>bpad/minidump.cc\<close> unless another file is named:
  \<^item> \<open>Minidump_Bytes\<close>: swapping and UTF-16. \<open>Minidump_File\<close>: the stream, header, directory and stream
    map. \<open>Minidump_Reader\<close>: the sequencing of the \<open>Read\<close> methods. Facts in \<open>Minidump_Facts\<close>.
  \<^item> \<open>Minidump_Context\<close>: \<open>MinidumpContext\<close> and \<open>bpad/dump_context.cc\<close>; facts in \<open>Context_Facts\<close>.
  \<^item> \<open>Minidump_Memory\<close>: memory regions, threads and their lists; facts in \<open>Memory_Facts\<close>, \<open>Thread_Facts\<close>.
  \<^item> \<open>Minidump_Module\<close>: modules and their list; facts in \<open>Module_Ids\<close>, \<open>Module_List_Facts\<close>.
  \<^item> \<open>Minidump_Streams\<close>: exception, assertion, system info, misc info, Breakpad info, memory infos;
    facts in \<open>Stream_Facts\<close>.
  \<^item> \<open>Linux_Maps\<close>: \<open>bpad/proc_maps_linux.cc\<close> and the stream of mappings.

  Processing:
  \<^item> \<open>Crash_Reason\<close>: the names of crashes, CPUs and systems of \<open>bpad/minidump_processor.cc\<close>. \<open>Processor\<close>:
    the rest of that file and \<open>bpad/process_state.cc\<close>.
  \<^item> \<open>Exploitability\<close>, \<open>Exploit_Facts\<close>: \<open>bpad/exploitability.cc\<close>, \<open>bpad/exploitability_linux.cc\<close>.
  \<^item> \<open>Disassembler_X86\<close>: \<open>bpad/disassembler_x86.cc\<close>.
  \<^item> \<open>Stack_Print\<close>, \<open>Print_Facts\<close>: \<open>bpad/stackwalk_common.cc\<close> and \<open>bpad/rfStackTrace.cc\<close>; what is printed is
    a string that is returned.
\<close>

text \<open>
  \<^bold>\<open>What the lemmas show.\<close>

  \<^item> Big integers: addition, subtraction, multiplication and factorial compute the values of their
    operands as long as the result fits; the two mutually recursive operators do not return on
    operands whose comparison is blind to a difference.
  \<^item> Symbols: a line of a symbol file is parsed back from its printed form, rule sets likewise;
    a module is marked corrupt exactly if a line is rejected or the file holds a NUL; an address of
    a loaded line gets that line; the CFI rules at an address are the initial ones changed by the
    deltas up to it. Resolver and symbolizer keep their invariants over every sequence of calls.
  \<^item> Walks: every walk returns, within the limit of frames; x86 walks rise on the stack; without
    unwind information the walks of x86, AMD64 and ARM64 are the chain of frame pointers, an
    abstract function of the memory that the detailed walkers refine.
  \<^item> The dump: reading is independent of the byte order where the code means it to be (and the
    ARM members for which it is not are named); the limits and the uniqueness of streams, threads,
    regions and modules hold in whatever was read; lazily read regions are a pure function of
    the address; identifiers are not truncated; the queries by address answer for exactly the
    addresses of the regions.
  \<^item> Processing: each thread of a dump but the dumping one gets a stack, the requesting thread's
    index is its stack's; processing and reading compose without an error about threads. The
    rating of a Linux crash is the decision stated over its mappings and frames.
  \<^item> Output: the output for programs can be read back field by field, the trace for Java is
    complete, the printing of a stack's contents returns exactly if addresses do not wrap around.

  \<^bold>\<open>Interfaces as locales.\<close> \<open>ordered_map\<close> (\<open>Std_Map\<close>), interpreted by the association lists of that
  theory; \<open>source_line_resolver\<close> (\<open>Resolver\<close>), by the base class; \<open>caller_frames\<close>, the relation a CPU's
  walker keeps between a frame and its caller, by all four walkers, and \<open>caller_function\<close>, a walker whose
  caller is a function of the context, by those of x86, AMD64 and ARM64 without unwind information
  (\<open>Walk_Facts\<close>).

  \<^bold>\<open>Parameters.\<close> The headers of the minidump processor are not in the repository. What they declare and the
  code relies on is an argument of the definitions: constants by name (\<open>md_constants\<close>), sizes and
  decoding of structures (\<open>md_format\<close>, \<open>context_format\<close>, \<open>list_format\<close>, \<open>module_format\<close>,
  \<open>stream_format\<close>, \<open>maps_format\<close>), the range maps (\<open>range_map\<close> and its kin), the postfix evaluator,
  the scan of the stack and the members of the walkers (\<open>unwind_env\<close>, \<open>frame_view\<close>). The
  file system, \<open>objdump\<close> and libdis are arguments too. Where a theorem needs something of them it is a
  named hypothesis: \<open>range_map_laws\<close>, \<open>cpu_constants\<close>, \<open>module_accessors\<close>, \<open>region_bounded\<close> (a region
  answers for its own addresses only), \<open>disasm_in_bounds\<close> (an instruction lies in its buffer). Every
  such theorem has a witness with concrete arguments.

  \<^bold>\<open>Bounds and fuel.\<close>
  \<^item> \<open>bi_add\<close>, \<open>bi_sub\<close>, \<open>bi_mul\<close>, \<open>fact_bi\<close> take fuel, \<open>None\<close> being \<open>out of fuel\<close>, as the code may
    recurse forever. Four calls are enough for a sum, more calls than the operand's value for a factorial; that some
    operands exhaust any fuel is a theorem.
  \<^item> \<open>walk_loop\<close> ends by the distance of the frames to \<open>max_frames\<close>, a 32-bit number.
  \<^item> \<open>find_saved_ebp\<close>, \<open>print_rows\<close>, \<open>print_pointers\<close> are \<open>partial_function (option)\<close>: \<open>None\<close> is a loop
    that does not return. The first is shown to return on bounded regions, the others on stacks that end
    before the last 16 bytes of the address space, and not to return on others.
  \<^item> Loops over text end by the length of the text that is left, other loops over a list by its length.

  \<^bold>\<open>Not modelled.\<close>
  \<^item> The \<open>Print\<close> methods of the dump's classes and \<open>bpad/logging.cc\<close>: they only write members out.
  \<^item> \<open>bpad/stack_frame_cpu.cc\<close> defines constants of a header, \<open>bpad/call_stack.cc\<close> frees frames and
    \<open>bpad/dump_object.cc\<close> sets \<open>valid_\<close> to false; the fields are in the records, the freeing is not.
  \<^item> The walkers of PowerPC, SPARC and MIPS and the rating of Windows crashes: their sources are not here; the
    choice of the walker and of the engine is modelled.
  \<^item> The JNI entry points (\<open>org_echocat_breakpad4j_stacktrace_Main.cc\<close> and the samples beside it): they
    copy members between the JVM and the C++ objects.
  \<^item> \<open>c++/waveform\<close> (a vendor's library and floating point), the generated SWIG wrappers, the one-file
    samples of \<open>c++\<close>, the C tools under \<open>c\<close> (system calls), and the other languages.
\<close>

end
